(* ===== verification/Prelude.thy ===== *)
theory Prelude
  imports Main "HOL-Library.Signed_Division"
begin

text \<open>
  Shared vocabulary of the development: the collections of simplification rules that the
  component theories fill, and generic lemmas on lists, association lists and the integers
  of C that more than one component needs.
\<close>

named_theorems code_defs \<open>the definitions of the benchmark programs and of their statements\<close>

named_theorems mon_simps \<open>evaluation rules of the checks that follow one process\<close>

section \<open>Association lists\<close>

text \<open>
  The variables and tables of a process are association lists from keys to values, newest
  binding first. \<open>aput\<close> replaces the binding of a key in place, so the order of first
  insertion is kept, which the leak checks rely on to name the oldest leak first.
\<close>

fun aget :: "('k \<times> 'v) list \<Rightarrow> 'k \<Rightarrow> 'v option" where
  "aget [] k = None"
| "aget ((k', v) # m) k = (if k' = k then Some v else aget m k)"

fun aput :: "('k \<times> 'v) list \<Rightarrow> 'k \<Rightarrow> 'v \<Rightarrow> ('k \<times> 'v) list" where
  "aput [] k v = [(k, v)]"
| "aput ((k', v') # m) k v = (if k' = k then (k, v) # m else (k', v') # aput m k v)"

lemma aget_aput_same [simp]: "aget (aput m k v) k = Some v"
  by (induction m k v rule: aput.induct) auto

lemma aget_aput_other [simp]: "k \<noteq> k' \<Longrightarrow> aget (aput m k v) k' = aget m k'"
  by (induction m k v rule: aput.induct) auto

lemma aget_SomeD: "aget m k = Some v \<Longrightarrow> (k, v) \<in> set m"
  by (induction m k rule: aget.induct) (auto split: if_splits)

lemma set_aput: "set (aput m k v) \<subseteq> insert (k, v) (set m)"
  by (induction m k v rule: aput.induct) auto

lemma aput_distinct: "distinct (map fst m) \<Longrightarrow> distinct (map fst (aput m k v))"
proof (induction m k v rule: aput.induct)
  case (2 k' v' m k v)
  have "fst ` set (aput m k v) \<subseteq> insert k (fst ` set m)"
    using set_aput [of m k v] by force
  with 2 show ?case by auto
qed simp

lemma aput_aput [simp]: "aput (aput m k v) k v' = aput m k v'"
  by (induction m k v rule: aput.induct) auto

lemma aput_same: "aget m k = Some v \<Longrightarrow> aput m k v = m"
  by (induction m k v rule: aput.induct) (auto split: if_splits)

lemma list_ex_replicate [simp]: "list_ex P (replicate n x) = (0 < n \<and> P x)"
  by (auto simp: list_ex_iff)

section \<open>Bounded lists of integers\<close>

text \<open>
  A C loop \<open>for (i = lo; i < hi; i++)\<close> visits \<open>upto_lt lo hi\<close>, and
  \<open>for (i = hi; i > lo; i--)\<close> visits \<open>downto_gt hi lo\<close>.
\<close>

definition upto_lt :: "int \<Rightarrow> int \<Rightarrow> int list" where
  "upto_lt lo hi = [lo..hi - 1]"

definition downto_gt :: "int \<Rightarrow> int \<Rightarrow> int list" where
  "downto_gt hi lo = rev [lo + 1..hi]"

lemma set_upto_lt [simp]: "set (upto_lt lo hi) = {lo..<hi}"
  by (auto simp: upto_lt_def)

lemma set_downto_gt [simp]: "set (downto_gt hi lo) = {lo<..hi}"
  by (auto simp: downto_gt_def)

lemma distinct_upto_lt [simp]: "distinct (upto_lt lo hi)"
  by (simp add: upto_lt_def)

lemma length_upto_lt [simp]: "length (upto_lt lo hi) = nat (hi - lo)"
  by (simp add: upto_lt_def)

lemma upto_lt_step [code_defs, mon_simps]: "lo < hi \<Longrightarrow> upto_lt lo hi = lo # upto_lt (lo + 1) hi"
  by (simp add: upto_lt_def upto_rec1)

lemma downto_gt_step [code_defs, mon_simps]: "lo < hi \<Longrightarrow> downto_gt hi lo = hi # downto_gt (hi - 1) lo"
  by (simp add: downto_gt_def upto_rec2)

lemma downto_gt_empty [simp]: "hi \<le> lo \<Longrightarrow> downto_gt hi lo = []"
  by (simp add: downto_gt_def)

lemma upto_lt_empty [simp]: "hi \<le> lo \<Longrightarrow> upto_lt lo hi = []"
  by (simp add: upto_lt_def)

section \<open>Finite sets closed under a step function\<close>

text \<open>
  A set that contains the start and every successor of its members contains whatever is
  reachable; exhaustive exploration rests on this.
\<close>

lemma rtranclp_closed:
  assumes "r\<^sup>*\<^sup>* a b" and "a \<in> S" and "\<And>x y. x \<in> S \<Longrightarrow> r x y \<Longrightarrow> y \<in> S"
  shows "b \<in> S"
  using assms by (induction rule: rtranclp_induct) auto

end
