(* ===== verification/CMpi.thy ===== *)
theory CMpi
  imports Prelude
begin

text \<open>
  The language of the benchmark codes under src/codes: the MPI functions and C library
  functions they call, with the arguments of the source, and the C control flow between the
  calls. A process is a tree of calls. What a call gives back to the process (the rank, the
  flag of \<open>MPI_Test\<close>, the source in a status) is an argument of the continuation, so
  nothing is said here about what MPI does: MPI is not part of the repository, and every
  definition that needs its answers takes them as a parameter.
\<close>

section \<open>Objects of the C program\<close>

text \<open>A pointer is \<open>NULL\<close> or the address of one element of a declared object.\<close>

datatype ptr = NULL | Ref string int

text \<open>\<open>padd p i\<close> is \<open>p + i\<close> on pointers.\<close>

fun padd :: "ptr \<Rightarrow> int \<Rightarrow> ptr" where
  "padd NULL i = NULL"
| "padd (Ref x j) i = Ref x (j + i)"

text \<open>
  Handles are the constants of mpi.h that the codes use, or the value of a variable
  (\<open>Comm_var\<close>, \<open>Type_var\<close>, \<open>Op_var\<close>); a group is always the value of a variable.
\<close>

datatype comm = MPI_COMM_WORLD | MPI_COMM_NULL | Comm_var ptr

datatype dtype = MPI_INT | MPI_DOUBLE | MPI_FLOAT | MPI_BYTE | MPI_DATATYPE_NULL | Type_var ptr

datatype mpi_op = MPI_SUM | MPI_OP_NULL | Op_var ptr

datatype lock_type = MPI_LOCK_EXCLUSIVE | MPI_LOCK_SHARED

text \<open>The source and tag arguments of receives: a number or the wildcard.\<close>

datatype source = MPI_ANY_SOURCE | Rank int

datatype rtag = MPI_ANY_TAG | Tag int

section \<open>Calls\<close>

text \<open>
  One constructor per function, grouped by the chapter of MPI they belong to; sends carry
  their mode. Arguments are in the source's order; status arguments are dropped, and the
  status fields that a code reads come back as the response.
\<close>

datatype smode = Standard | Buffered | Ready | Synchronous

datatype sys_call = Init | Finalize | Abort comm int | Comm_size comm ptr | Comm_rank comm ptr
  | Get_processor_name ptr ptr | Buffer_attach ptr int | Buffer_detach ptr ptr

datatype p2p_call =
    Send smode ptr int dtype int int comm
  | Recv ptr int dtype source rtag comm
  | Sendrecv ptr int dtype int int ptr int dtype source rtag comm
  | Probe source rtag comm
  | Get_count dtype ptr
  | Isend smode ptr int dtype int int comm ptr
  | Irecv ptr int dtype source rtag comm ptr
  | Send_init smode ptr int dtype int int comm ptr
  | Recv_init ptr int dtype source rtag comm ptr

datatype req_call = Start ptr | Startall int ptr | Request_free ptr
  | Wait ptr | Waitall int ptr | Waitany int ptr | Waitsome int ptr
  | Test ptr | Testall int ptr | Testany int ptr | Testsome int ptr

datatype coll_call =
    Barrier comm
  | Bcast ptr int dtype int comm
  | Reduce ptr ptr int dtype mpi_op int comm
  | Allreduce ptr ptr int dtype mpi_op comm
  | Scatter ptr int dtype ptr int dtype int comm
  | Scatterv ptr "int list" "int list" dtype ptr int dtype int comm
  | Gather ptr int dtype ptr int dtype int comm
  | Allgather ptr int dtype ptr int dtype comm
  | Alltoall ptr int dtype ptr int dtype comm
  | Alltoallv ptr "int list" "int list" dtype ptr "int list" "int list" dtype comm
  | Alltoallw ptr "int list" "int list" "dtype list" ptr "int list" "int list" "dtype list" comm
  | Reduce_scatter_block ptr ptr int dtype mpi_op comm
  | Reduce_scatter ptr ptr "int list" dtype mpi_op comm
  | Scan ptr ptr int dtype mpi_op comm
  | Exscan ptr ptr int dtype mpi_op comm

datatype obj_call =
    Type_contiguous int dtype ptr
  | Type_vector int int int dtype ptr
  | Type_commit ptr
  | Type_free ptr
  | Type_size dtype ptr
  | Comm_split comm int int ptr
  | Intercomm_create comm int comm int int ptr
  | Comm_compare comm comm ptr
  | Comm_free ptr
  | Dims_create int int
  | Cart_create comm int "int list" "int list" int ptr
  | Cart_shift comm int int
  | Cart_get comm int
  | Cart_coords comm int int
  | Op_create ptr
  | Op_free ptr
  | Comm_group comm ptr
  | Group_incl ptr "int list" ptr
  | Group_excl ptr "int list" ptr
  | Group_free ptr
  | Comm_create comm ptr ptr
  | Comm_create_group comm ptr int ptr
  | Cart_sub comm "int list" ptr

datatype rma_call =
    Win_create ptr int int comm ptr
  | Win_free ptr
  | Win_lock lock_type int int ptr
  | Win_unlock int ptr
  | Win_flush int ptr
  | Win_fence int ptr
  | Win_start ptr int ptr
  | Win_complete ptr
  | Win_post ptr int ptr
  | Win_wait ptr
  | Put ptr int dtype int int int dtype ptr
  | Get ptr int dtype int int int dtype ptr
  | Accumulate ptr int dtype int int int dtype mpi_op ptr
  | Alloc_mem int ptr
  | Free_mem ptr

text \<open>
  The C part: \<open>Decl x n\<close> declares an object of \<open>n\<close> elements, \<open>Store\<close> and
  \<open>Load\<close> write and read one element, \<open>Copy_request\<close> assigns one variable of type
  \<open>MPI_Request\<close> to another, \<open>Copy_group\<close> one of type \<open>MPI_Group\<close>, \<open>Decl_type\<close> and
  \<open>Decl_op\<close> give a handle variable a value, which may be that of another. The response of
  \<open>Fopen\<close> says whether the file was opened; output to it is \<open>Printf\<close>.
\<close>

datatype c_call =
    Decl string int
  | Decl_type ptr dtype
  | Decl_op ptr mpi_op
  | Memset ptr int int
  | Store ptr int
  | Load ptr
  | Copy_request ptr ptr
  | Copy_group ptr ptr
  | Malloc ptr int
  | Free ptr
  | Fopen string
  | Printf string
  | Sleep int

datatype ccall = Sys sys_call | P2p p2p_call | Rq req_call | Coll coll_call | Obj obj_call
  | Rma rma_call | C c_call

text \<open>The names of the source.\<close>

abbreviation "MPI_Init \<equiv> Sys Init"
abbreviation "MPI_Finalize \<equiv> Sys Finalize"
abbreviation "MPI_Abort c n \<equiv> Sys (Abort c n)"
abbreviation "MPI_Comm_size c p \<equiv> Sys (Comm_size c p)"
abbreviation "MPI_Comm_rank c p \<equiv> Sys (Comm_rank c p)"
abbreviation "MPI_Get_processor_name p l \<equiv> Sys (Get_processor_name p l)"
abbreviation "MPI_Buffer_attach p n \<equiv> Sys (Buffer_attach p n)"
abbreviation "MPI_Buffer_detach p q \<equiv> Sys (Buffer_detach p q)"
abbreviation "MPI_Send b n d dst t c \<equiv> P2p (Send Standard b n d dst t c)"
abbreviation "MPI_Bsend b n d dst t c \<equiv> P2p (Send Buffered b n d dst t c)"
abbreviation "MPI_Recv b n d s t c \<equiv> P2p (Recv b n d s t c)"
abbreviation "MPI_Sendrecv b n d dst t b' n' d' s t' c \<equiv> P2p (Sendrecv b n d dst t b' n' d' s t' c)"
abbreviation "MPI_Probe s t c \<equiv> P2p (Probe s t c)"
abbreviation "MPI_Get_count d p \<equiv> P2p (Get_count d p)"
abbreviation "MPI_Isend b n d dst t c r \<equiv> P2p (Isend Standard b n d dst t c r)"
abbreviation "MPI_Ibsend b n d dst t c r \<equiv> P2p (Isend Buffered b n d dst t c r)"
abbreviation "MPI_Irsend b n d dst t c r \<equiv> P2p (Isend Ready b n d dst t c r)"
abbreviation "MPI_Issend b n d dst t c r \<equiv> P2p (Isend Synchronous b n d dst t c r)"
abbreviation "MPI_Irecv b n d s t c r \<equiv> P2p (Irecv b n d s t c r)"
abbreviation "MPI_Send_init b n d dst t c r \<equiv> P2p (Send_init Standard b n d dst t c r)"
abbreviation "MPI_Bsend_init b n d dst t c r \<equiv> P2p (Send_init Buffered b n d dst t c r)"
abbreviation "MPI_Rsend_init b n d dst t c r \<equiv> P2p (Send_init Ready b n d dst t c r)"
abbreviation "MPI_Ssend_init b n d dst t c r \<equiv> P2p (Send_init Synchronous b n d dst t c r)"
abbreviation "MPI_Recv_init b n d s t c r \<equiv> P2p (Recv_init b n d s t c r)"
abbreviation "MPI_Start r \<equiv> Rq (Start r)"
abbreviation "MPI_Startall n r \<equiv> Rq (Startall n r)"
abbreviation "MPI_Request_free r \<equiv> Rq (Request_free r)"
abbreviation "MPI_Wait r \<equiv> Rq (Wait r)"
abbreviation "MPI_Waitall n r \<equiv> Rq (Waitall n r)"
abbreviation "MPI_Waitany n r \<equiv> Rq (Waitany n r)"
abbreviation "MPI_Waitsome n r \<equiv> Rq (Waitsome n r)"
abbreviation "MPI_Test r \<equiv> Rq (Test r)"
abbreviation "MPI_Testall n r \<equiv> Rq (Testall n r)"
abbreviation "MPI_Testany n r \<equiv> Rq (Testany n r)"
abbreviation "MPI_Testsome n r \<equiv> Rq (Testsome n r)"
abbreviation "MPI_Barrier c \<equiv> Coll (Barrier c)"
abbreviation "MPI_Bcast b n d root c \<equiv> Coll (Bcast b n d root c)"
abbreviation "MPI_Reduce s r n d f root c \<equiv> Coll (Reduce s r n d f root c)"
abbreviation "MPI_Allreduce s r n d f c \<equiv> Coll (Allreduce s r n d f c)"
abbreviation "MPI_Scatter s n d r n' d' root c \<equiv> Coll (Scatter s n d r n' d' root c)"
abbreviation "MPI_Scatterv s ns ds d r n d' root c \<equiv> Coll (Scatterv s ns ds d r n d' root c)"
abbreviation "MPI_Gather s n d r n' d' root c \<equiv> Coll (Gather s n d r n' d' root c)"
abbreviation "MPI_Allgather s n d r n' d' c \<equiv> Coll (Allgather s n d r n' d' c)"
abbreviation "MPI_Alltoall s n d r n' d' c \<equiv> Coll (Alltoall s n d r n' d' c)"
abbreviation "MPI_Alltoallv s ns ds d r ns' ds' d' c \<equiv> Coll (Alltoallv s ns ds d r ns' ds' d' c)"
abbreviation "MPI_Alltoallw s ns ds ts r ns' ds' ts' c \<equiv> Coll (Alltoallw s ns ds ts r ns' ds' ts' c)"
abbreviation "MPI_Reduce_scatter_block s r n d f c \<equiv> Coll (Reduce_scatter_block s r n d f c)"
abbreviation "MPI_Reduce_scatter s r ns d f c \<equiv> Coll (Reduce_scatter s r ns d f c)"
abbreviation "MPI_Scan s r n d f c \<equiv> Coll (Scan s r n d f c)"
abbreviation "MPI_Exscan s r n d f c \<equiv> Coll (Exscan s r n d f c)"
abbreviation "MPI_Type_contiguous n d p \<equiv> Obj (Type_contiguous n d p)"
abbreviation "MPI_Type_vector n l s d p \<equiv> Obj (Type_vector n l s d p)"
abbreviation "MPI_Type_commit p \<equiv> Obj (Type_commit p)"
abbreviation "MPI_Type_free p \<equiv> Obj (Type_free p)"
abbreviation "MPI_Type_size d p \<equiv> Obj (Type_size d p)"
abbreviation "MPI_Comm_split c col key p \<equiv> Obj (Comm_split c col key p)"
abbreviation "MPI_Intercomm_create c l pc rl t p \<equiv> Obj (Intercomm_create c l pc rl t p)"
abbreviation "MPI_Comm_compare c c' p \<equiv> Obj (Comm_compare c c' p)"
abbreviation "MPI_Comm_free p \<equiv> Obj (Comm_free p)"
abbreviation "MPI_Dims_create n k \<equiv> Obj (Dims_create n k)"
abbreviation "MPI_Cart_create c n ds ps ro p \<equiv> Obj (Cart_create c n ds ps ro p)"
abbreviation "MPI_Cart_shift c dir disp \<equiv> Obj (Cart_shift c dir disp)"
abbreviation "MPI_Cart_get c n \<equiv> Obj (Cart_get c n)"
abbreviation "MPI_Cart_coords c r n \<equiv> Obj (Cart_coords c r n)"
abbreviation "MPI_Op_create p \<equiv> Obj (Op_create p)"
abbreviation "MPI_Comm_group c p \<equiv> Obj (Comm_group c p)"
abbreviation "MPI_Group_incl g rs p \<equiv> Obj (Group_incl g rs p)"
abbreviation "MPI_Group_excl g rs p \<equiv> Obj (Group_excl g rs p)"
abbreviation "MPI_Group_free p \<equiv> Obj (Group_free p)"
abbreviation "MPI_Comm_create c g p \<equiv> Obj (Comm_create c g p)"
abbreviation "MPI_Comm_create_group c g t p \<equiv> Obj (Comm_create_group c g t p)"
abbreviation "MPI_Cart_sub c rs p \<equiv> Obj (Cart_sub c rs p)"
abbreviation "MPI_Op_free p \<equiv> Obj (Op_free p)"
abbreviation "MPI_Win_create b sz disp c p \<equiv> Rma (Win_create b sz disp c p)"
abbreviation "MPI_Win_free p \<equiv> Rma (Win_free p)"
abbreviation "MPI_Win_lock l r a p \<equiv> Rma (Win_lock l r a p)"
abbreviation "MPI_Win_unlock r p \<equiv> Rma (Win_unlock r p)"
abbreviation "MPI_Win_flush r p \<equiv> Rma (Win_flush r p)"
abbreviation "MPI_Win_fence a p \<equiv> Rma (Win_fence a p)"
abbreviation "MPI_Win_start g a p \<equiv> Rma (Win_start g a p)"
abbreviation "MPI_Win_complete p \<equiv> Rma (Win_complete p)"
abbreviation "MPI_Win_post g a p \<equiv> Rma (Win_post g a p)"
abbreviation "MPI_Win_wait p \<equiv> Rma (Win_wait p)"
abbreviation "MPI_Put b n d r disp n' d' p \<equiv> Rma (Put b n d r disp n' d' p)"
abbreviation "MPI_Get b n d r disp n' d' p \<equiv> Rma (Get b n d r disp n' d' p)"
abbreviation "MPI_Accumulate b n d r disp n' d' f p \<equiv> Rma (Accumulate b n d r disp n' d' f p)"
abbreviation "MPI_Alloc_mem n p \<equiv> Rma (Alloc_mem n p)"
abbreviation "MPI_Free_mem p \<equiv> Rma (Free_mem p)"
abbreviation "C_decl x n \<equiv> C (Decl x n)"
abbreviation "C_decl_type p d \<equiv> C (Decl_type p d)"
abbreviation "C_decl_op p f \<equiv> C (Decl_op p f)"
abbreviation "C_memset p v n \<equiv> C (Memset p v n)"
abbreviation "C_store p v \<equiv> C (Store p v)"
abbreviation "C_load p \<equiv> C (Load p)"
abbreviation "C_copy_request p q \<equiv> C (Copy_request p q)"
abbreviation "C_copy_group p q \<equiv> C (Copy_group p q)"
abbreviation "C_malloc p n \<equiv> C (Malloc p n)"
abbreviation "C_free p \<equiv> C (Free p)"
abbreviation "C_fopen x \<equiv> C (Fopen x)"
abbreviation "C_printf s \<equiv> C (Printf s)"
abbreviation "C_sleep n \<equiv> C (Sleep n)"

section \<open>Processes\<close>

text \<open>
  The response of a call is the list of integers that the C code may read after it: the
  value of an output argument, or the fields of a status. \<open>out r i\<close> reads the i-th.
\<close>

type_synonym resp = "int list"

definition out :: "resp \<Rightarrow> nat \<Rightarrow> int" where
  "out r i = (if i < length r then r ! i else 0)"

lemma out_Cons_0 [simp]: "out (x # xs) 0 = x"
  by (simp add: out_def)

lemma out_Cons_Suc [simp]: "out (x # xs) (Suc i) = out xs i"
  by (simp add: out_def)

text \<open>
  \<open>Ret n\<close> is \<open>return n\<close> in \<open>main\<close>, \<open>Assert_failed\<close> a failed
  \<open>assert\<close>, \<open>No_fuel\<close> a loop whose iteration budget is spent,
  \<open>Undefined\<close> an expression that C leaves undefined.
\<close>

datatype prog =
    Ret int
  | Assert_failed
  | No_fuel
  | Undefined
  | Call ccall "resp \<Rightarrow> prog"

text \<open>A statement takes what comes after it.\<close>

type_synonym stmt = "prog \<Rightarrow> prog"

primrec seq :: "stmt list \<Rightarrow> stmt" where
  "seq [] k = k"
| "seq (s # ss) k = s (seq ss k)"

definition call :: "ccall \<Rightarrow> stmt" where
  "call c k = Call c (\<lambda>_. k)"

text \<open>A call whose response is used by the rest of the enclosing block.\<close>

definition call_then :: "ccall \<Rightarrow> (resp \<Rightarrow> stmt list) \<Rightarrow> stmt" where
  "call_then c f k = Call c (\<lambda>r. seq (f r) k)"

definition if_c :: "bool \<Rightarrow> stmt list \<Rightarrow> stmt" where
  "if_c b ss k = (if b then seq ss k else k)"

definition if_else :: "bool \<Rightarrow> stmt list \<Rightarrow> stmt list \<Rightarrow> stmt" where
  "if_else b ss ts k = (if b then seq ss k else seq ts k)"

definition return_c :: "int \<Rightarrow> stmt" where
  "return_c n k = Ret n"

definition assert_c :: "bool \<Rightarrow> stmt" where
  "assert_c b k = (if b then k else Assert_failed)"

definition for_c :: "int list \<Rightarrow> (int \<Rightarrow> stmt list) \<Rightarrow> stmt" where
  "for_c is body = seq (map (\<lambda>i. seq (body i)) is)"

text \<open>A statement that uses the value of an expression, which C may leave undefined.\<close>

definition value_of :: "'a option \<Rightarrow> ('a \<Rightarrow> stmt list) \<Rightarrow> stmt" where
  "value_of v f k = (case v of None \<Rightarrow> Undefined | Some x \<Rightarrow> seq (f x) k)"

text \<open>
  A loop whose number of iterations depends on the responses has a budget \<open>fuel\<close>;
  the loop state is passed from one iteration to the next.
\<close>

fun while_c :: "nat \<Rightarrow> ('s \<Rightarrow> bool) \<Rightarrow> ('s \<Rightarrow> ('s \<Rightarrow> prog) \<Rightarrow> prog) \<Rightarrow> 's \<Rightarrow> ('s \<Rightarrow> prog) \<Rightarrow> prog" where
  "while_c fuel b body s k =
     (if b s then (case fuel of 0 \<Rightarrow> No_fuel | Suc n \<Rightarrow> body s (\<lambda>s'. while_c n b body s' k))
      else k s)"

declare while_c.simps [simp del]

text \<open>\<open>while (!flag) MPI_Test(...)\<close>: the flag is the first output of the call.\<close>

definition poll :: "nat \<Rightarrow> ccall \<Rightarrow> stmt" where
  "poll fuel c k = while_c fuel (\<lambda>flag. flag = (0::int)) (\<lambda>_ k'. Call c (\<lambda>r. k' (out r 0))) 0 (\<lambda>_. k)"

text \<open>\<open>while (!flag) MPI_Testany(...)\<close> also reports an index, which the rest uses.\<close>

definition poll_done :: "nat \<Rightarrow> ccall \<Rightarrow> (int \<Rightarrow> stmt) \<Rightarrow> stmt" where
  "poll_done fuel c f k = while_c fuel (\<lambda>(flag, done). flag = (0::int))
     (\<lambda>_ k'. Call c (\<lambda>r. k' (out r 0, out r 1))) (0, 0) (\<lambda>(flag, done). f done k)"

text \<open>
  The text all codes share: the declarations of \<open>nprocs\<close>, \<open>rank\<close>,
  \<open>processor_name\<close> and \<open>namelen\<close>, the calls from \<open>MPI_Init\<close> to the first
  \<open>printf\<close>, and \<open>MPI_Finalize\<close> with the last \<open>printf\<close> and \<open>return 0\<close>.
\<close>

definition decls :: "(string \<times> int) list \<Rightarrow> stmt" where
  "decls ds = seq (map (\<lambda>(x, n). call (C_decl x n)) ds)"

definition mbi_main :: "(string \<times> int) list \<Rightarrow> (int \<Rightarrow> int \<Rightarrow> stmt list) \<Rightarrow> prog" where
  "mbi_main ds body =
     decls ([(''nprocs'', 1), (''rank'', 1), (''processor_name'', 1024), (''namelen'', 1)] @ ds)
       (Call MPI_Init (\<lambda>_.
        Call (MPI_Comm_size MPI_COMM_WORLD (Ref ''nprocs'' 0)) (\<lambda>n.
        Call (MPI_Comm_rank MPI_COMM_WORLD (Ref ''rank'' 0)) (\<lambda>r.
        Call (MPI_Get_processor_name (Ref ''processor_name'' 0) (Ref ''namelen'' 0)) (\<lambda>_.
        Call (C_printf ''rank %d is alive on %s'') (\<lambda>_.
        seq (body (out r 0) (out n 0)) (Ret 0)))))))"

definition mbi_end :: "stmt list" where
  "mbi_end = [call MPI_Finalize, call (C_printf ''rank %d Finished normally'')]"

text \<open>\<open>if (nprocs < n) \{ printf(...); MPI_Finalize(); return 1; \}\<close>\<close>

definition need_procs :: "int \<Rightarrow> int \<Rightarrow> stmt" where
  "need_procs n nprocs =
     if_c (nprocs < n) [call (C_printf ''! This test needs more processes !''), call MPI_Finalize, return_c 1]"

lemmas stmt_defs [code_defs] = call_def call_then_def if_c_def if_else_def return_c_def assert_c_def
  for_c_def value_of_def decls_def mbi_main_def mbi_end_def need_procs_def

section \<open>Runs of one process\<close>

text \<open>
  \<open>env i c\<close> is what MPI and the operating system answer to the i-th call. Every
  behaviour of the environment towards one process is some \<open>env\<close>.
\<close>

datatype outcome = Exit int | Abort_assert | Out_of_fuel | Undefined_behaviour

primrec run :: "(nat \<Rightarrow> ccall \<Rightarrow> resp) \<Rightarrow> prog \<Rightarrow> nat \<Rightarrow> (ccall \<times> resp) list \<times> outcome" where
  "run env (Ret n) i = ([], Exit n)"
| "run env Assert_failed i = ([], Abort_assert)"
| "run env No_fuel i = ([], Out_of_fuel)"
| "run env Undefined i = ([], Undefined_behaviour)"
| "run env (Call c k) i =
     (let (es, o') = run env (k (env i c)) (Suc i) in ((c, env i c) # es, o'))"

text \<open>
  What the codes rely on when they ask who they are: the MPI standard's \<open>MPI_Comm_rank\<close>
  and \<open>MPI_Comm_size\<close> of \<open>MPI_COMM_WORLD\<close>.
\<close>

definition world_env :: "int \<Rightarrow> int \<Rightarrow> (nat \<Rightarrow> ccall \<Rightarrow> resp) \<Rightarrow> bool" where
  "world_env rank nprocs env \<longleftrightarrow>
     (\<forall>i p. env i (MPI_Comm_rank MPI_COMM_WORLD p) = [rank]) \<and>
     (\<forall>i p. env i (MPI_Comm_size MPI_COMM_WORLD p) = [nprocs]) \<and> 0 \<le> rank \<and> rank < nprocs"

lemma world_env_rank:
  assumes "world_env rank nprocs env"
  shows "0 \<le> rank" and "rank < nprocs"
  using assms unfolding world_env_def by blast+

lemma world_env_calls [simp]:
  assumes "world_env rank nprocs env"
  shows "env i (MPI_Comm_rank MPI_COMM_WORLD p) = [rank]"
    and "env i (MPI_Comm_size MPI_COMM_WORLD p) = [nprocs]"
  using assms unfolding world_env_def by blast+

text \<open>Answers of that kind that say nothing else.\<close>

fun std_env :: "int \<Rightarrow> int \<Rightarrow> nat \<Rightarrow> ccall \<Rightarrow> resp" where
  "std_env rank nprocs i (Sys (Comm_rank MPI_COMM_WORLD p)) = [rank]"
| "std_env rank nprocs i (Sys (Comm_size MPI_COMM_WORLD p)) = [nprocs]"
| "std_env rank nprocs i c = []"

lemma std_world_env: "0 \<le> rank \<Longrightarrow> rank < nprocs \<Longrightarrow> world_env rank nprocs (std_env rank nprocs)"
  by (simp add: world_env_def)

text \<open>The ranks a proof tells apart: the ends of the range and what lies between them.\<close>

lemma rank_cases:
  assumes "world_env rank nprocs env" and "2 \<le> nprocs"
  obtains "rank = 0" | "rank = nprocs - 1" "1 < nprocs" | "0 < rank" "rank < nprocs - 1"
  using world_env_rank [OF assms(1)] assms(2) by fastforce

lemma low_rank_cases:
  assumes "world_env rank nprocs env"
  obtains "rank = 0" | "rank = 1" | "rank = 2" | "rank = 3" | "rank = 4" | "4 < rank"
  using world_env_rank [OF assms] by fastforce

end
