(* ===== verification/Codes_P2P.thy ===== *)
theory Codes_P2P
  imports CMpi
begin

text \<open>
  The codes of src/codes that use blocking point-to-point communication: one definition per
  file, the body of its \<open>main\<close>. The response of a receive is
  \<open>[status.MPI_SOURCE, status.MPI_TAG, first element received]\<close>.
\<close>

abbreviation buf_size :: int where "buf_size \<equiv> 128"

abbreviation "W \<equiv> MPI_COMM_WORLD"

definition no_error_p2p_any_src :: prog where
  "no_error_p2p_any_src = mbi_main [(''buf0'', buf_size), (''buf1'', buf_size)] (\<lambda>rank nprocs.
    [call (MPI_Barrier W),
     if_else (nprocs < 2) [call (C_printf ''! This test needs 3 processes !'')]
     [if_else (rank = 0)
       [call (MPI_Recv (Ref ''buf1'' 0) buf_size MPI_INT MPI_ANY_SOURCE (Tag 0) W),
        call (MPI_Recv (Ref ''buf0'' 0) buf_size MPI_INT (Rank 1) (Tag 0) W)]
      [if_c (rank = 1)
       [call (C_memset (Ref ''buf0'' 0) 0 (buf_size * 4)),
        call (C_memset (Ref ''buf1'' 0) 1 (buf_size * 4)),
        call (MPI_Send (Ref ''buf0'' 0) buf_size MPI_INT 0 0 W),
        call (MPI_Send (Ref ''buf1'' 0) buf_size MPI_INT 0 0 W)]]],
     call (MPI_Barrier W)] @ mbi_end)"

definition no_error_p2p_any_src2 :: prog where
  "no_error_p2p_any_src2 = mbi_main [(''buf0'', buf_size), (''buf1'', buf_size)] (\<lambda>rank nprocs.
    [call (MPI_Barrier W),
     if_else (nprocs < 2) [call (C_printf ''! This test needs 3 processes !'')]
     [if_else (rank = 0)
       [call (C_memset (Ref ''buf0'' 0) 0 (buf_size * 4)),
        call (MPI_Sendrecv (Ref ''buf0'' 0) buf_size MPI_INT 1 0
                           (Ref ''buf1'' 0) buf_size MPI_INT MPI_ANY_SOURCE (Tag 0) W)]
      [if_c (rank = 1)
       [call (C_memset (Ref ''buf1'' 0) 1 (buf_size * 4)),
        call (MPI_Recv (Ref ''buf0'' 0) buf_size MPI_INT MPI_ANY_SOURCE (Tag 0) W),
        call (MPI_Send (Ref ''buf1'' 0) buf_size MPI_INT 0 0 W)]]],
     call (MPI_Barrier W)] @ mbi_end)"

definition no_error_p2p_any_src3 :: prog where
  "no_error_p2p_any_src3 = mbi_main [] (\<lambda>rank nprocs.
    [need_procs 2 nprocs,
     if_c (rank = 0) [call (MPI_Send (Ref ''nprocs'' 0) 1 MPI_INT 1 42 W)],
     if_c (rank = 1) [call (MPI_Recv (Ref ''nprocs'' 0) 1 MPI_INT MPI_ANY_SOURCE (Tag 42) W)]] @ mbi_end)"

definition no_error_p2p_bsend_recv :: prog where
  "no_error_p2p_bsend_recv = mbi_main [] (\<lambda>rank nprocs.
    [need_procs 2 nprocs,
     if_c (rank = 0)
      [call (C_malloc (Ref ''attached'' 0) 1000000),
       call (MPI_Buffer_attach (Ref ''attached'' 0) 1000000),
       call (MPI_Bsend (Ref ''nprocs'' 0) 1 MPI_INT 1 666 W),
       call (MPI_Send (Ref ''nprocs'' 0) 1 MPI_INT 1 666 W),
       call (MPI_Buffer_detach (Ref ''attached'' 0) (Ref ''nprocs'' 0)),
       call (C_free (Ref ''attached'' 0))],
     if_c (rank = 1)
      [call (MPI_Recv (Ref ''nprocs'' 0) 1 MPI_INT (Rank 0) (Tag 666) W),
       call (MPI_Recv (Ref ''nprocs'' 0) 1 MPI_INT (Rank 0) (Tag 666) W)]] @ mbi_end)"

definition no_error_p2p_message_dependant :: prog where
  "no_error_p2p_message_dependant = mbi_main [] (\<lambda>rank nprocs.
    [if_c (rank = 0)
      [call (C_decl ''x'' 1), call (C_store (Ref ''x'' 0) 0),
       call (MPI_Send (Ref ''x'' 0) 1 MPI_INT 1 0 W)],
     if_c (rank = 1)
      [call (C_decl ''x'' 1), call (C_store (Ref ''x'' 0) 1),
       call_then (MPI_Recv (Ref ''x'' 0) 1 MPI_INT (Rank 0) (Tag 0) W) (\<lambda>r.
        [if_c (out r 2 = 1) [call (MPI_Recv (Ref ''x'' 0) 1 MPI_INT (Rank 0) (Tag 0) W)]])]] @ mbi_end)"

definition no_error_p2p_recv_any_src_loop :: prog where
  "no_error_p2p_recv_any_src_loop = mbi_main [(''buf'', buf_size)] (\<lambda>rank nprocs.
    [call (MPI_Barrier W),
     if_else (nprocs < 2) [call (C_printf ''! This test needs 3 processes !'')]
     [if_else (rank = 0)
       [for_c (upto_lt 1 nprocs) (\<lambda>i.
         [call (MPI_Recv (Ref ''buf'' 0) buf_size MPI_INT MPI_ANY_SOURCE (Tag 0) W)])]
       [call (C_memset (Ref ''buf'' 0) 1 (buf_size * 4)),
        call (MPI_Send (Ref ''buf'' 0) buf_size MPI_INT 0 0 W)]],
     call (MPI_Barrier W)] @ mbi_end)"

text \<open>\<open>%\<close> of C on operands that are not negative.\<close>

definition no_error_p2p_send_recv_ring :: prog where
  "no_error_p2p_send_recv_ring = mbi_main [(''data'', 1)] (\<lambda>rank nprocs.
    (let left = (rank + nprocs - 1) mod nprocs;
         right = (rank + nprocs + 1) mod nprocs in
     [if_else (rank mod 2 = 0)
       [call (MPI_Send (Ref ''data'' 0) 0 MPI_INT right 0 W),
        call (MPI_Recv (Ref ''data'' 0) 0 MPI_INT (Rank left) (Tag 0) W)]
       [call (MPI_Recv (Ref ''data'' 0) 0 MPI_INT (Rank left) (Tag 0) W),
        call (MPI_Send (Ref ''data'' 0) 0 MPI_INT right 0 W)]]) @ mbi_end)"

definition no_error_p2p_sendrecv_send_recv :: prog where
  "no_error_p2p_sendrecv_send_recv = mbi_main [(''buf0'', buf_size), (''buf1'', buf_size)] (\<lambda>rank nprocs.
    [call (MPI_Barrier W),
     if_else (nprocs < 2) [call (C_printf ''! This test needs at least 2 processes'')]
     [if_else (rank = 0)
       [call (C_memset (Ref ''buf0'' 0) 0 (buf_size * 4)),
        call (MPI_Sendrecv (Ref ''buf0'' 0) buf_size MPI_INT 1 0
                           (Ref ''buf1'' 0) buf_size MPI_INT (Rank 1) (Tag 0) W)]
      [if_c (rank = 1)
       [call (C_memset (Ref ''buf1'' 0) 1 (buf_size * 4)),
        call (MPI_Recv (Ref ''buf0'' 0) buf_size MPI_INT (Rank 0) (Tag 0) W),
        call (MPI_Send (Ref ''buf1'' 0) buf_size MPI_INT 0 0 W)]]],
     call (MPI_Barrier W)] @ mbi_end)"

definition no_error_p2p_sendrecv2 :: prog where
  "no_error_p2p_sendrecv2 = mbi_main [(''buf0'', buf_size), (''buf1'', buf_size)] (\<lambda>rank nprocs.
    (let src = (rank + 1) mod nprocs;
         dest = (rank - 1 + nprocs) mod nprocs in
     [call (C_memset (Ref ''buf0'' 0) 0 (buf_size * 4)),
      call (MPI_Sendrecv (Ref ''buf0'' 0) buf_size MPI_INT dest 0
                         (Ref ''buf1'' 0) buf_size MPI_INT (Rank src) (Tag 0) W),
      call (C_memset (Ref ''buf1'' 0) 1 (buf_size * 4)),
      call (MPI_Sendrecv (Ref ''buf1'' 0) buf_size MPI_INT src 0
                         (Ref ''buf0'' 0) buf_size MPI_INT (Rank dest) (Tag 0) W),
      call (C_memset (Ref ''buf0'' 0) 0 (buf_size * 4)),
      call (MPI_Sendrecv (Ref ''buf0'' 0) buf_size MPI_INT dest 0
                         (Ref ''buf1'' 0) buf_size MPI_INT (Rank src) (Tag 0) W),
      call (MPI_Barrier W)]) @ mbi_end)"

definition no_error_p2p_sendrecv3 :: prog where
  "no_error_p2p_sendrecv3 = mbi_main [(''recv'', 1)] (\<lambda>rank nprocs.
    (let left = (if rank = 0 then nprocs - 1 else rank - 1);
         right = (if rank = nprocs - 1 then 0 else rank + 1);
         FROMRIGHT = 0; FROMLEFT = 1 in
     [need_procs 2 nprocs,
      call (MPI_Sendrecv (Ref ''rank'' 0) 1 MPI_INT left FROMRIGHT
                         (Ref ''recv'' 0) 1 MPI_INT (Rank right) (Tag FROMRIGHT) W),
      call (MPI_Sendrecv (Ref ''rank'' 0) 1 MPI_INT right FROMLEFT
                         (Ref ''recv'' 0) 1 MPI_INT (Rank left) (Tag FROMLEFT) W)]) @ mbi_end)"

definition p2p_any_src_msg_dependant_deadlock :: prog where
  "p2p_any_src_msg_dependant_deadlock = mbi_main [(''data'', 1)] (\<lambda>rank nprocs.
    [if_else (rank = 0)
      [call_then (MPI_Recv NULL 0 MPI_INT MPI_ANY_SOURCE (Tag 0) W) (\<lambda>status.
        [call (MPI_Recv NULL 0 MPI_INT MPI_ANY_SOURCE (Tag 0) W),
         if_c (out status 0 = 2) [call (MPI_Recv NULL 0 MPI_INT MPI_ANY_SOURCE (Tag 0) W)]])]
      [if_c (rank = 1 \<or> rank = 2) [call (MPI_Send NULL 0 MPI_INT 0 0 W)]]] @ mbi_end)"

definition p2p_any_src_waitany_deadlock3 :: prog where
  "p2p_any_src_waitany_deadlock3 = mbi_main [(''token0'', 1), (''token1'', 1 + 1)] (\<lambda>rank nprocs.
    [call (MPI_Barrier W),
     if_else (nprocs < 3) [call (C_printf ''! This test needs at least 3 processes !'')]
     [if_else (rank = 0)
       [call (C_memset (Ref ''token0'' 0) 1 (1 * 4)),
        call (C_memset (Ref ''token1'' 0) 1 ((1 + 1) * 4)),
        call (MPI_Send (Ref ''token0'' 0) 1 MPI_INT 1 0 W),
        call (MPI_Send (Ref ''token1'' 0) (1 + 1) MPI_INT 2 0 W)]
      [if_else (rank = 1)
       [call (C_memset (Ref ''token1'' 0) 1 ((1 + 1) * 4)),
        call (C_sleep 5),
        call (MPI_Send (Ref ''token1'' 0) (1 + 1) MPI_INT 2 20 W),
        call (MPI_Recv (Ref ''token1'' 0) (1 + 1) MPI_INT (Rank 0) MPI_ANY_TAG W)]
      [if_c (rank = 2)
       [call (MPI_Recv (Ref ''token1'' 0) (1 + 1) MPI_INT MPI_ANY_SOURCE MPI_ANY_TAG W),
        call (MPI_Recv (Ref ''token1'' 0) (1 + 1) MPI_INT (Rank 0) MPI_ANY_TAG W)]]]]] @ mbi_end)"

definition p2p_sendrecv_send_recv_deadlock :: prog where
  "p2p_sendrecv_send_recv_deadlock = mbi_main [(''buf0'', buf_size), (''buf1'', buf_size)] (\<lambda>rank nprocs.
    [call (MPI_Barrier W),
     if_else (nprocs < 3) [call (C_printf ''! This test needs at least 3 processes to produce a bug !'')]
     [if_else (rank = 0)
       [call (C_memset (Ref ''buf0'' 0) 0 (buf_size * 4)),
        call (MPI_Sendrecv (Ref ''buf0'' 0) buf_size MPI_INT 1 0
                           (Ref ''buf1'' 0) buf_size MPI_INT (Rank 1) (Tag 0) W),
        call (MPI_Recv (Ref ''buf0'' 0) buf_size MPI_INT (Rank 2) (Tag 0) W)]
      [if_else (rank = 1)
       [call (C_memset (Ref ''buf1'' 0) 1 (buf_size * 4)),
        call (MPI_Recv (Ref ''buf0'' 0) buf_size MPI_INT (Rank 0) (Tag 0) W),
        call (MPI_Send (Ref ''buf1'' 0) buf_size MPI_INT 2 0 W),
        call (MPI_Send (Ref ''buf1'' 0) buf_size MPI_INT 0 0 W)]
      [if_c (rank = 2)
       [call (C_memset (Ref ''buf1'' 0) 1 (buf_size * 4)),
        call (MPI_Send (Ref ''buf1'' 0) buf_size MPI_INT 0 0 W),
        call (MPI_Recv (Ref ''buf0'' 0) buf_size MPI_INT (Rank 1) (Tag 0) W)]]]],
     call (MPI_Barrier W)] @ mbi_end)"

definition p2p_sendrecv_send_recv_deadlock2 :: prog where
  "p2p_sendrecv_send_recv_deadlock2 = mbi_main [(''sbuf'', 1), (''rbuf'', 1)] (\<lambda>rank nprocs.
    [need_procs 3 nprocs,
     if_c (rank = 0) [call (MPI_Send (Ref ''sbuf'' 0) 1 MPI_INT 1 123 W)],
     if_c (rank = 1)
      [call (MPI_Sendrecv (Ref ''sbuf'' 0) 1 MPI_INT 2 123
                          (Ref ''rbuf'' 0) 1 MPI_INT MPI_ANY_SOURCE (Tag 789) W)],
     if_c (rank = 2)
      [call (MPI_Recv (Ref ''rbuf'' 0) 1 MPI_INT (Rank 1) (Tag 123) W),
       call (MPI_Send (Ref ''sbuf'' 0) 1 MPI_INT 1 123 W)]] @ mbi_end)"

text \<open>
  \<open>no-error-DTG.c\<close> and \<open>medium-DTG-deadlock.c\<close> are the same program, but for the source of
  the first receive of process 0 and a \<open>sleep(30)\<close> of process 1 in the second.
\<close>

definition no_error_DTG :: prog where
  "no_error_DTG = mbi_main [(''buf0'', 10), (''buf1'', 10)] (\<lambda>rank nprocs.
    (let size = 10 in
     [need_procs 5 nprocs,
      if_else (rank = 0)
       [call (MPI_Recv (Ref ''buf0'' 0) size MPI_INT (Rank 1) (Tag 0) W),
        call (MPI_Send (Ref ''buf0'' 0) size MPI_INT 3 0 W),
        call (MPI_Recv (Ref ''buf0'' 0) size MPI_INT MPI_ANY_SOURCE (Tag 0) W)]
      [if_else (rank = 1)
       [call (MPI_Send (Ref ''buf0'' 0) size MPI_INT 0 0 W),
        call (MPI_Send (Ref ''buf0'' 0) size MPI_INT 3 0 W)]
      [if_else (rank = 2)
       [call (MPI_Recv (Ref ''buf0'' 0) size MPI_INT MPI_ANY_SOURCE (Tag 0) W),
        call (MPI_Send (Ref ''buf0'' 0) size MPI_INT 0 0 W)]
      [if_else (rank = 3)
       [call (MPI_Recv (Ref ''buf0'' 0) size MPI_INT (Rank 1) (Tag 0) W),
        call (MPI_Recv (Ref ''buf0'' 0) size MPI_INT (Rank 0) (Tag 0) W)]
      [if_c (rank = 4)
       [call (MPI_Send (Ref ''buf0'' 0) size MPI_INT 2 0 W)]]]]]]) @ mbi_end)"

definition medium_DTG_deadlock :: prog where
  "medium_DTG_deadlock = mbi_main [(''buf0'', 10), (''buf1'', 10)] (\<lambda>rank nprocs.
    (let size = 10 in
     [need_procs 5 nprocs,
      if_else (rank = 0)
       [call (MPI_Recv (Ref ''buf0'' 0) size MPI_INT MPI_ANY_SOURCE (Tag 0) W),
        call (MPI_Send (Ref ''buf0'' 0) size MPI_INT 3 0 W),
        call (MPI_Recv (Ref ''buf0'' 0) size MPI_INT MPI_ANY_SOURCE (Tag 0) W)]
      [if_else (rank = 1)
       [call (C_sleep 30),
        call (MPI_Send (Ref ''buf0'' 0) size MPI_INT 0 0 W),
        call (MPI_Send (Ref ''buf0'' 0) size MPI_INT 3 0 W)]
      [if_else (rank = 2)
       [call (MPI_Recv (Ref ''buf0'' 0) size MPI_INT MPI_ANY_SOURCE (Tag 0) W),
        call (MPI_Send (Ref ''buf0'' 0) size MPI_INT 0 0 W)]
      [if_else (rank = 3)
       [call (MPI_Recv (Ref ''buf0'' 0) size MPI_INT (Rank 1) (Tag 0) W),
        call (MPI_Recv (Ref ''buf0'' 0) size MPI_INT (Rank 0) (Tag 0) W)]
      [if_c (rank = 4)
       [call (MPI_Send (Ref ''buf0'' 0) size MPI_INT 2 0 W)]]]]]]) @ mbi_end)"

lemmas p2p_codes [code_defs] = no_error_p2p_any_src_def no_error_p2p_any_src2_def
  no_error_p2p_any_src3_def no_error_p2p_bsend_recv_def no_error_p2p_message_dependant_def
  no_error_p2p_recv_any_src_loop_def no_error_p2p_send_recv_ring_def
  no_error_p2p_sendrecv_send_recv_def no_error_p2p_sendrecv2_def no_error_p2p_sendrecv3_def
  p2p_any_src_msg_dependant_deadlock_def p2p_any_src_waitany_deadlock3_def
  p2p_sendrecv_send_recv_deadlock_def p2p_sendrecv_send_recv_deadlock2_def
  no_error_DTG_def medium_DTG_deadlock_def

end
