(* ===== verification/Codes_Coll.thy ===== *)
theory Codes_Coll
  imports Codes_P2P
begin

text \<open>
  The codes of src/codes on collectives, communicators, topologies, datatypes and one-sided
  communication. \<open>a / b\<close> and \<open>a % b\<close> of C truncate towards zero, so they are
  \<open>a sdiv b\<close> and \<open>a smod b\<close>. The response of \<open>MPI_Cart_create\<close> says whether the
  new communicator differs from \<open>MPI_COMM_NULL\<close>; \<open>malloc\<close> does not fail.
\<close>

section \<open>Collectives\<close>

text \<open>The element counts and type sizes of \<open>no-error-coll-alltoallw.c\<close>.\<close>

definition alltoallw_typesize :: "int \<Rightarrow> int \<Rightarrow> int" where
  "alltoallw_typesize rank i = (2 + rank + i) smod 3 + 1"

definition alltoallw_recvcnt :: "int \<Rightarrow> int \<Rightarrow> int" where
  "alltoallw_recvcnt rank i = ((3 + rank - i) smod 3 + 1) * 6 sdiv alltoallw_typesize rank i"

definition alltoallw_sendcnt :: "int \<Rightarrow> int \<Rightarrow> int" where
  "alltoallw_sendcnt rank i = ((3 - rank + i) smod 3 + 1) * 6 sdiv alltoallw_typesize rank i"

definition no_error_coll_alltoallw :: prog where
  "no_error_coll_alltoallw = mbi_main [(''i'', 1), (''inbuf'', 200), (''outbuf'', 200)] (\<lambda>rank nprocs.
    (let displs = [0 * 4, 36 * 4, 72 * 4];
         contis = map (\<lambda>i. Type_var (Ref ''contis'' i)) [0, 1, 2] in
    [need_procs 2 nprocs,
     for_c (upto_lt 0 100) (\<lambda>i. [call (C_store (Ref ''outbuf'' i) (rank * 100 + i))]),
     for_c (upto_lt 0 3) (\<lambda>i.
      [call (MPI_Type_contiguous (alltoallw_typesize rank i) MPI_INT (Ref ''contis'' i)),
       call (MPI_Type_commit (Ref ''contis'' i))]),
     call (MPI_Alltoallw (Ref ''outbuf'' 0) (map (alltoallw_sendcnt rank) [0, 1, 2]) displs contis
                         (Ref ''inbuf'' 0) (map (alltoallw_recvcnt rank) [0, 1, 2]) displs contis W),
     for_c (upto_lt 0 3) (\<lambda>i. [call (MPI_Type_free (Ref ''contis'' i))])]) @ mbi_end)"

definition no_error_coll_barrier_type_free :: prog where
  "no_error_coll_barrier_type_free = mbi_main [] (\<lambda>rank nprocs.
    [call (MPI_Barrier W),
     call (MPI_Type_contiguous 128 MPI_INT (Ref ''newtype'' 0)),
     call (MPI_Type_commit (Ref ''newtype'' 0)),
     call (MPI_Barrier W),
     call (MPI_Type_free (Ref ''newtype'' 0))] @ mbi_end)"

definition no_error_coll_reduceScatterBlock :: prog where
  "no_error_coll_reduceScatterBlock = mbi_main [(''i'', 1), (''inbuf'', 20), (''outbuf'', 20)] (\<lambda>rank nprocs.
    [if_c (nprocs \<noteq> 3)
      [if_c (rank = 0) [call (C_printf ''! This test needs 3 processes !'')],
       call MPI_Finalize, return_c 1],
     for_c (upto_lt 0 20) (\<lambda>i. [call (C_store (Ref ''outbuf'' i) (rank * 20 + i))]),
     call (MPI_Type_contiguous (3 - rank) MPI_INT (Ref ''conti'' 0)),
     call (MPI_Type_commit (Ref ''conti'' 0)),
     call (MPI_Reduce_scatter_block (Ref ''outbuf'' 0) (Ref ''inbuf'' 0) 6 MPI_INT MPI_SUM W),
     call (MPI_Type_free (Ref ''conti'' 0))] @ mbi_end)"

text \<open>This \<open>main\<close> has its own prologue. The sum of process 0 is the reduction it checks.\<close>

definition no_error_coll_scatter_allgather_bcast_reduce :: prog where
  "no_error_coll_scatter_allgather_bcast_reduce =
     decls [(''rank'', 1), (''procs'', 1)]
       (Call MPI_Init (\<lambda>_.
        Call (MPI_Comm_size W (Ref ''procs'' 0)) (\<lambda>n.
        Call (MPI_Comm_rank W (Ref ''rank'' 0)) (\<lambda>r.
        (let rank = out r 0; procs = out n 0 in
         seq
          [if_else (rank = 0)
            [call (C_malloc (Ref ''sendBuf'' 0) (4 * procs)),
             call (C_malloc (Ref ''sum'' 0) (4 * procs)),
             for_c (upto_lt 0 procs) (\<lambda>i.
              [call (C_store (Ref ''sendBuf'' i) i), call (C_store (Ref ''sum'' i) 0)])]
            [call (C_malloc (Ref ''sum'' 0) 4),
             call (C_malloc (Ref ''sendBuf'' 0) 4)],
           call (C_malloc (Ref ''rcvBuf'' 0) (4 * procs)),
           call (MPI_Scatter (Ref ''sendBuf'' 0) 1 MPI_INT (Ref ''rcvBuf'' 0) 1 MPI_INT 0 W),
           call_then (C_load (Ref ''rcvBuf'' 0)) (\<lambda>v. [call (C_store (Ref ''sendBuf'' 0) (out v 0))]),
           call (MPI_Allgather (Ref ''sendBuf'' 0) 1 MPI_INT (Ref ''rcvBuf'' 0) 1 MPI_INT W),
           call (C_printf ''Vector of process %d is: (''),
           for_c (upto_lt 0 procs) (\<lambda>i.
            [call_then (C_load (Ref ''rcvBuf'' i)) (\<lambda>v.
              [call (C_printf ''%d''),
               if_c (i \<noteq> procs - 1) [call (C_printf '', '')],
               assert_c (i = out v 0)])]),
           call (C_printf '')''),
           call (MPI_Bcast (Ref ''sum'' 0) 1 MPI_INT 0 W),
           call (MPI_Reduce (Ref ''rcvBuf'' 0) (Ref ''sum'' 0) procs MPI_INT MPI_SUM 0 W),
           if_c (rank = 0)
            [call (C_printf ''Vector sum is: (''),
             for_c (upto_lt 0 procs) (\<lambda>i.
              [call_then (C_load (Ref ''sum'' i)) (\<lambda>v.
                [call (C_printf ''%d''),
                 if_c (i \<noteq> procs - 1) [call (C_printf '', '')],
                 assert_c (i * procs = out v 0)])]),
             call (C_printf '')'')],
           call (C_free (Ref ''sendBuf'' 0)),
           call (C_free (Ref ''rcvBuf'' 0)),
           call (C_free (Ref ''sum'' 0)),
           call MPI_Finalize] (Ret 0))))))"

definition no_error_coll_scatterv :: prog where
  "no_error_coll_scatterv = mbi_main [(''i'', 1), (''rbuf'', 2), (''root'', 1)] (\<lambda>rank nprocs.
    (let temp = (if rank = 1 then Ref ''temp'' 0 else NULL);
         scounts = (if rank = 1 then map (\<lambda>i. 1) (upto_lt 0 nprocs) else []);
         sdispls = (if rank = 1 then map (\<lambda>i. nprocs - (i + 1)) (upto_lt 0 nprocs) else []) in
    [need_procs 2 nprocs,
     if_c (rank = 1)
      [call (C_malloc (Ref ''temp'' 0) (4 * nprocs)),
       call (C_malloc (Ref ''scounts'' 0) (4 * nprocs)),
       call (C_malloc (Ref ''sdispls'' 0) (4 * nprocs)),
       for_c (upto_lt 0 nprocs) (\<lambda>i.
        [call (C_store (Ref ''scounts'' i) 1),
         call (C_store (Ref ''sdispls'' i) (nprocs - (i + 1)))])],
     call (MPI_Scatterv temp scounts sdispls MPI_INT (Ref ''rbuf'' 0) 1 MPI_INT 1 W),
     if_c (rank = 1)
      [if_c (temp \<noteq> NULL) [call (C_free (Ref ''temp'' 0))],
       call (C_free (Ref ''scounts'' 0)),
       call (C_free (Ref ''sdispls'' 0))]]) @ mbi_end)"

definition no_error_coll_type_commit_twice :: prog where
  "no_error_coll_type_commit_twice = mbi_main [] (\<lambda>rank nprocs.
    [call (MPI_Barrier W),
     call (MPI_Type_contiguous 128 MPI_INT (Ref ''newtype'' 0)),
     call (MPI_Type_commit (Ref ''newtype'' 0)),
     call (MPI_Type_commit (Ref ''newtype'' 0)),
     call (MPI_Barrier W),
     call (MPI_Type_free (Ref ''newtype'' 0))] @ mbi_end)"

section \<open>Communicators, topologies and datatypes\<close>

definition no_error_com_compare :: prog where
  "no_error_com_compare = mbi_main [(''res'', 1)] (\<lambda>rank nprocs.
    (let comm = W in
    [need_procs 2 nprocs,
     call (MPI_Comm_compare W comm (Ref ''res'' 0))]) @ mbi_end)"

definition no_error_topo_cart_com :: prog where
  "no_error_topo_cart_com =
     decls [(''size'', 1), (''rank'', 1)]
       (Call MPI_Init (\<lambda>_.
        Call (MPI_Comm_rank W (Ref ''rank'' 0)) (\<lambda>r.
        Call (MPI_Comm_size W (Ref ''size'' 0)) (\<lambda>n.
        (let comm = Ref ''comm'' 0; dims = [2, 1]; periods = [1, 1] in
         seq
          ([need_procs 2 (out n 0),
            call (C_printf ''Hello, I am rank %d of %d processes''),
            call_then (MPI_Cart_create W 2 dims periods 0 comm) (\<lambda>c.
             [call (MPI_Cart_get (Comm_var comm) 2),
              if_c (out c 0 \<noteq> 0) [call (MPI_Comm_free comm)]])]
           @ mbi_end) (Ret 0))))))"

definition topo_cart_intercom_error :: prog where
  "topo_cart_intercom_error = mbi_main [] (\<lambda>rank nprocs.
    (let comm = Ref ''comm'' 0; localcomm = Ref ''localcomm'' 0; intercomm = Ref ''intercomm'' 0;
         color = rank smod 2; dims = [1, 1]; periods = [1, 1] in
    [need_procs 2 nprocs,
     call (MPI_Comm_split W color rank localcomm),
     call (MPI_Intercomm_create (Comm_var localcomm) 0 W (1 - color) 42 intercomm),
     call_then (MPI_Cart_create (Comm_var intercomm) 2 dims periods 0 comm) (\<lambda>c.
      [if_c (out c 0 \<noteq> 0) [call (MPI_Comm_free comm)],
       call (MPI_Comm_free intercomm),
       call (MPI_Comm_free localcomm)])]) @ mbi_end)"

definition topo_cart_shift_dim_error :: prog where
  "topo_cart_shift_dim_error = mbi_main [] (\<lambda>rank nprocs.
    (let comm = Ref ''comm'' 0; dims = [2, 1]; periods = [1, 1] in
    [need_procs 2 nprocs,
     call_then (MPI_Cart_create W 2 dims periods 0 comm) (\<lambda>c.
      [call (MPI_Cart_shift (Comm_var comm) 3 1),
       if_c (out c 0 \<noteq> 0) [call (MPI_Comm_free comm)]])]) @ mbi_end)"

definition type_null_error :: prog where
  "type_null_error = mbi_main [] (\<lambda>rank nprocs.
    [call (C_decl_type (Ref ''type1'' 0) MPI_DATATYPE_NULL),
     need_procs 2 nprocs,
     if_c (rank = 0) [call (MPI_Type_commit (Ref ''type1'' 0))]] @ mbi_end)"

definition type_null_error2 :: prog where
  "type_null_error2 = mbi_main [] (\<lambda>rank nprocs.
    [call (C_decl_type (Ref ''type1'' 0) MPI_DATATYPE_NULL),
     if_c (rank = 0)
      [call (MPI_Type_contiguous 2 (Type_var (Ref ''type1'' 0)) (Ref ''type2'' 0)),
       call (MPI_Type_free (Ref ''type2'' 0))]] @ mbi_end)"

section \<open>One-sided communication\<close>

definition no_error_rma_lock :: prog where
  "no_error_rma_lock = mbi_main [(''X'', 1), (''buf'', 1)] (\<lambda>rank nprocs.
    (let win = Ref ''win'' 0; next = (rank + 1) smod nprocs in
    [call (C_store (Ref ''buf'' 0) 0),
     call (C_store (Ref ''X'' 0) rank),
     need_procs 2 nprocs,
     call (MPI_Win_create (Ref ''X'' 0) 4 4 W win),
     call (MPI_Win_lock MPI_LOCK_EXCLUSIVE next 0 win),
     call (C_store (Ref ''buf'' 0) 1),
     call (MPI_Get (Ref ''buf'' 0) 1 MPI_INT next 0 1 MPI_INT win),
     call (MPI_Win_unlock next win),
     call (MPI_Win_free win)]) @ mbi_end)"

definition no_error_rma_lock2 :: prog where
  "no_error_rma_lock2 = mbi_main [(''X'', 1), (''s'', 1), (''r'', 1)] (\<lambda>rank nprocs.
    (let win = Ref ''win'' 0; next = (rank + 1) smod nprocs in
    [need_procs 2 nprocs,
     call (MPI_Win_create (Ref ''X'' 0) 4 4 W win),
     call (MPI_Win_lock MPI_LOCK_EXCLUSIVE next 0 win),
     call (MPI_Put (Ref ''s'' 0) 1 MPI_INT next 0 1 MPI_INT win),
     call (MPI_Win_flush next win),
     call (MPI_Get (Ref ''r'' 0) 1 MPI_INT next 0 1 MPI_INT win),
     call (MPI_Win_unlock next win),
     call (MPI_Win_free win)]) @ mbi_end)"

text \<open>The window is created with \<open>size = 1\<close>, and never freed.\<close>

definition no_error_p2P_rma :: prog where
  "no_error_p2P_rma =
     decls [(''size'', 1), (''rank'', 1), (''sharedBuffer'', 1), (''localBuffer'', 1), (''i'', 1)]
       (Call MPI_Init (\<lambda>_.
        Call (MPI_Comm_rank W (Ref ''rank'' 0)) (\<lambda>r.
        Call (MPI_Comm_size W (Ref ''size'' 0)) (\<lambda>n.
        (let win = Ref ''win'' 0; rank = out r 0; size = out n 0 in
         seq
          [call (C_store (Ref ''localBuffer'' 0) rank),
           call (C_store (Ref ''sharedBuffer'' 0) rank),
           call (MPI_Win_create (Ref ''sharedBuffer'' 0) 1 4 W win),
           if_else (rank = 0)
            [call (MPI_Win_lock MPI_LOCK_SHARED 1 0 win),
             call (MPI_Put (Ref ''localBuffer'' 0) 1 MPI_INT 1 0 1 MPI_INT win),
             call (MPI_Win_unlock 1 win),
             call (MPI_Send (Ref ''localBuffer'' 0) 1 MPI_INT 1 0 W)]
           [if_else (rank = 1)
            [call (MPI_Recv (Ref ''localBuffer'' 0) 1 MPI_INT (Rank 0) (Tag 0) W),
             call (MPI_Win_lock MPI_LOCK_SHARED 1 0 win),
             call (MPI_Put (Ref ''localBuffer'' 0) 1 MPI_INT 1 0 1 MPI_INT win),
             call (MPI_Win_unlock 1 win),
             for_c (upto_lt (rank + 1) size) (\<lambda>i.
              [call (MPI_Send (Ref ''localBuffer'' 0) 1 MPI_INT i 0 W)])]
            [call (MPI_Recv (Ref ''localBuffer'' 0) 1 MPI_INT MPI_ANY_SOURCE MPI_ANY_TAG W),
             call (MPI_Win_lock MPI_LOCK_SHARED 1 0 win),
             call (MPI_Get (Ref ''localBuffer'' 0) 1 MPI_INT 1 0 1 MPI_INT win),
             call (MPI_Win_unlock 1 win)]],
           call MPI_Finalize] (Ret 0))))))"

text \<open>
  src/codes/medium-lockopts.c. The responses of \<open>malloc\<close> and \<open>MPI_Alloc_mem\<close> say whether
  they returned memory; \<open>MPI_Abort\<close> does not return. \<open>lockopts_verify\<close> is the block
  in which process 0 compares its window with what it expects and resets it; each of the
  four parts ends there or, in process 1, in the operations \<open>ops\<close> on that window.
\<close>

definition lockopts_verify :: "(int \<Rightarrow> int) \<Rightarrow> int \<Rightarrow> stmt list" where
  "lockopts_verify expected memsize =
    (let rmabuf = Ref ''rmabuf''; win = Ref ''win'' 0 in
    [call (MPI_Barrier W),
     call (MPI_Win_lock MPI_LOCK_SHARED 0 0 win),
     for_c (upto_lt 0 10) (\<lambda>i.
      [call_then (C_load (rmabuf i)) (\<lambda>v.
        [if_c (out v 0 \<noteq> expected i) [call (C_load (rmabuf i)), call (C_printf ''expected rmabuf[%d] = %d but saw %d'')],
         call (C_store (rmabuf i) (- i))])]),
     for_c (upto_lt 10 memsize) (\<lambda>i.
      [call_then (C_load (rmabuf i)) (\<lambda>v.
        [if_c (out v 0 \<noteq> - i)
          [call (C_load (rmabuf i)), call (C_printf ''expected rmabuf[%d] = %d but saw %d''),
           call (C_store (rmabuf i) (- i))]])]),
     call (MPI_Win_unlock 0 win)])"

definition lockopts_part :: "int \<Rightarrow> int \<Rightarrow> (int \<Rightarrow> int) \<Rightarrow> stmt list \<Rightarrow> stmt list \<Rightarrow> stmt list" where
  "lockopts_part wrank memsize expected ops after =
    (let win = Ref ''win'' 0 in
    [if_else (wrank = 0) (lockopts_verify expected memsize)
    [if_else (wrank = 1)
      ([call (MPI_Win_lock MPI_LOCK_SHARED 0 0 win)] @ ops @
       [call (MPI_Win_unlock 0 win), call (MPI_Barrier W)] @ after)
      [call (MPI_Barrier W)]]])"

definition medium_lockopts :: prog where
  "medium_lockopts =
     decls [(''wrank'', 1), (''nprocs'', 1), (''i'', 1), (''memsize'', 1), (''errs'', 1)]
      (Call MPI_Init (\<lambda>_.
       Call (MPI_Comm_size W (Ref ''nprocs'' 0)) (\<lambda>n.
       Call (MPI_Comm_rank W (Ref ''wrank'' 0)) (\<lambda>r.
       (let wrank = out r 0; nprocs = out n 0; memsize = 10 * 4 * nprocs;
            srcbuf = Ref ''srcbuf''; rmabuf = Ref ''rmabuf''; val = Ref ''val'' 0;
            win = Ref ''win'' 0; vectype = Ref ''vectype'' 0;
            put = call (MPI_Put (srcbuf 0) 1 (Type_var vectype) 0 0 10 MPI_INT win);
            get = call (MPI_Get val 1 MPI_INT 0 10 1 MPI_INT win);
            accumulate = call (MPI_Accumulate (srcbuf 0) 1 (Type_var vectype) 0 0 10 MPI_INT MPI_SUM win);
            check_val = call_then (C_load val) (\<lambda>v. [if_c (out v 0 \<noteq> - 10) [call (C_printf ''Get: Expected -10, got %d'')]]) in
        seq
         [if_c (nprocs < 2)
           [call (C_printf ''Run this program with 2 or more processes''), call (MPI_Abort W 1), return_c 1],
          call_then (C_malloc (srcbuf 0) (4 * memsize)) (\<lambda>p.
          [call_then (MPI_Alloc_mem (4 * memsize) (rmabuf 0)) (\<lambda>q.
          [if_c (out p 0 = 0 \<or> out q 0 = 0)
            [call (C_printf ''Unable to allocate srcbuf and rmabuf of size %d''), call (MPI_Abort W 1), return_c 1],
           for_c (upto_lt 0 memsize) (\<lambda>i. [call (C_store (rmabuf i) (- i)), call (C_store (srcbuf i) i)]),
           call (MPI_Win_create (rmabuf 0) (memsize * 4) 4 W win),
           call (MPI_Type_vector 10 1 4 MPI_INT vectype),
           call (MPI_Type_commit vectype)] @
          lockopts_part wrank memsize (\<lambda>i. - i + 4 * i) [accumulate] [] @
          [call (MPI_Barrier W)] @
          lockopts_part wrank memsize (\<lambda>i. 4 * i) [put] [] @
          [call (MPI_Barrier W)] @
          lockopts_part wrank memsize (\<lambda>i. 4 * i) [call (C_decl ''val'' 1), get, put] [check_val] @
          [call (MPI_Barrier W)] @
          lockopts_part wrank memsize (\<lambda>i. 4 * i) [call (C_decl ''val'' 1), put, get] [check_val] @
          [call (MPI_Win_free win),
           call (MPI_Free_mem (rmabuf 0)),
           call (C_free (srcbuf 0)),
           call (MPI_Type_free vectype),
           call MPI_Finalize])])] (Ret 0))))))"

lemmas coll_codes [code_defs] = no_error_coll_alltoallw_def no_error_coll_barrier_type_free_def
  no_error_coll_reduceScatterBlock_def no_error_coll_scatter_allgather_bcast_reduce_def
  no_error_coll_scatterv_def no_error_coll_type_commit_twice_def no_error_com_compare_def
  no_error_topo_cart_com_def topo_cart_intercom_error_def topo_cart_shift_dim_error_def
  type_null_error_def type_null_error2_def no_error_rma_lock_def no_error_rma_lock2_def
  no_error_p2P_rma_def

end
