(* ===== verification/Codes_Aside.thy ===== *)
theory Codes_Aside
  imports Codes_Coll
begin

text \<open>
  The codes of src/codes/MayBeRemoved: one definition per file, the body of its \<open>main\<close>.
  Most have an error on purpose; those on collectives disagree about the call, its root or
  the amount of data.
\<close>

section \<open>Collectives that disagree about the amount of data\<close>

text \<open>\<open>if (nprocs != 3) \{ if (rank == 0) printf(...); MPI_Finalize(); return 1; \}\<close>\<close>

definition need_three :: "int \<Rightarrow> int \<Rightarrow> stmt" where
  "need_three rank nprocs =
     if_c (nprocs \<noteq> 3)
      [if_c (rank = 0) [call (C_printf ''! This test needs 3 processes !'')],
       call MPI_Finalize, return_c 1]"

text \<open>The loop that fills \<open>outbuf\<close>, and the datatype of \<open>n\<close> integers.\<close>

definition fill_outbuf :: "int \<Rightarrow> int \<Rightarrow> stmt" where
  "fill_outbuf rank n = for_c (upto_lt 0 n) (\<lambda>i. [call (C_store (Ref ''outbuf'' i) (rank * n + i))])"

definition make_conti :: "int \<Rightarrow> stmt" where
  "make_conti n = seq
    [call (MPI_Type_contiguous n MPI_INT (Ref ''conti'' 0)),
     call (MPI_Type_commit (Ref ''conti'' 0))]"

abbreviation conti :: dtype where
  "conti \<equiv> Type_var (Ref ''conti'' 0)"

definition coll_allgather_type_len_error :: prog where
  "coll_allgather_type_len_error = mbi_main [(''i'', 1), (''inbuf'', 30), (''outbuf'', 6)] (\<lambda>rank nprocs.
    [need_three rank nprocs,
     fill_outbuf rank 6,
     make_conti (3 - rank),
     call (C_decl ''size_in'' 1),
     call (C_decl ''size_ints'' 1),
     call (MPI_Type_size conti (Ref ''size_in'' 0)),
     call (MPI_Type_size MPI_INT (Ref ''size_ints'' 0)),
     call (C_printf ''Rank %d sends %d x %d INTS and receive %d INTS''),
     call (MPI_Allgather (Ref ''outbuf'' 0) (6 sdiv (3 - rank)) conti
                         (Ref ''inbuf'' 0) (6 + rank smod 2) MPI_INT W),
     call (MPI_Type_free (Ref ''conti'' 0))] @ mbi_end)"

definition coll_allreduce_type_len_error :: prog where
  "coll_allreduce_type_len_error = mbi_main [(''i'', 1), (''inbuf'', 18), (''outbuf'', 18)] (\<lambda>rank nprocs.
    [need_three rank nprocs,
     fill_outbuf rank 18,
     make_conti (3 - rank),
     call (MPI_Allreduce (Ref ''outbuf'' 0) (Ref ''inbuf'' 0) (18 + rank smod 2) MPI_INT MPI_SUM W),
     call (MPI_Type_free (Ref ''conti'' 0))] @ mbi_end)"

definition coll_alltoall_type_len_error :: prog where
  "coll_alltoall_type_len_error = mbi_main [(''i'', 1), (''inbuf'', 30), (''outbuf'', 18)] (\<lambda>rank nprocs.
    [need_three rank nprocs,
     fill_outbuf rank 18,
     make_conti (3 - rank),
     call (MPI_Alltoall (Ref ''outbuf'' 0) (6 sdiv (3 - rank)) conti
                        (Ref ''inbuf'' 0) (6 + rank smod 2) MPI_INT W),
     call (MPI_Type_free (Ref ''conti'' 0))] @ mbi_end)"

definition coll_alltoallv_type_len_error :: prog where
  "coll_alltoallv_type_len_error = mbi_main [(''i'', 1), (''inbuf'', 200), (''outbuf'', 200)] (\<lambda>rank nprocs.
    (let displs = [0, 36, 72];
         sendtypesize = 3 - rank;
         recvcnts = map (\<lambda>i. ((3 + rank - i) smod 3 + 1) * 6 + rank smod 2) [0, 1, 2];
         sendcnts = map (\<lambda>i. ((3 - rank + i) smod 3 + 1) * 6 sdiv sendtypesize) [0, 1, 2] in
    [need_three rank nprocs,
     fill_outbuf rank 100,
     make_conti sendtypesize,
     call (MPI_Alltoallv (Ref ''outbuf'' 0) sendcnts displs conti
                         (Ref ''inbuf'' 0) recvcnts displs MPI_INT W),
     call (MPI_Type_free (Ref ''conti'' 0))]) @ mbi_end)"

text \<open>
  The sizes and the counts of what is sent are those of \<open>no-error-coll-alltoallw.c\<close>; the
  counts of what is received differ in \<open>rank % 2\<close>.
\<close>

definition alltoallw_wrong_recvcnt :: "int \<Rightarrow> int \<Rightarrow> int" where
  "alltoallw_wrong_recvcnt rank i =
     ((3 + rank - i) smod 3 + 1 + rank smod 2) * 6 sdiv alltoallw_typesize rank i"

definition coll_alltoallw_type_len_error :: prog where
  "coll_alltoallw_type_len_error = mbi_main [(''i'', 1), (''inbuf'', 200), (''outbuf'', 200)] (\<lambda>rank nprocs.
    (let displs = [0 * 4, 48 * 4, 96 * 4];
         contis = map (\<lambda>i. Type_var (Ref ''contis'' i)) [0, 1, 2];
         recvcnts = map (alltoallw_wrong_recvcnt rank) [0, 1, 2];
         sendcnts = map (alltoallw_sendcnt rank) [0, 1, 2] in
    [need_three rank nprocs,
     fill_outbuf rank 100,
     for_c (upto_lt 0 3) (\<lambda>i.
      [call (MPI_Type_contiguous (alltoallw_typesize rank i) MPI_INT (Ref ''contis'' i)),
       call (MPI_Type_commit (Ref ''contis'' i))]),
     call (MPI_Alltoallw (Ref ''outbuf'' 0) sendcnts displs contis
                         (Ref ''inbuf'' 0) recvcnts displs contis W),
     for_c (upto_lt 0 3) (\<lambda>i. [call (MPI_Type_free (Ref ''contis'' i))])]) @ mbi_end)"

definition coll_exscan_type_len_error :: prog where
  "coll_exscan_type_len_error = mbi_main [(''i'', 1), (''inbuf'', 19), (''outbuf'', 19)] (\<lambda>rank nprocs.
    [need_three rank nprocs,
     fill_outbuf rank 18,
     make_conti (3 - rank),
     call (MPI_Exscan (Ref ''outbuf'' 0) (Ref ''inbuf'' 0) (18 + rank smod 2) MPI_INT MPI_SUM W),
     call (MPI_Type_free (Ref ''conti'' 0))] @ mbi_end)"

definition coll_scan_type_len_error :: prog where
  "coll_scan_type_len_error = mbi_main [(''i'', 1), (''inbuf'', 19), (''outbuf'', 19)] (\<lambda>rank nprocs.
    [need_three rank nprocs,
     fill_outbuf rank 18,
     make_conti (3 - rank),
     call (MPI_Scan (Ref ''outbuf'' 0) (Ref ''inbuf'' 0) (18 + rank smod 2) MPI_INT MPI_SUM W),
     call (MPI_Type_free (Ref ''conti'' 0))] @ mbi_end)"

definition coll_reduceScatterBlock_type_len_error :: prog where
  "coll_reduceScatterBlock_type_len_error = mbi_main [(''i'', 1), (''inbuf'', 20), (''outbuf'', 20)] (\<lambda>rank nprocs.
    [need_three rank nprocs,
     fill_outbuf rank 20,
     make_conti (3 - rank),
     call (MPI_Reduce_scatter_block (Ref ''outbuf'' 0) (Ref ''inbuf'' 0) (6 + rank smod 2) MPI_INT MPI_SUM W),
     call (MPI_Type_free (Ref ''conti'' 0))] @ mbi_end)"

definition coll_gather_type_len_error :: prog where
  "coll_gather_type_len_error = mbi_main [(''sendBuf'', 3), (''root'', 1)] (\<lambda>rank nprocs.
    (let temp = (if rank = 0 then Ref ''temp'' 0 else NULL); rType = Ref ''rType'' 0 in
    [need_procs 2 nprocs,
     if_c (rank = 0)
      [call (C_malloc (Ref ''temp'' 0) (4 * nprocs * 2)),
       call (MPI_Type_contiguous 2 MPI_INT rType),
       call (MPI_Type_commit rType)],
     call (MPI_Gather (Ref ''sendBuf'' 0) 3 MPI_INT temp 1 (Type_var rType) 0 W),
     if_c (rank = 0)
      [call (MPI_Type_free rType),
       if_c (temp \<noteq> NULL) [call (C_free temp)]]]) @ mbi_end)"

definition coll_scatter_type_len_error :: prog where
  "coll_scatter_type_len_error = mbi_main [(''i'', 1), (''outbuf'', 18), (''inbuf'', 6)] (\<lambda>rank nprocs.
    [if_c (nprocs \<noteq> 3)
      [call (C_printf ''! This test needs 3 processes !''), call MPI_Finalize, return_c 1],
     for_c (upto_lt 0 18) (\<lambda>i. [call (C_store (Ref ''outbuf'' i) i)]),
     make_conti (3 - rank),
     if_else (rank = 1)
      [call (MPI_Scatter NULL 0 MPI_DATATYPE_NULL (Ref ''inbuf'' 0) 5 MPI_INT 2 W)]
      [call (MPI_Scatter (Ref ''outbuf'' 0) 6 MPI_INT (Ref ''inbuf'' 0) (6 sdiv (3 - rank)) conti 2 W)],
     call (MPI_Type_free (Ref ''conti'' 0))] @ mbi_end)"

definition coll_scatterv_type_len_error :: prog where
  "coll_scatterv_type_len_error = mbi_main [(''i'', 1), (''inbuf'', 6), (''outbuf'', 100)] (\<lambda>rank nprocs.
    (let displs = [0, 10, 20]; sendcnts = [6, 6, 5] in
    [need_three rank nprocs,
     fill_outbuf rank 6,
     make_conti (3 - rank),
     call (MPI_Scatterv (Ref ''outbuf'' 0) sendcnts displs MPI_INT
                        (Ref ''inbuf'' 0) (6 sdiv (3 - rank)) conti 1 W),
     call (MPI_Type_free (Ref ''conti'' 0))]) @ mbi_end)"

section \<open>Collectives that disagree about the call or its root\<close>

definition RootMismatch_Bcast :: prog where
  "RootMismatch_Bcast = mbi_main [(''buf1'', 1), (''buf2'', 1)] (\<lambda>rank nprocs.
    [if_else (nprocs \<noteq> 2) [call (C_printf ''! This test requires exactly 2 processes !'')]
      [call (C_store (Ref ''buf1'' 0) rank),
       call (C_store (Ref ''buf2'' 0) rank),
       if_else (rank = 0)
        [call (MPI_Bcast (Ref ''buf1'' 0) 1 MPI_INT 0 W),
         call (MPI_Bcast (Ref ''buf2'' 0) 1 MPI_INT 1 W)]
       [if_c (rank = 1)
        [call (MPI_Bcast (Ref ''buf2'' 0) 1 MPI_INT 1 W),
         call (MPI_Bcast (Ref ''buf1'' 0) 1 MPI_INT 0 W)]],
       call (C_printf ''process %d: buf1=%d, buf2=%d'')]] @ mbi_end)"

definition OrderErr_Reduce_Allreduce :: prog where
  "OrderErr_Reduce_Allreduce = mbi_main [(''num'', 1), (''recv'', 1)] (\<lambda>rank nprocs.
    [if_c (rank = 0) [call (C_store (Ref ''num'' 0) 3)],
     call (MPI_Bcast (Ref ''num'' 0) 1 MPI_INT 0 W),
     call (MPI_Allreduce (Ref ''num'' 0) (Ref ''recv'' 0) 1 MPI_INT MPI_SUM W),
     if_c (rank \<noteq> 5) [call (MPI_Reduce (Ref ''recv'' 0) (Ref ''num'' 0) 1 MPI_INT MPI_SUM 0 W)],
     call (MPI_Allreduce (Ref ''num'' 0) (Ref ''recv'' 0) 1 MPI_INT MPI_SUM W),
     call_then (C_load (Ref ''recv'' 0)) (\<lambda>v.
      [assert_c (out v 0 = 3 * nprocs * nprocs + 3 * (nprocs - 1))])] @ mbi_end)"

definition collective_reduce_root_mismatch :: prog where
  "collective_reduce_root_mismatch = mbi_main [(''localsum'', 1), (''sum'', 1)] (\<lambda>rank nprocs.
    [if_c (nprocs < 2) [call (C_printf ''! This test needs at least 2 processes to produce a bug !'')],
     call (C_store (Ref ''localsum'' 0) 0),
     for_c (upto_lt 0 (rank + 1)) (\<lambda>i.
      [call_then (C_load (Ref ''localsum'' 0)) (\<lambda>v. [call (C_store (Ref ''localsum'' 0) (out v 0 + i))])]),
     call (C_printf ''process %d has local sum of %d''),
     call (MPI_Reduce (Ref ''localsum'' 0) (Ref ''sum'' 0) 1 MPI_INT MPI_SUM rank W),
     if_c (rank = 0) [call (C_printf ''total sum is %d'')]] @ mbi_end)"

definition coll_barrier_loop_mismatch :: prog where
  "coll_barrier_loop_mismatch = mbi_main [] (\<lambda>rank nprocs.
    [if_c (nprocs < 2) [call (C_printf ''! This test needs at least 2 processes to produce a bug !'')],
     if_else (rank smod 2 \<noteq> 0)
      [for_c (upto_lt 1 10) (\<lambda>i. [call (MPI_Barrier W)])]
      [for_c (upto_lt 10 20) (\<lambda>j. [call (MPI_Barrier W)])]] @ mbi_end)"

definition coll_mismatch_barrier_inter :: prog where
  "coll_mismatch_barrier_inter = mbi_main [] (\<lambda>rank nprocs.
    (let mybarrier = (\<lambda>comm. call (MPI_Barrier comm)) in
    [if_c (nprocs < 2) [call (C_printf ''! This test needs at least 2 processes to produce a bug !'')],
     if_c (rank = 0) [mybarrier W]]) @ mbi_end)"

section \<open>Collectives that agree\<close>

definition no_error_coll_barrier_inter :: prog where
  "no_error_coll_barrier_inter = mbi_main [] (\<lambda>rank nprocs.
    (let mybarrier = (\<lambda>comm. call (MPI_Barrier comm)) in
    [if_c (nprocs < 2) [call (C_printf ''! This test needs at least 2 processes to produce a bug !'')],
     mybarrier W]) @ mbi_end)"

definition no_error_coll_barrier :: prog where
  "no_error_coll_barrier = mbi_main [] (\<lambda>rank nprocs.
    [if_c (rank smod 2 \<noteq> 0) [call (MPI_Barrier W)],
     if_c (\<not> rank smod 2 \<noteq> 0) [call (MPI_Barrier W)]] @ mbi_end)"

text \<open>\<open>S->rank\<close> and \<open>S->nprocs\<close> are the two elements of the allocated object.\<close>

definition no_error_coll_barrierSTATIC :: prog where
  "no_error_coll_barrierSTATIC =
     decls [(''processor_name'', 1024), (''namelen'', 1)]
      (Call (C_malloc (Ref ''S'' 0) 8) (\<lambda>_.
       Call MPI_Init (\<lambda>_.
       Call (MPI_Comm_size W (Ref ''S'' 1)) (\<lambda>n.
       Call (MPI_Comm_rank W (Ref ''S'' 0)) (\<lambda>r.
       seq
        ([call (MPI_Get_processor_name (Ref ''processor_name'' 0) (Ref ''namelen'' 0)),
          call (C_printf ''rank %d is alive on %s''),
          if_c (out n 0 > 1) [call (MPI_Barrier W)]] @ mbi_end @
         [call (C_free (Ref ''S'' 0))]) (Ret 0))))))"

definition no_error_coll_reduceScatter :: prog where
  "no_error_coll_reduceScatter = mbi_main [(''i'', 1), (''inbuf'', 20), (''outbuf'', 20)] (\<lambda>rank nprocs.
    (let recvcnts = map (\<lambda>(r, n). n + r smod 2) [(0, 5), (1, 6), (2, 7)] in
    [need_three rank nprocs,
     fill_outbuf rank 20,
     make_conti (3 - rank),
     call (MPI_Reduce_scatter (Ref ''outbuf'' 0) (Ref ''inbuf'' 0) recvcnts MPI_INT MPI_SUM W),
     call (MPI_Type_free (Ref ''conti'' 0))]) @ mbi_end)"

section \<open>Handles\<close>

definition no_error_coll_datatype :: prog where
  "no_error_coll_datatype = mbi_main [] (\<lambda>rank nprocs.
    (let newtype = Ref ''newtype'' 0; newtype2 = Ref ''newtype2'' 0 in
    [call (MPI_Barrier W),
     call (MPI_Type_contiguous 128 MPI_INT newtype),
     call (MPI_Type_free newtype),
     call (MPI_Barrier W),
     call (MPI_Type_contiguous 128 MPI_INT newtype),
     call (C_decl_type newtype2 (Type_var newtype)),
     call (MPI_Type_free newtype2),
     call (MPI_Barrier W)]) @ mbi_end)"

definition no_error_coll_grp :: prog where
  "no_error_coll_grp = mbi_main [] (\<lambda>rank nprocs.
    (let newgroup = Ref ''newgroup'' 0; newgroup2 = Ref ''newgroup2'' 0 in
    [call (MPI_Barrier W),
     call (MPI_Comm_group W newgroup),
     call (MPI_Group_free newgroup),
     call (MPI_Barrier W),
     call (MPI_Comm_group W newgroup),
     call (C_copy_group newgroup2 newgroup),
     call (MPI_Group_free newgroup2),
     call (MPI_Barrier W)]) @ mbi_end)"

definition no_error_coll_grp_excl_loop :: prog where
  "no_error_coll_grp_excl_loop = mbi_main [(''i'', 1)] (\<lambda>rank nprocs.
    (let worldgroup = Ref ''worldgroup'' 0; newgroup = Ref ''newgroup'' in
    [call (MPI_Comm_group W worldgroup),
     call (MPI_Barrier W),
     for_c (upto_lt 0 10) (\<lambda>i. [call (MPI_Group_excl worldgroup [rank] (newgroup i))]),
     for_c (upto_lt 0 10) (\<lambda>i. [call (MPI_Group_free (newgroup i))]),
     call (MPI_Group_free worldgroup),
     call (MPI_Barrier W)]) @ mbi_end)"

text \<open>
  \<open>op\<close> and its copy are compared with \<open>MPI_OP_NULL\<close>; the response of
  \<open>MPI_Op_create\<close> says whether the new operator differs from it.
\<close>

definition no_error_coll_op_unknown :: prog where
  "no_error_coll_op_unknown = mbi_main [] (\<lambda>rank nprocs.
    (let op = Ref ''op'' 0; op_unknown = Ref ''op_unknown'' 0 in
    [call_then (MPI_Op_create op) (\<lambda>c.
      [call (C_decl_op op_unknown (Op_var op)),
       if_c (out c 0 \<noteq> 0) [call (MPI_Op_free op)],
       if_c (out c 0 \<noteq> 0) [call (MPI_Op_free op_unknown)]])]) @ mbi_end)"

definition coll_op_null_error :: prog where
  "coll_op_null_error = mbi_main [] (\<lambda>rank nprocs.
    [call (C_decl_op (Ref ''op'' 0) MPI_OP_NULL),
     call (MPI_Op_free (Ref ''op'' 0))] @ mbi_end)"

definition coll_op_predefined_error :: prog where
  "coll_op_predefined_error = mbi_main [] (\<lambda>rank nprocs.
    (let op = MPI_SUM in
    [call (C_decl_op (Ref ''op'' 0) op),
     if_c (op \<noteq> MPI_OP_NULL) [call (MPI_Op_free (Ref ''op'' 0))]]) @ mbi_end)"

definition coll_bcast_type_undefined :: prog where
  "coll_bcast_type_undefined = mbi_main [] (\<lambda>rank nprocs.
    (let type1 = Ref ''type1'' 0; undefined_type = Ref ''undefined_type'' 0 in
    [need_procs 2 nprocs,
     call (MPI_Type_contiguous 1 MPI_INT type1),
     call (MPI_Type_commit type1),
     call (C_decl_type undefined_type (Type_var type1)),
     call (MPI_Type_free type1),
     call (MPI_Bcast (Ref ''nprocs'' 0) 1 (Type_var undefined_type) 0 W)]) @ mbi_end)"

definition com_compare_error :: prog where
  "com_compare_error = mbi_main [(''res'', 1)] (\<lambda>rank nprocs.
    (let comm = MPI_COMM_NULL in
    [need_procs 2 nprocs,
     call (C_store (Ref ''res'' 0) 0),
     call (MPI_Comm_compare W comm (Ref ''res'' 0))]) @ mbi_end)"

text \<open>The response of \<open>MPI_Comm_create\<close> says whether this process is in the group.\<close>

definition no_error_coll_barrier_bcast :: prog where
  "no_error_coll_barrier_bcast = mbi_main [(''temp'', 1), (''root'', 1), (''i'', 1)] (\<lambda>rank nprocs.
    (let gworld = Ref ''gworld'' 0; ginverse = Ref ''ginverse'' 0; cinverse = Ref ''cinverse'' 0;
         ranksIncl = map (\<lambda>i. nprocs - i - 1) (upto_lt 0 nprocs) in
    [need_procs 2 nprocs,
     call (MPI_Comm_group W gworld),
     call (C_malloc (Ref ''ranksIncl'' 0) (4 * nprocs)),
     for_c (upto_lt 0 nprocs) (\<lambda>i. [call (C_store (Ref ''ranksIncl'' i) (nprocs - i - 1))]),
     call (MPI_Group_incl gworld ranksIncl ginverse),
     call (MPI_Comm_create W ginverse cinverse),
     call (MPI_Bcast (Ref ''rank'' 0) 1 MPI_INT 0 W),
     call (MPI_Barrier (Comm_var cinverse)),
     call (MPI_Bcast (Ref ''rank'' 0) 1 MPI_INT 0 (Comm_var cinverse)),
     call (MPI_Barrier W),
     call (MPI_Comm_free cinverse),
     call (MPI_Group_free ginverse),
     call (MPI_Group_free gworld)]) @ mbi_end)"

definition coll_bcast_com_mismatch :: prog where
  "coll_bcast_com_mismatch = mbi_main [(''bcast_rank'', 1)] (\<lambda>rank nprocs.
    (let inverted_comm = Ref ''inverted_comm'' 0; C = Comm_var inverted_comm;
         rank_p = Ref ''rank'' 0; bcast_rank = Ref ''bcast_rank'' 0 in
    [call (MPI_Barrier W),
     if_else (nprocs \<noteq> 3) [call (C_printf ''! This test requires exactly 3 processes !'')]
      [call (MPI_Comm_split W 0 (nprocs - rank) inverted_comm),
       if_else (rank = 1)
        [call (MPI_Bcast rank_p 1 MPI_INT 1 C), call (MPI_Bcast bcast_rank 1 MPI_INT 2 W)]
       [if_else (rank = 2)
        [call (MPI_Bcast rank_p 1 MPI_INT 2 W), call (MPI_Bcast bcast_rank 1 MPI_INT 1 C)]
        [call (MPI_Bcast bcast_rank 1 MPI_INT 2 W), call (MPI_Bcast bcast_rank 1 MPI_INT 1 C)]]],
     call (MPI_Barrier W)]) @ mbi_end)"

text \<open>
  \<open>dim = sqrt(size)\<close> rounds down. \<open>Rcomm\<close> and \<open>Ccomm\<close> have no value in a process outside the
  grid. The responses of \<open>MPI_Cart_create\<close> and \<open>MPI_Cart_sub\<close> say whether the communicator
  differs from \<open>MPI_COMM_NULL\<close>; that of \<open>MPI_Comm_rank\<close> is the rank.
\<close>

definition isqrt :: "int \<Rightarrow> int" where
  "isqrt n = int (length [d \<leftarrow> [1..<Suc (nat n)]. int (d * d) \<le> n])"

definition no_error_topo_cart :: prog where
  "no_error_topo_cart =
     decls [(''rank'', 1), (''newrank'', 1), (''Rrank'', 1), (''Crank'', 1), (''size'', 1), (''dim'', 1),
        (''reorder'', 1), (''coords'', 2), (''remain_dims'', 2)]
      (Call MPI_Init (\<lambda>_.
       Call (MPI_Comm_size W (Ref ''size'' 0)) (\<lambda>n.
       Call (MPI_Comm_rank W (Ref ''rank'' 0)) (\<lambda>r.
       (let newcomm = Ref ''newcomm'' 0; Rcomm = Ref ''Rcomm'' 0; Ccomm = Ref ''Ccomm'' 0;
            rank = out r 0; dim = isqrt (out n 0);
            free_new = (\<lambda>c. if_c (out c 0 \<noteq> 0) [call (MPI_Comm_free newcomm)]) in
        seq
         ([if_c (rank = 0) [call (C_printf ''Dimensions of the grid:%d x %d  - %d processes'')],
           call_then (MPI_Cart_create W 2 [dim, dim] [0, 0] 0 newcomm) (\<lambda>c.
           [if_c (\<not> out c 0 \<noteq> 0) [call (C_printf ''newcomm is null for P%d (process not in the grid)'')],
            if_else (rank < dim * dim)
             [call_then (MPI_Comm_rank (Comm_var newcomm) (Ref ''newrank'' 0)) (\<lambda>newrank.
               [call (MPI_Cart_coords (Comm_var newcomm) (out newrank 0) 2),
                call (C_store (Ref ''remain_dims'' 0) 0), call (C_store (Ref ''remain_dims'' 1) 1),
                call_then (MPI_Cart_sub (Comm_var newcomm) [0, 1] Rcomm) (\<lambda>R.
                [call (C_store (Ref ''remain_dims'' 0) 1), call (C_store (Ref ''remain_dims'' 1) 0),
                 call_then (MPI_Cart_sub (Comm_var newcomm) [1, 0] Ccomm) (\<lambda>C.
                 [call (MPI_Comm_rank (Comm_var Rcomm) (Ref ''Rrank'' 0)),
                  call (MPI_Comm_rank (Comm_var Ccomm) (Ref ''Crank'' 0)),
                  call (C_printf ''rank=%d, newrank=%d, (%d,%d), Rrank:%d Crank:%d''),
                  free_new c,
                  if_c (out R 0 \<noteq> 0) [call (MPI_Comm_free Rcomm)],
                  if_c (out C 0 \<noteq> 0) [call (MPI_Comm_free Ccomm)]])])])]
             [free_new c, value_of (None :: int option) (\<lambda>_. [])]]),
           call MPI_Finalize]) (Ret 0))))))"

text \<open>The response of \<open>MPI_Comm_create_group\<close> says whether the process got a communicator.\<close>

definition coll_bcast_deadlock :: prog where
  "coll_bcast_deadlock = mbi_main [(''buf1'', 1), (''buf2'', 1)] (\<lambda>rank nprocs.
    (let world_group = Ref ''world_group'' 0; group = (\<lambda>k. Ref (''group'' @ k) 0); comm = (\<lambda>k. Ref (''comm'' @ k) 0);
         bcast = (\<lambda>b root k. call (MPI_Bcast (Ref b 0) 1 MPI_INT root (Comm_var (comm k))));
         create = (\<lambda>ranks k f.
           [call (MPI_Group_incl world_group ranks (group k)),
            call_then (MPI_Comm_create_group W (group k) 0 (comm k)) f]) in
    [if_c (nprocs \<noteq> 3)
      [call (C_printf ''! This test requires exactly 3 processes !''), call MPI_Finalize, return_c 1],
     call (MPI_Comm_group W world_group)] @
    create [0, 1] ''0'' (\<lambda>c0. create [1, 2] ''1'' (\<lambda>c1. create [0, 2] ''2'' (\<lambda>c2.
    [call (C_store (Ref ''buf1'' 0) rank),
     call (C_store (Ref ''buf2'' 0) rank),
     if_else (rank = 0) [bcast ''buf1'' 0 ''0'', bcast ''buf2'' 1 ''2'']
    [if_else (rank = 1) [bcast ''buf1'' 0 ''1'', bcast ''buf2'' 0 ''0'']
    [if_c (rank = 2) [bcast ''buf1'' 1 ''2'', bcast ''buf2'' 0 ''1'']]],
     call (C_printf ''process %d: buf1=%d, buf2=%d''),
     call (MPI_Group_free world_group),
     call (MPI_Group_free (group ''0'')),
     call (MPI_Group_free (group ''1'')),
     call (MPI_Group_free (group ''2'')),
     if_c (out c0 0 \<noteq> 0) [call (MPI_Comm_free (comm ''0''))],
     if_c (out c1 0 \<noteq> 0) [call (MPI_Comm_free (comm ''1''))],
     if_c (out c2 0 \<noteq> 0) [call (MPI_Comm_free (comm ''2''))]])))) @ mbi_end)"

section \<open>One-sided communication\<close>

definition rma_PSCW_error_remote_WW :: prog where
  "rma_PSCW_error_remote_WW = mbi_main [(''X'', 1), (''localbuf'', 1)] (\<lambda>rank nprocs.
    (let win = Ref ''win'' 0; world_group = Ref ''world_group'' 0; gp1 = Ref ''gp1'' 0; gp02 = Ref ''gp02'' 0 in
    [call (C_store (Ref ''localbuf'' 0) rank),
     call (C_store (Ref ''X'' 0) 4),
     call (MPI_Comm_group W world_group),
     call (MPI_Group_incl world_group [0, 2] gp02),
     call (MPI_Group_incl world_group [1] gp1),
     need_procs 3 nprocs,
     call (MPI_Win_create (Ref ''X'' 0) 4 4 W win),
     if_else (rank = 0 \<or> rank = 2)
      [call (MPI_Win_start gp1 0 win),
       call (MPI_Put (Ref ''localbuf'' 0) 1 MPI_INT 1 0 1 MPI_INT win),
       call (MPI_Win_complete win)]
     [if_c (rank = 1)
       [call (MPI_Win_post gp02 0 win),
        call (MPI_Win_wait win)]],
     call (MPI_Group_free world_group),
     call (MPI_Group_free gp02),
     call (MPI_Group_free gp1),
     call (MPI_Win_free win)]) @ mbi_end)"

section \<open>Point-to-point communication\<close>

definition no_error_p2p_irecv_send :: prog where
  "no_error_p2p_irecv_send = mbi_main [(''buf0'', buf_size), (''buf1'', buf_size)] (\<lambda>rank nprocs.
    (let req = Ref ''req'' 0 in
    [call (MPI_Barrier W),
     if_else (nprocs < 2) [call (C_printf ''! This test needs at least 2 processes'')]
     [if_else (rank = 0)
       [call (C_memset (Ref ''buf0'' 0) 0 (buf_size * 4)),
        call (MPI_Irecv (Ref ''buf1'' 0) buf_size MPI_INT (Rank 1) (Tag 0) W req),
        call (MPI_Send (Ref ''buf0'' 0) buf_size MPI_INT 1 0 W),
        call (MPI_Wait req)]
      [if_c (rank = 1)
       [call (C_memset (Ref ''buf1'' 0) 1 (buf_size * 4)),
        call (MPI_Irecv (Ref ''buf0'' 0) buf_size MPI_INT (Rank 0) (Tag 0) W req),
        call (MPI_Wait req),
        call (MPI_Send (Ref ''buf1'' 0) buf_size MPI_INT 0 0 W)]]],
     call (MPI_Barrier W)]) @ mbi_end)"

text \<open>The response of \<open>MPI_Probe\<close> begins with \<open>status.MPI_SOURCE\<close>; \<open>x\<close> is a double.\<close>

definition no_error_p2p_probe_any_source :: prog where
  "no_error_p2p_probe_any_source = mbi_main [(''i'', 1), (''j'', 1), (''x'', 2)] (\<lambda>rank nprocs.
    [call (MPI_Barrier W),
     if_else (nprocs < 3) [call (C_printf ''! This test needs at least 3 processes !'')]
     [if_else (rank = 0)
       [call (C_store (Ref ''i'' 0) 0),
        call (MPI_Send (Ref ''i'' 0) 1 MPI_INT 2 0 W)]
      [if_else (rank = 1)
        [call (C_memset (Ref ''x'' 0) 1 8),
         call (MPI_Send (Ref ''x'' 0) 1 MPI_DOUBLE 2 0 W)]
       [if_c (rank = 2)
        [for_c (upto_lt 0 2) (\<lambda>j.
         [call_then (MPI_Probe MPI_ANY_SOURCE (Tag 0) W) (\<lambda>status.
          [if_else (out status 0 = 0)
            [call (MPI_Recv (Ref ''i'' 0) 1 MPI_INT (Rank 0) (Tag 0) W)]
            [call (MPI_Recv (Ref ''x'' 0) 1 MPI_DOUBLE (Rank 1) (Tag 0) W)]])])]]]],
     call (MPI_Barrier W)] @ mbi_end)"

text \<open>The response of \<open>MPI_Get_count\<close> is the count.\<close>

definition no_error_p2p_probe2 :: prog where
  "no_error_p2p_probe2 = mbi_main [(''mytag'', 1), (''ierr'', 1), (''icount'', 1), (''j'', 1)] (\<lambda>rank nprocs.
    (let mytag = 123 in
    [if_c (nprocs < 2) [call (C_printf ''! This test needs at least 2 processes !'')],
     call (C_store (Ref ''mytag'' 0) mytag),
     if_c (rank = 0)
      [call (C_store (Ref ''j'' 0) 200),
       call (C_store (Ref ''icount'' 0) 1),
       call (MPI_Send (Ref ''j'' 0) 1 MPI_INT 1 mytag W)],
     if_c (rank = 1)
      [call (MPI_Probe (Rank 0) (Tag mytag) W),
       call_then (MPI_Get_count MPI_INT (Ref ''icount'' 0)) (\<lambda>c.
       [call (C_malloc (Ref ''i_mem'' 0) (out c 0 * 4)),
        call (C_printf ''getting %d''),
        call (MPI_Recv (Ref ''i_mem'' 0) (out c 0) MPI_INT (Rank 0) (Tag mytag) W),
        call (C_printf ''i= ''),
        for_c (upto_lt 0 (out c 0)) (\<lambda>j. [call (C_load (Ref ''i_mem'' j)), call (C_printf ''%d '')]),
        call (C_printf [CHR 0x0A])])]]) @ mbi_end)"

definition no_error_p2p_sendrecv :: prog where
  "no_error_p2p_sendrecv = mbi_main [(''buf0'', buf_size), (''buf1'', buf_size)] (\<lambda>rank nprocs.
    (let sendrecv = (\<lambda>sbuf rbuf other.
           call (MPI_Sendrecv (Ref sbuf 0) buf_size MPI_INT other 0
                              (Ref rbuf 0) buf_size MPI_INT (Rank other) (Tag 0) W)) in
    [if_else (nprocs < 1) [call (C_printf ''! This test requires at least 2 processes'')]
     [if_else (rank = 0)
       [call (C_memset (Ref ''buf0'' 0) 0 (buf_size * 4)),
        sendrecv ''buf0'' ''buf1'' 1, sendrecv ''buf1'' ''buf0'' 1, sendrecv ''buf0'' ''buf1'' 1]
      [if_c (rank = 1)
       [call (C_memset (Ref ''buf1'' 0) 1 (buf_size * 4)),
        sendrecv ''buf1'' ''buf0'' 0, sendrecv ''buf0'' ''buf1'' 0, sendrecv ''buf1'' ''buf0'' 0]]]]) @ mbi_end)"

definition no_error_p2p_wait_any_src :: prog where
  "no_error_p2p_wait_any_src = mbi_main [(''buf0'', buf_size), (''buf1'', buf_size)] (\<lambda>rank nprocs.
    (let req = Ref ''req'' 0 in
    [call (MPI_Barrier W),
     if_else (nprocs < 2) [call (C_printf ''! This test needs at least 2 processes !'')]
     [if_else (rank = 0)
       [call (C_memset (Ref ''buf0'' 0) 0 (buf_size * 4)),
        call (MPI_Irecv (Ref ''buf1'' 0) buf_size MPI_INT MPI_ANY_SOURCE (Tag 0) W req),
        call (MPI_Send (Ref ''buf0'' 0) buf_size MPI_INT 1 0 W),
        call (MPI_Wait req)]
      [if_c (rank = 1)
       [call (C_memset (Ref ''buf1'' 0) 1 (buf_size * 4)),
        call (MPI_Irecv (Ref ''buf0'' 0) buf_size MPI_INT MPI_ANY_SOURCE (Tag 0) W req),
        call (MPI_Wait req),
        call (MPI_Send (Ref ''buf1'' 0) buf_size MPI_INT 0 0 W)]]],
     call (MPI_Barrier W)]) @ mbi_end)"

definition no_error_p2p_wait_any_src3 :: prog where
  "no_error_p2p_wait_any_src3 = mbi_main [(''buf0'', buf_size), (''buf1'', buf_size)] (\<lambda>rank nprocs.
    (let reqs = Ref ''reqs'' in
    [call (MPI_Barrier W),
     if_else (nprocs < 2) [call (C_printf ''! This test needs at least 2 processes !'')]
     [if_else (rank = 0)
       [call (MPI_Irecv (Ref ''buf0'' 0) buf_size MPI_INT MPI_ANY_SOURCE (Tag 0) W (reqs 0)),
        call (MPI_Irecv (Ref ''buf1'' 0) buf_size MPI_INT MPI_ANY_SOURCE (Tag 0) W (reqs 1)),
        call (MPI_Waitall 2 (reqs 0)),
        call (MPI_Send (Ref ''buf1'' 0) buf_size MPI_INT 1 1 W)]
      [if_else (rank = 1)
        [call (C_memset (Ref ''buf0'' 0) 0 (buf_size * 4)),
         call (MPI_Isend (Ref ''buf0'' 0) buf_size MPI_INT 0 0 W (reqs 0)),
         call (MPI_Isend (Ref ''buf0'' 0) buf_size MPI_INT 2 1 W (reqs 1)),
         call (MPI_Wait (reqs 0)),
         call (MPI_Send (Ref ''buf0'' 0) buf_size MPI_INT 0 0 W),
         call (MPI_Recv (Ref ''buf1'' 0) buf_size MPI_INT (Rank 0) (Tag 1) W),
         call (MPI_Wait (reqs 1))]
       [if_c (rank = 2)
         [call (MPI_Recv (Ref ''buf1'' 0) buf_size MPI_INT (Rank 1) (Tag 1) W)]]]],
     call (MPI_Barrier W)]) @ mbi_end)"

text \<open>In the source, \<open>iterations\<close> is the number 50000.\<close>

definition no_error_p2p_wait_any_src4 :: "nat \<Rightarrow> prog" where
  "no_error_p2p_wait_any_src4 iterations =
    mbi_main [(''buf'', 1), (''buf2'', 1), (''buf3'', 1), (''i'', 1)] (\<lambda>rank nprocs.
    (let request = Ref ''request'' 0; request2 = Ref ''request2'' 0;
         next = (rank + 1) smod nprocs; prev = (rank - 1 + nprocs) smod nprocs in
    [need_procs 4 nprocs,
     call (MPI_Irecv (Ref ''buf3'' 0) 1 MPI_INT MPI_ANY_SOURCE (Tag 666) W request),
     call (MPI_Send (Ref ''buf'' 0) 1 MPI_INT next 666 W),
     for_c (upto_lt 0 (int iterations)) (\<lambda>i.
      [call (MPI_Irecv (Ref ''buf2'' 0) 1 MPI_INT (Rank prev) (Tag 666) W request2),
       call (MPI_Send (Ref ''buf'' 0) 1 MPI_INT next 666 W),
       call (MPI_Wait request2)]),
     call (MPI_Wait request),
     call (MPI_Irecv (Ref ''buf2'' 0) 1 MPI_INT MPI_ANY_SOURCE (Tag 666) W request),
     call (MPI_Send (Ref ''buf'' 0) 1 MPI_INT next 666 W),
     call (MPI_Wait request)]) @ mbi_end)"

definition p2p_any_src_deadlock :: prog where
  "p2p_any_src_deadlock = mbi_main [(''buf0'', buf_size), (''buf1'', buf_size)] (\<lambda>rank nprocs.
    [call (MPI_Barrier W),
     if_else (nprocs < 3) [call (C_printf ''! This test needs at least 3 processes !'')]
     [if_else (rank = 0)
       [call (MPI_Recv (Ref ''buf1'' 0) buf_size MPI_INT MPI_ANY_SOURCE (Tag 0) W),
        call (MPI_Send (Ref ''buf1'' 0) buf_size MPI_INT 1 0 W),
        call (MPI_Recv (Ref ''buf0'' 0) buf_size MPI_INT MPI_ANY_SOURCE (Tag 0) W)]
      [if_else (rank = 1)
        [call (C_memset (Ref ''buf0'' 0) 0 (buf_size * 4)),
         call (MPI_Send (Ref ''buf0'' 0) buf_size MPI_INT 0 0 W),
         call (MPI_Recv (Ref ''buf1'' 0) buf_size MPI_INT (Rank 0) (Tag 0) W)]
       [if_c (rank = 2)
        [call (C_memset (Ref ''buf1'' 0) 1 (buf_size * 4)),
         call (MPI_Send (Ref ''buf1'' 0) buf_size MPI_INT 0 0 W)]]]],
     call (MPI_Barrier W)] @ mbi_end)"

definition p2p_any_src_wait_deadlock2 :: prog where
  "p2p_any_src_wait_deadlock2 = mbi_main [(''buf0'', buf_size), (''buf1'', buf_size)] (\<lambda>rank nprocs.
    (let req = Ref ''req'' 0 in
    [call (MPI_Barrier W),
     if_else (nprocs < 3) [call (C_printf ''! This test needs at least 3 processes !'')]
     [if_else (rank = 0)
       [call (MPI_Irecv (Ref ''buf0'' 0) buf_size MPI_INT MPI_ANY_SOURCE (Tag 0) W req),
        call (MPI_Recv (Ref ''buf1'' 0) buf_size MPI_INT (Rank 1) (Tag 0) W),
        call (MPI_Send (Ref ''buf1'' 0) buf_size MPI_INT 1 0 W),
        call (MPI_Recv (Ref ''buf1'' 0) buf_size MPI_INT MPI_ANY_SOURCE (Tag 0) W),
        call (MPI_Wait req)]
      [if_else (rank = 1)
        [call (C_memset (Ref ''buf0'' 0) 0 (buf_size * 4)),
         call (MPI_Send (Ref ''buf0'' 0) buf_size MPI_INT 0 0 W),
         call (MPI_Recv (Ref ''buf1'' 0) buf_size MPI_INT (Rank 0) (Tag 0) W),
         call (MPI_Send (Ref ''buf1'' 0) buf_size MPI_INT 0 0 W)]
       [if_c (rank = 2)
        [call (C_memset (Ref ''buf1'' 0) 1 (buf_size * 4)),
         call (MPI_Send (Ref ''buf1'' 0) buf_size MPI_INT 0 0 W)]]]],
     call (MPI_Barrier W)]) @ mbi_end)"

definition p2p_pers_deadlock :: prog where
  "p2p_pers_deadlock = mbi_main [(''flag'', 1), (''buf'', 4)] (\<lambda>rank nprocs.
    (let requests = Ref ''requests''; buf = Ref ''buf'' in
    [need_procs 3 nprocs,
     if_c (rank = 0)
      [call (MPI_Send (buf 0) 1 MPI_INT 1 666 W),
       call (MPI_Recv (buf 1) 1 MPI_INT (Rank 1) (Tag 666) W)],
     if_c (rank = 1)
      [call (MPI_Recv_init (buf 0) 1 MPI_INT (Rank 0) (Tag 666) W (requests 0)),
       call (MPI_Send_init (buf 1) 1 MPI_INT 0 666 W (requests 1)),
       call (MPI_Recv_init (buf 2) 1 MPI_INT (Rank 2) (Tag 123) W (requests 2)),
       call (MPI_Recv_init (buf 3) 1 MPI_INT MPI_ANY_SOURCE (Tag 444) W (requests 3)),
       call (MPI_Startall 4 (requests 0)),
       call (MPI_Waitall 4 (requests 0)),
       call (MPI_Request_free (requests 0)),
       call (MPI_Request_free (requests 1)),
       call (MPI_Request_free (requests 2)),
       call (MPI_Request_free (requests 3))],
     if_c (rank = 2) [call (MPI_Send (buf 0) 1 MPI_INT 1 123 W)]]) @ mbi_end)"

definition p2p_send_recv_count_error :: prog where
  "p2p_send_recv_count_error = mbi_main [] (\<lambda>rank nprocs.
    [need_procs 2 nprocs,
     if_c (rank = 1) [call (MPI_Send (Ref ''nprocs'' 0) (-1) MPI_INT 1 42 W)],
     if_c (rank = 0) [call (MPI_Recv (Ref ''nprocs'' 0) 1 MPI_INT (Rank 0) (Tag 42) W)]] @ mbi_end)"

text \<open>
  \<open>ITERATIONS\<close>, \<open>TYPES_PER_ITERATION\<close>, \<open>TYPES_LOST_PER_ITERATION\<close> and
  \<open>TYPES_TO_COMMIT\<close> are 10, 3, 1 and 1.
\<close>

definition p2p_type_no_free :: prog where
  "p2p_type_no_free = mbi_main [(''i'', 1), (''j'', 1), (''partner'', 1), (''buf_j'', 1), (''buf'', buf_size * 1)]
   (\<lambda>rank nprocs.
    (let newtype = Ref ''newtype''; reqs = Ref ''reqs'';
         partner = (if rank smod 2 \<noteq> 0 then rank - 1 else rank + 1) in
    [if_else (nprocs < 2) [call (C_printf ''! This test needs at least 2 processes !'')]
      [call (MPI_Barrier W),
       if_c (nprocs smod 2 = 0 \<or> rank \<noteq> nprocs - 1)
        [for_c (upto_lt 0 10) (\<lambda>i.
          [for_c (upto_lt 0 3) (\<lambda>j.
            (let buf_j = j + 1 - 3 in
            [call (MPI_Type_contiguous buf_size MPI_INT (newtype j)),
             if_c (buf_j \<ge> 0)
              [call (MPI_Type_commit (newtype j)),
               if_else (rank smod 2 \<noteq> 0)
                [call (MPI_Irecv (Ref ''buf'' (buf_j * buf_size)) 1 (Type_var (newtype j)) (Rank partner) (Tag buf_j) W (reqs buf_j))]
                [call (MPI_Isend (Ref ''buf'' (buf_j * buf_size)) 1 (Type_var (newtype j)) partner buf_j W (reqs buf_j))]],
             if_c (j < 3 - 1) [call (MPI_Type_free (newtype j))]])),
           call (MPI_Waitall 1 (reqs 0))])]],
     call (MPI_Barrier W)]) @ mbi_end)"

lemmas aside_codes [code_defs] = need_three_def fill_outbuf_def make_conti_def
  coll_allgather_type_len_error_def coll_allreduce_type_len_error_def coll_alltoall_type_len_error_def
  coll_alltoallv_type_len_error_def coll_alltoallw_type_len_error_def coll_exscan_type_len_error_def
  coll_scan_type_len_error_def coll_reduceScatterBlock_type_len_error_def coll_gather_type_len_error_def
  coll_scatter_type_len_error_def coll_scatterv_type_len_error_def RootMismatch_Bcast_def
  OrderErr_Reduce_Allreduce_def collective_reduce_root_mismatch_def coll_barrier_loop_mismatch_def
  coll_mismatch_barrier_inter_def no_error_coll_barrier_inter_def no_error_coll_barrier_def
  no_error_coll_barrierSTATIC_def no_error_coll_reduceScatter_def no_error_coll_datatype_def
  no_error_coll_grp_def no_error_coll_grp_excl_loop_def no_error_coll_op_unknown_def
  coll_op_null_error_def coll_op_predefined_error_def coll_bcast_type_undefined_def
  com_compare_error_def no_error_coll_barrier_bcast_def coll_bcast_com_mismatch_def
  no_error_p2p_irecv_send_def no_error_p2p_probe_any_source_def no_error_p2p_probe2_def
  no_error_p2p_sendrecv_def no_error_p2p_wait_any_src_def no_error_p2p_wait_any_src3_def
  no_error_p2p_wait_any_src4_def p2p_any_src_deadlock_def p2p_any_src_wait_deadlock2_def
  p2p_pers_deadlock_def p2p_send_recv_count_error_def p2p_type_no_free_def
  no_error_topo_cart_def coll_bcast_deadlock_def rma_PSCW_error_remote_WW_def

end
