(* ===== verification/Bench.thy ===== *)
theory Bench
  imports CMpi
begin

text \<open>
  The part of MBI.py that reads the header of a code, knows the outcomes a test may have,
  and judges what a tool answered. A Python exception is \<open>Inl\<close> of a value that names the
  statement raising it; the lines of a file are strings without the final newline.
\<close>

section \<open>Outcomes and scopes\<close>

text \<open>The keys of the dictionary \<open>possible_details\<close>.\<close>

datatype detail =
    InvalidCommunicator | InvalidDatatype | InvalidRoot | InvalidTag | InvalidWindow
  | InvalidOperator | InvalidOtherArg | ActualDatatype | InvalidSrcDest
  | CommunicatorLeak | DatatypeLeak | GroupLeak | OperatorLeak | TypeLeak | RequestLeak
  | MissingStart | MissingWait | LocalConcurrency
  | CallMatching | CommunicatorMatching | DatatypeMatching | OperatorMatching
  | RootMatching | TagMatching | MessageRace | GlobalConcurrency | OK

text \<open>Its values, which are the keys of \<open>error_scope\<close>.\<close>

datatype category = AInvalidParam | BResLeak | BReqLifecycle | BLocalConcurrency
  | CMatch | DRace | DMatch | DGlobalConcurrency | FOK

definition detail_names :: "(string \<times> detail) list" where
  "detail_names =
    [(''InvalidCommunicator'', InvalidCommunicator), (''InvalidDatatype'', InvalidDatatype),
     (''InvalidRoot'', InvalidRoot), (''InvalidTag'', InvalidTag),
     (''InvalidWindow'', InvalidWindow), (''InvalidOperator'', InvalidOperator),
     (''InvalidOtherArg'', InvalidOtherArg), (''ActualDatatype'', ActualDatatype),
     (''InvalidSrcDest'', InvalidSrcDest),
     (''CommunicatorLeak'', CommunicatorLeak), (''DatatypeLeak'', DatatypeLeak),
     (''GroupLeak'', GroupLeak), (''OperatorLeak'', OperatorLeak), (''TypeLeak'', TypeLeak),
     (''RequestLeak'', RequestLeak), (''MissingStart'', MissingStart),
     (''MissingWait'', MissingWait), (''LocalConcurrency'', LocalConcurrency),
     (''CallMatching'', CallMatching), (''CommunicatorMatching'', CommunicatorMatching),
     (''DatatypeMatching'', DatatypeMatching), (''OperatorMatching'', OperatorMatching),
     (''RootMatching'', RootMatching), (''TagMatching'', TagMatching),
     (''MessageRace'', MessageRace), (''GlobalConcurrency'', GlobalConcurrency), (''OK'', OK)]"

fun possible_details :: "detail \<Rightarrow> category" where
  "possible_details InvalidCommunicator = AInvalidParam"
| "possible_details InvalidDatatype = AInvalidParam"
| "possible_details InvalidRoot = AInvalidParam"
| "possible_details InvalidTag = AInvalidParam"
| "possible_details InvalidWindow = AInvalidParam"
| "possible_details InvalidOperator = AInvalidParam"
| "possible_details InvalidOtherArg = AInvalidParam"
| "possible_details ActualDatatype = AInvalidParam"
| "possible_details InvalidSrcDest = AInvalidParam"
| "possible_details CommunicatorLeak = BResLeak"
| "possible_details DatatypeLeak = BResLeak"
| "possible_details GroupLeak = BResLeak"
| "possible_details OperatorLeak = BResLeak"
| "possible_details TypeLeak = BResLeak"
| "possible_details RequestLeak = BResLeak"
| "possible_details MissingStart = BReqLifecycle"
| "possible_details MissingWait = BReqLifecycle"
| "possible_details LocalConcurrency = BLocalConcurrency"
| "possible_details CallMatching = DMatch"
| "possible_details CommunicatorMatching = CMatch"
| "possible_details DatatypeMatching = CMatch"
| "possible_details OperatorMatching = CMatch"
| "possible_details RootMatching = CMatch"
| "possible_details TagMatching = CMatch"
| "possible_details MessageRace = DRace"
| "possible_details GlobalConcurrency = DGlobalConcurrency"
| "possible_details OK = FOK"

datatype scope = Single_call | Single_process | Multi_processes | Correct_executions

fun error_scope :: "category \<Rightarrow> scope" where
  "error_scope AInvalidParam = Single_call"
| "error_scope BResLeak = Single_process"
| "error_scope BReqLifecycle = Single_process"
| "error_scope BLocalConcurrency = Single_process"
| "error_scope CMatch = Multi_processes"
| "error_scope DRace = Multi_processes"
| "error_scope DMatch = Multi_processes"
| "error_scope DGlobalConcurrency = Multi_processes"
| "error_scope FOK = Correct_executions"

section \<open>Reading the tests of a header\<close>

text \<open>
  The regular expressions of \<open>parse_one_code\<close>. \<open>re.match\<close> anchors at the start of
  the line; \<open>.*X.*\<close> therefore says that X occurs in the line.
\<close>

fun starts_with :: "string \<Rightarrow> string \<Rightarrow> bool" where
  "starts_with [] s = True"
| "starts_with (p # ps) [] = False"
| "starts_with (p # ps) (c # cs) = (p = c \<and> starts_with ps cs)"

fun occurs_in :: "string \<Rightarrow> string \<Rightarrow> bool" where
  "occurs_in p [] = (p = [])"
| "occurs_in p (c # cs) = (starts_with p (c # cs) \<or> occurs_in p cs)"

definition is_space :: "char \<Rightarrow> bool" where
  "is_space c \<longleftrightarrow> c = CHR '' '' \<or> c = CHR 0x09 \<or> c = CHR 0x0A \<or> c = CHR 0x0B \<or> c = CHR 0x0C \<or> c = CHR 0x0D
     \<or> c = CHR 0x1C \<or> c = CHR 0x1D \<or> c = CHR 0x1E \<or> c = CHR 0x1F \<or> c = CHR 0x85 \<or> c = CHR 0xA0"

text \<open>\<open>\\s+\\$ ?(.*)\<close>: the group, if the line matches.\<close>

definition match_command :: "string \<Rightarrow> string option" where
  "match_command line =
     (case dropWhile is_space line of
        c # rest \<Rightarrow>
          if c = CHR ''$'' \<and> takeWhile is_space line \<noteq> []
          then Some (case rest of d # rest' \<Rightarrow> if d = CHR '' '' then rest' else rest | [] \<Rightarrow> [])
          else None
      | [] \<Rightarrow> None)"

definition drop_bars :: "string \<Rightarrow> string" where
  "drop_bars = dropWhile (\<lambda>c. c = CHR '' '' \<or> c = CHR ''|'')"

text \<open>\<open>[ |]*OK *\<close> and \<open>[ |]*ERROR: *(.*)\<close>.\<close>

definition match_ok :: "string \<Rightarrow> bool" where
  "match_ok line = starts_with ''OK'' (drop_bars line)"

definition match_error :: "string \<Rightarrow> string option" where
  "match_error line =
     (let s = drop_bars line in
      if starts_with ''ERROR:'' s then Some (dropWhile (\<lambda>c. c = CHR '' '') (drop 6 s)) else None)"

datatype parse_error =
    Appears_a_second_time
  | Unexpected_end
  | No_next_line
  | Not_followed_by_ERROR
  | Detail_not_allowed string
  | Header_not_found
  | Header_not_ended
  | No_test_found

datatype expectation = Expect_OK | Expect_ERROR

record todo =
  todo_filename :: string
  todo_id :: nat
  todo_cmd :: string
  todo_expect :: expectation
  todo_detail :: detail

text \<open>
  The loop of \<open>parse_one_code\<close>: \<open>st\<close> is its variable \<open>state\<close> (0 before the
  header, 1 in it, 2 after it), \<open>res\<close> its list of tests; \<open>next(input)\<close> consumes
  the line after a command. The test number is the length of \<open>res\<close>.
\<close>

definition next_state :: "string \<Rightarrow> nat \<Rightarrow> parse_error + nat" where
  "next_state line st =
     (if occurs_in ''BEGIN_MBI_TESTS'' line then
        if st = 0 then Inr 1 else Inl Appears_a_second_time
      else if occurs_in ''END_MBI_TESTS'' line then
        if st = 1 then Inr 2 else Inl Unexpected_end
      else Inr st)"

definition read_answer :: "string \<Rightarrow> nat \<Rightarrow> string \<Rightarrow> string \<Rightarrow> parse_error + todo" where
  "read_answer fn n cmd nextline =
     (if match_ok nextline then
        Inr \<lparr>todo_filename = fn, todo_id = n, todo_cmd = cmd, todo_expect = Expect_OK, todo_detail = OK\<rparr>
      else
        case match_error nextline of
          None \<Rightarrow> Inl Not_followed_by_ERROR
        | Some d \<Rightarrow>
           (case aget detail_names d of
              None \<Rightarrow> Inl (Detail_not_allowed d)
            | Some dd \<Rightarrow>
                Inr \<lparr>todo_filename = fn, todo_id = n, todo_cmd = cmd, todo_expect = Expect_ERROR,
                     todo_detail = dd\<rparr>))"

fun parse_lines :: "string \<Rightarrow> string list \<Rightarrow> nat \<Rightarrow> todo list \<Rightarrow> parse_error + (nat \<times> todo list)" where
  "parse_lines fn [] st res = Inr (st, res)"
| "parse_lines fn (line # rest) st res =
     (case next_state line st of
        Inl e \<Rightarrow> Inl e
      | Inr st' \<Rightarrow>
         (case (if st' = 1 then match_command line else None) of
            None \<Rightarrow> parse_lines fn rest st' res
          | Some cmd \<Rightarrow>
             (case rest of
                [] \<Rightarrow> Inl No_next_line
              | nextline # rest' \<Rightarrow>
                 (case read_answer fn (length res) cmd nextline of
                    Inl e \<Rightarrow> Inl e
                  | Inr t \<Rightarrow> parse_lines fn rest' st' (res @ [t])))))"

definition parse_one_code :: "string \<Rightarrow> string list \<Rightarrow> parse_error + todo list" where
  "parse_one_code fn input =
     (case parse_lines fn input 0 [] of
        Inl e \<Rightarrow> Inl e
      | Inr (st, res) \<Rightarrow>
          if st = 0 then Inl Header_not_found
          else if st = 1 then Inl Header_not_ended
          else if res = [] then Inl No_test_found
          else Inr res)"

section \<open>Judging the answer of a tool\<close>

text \<open>
  \<open>categorize\<close>: the outcome is what the tool's own parser returned. Only its comparison
  with the words below matters; any other word is the report of an error. \<open>elapsed\<close> says
  whether one of the two files with the elapsed time exists.
\<close>

datatype tool_outcome = T_timeout | T_failure | T_UNIMPLEMENTED | T_other | T_OK | T_error string

datatype res_category = R_timeout | R_failure | R_unimplemented | R_other
  | TRUE_NEG | FALSE_POS | FALSE_NEG | TRUE_POS

datatype categorize_error = Invalid_test_result | Unexpected_expectation string

definition categorize :: "bool \<Rightarrow> tool_outcome \<Rightarrow> string \<Rightarrow> categorize_error + res_category" where
  "categorize elapsed outcome expected =
     (if \<not> elapsed \<and> outcome \<noteq> T_failure then Inl Invalid_test_result
      else if outcome = T_timeout then Inr R_timeout
      else if outcome = T_failure then Inr R_failure
      else if outcome = T_UNIMPLEMENTED then Inr R_unimplemented
      else if outcome = T_other then Inr R_other
      else if expected = ''OK'' then
        (if outcome = T_OK then Inr TRUE_NEG else Inr FALSE_POS)
      else if expected = ''ERROR'' then
        (if outcome = T_OK then Inr FALSE_NEG else Inr TRUE_POS)
      else Inl (Unexpected_expectation expected))"

fun expectation_word :: "expectation \<Rightarrow> string" where
  "expectation_word Expect_OK = ''OK''"
| "expectation_word Expect_ERROR = ''ERROR''"

section \<open>The statistics of a tool\<close>

text \<open>
  \<open>results\<close> of \<open>cmd_latex\<close> for one tool: the number of tests in each list
  \<open>results[error][toolname][res_category]\<close>, in \<open>results['total']\<close> and in
  \<open>results['error']\<close>, where the code appends the test's name.
\<close>

record tally =
  per_error :: "category \<Rightarrow> res_category \<Rightarrow> nat"
  total :: "res_category \<Rightarrow> nat"
  total_OK :: nat
  total_error :: nat
  error_only :: "res_category \<Rightarrow> nat"

definition empty_tally :: tally where
  "empty_tally = \<lparr>per_error = (\<lambda>_ _. 0), total = (\<lambda>_. 0), total_OK = 0, total_error = 0,
                  error_only = (\<lambda>_. 0)\<rparr>"

text \<open>
  A test with what \<open>categorize\<close> finds on the disk: whether a file with the elapsed time is
  there (it is assumed to hold a number), and what the tool's parser returned.
\<close>

type_synonym judged = "todo \<times> bool \<times> tool_outcome"

definition count_test :: "judged \<Rightarrow> tally \<Rightarrow> categorize_error + tally" where
  "count_test x r =
     (case x of (t, elapsed, outcome) \<Rightarrow>
       (case categorize elapsed outcome (expectation_word (todo_expect t)) of
          Inl e \<Rightarrow> Inl e
        | Inr c \<Rightarrow>
            let err = possible_details (todo_detail t);
                r1 = r\<lparr>per_error := (per_error r)(err := (per_error r err)(c := Suc (per_error r err c))),
                       total := (total r)(c := Suc (total r c))\<rparr>
            in Inr (if todo_expect t = Expect_OK then r1\<lparr>total_OK := Suc (total_OK r)\<rparr>
                    else r1\<lparr>total_error := Suc (total_error r),
                            error_only := (error_only r)(c := Suc (error_only r c))\<rparr>)))"

fun count_tests :: "judged list \<Rightarrow> tally \<Rightarrow> categorize_error + tally" where
  "count_tests [] r = Inr r"
| "count_tests (x # xs) r =
     (case count_test x r of Inl e \<Rightarrow> Inl e | Inr r' \<Rightarrow> count_tests xs r')"

text \<open>
  The four numbers of a tool in a line of the table per category, build errors, failures,
  incorrect and correct answers, and those of its last line, which adds up the categories.
\<close>

definition error_categories :: "category list" where
  "error_categories = [AInvalidParam, BResLeak, BReqLifecycle, BLocalConcurrency, CMatch, DRace,
     DMatch, DGlobalConcurrency, FOK]"

definition table_line :: "tally \<Rightarrow> category \<Rightarrow> nat \<times> nat \<times> nat \<times> nat" where
  "table_line r e =
     (let n = per_error r e in
      (n R_unimplemented + n R_other, n R_failure + n R_timeout,
       n FALSE_POS + n FALSE_NEG, n TRUE_POS + n TRUE_NEG))"

definition table_total :: "tally \<Rightarrow> nat \<times> nat \<times> nat \<times> nat" where
  "table_total r =
     (let n = (\<lambda>c. sum_list (map (\<lambda>e. per_error r e c) error_categories)) in
      (n R_unimplemented + n R_other, n R_failure + n R_timeout,
       n FALSE_POS + n FALSE_NEG, n TRUE_POS + n TRUE_NEG))"

text \<open>The neighbours of a process in a ring.\<close>

lemma next_rank:
  assumes "world_env rank nprocs env" and "2 \<le> nprocs"
  shows "0 \<le> (rank + 1) smod nprocs" and "(rank + 1) smod nprocs < nprocs"
  using world_env_rank [OF assms(1)] assms(2) by (simp_all add: smod_int_compares)

lemma prev_rank:
  assumes "world_env rank nprocs env" and "2 \<le> nprocs"
  shows "0 \<le> (rank - 1 + nprocs) smod nprocs" and "(rank - 1 + nprocs) smod nprocs < nprocs"
  using world_env_rank [OF assms(1)] assms(2) by (simp_all add: smod_int_compares)

end
