(* ===== verification/Local.thy ===== *)
theory Local
  imports Bench
begin

text \<open>
  What the error labels of README.md promise about one process. The checks follow the calls
  of a run and collect the errors whose scope, in MBI.py, is a single call or a single
  process: invalid parameters, leaked resources, the life cycle of requests, and local
  concurrency between a pending operation and a later access to its buffer. They are the
  specification the codes are verified against; they look at one process only and assume
  nothing about the others, except that all processes create the windows they share with
  the same arguments.
\<close>

section \<open>State\<close>

datatype local_error = Mbi detail | OutOfInitFini | BufferOverflow | UndefinedHandle
  | WindowLeak | NoEpoch

datatype phase = Before_init | Running | Finalized

text \<open>A region of memory: the object, the first byte and the byte after the last.\<close>

type_synonym region = "string \<times> int \<times> int"

text \<open>A request object; \<open>writes\<close> tells a receive from a send.\<close>

record request =
  writes :: bool
  mem :: "region option"
  active :: bool
  persistent :: bool
  live :: bool

datatype comm_kind = Intra | Inter | Cart int

record window =
  win_bytes :: int
  win_unit :: int
  locked :: "int list"
  fenced :: bool
  started_for :: "int list"
  posted :: bool
  rma_pending :: "(bool \<times> region option) list"

datatype op_handle = Null_op | Predefined_op | Created_op nat

text \<open>
  A variable of a handle type is unbound, null (\<open>None\<close>), or holds a handle. Requests,
  datatypes, operators and groups are numbered in the order of creation; of the last two the
  tables \<open>otab\<close> and \<open>gtab\<close> say whether they still exist, and \<open>gtab\<close> which ranks of
  \<open>MPI_COMM_WORLD\<close> are in the group.
\<close>

record lstate =
  me :: int
  np :: int
  phase :: phase
  objs :: "(string \<times> int) list"
  rvar :: "(ptr \<times> nat option) list"
  rtab :: "request list"
  tvar :: "(ptr \<times> nat option) list"
  ttab :: "(int \<times> bool \<times> bool) list"
  ovar :: "(ptr \<times> op_handle) list"
  otab :: "bool list"
  gvar :: "(ptr \<times> nat option) list"
  gtab :: "(int list \<times> bool) list"
  cvar :: "(ptr \<times> comm_kind option) list"
  wvar :: "(ptr \<times> window option) list"
  errs :: "local_error list"

definition lstart :: "int \<Rightarrow> int \<Rightarrow> lstate" where
  "lstart rank nprocs = \<lparr>me = rank, np = nprocs, phase = Before_init, objs = [], rvar = [],
     rtab = [], tvar = [], ttab = [], ovar = [], otab = [], gvar = [], gtab = [], cvar = [], wvar = [], errs = []\<rparr>"

definition add_err :: "local_error \<Rightarrow> lstate \<Rightarrow> lstate" where
  "add_err e s = s\<lparr>errs := errs s @ [e]\<rparr>"

definition chk :: "bool \<Rightarrow> local_error \<Rightarrow> lstate \<Rightarrow> lstate" where
  "chk b e s = (if b then s else add_err e s)"

section \<open>Memory\<close>

text \<open>The objects the codes declare have elements of \<open>sizeof(int)\<close> bytes.\<close>

fun region_of :: "ptr \<Rightarrow> int \<Rightarrow> region option" where
  "region_of NULL n = None"
| "region_of (Ref x i) n = Some (x, 4 * i, 4 * i + n)"

fun overlap :: "region option \<Rightarrow> region option \<Rightarrow> bool" where
  "overlap (Some (x, lo, hi)) (Some (y, lo', hi')) = (x = y \<and> lo < hi' \<and> lo' < hi)"
| "overlap _ _ = False"

fun in_object :: "(string \<times> int) list \<Rightarrow> region option \<Rightarrow> bool" where
  "in_object os None = False"
| "in_object os (Some (x, lo, hi)) =
     (case aget os x of None \<Rightarrow> False | Some n \<Rightarrow> 0 \<le> lo \<and> hi \<le> 4 * n)"

text \<open>A pending operation conflicts with an access when one of the two writes.\<close>

definition conflicts :: "lstate \<Rightarrow> bool \<Rightarrow> region option \<Rightarrow> bool" where
  "conflicts s w r \<longleftrightarrow>
     list_ex (\<lambda>q. active q \<and> (w \<or> writes q) \<and> overlap (mem q) r) (rtab s) \<or>
     list_ex (\<lambda>(p, w'). case w' of None \<Rightarrow> False
        | Some v \<Rightarrow> list_ex (\<lambda>(w2, r2). (w \<or> w2) \<and> overlap r2 r) (rma_pending v)) (wvar s)"

text \<open>\<open>n\<close> bytes at \<open>p\<close> are read (\<open>w = False\<close>) or written; none when \<open>n\<close> is 0.\<close>

definition access :: "bool \<Rightarrow> ptr \<Rightarrow> int \<Rightarrow> lstate \<Rightarrow> lstate" where
  "access w p n s =
     (if n = 0 then s
      else chk (\<not> conflicts s w (region_of p n)) (Mbi LocalConcurrency)
             (chk (in_object (objs s) (region_of p n)) BufferOverflow s))"

section \<open>Datatypes and communicators\<close>

text \<open>The size of a datatype in bytes; \<open>need_commit\<close> for its use in communication.\<close>

fun type_size :: "lstate \<Rightarrow> bool \<Rightarrow> dtype \<Rightarrow> int option" where
  "type_size s need_commit MPI_INT = Some 4"
| "type_size s need_commit MPI_DOUBLE = Some 8"
| "type_size s need_commit MPI_FLOAT = Some 4"
| "type_size s need_commit MPI_BYTE = Some 1"
| "type_size s need_commit MPI_DATATYPE_NULL = None"
| "type_size s need_commit (Type_var p) =
     (case aget (tvar s) p of
        Some (Some h) \<Rightarrow>
          (case ttab s ! h of (n, committed, freed) \<Rightarrow>
             if freed \<or> need_commit \<and> \<not> committed then None else Some n)
      | _ \<Rightarrow> None)"

fun comm_ok :: "lstate \<Rightarrow> comm \<Rightarrow> bool" where
  "comm_ok s MPI_COMM_WORLD = True"
| "comm_ok s MPI_COMM_NULL = False"
| "comm_ok s (Comm_var p) = (case aget (cvar s) p of Some (Some _) \<Rightarrow> True | _ \<Rightarrow> False)"

fun comm_kind_of :: "lstate \<Rightarrow> comm \<Rightarrow> comm_kind option" where
  "comm_kind_of s MPI_COMM_WORLD = Some Intra"
| "comm_kind_of s MPI_COMM_NULL = None"
| "comm_kind_of s (Comm_var p) = (case aget (cvar s) p of Some k \<Rightarrow> k | None \<Rightarrow> None)"

fun op_ok :: "lstate \<Rightarrow> mpi_op \<Rightarrow> bool" where
  "op_ok s MPI_SUM = True"
| "op_ok s MPI_OP_NULL = False"
| "op_ok s (Op_var p) =
     (case aget (ovar s) p of
        Some Predefined_op \<Rightarrow> True
      | Some (Created_op n) \<Rightarrow> otab s ! n
      | _ \<Rightarrow> False)"

definition group_ok :: "lstate \<Rightarrow> ptr \<Rightarrow> bool" where
  "group_ok s p \<longleftrightarrow> (case aget (gvar s) p of Some (Some n) \<Rightarrow> snd (gtab s ! n) | _ \<Rightarrow> False)"

definition group_ranks :: "lstate \<Rightarrow> ptr \<Rightarrow> int list" where
  "group_ranks s p = (case aget (gvar s) p of Some (Some n) \<Rightarrow> fst (gtab s ! n) | _ \<Rightarrow> [])"

text \<open>The ranks of a communicator's group, of which only those of \<open>MPI_COMM_WORLD\<close> are
  followed, and those kept by the constructors of groups.\<close>

fun comm_ranks :: "lstate \<Rightarrow> comm \<Rightarrow> int list" where
  "comm_ranks s MPI_COMM_WORLD = upto_lt 0 (np s)"
| "comm_ranks s c = []"

definition incl_ranks :: "int list \<Rightarrow> int list \<Rightarrow> int list" where
  "incl_ranks gs rs = map (\<lambda>i. gs ! nat i) rs"

definition excl_ranks :: "int list \<Rightarrow> int list \<Rightarrow> int list" where
  "excl_ranks gs rs = map (\<lambda>i. gs ! i) [i \<leftarrow> [0..<length gs]. int i \<notin> set rs]"

text \<open>A buffer of \<open>n\<close> elements of type \<open>d\<close> is used by a communication call.\<close>

definition use_buf :: "bool \<Rightarrow> ptr \<Rightarrow> int \<Rightarrow> dtype \<Rightarrow> lstate \<Rightarrow> lstate" where
  "use_buf w p n d s =
     (let s1 = chk (0 \<le> n) (Mbi InvalidOtherArg) s in
      case type_size s True d of
        None \<Rightarrow> add_err (Mbi InvalidDatatype) s1
      | Some b \<Rightarrow> access w p (n * b) s1)"

definition bytes_of :: "lstate \<Rightarrow> int \<Rightarrow> dtype \<Rightarrow> int" where
  "bytes_of s n d = (case type_size s True d of None \<Rightarrow> 0 | Some b \<Rightarrow> n * b)"

definition dest_ok :: "lstate \<Rightarrow> int \<Rightarrow> bool" where
  "dest_ok s r \<longleftrightarrow> 0 \<le> r \<and> r < np s"

fun source_ok :: "lstate \<Rightarrow> source \<Rightarrow> bool" where
  "source_ok s MPI_ANY_SOURCE = True"
| "source_ok s (Rank r) = dest_ok s r"

fun rtag_ok :: "rtag \<Rightarrow> bool" where
  "rtag_ok MPI_ANY_TAG = True"
| "rtag_ok (Tag t) = (0 \<le> t)"

definition send_args :: "int \<Rightarrow> int \<Rightarrow> comm \<Rightarrow> lstate \<Rightarrow> lstate" where
  "send_args dst t c s =
     chk (dest_ok s dst) (Mbi InvalidSrcDest) (chk (0 \<le> t) (Mbi InvalidTag)
       (chk (comm_ok s c) (Mbi InvalidCommunicator) s))"

definition recv_args :: "source \<Rightarrow> rtag \<Rightarrow> comm \<Rightarrow> lstate \<Rightarrow> lstate" where
  "recv_args src t c s =
     chk (source_ok s src) (Mbi InvalidSrcDest) (chk (rtag_ok t) (Mbi InvalidTag)
       (chk (comm_ok s c) (Mbi InvalidCommunicator) s))"

section \<open>Requests\<close>

text \<open>A new request is stored in the variable \<open>p\<close>; losing an active one is an error.\<close>

definition new_request :: "ptr \<Rightarrow> request \<Rightarrow> lstate \<Rightarrow> lstate" where
  "new_request p q s =
     (let s1 = (case aget (rvar s) p of
                  Some (Some h) \<Rightarrow> chk (\<not> (active (rtab s ! h) \<and> live (rtab s ! h))) (Mbi MissingWait) s
                | _ \<Rightarrow> s)
      in s1\<lparr>rvar := aput (rvar s) p (Some (length (rtab s))), rtab := rtab s @ [q]\<rparr>)"

text \<open>A wait (or successful test) on the variable \<open>p\<close>.\<close>

definition complete :: "ptr \<Rightarrow> lstate \<Rightarrow> lstate" where
  "complete p s =
     (case aget (rvar s) p of
        None \<Rightarrow> add_err UndefinedHandle s
      | Some None \<Rightarrow> s
      | Some (Some h) \<Rightarrow>
          let q = rtab s ! h in
          if \<not> live q then add_err UndefinedHandle s
          else if persistent q then s\<lparr>rtab := (rtab s)[h := q\<lparr>active := False\<rparr>]\<rparr>
          else s\<lparr>rtab := (rtab s)[h := q\<lparr>active := False, live := False\<rparr>],
                 rvar := aput (rvar s) p None\<rparr>)"

text \<open>A wait that leaves the request alone: it must still name a valid handle.\<close>

definition inspect :: "ptr \<Rightarrow> lstate \<Rightarrow> lstate" where
  "inspect p s =
     (case aget (rvar s) p of
        None \<Rightarrow> add_err UndefinedHandle s
      | Some None \<Rightarrow> s
      | Some (Some h) \<Rightarrow> chk (live (rtab s ! h)) UndefinedHandle s)"

definition start :: "ptr \<Rightarrow> lstate \<Rightarrow> lstate" where
  "start p s =
     (case aget (rvar s) p of
        Some (Some h) \<Rightarrow>
          let q = rtab s ! h in
          if \<not> live q \<or> \<not> persistent q then add_err UndefinedHandle s
          else if active q then add_err (Mbi MissingWait) s
          else (chk (\<not> conflicts s (writes q) (mem q)) (Mbi LocalConcurrency) s)
                 \<lparr>rtab := (rtab s)[h := q\<lparr>active := True\<rparr>]\<rparr>
      | _ \<Rightarrow> add_err UndefinedHandle s)"

text \<open>Freeing the handle of an active operation does not stop the operation.\<close>

definition request_free :: "ptr \<Rightarrow> lstate \<Rightarrow> lstate" where
  "request_free p s =
     (case aget (rvar s) p of
        Some (Some h) \<Rightarrow>
          if live (rtab s ! h) then
            s\<lparr>rtab := (rtab s)[h := (rtab s ! h)\<lparr>live := False\<rparr>], rvar := aput (rvar s) p None\<rparr>
          else add_err UndefinedHandle s
      | _ \<Rightarrow> add_err UndefinedHandle s)"

definition for_each :: "int \<Rightarrow> (ptr \<Rightarrow> lstate \<Rightarrow> lstate) \<Rightarrow> ptr \<Rightarrow> lstate \<Rightarrow> lstate" where
  "for_each n f p s = fold (\<lambda>i. f (padd p i)) (upto_lt 0 n) s"

text \<open>The i-th request of an array, completed when \<open>i\<close> is among the indices reported.\<close>

definition complete_listed :: "int list \<Rightarrow> ptr \<Rightarrow> lstate \<Rightarrow> lstate" where
  "complete_listed is p s = fold (\<lambda>i. complete (padd p i)) is s"

section \<open>One call\<close>

fun chk_sys :: "sys_call \<Rightarrow> resp \<Rightarrow> lstate \<Rightarrow> lstate" where
  "chk_sys Init r s = chk (phase s = Before_init) OutOfInitFini s \<lparr>phase := Running\<rparr>"
| "chk_sys Finalize r s =
     (let s1 = chk (\<not> list_ex (\<lambda>q. active q \<and> live q) (rtab s)) (Mbi RequestLeak) s;
          s2 = chk (\<not> list_ex (\<lambda>q. persistent q \<and> live q \<and> \<not> active q) (rtab s)) (Mbi RequestLeak) s1;
          s3 = chk (\<not> list_ex (\<lambda>(n, c, freed). \<not> freed) (ttab s)) (Mbi DatatypeLeak) s2;
          s4 = chk (\<not> list_ex (\<lambda>(p, k). k \<noteq> None) (cvar s)) (Mbi CommunicatorLeak) s3;
          s5 = chk (\<not> list_ex (\<lambda>(p, w). w \<noteq> None) (wvar s)) WindowLeak s4;
          s6 = chk (\<not> list_ex id (otab s)) (Mbi OperatorLeak) s5;
          s7 = chk (\<not> list_ex snd (gtab s)) (Mbi GroupLeak) s6
      in s7\<lparr>phase := Finalized\<rparr>)"
| "chk_sys (Abort c n) r s = s"
| "chk_sys (Comm_size c p) r s = chk (comm_ok s c) (Mbi InvalidCommunicator) (access True p 4 s)"
| "chk_sys (Comm_rank c p) r s = chk (comm_ok s c) (Mbi InvalidCommunicator) (access True p 4 s)"
| "chk_sys (Get_processor_name p l) r s = s"
| "chk_sys (Buffer_attach p n) r s = chk (0 \<le> n) (Mbi InvalidOtherArg) s"
| "chk_sys (Buffer_detach p l) r s = access True l 4 s"

fun chk_p2p :: "p2p_call \<Rightarrow> resp \<Rightarrow> lstate \<Rightarrow> lstate" where
  "chk_p2p (Send m b n d dst t c) r s = use_buf False b n d (send_args dst t c s)"
| "chk_p2p (Recv b n d src t c) r s = use_buf True b n d (recv_args src t c s)"
| "chk_p2p (Sendrecv b n d dst t b' n' d' src t' c) r s =
     (let s1 = use_buf True b' n' d' (use_buf False b n d (recv_args src t' c (send_args dst t c s)))
      in chk (\<not> overlap (region_of b (bytes_of s n d)) (region_of b' (bytes_of s n' d')))
           (Mbi LocalConcurrency) s1)"
| "chk_p2p (Probe src t c) r s = recv_args src t c s"
| "chk_p2p (Get_count d p) r s = access True p 4 s"
| "chk_p2p (Isend m b n d dst t c p) r s =
     new_request p \<lparr>writes = False, mem = region_of b (bytes_of s n d), active = True,
         persistent = False, live = True\<rparr>
       (use_buf False b n d (send_args dst t c s))"
| "chk_p2p (Irecv b n d src t c p) r s =
     new_request p \<lparr>writes = True, mem = region_of b (bytes_of s n d), active = True,
         persistent = False, live = True\<rparr>
       (use_buf True b n d (recv_args src t c s))"
| "chk_p2p (Send_init m b n d dst t c p) r s =
     new_request p \<lparr>writes = False, mem = region_of b (bytes_of s n d), active = False,
         persistent = True, live = True\<rparr>
       (chk (in_object (objs s) (region_of b (bytes_of s n d))) BufferOverflow (send_args dst t c s))"
| "chk_p2p (Recv_init b n d src t c p) r s =
     new_request p \<lparr>writes = True, mem = region_of b (bytes_of s n d), active = False,
         persistent = True, live = True\<rparr>
       (chk (in_object (objs s) (region_of b (bytes_of s n d))) BufferOverflow (recv_args src t c s))"

fun chk_req :: "req_call \<Rightarrow> resp \<Rightarrow> lstate \<Rightarrow> lstate" where
  "chk_req (Start p) r s = start p s"
| "chk_req (Startall n p) r s = for_each n start p s"
| "chk_req (Request_free p) r s = request_free p s"
| "chk_req (Wait p) r s = complete p s"
| "chk_req (Waitall n p) r s = for_each n complete p s"
| "chk_req (Waitany n p) r s = complete_listed [i \<leftarrow> [out r 0]. 0 \<le> i \<and> i < n] p (for_each n inspect p s)"
| "chk_req (Waitsome n p) r s =
     complete_listed [i \<leftarrow> take (nat (out r 0)) (tl r). 0 \<le> i \<and> i < n] p (for_each n inspect p s)"
| "chk_req (Test p) r s = (if out r 0 \<noteq> 0 then complete p s else inspect p s)"
| "chk_req (Testall n p) r s = for_each n (if out r 0 \<noteq> 0 then complete else inspect) p s"
| "chk_req (Testany n p) r s =
     complete_listed [i \<leftarrow> [out r 1]. out r 0 \<noteq> 0 \<and> 0 \<le> i \<and> i < n] p (for_each n inspect p s)"
| "chk_req (Testsome n p) r s =
     complete_listed [i \<leftarrow> take (nat (out r 0)) (tl r). 0 \<le> i \<and> i < n] p (for_each n inspect p s)"

definition root_ok :: "int \<Rightarrow> comm \<Rightarrow> lstate \<Rightarrow> lstate" where
  "root_ok root c s = chk (dest_ok s root) (Mbi InvalidRoot) (chk (comm_ok s c) (Mbi InvalidCommunicator) s)"

definition op_arg :: "mpi_op \<Rightarrow> comm \<Rightarrow> lstate \<Rightarrow> lstate" where
  "op_arg f c s = chk (op_ok s f) (Mbi InvalidOperator) (chk (comm_ok s c) (Mbi InvalidCommunicator) s)"

text \<open>The pieces of a vector collective: counts, displacements in bytes, and types.\<close>

fun use_pieces :: "bool \<Rightarrow> ptr \<Rightarrow> (int \<times> int \<times> dtype) list \<Rightarrow> lstate \<Rightarrow> lstate" where
  "use_pieces w p [] s = s"
| "use_pieces w p ((n, disp, d) # ps) s = use_pieces w p ps (use_buf w (padd p (disp div 4)) n d s)"

fun chk_coll :: "coll_call \<Rightarrow> resp \<Rightarrow> lstate \<Rightarrow> lstate" where
  "chk_coll (Barrier c) r s = chk (comm_ok s c) (Mbi InvalidCommunicator) s"
| "chk_coll (Bcast b n d root c) r s = use_buf (me s \<noteq> root) b n d (root_ok root c s)"
| "chk_coll (Reduce b b' n d f root c) r s =
     (let s1 = use_buf False b n d (op_arg f c (root_ok root c s))
      in if me s = root then use_buf True b' n d s1 else s1)"
| "chk_coll (Allreduce b b' n d f c) r s = use_buf True b' n d (use_buf False b n d (op_arg f c s))"
| "chk_coll (Scatter b n d b' n' d' root c) r s =
     (let s1 = root_ok root c s
      in use_buf True b' n' d' (if me s = root then use_buf False b (n * np s) d s1 else s1))"
| "chk_coll (Scatterv b ns ds d b' n' d' root c) r s =
     (let s1 = root_ok root c s
      in use_buf True b' n' d'
           (if me s = root
            then use_pieces False b (map (\<lambda>(n, k). (n, 4 * k, d)) (zip ns ds)) s1 else s1))"
| "chk_coll (Gather b n d b' n' d' root c) r s =
     (let s1 = use_buf False b n d (root_ok root c s)
      in if me s = root then use_buf True b' (n' * np s) d' s1 else s1)"
| "chk_coll (Allgather b n d b' n' d' c) r s =
     use_buf True b' (n' * np s) d' (use_buf False b n d (chk (comm_ok s c) (Mbi InvalidCommunicator) s))"
| "chk_coll (Alltoall b n d b' n' d' c) r s =
     use_buf True b' (n' * np s) d' (use_buf False b (n * np s) d (chk (comm_ok s c) (Mbi InvalidCommunicator) s))"
| "chk_coll (Alltoallv b ns ds d b' ns' ds' d' c) r s =
     (let pieces = (\<lambda>ns ds d. map (\<lambda>(n, k). (n, k * bytes_of s 1 d, d)) (take (nat (np s)) (zip ns ds))) in
      use_pieces True b' (pieces ns' ds' d') (use_pieces False b (pieces ns ds d)
        (chk (comm_ok s c) (Mbi InvalidCommunicator) s)))"
| "chk_coll (Alltoallw b ns ds ts b' ns' ds' ts' c) r s =
     use_pieces True b' (take (nat (np s)) (zip ns' (zip ds' ts')))
       (use_pieces False b (take (nat (np s)) (zip ns (zip ds ts)))
         (chk (comm_ok s c) (Mbi InvalidCommunicator) s))"
| "chk_coll (Reduce_scatter_block b b' n d f c) r s =
     use_buf True b' n d (use_buf False b (n * np s) d (op_arg f c s))"
| "chk_coll (Reduce_scatter b b' ns d f c) r s =
     use_buf True b' (ns ! nat (me s)) d (use_buf False b (sum_list (take (nat (np s)) ns)) d (op_arg f c s))"
| "chk_coll (Scan b b' n d f c) r s = use_buf True b' n d (use_buf False b n d (op_arg f c s))"
| "chk_coll (Exscan b b' n d f c) r s = use_buf True b' n d (use_buf False b n d (op_arg f c s))"

definition new_comm :: "ptr \<Rightarrow> comm_kind option \<Rightarrow> lstate \<Rightarrow> lstate" where
  "new_comm p k s =
     (case aget (cvar s) p of
        Some (Some _) \<Rightarrow> add_err (Mbi CommunicatorLeak) s
      | _ \<Rightarrow> s)\<lparr>cvar := aput (cvar s) p k\<rparr>"

definition new_type :: "ptr \<Rightarrow> int \<Rightarrow> lstate \<Rightarrow> lstate" where
  "new_type p n s = s\<lparr>tvar := aput (tvar s) p (Some (length (ttab s))), ttab := ttab s @ [(n, False, False)]\<rparr>"

definition new_group :: "ptr \<Rightarrow> int list \<Rightarrow> lstate \<Rightarrow> lstate" where
  "new_group p rs s = s\<lparr>gvar := aput (gvar s) p (Some (length (gtab s))), gtab := gtab s @ [(rs, True)]\<rparr>"

fun chk_obj :: "obj_call \<Rightarrow> resp \<Rightarrow> lstate \<Rightarrow> lstate" where
  "chk_obj (Type_contiguous n d p) r s =
     (case type_size s False d of None \<Rightarrow> add_err (Mbi InvalidDatatype) s
      | Some b \<Rightarrow> new_type p (n * b) (chk (0 \<le> n) (Mbi InvalidOtherArg) s))"
| "chk_obj (Type_vector n l st d p) r s =
     (case type_size s False d of None \<Rightarrow> add_err (Mbi InvalidDatatype) s
      | Some b \<Rightarrow> new_type p (((n - 1) * st + l) * b) (chk (0 \<le> n \<and> 0 \<le> l) (Mbi InvalidOtherArg) s))"
| "chk_obj (Type_commit p) r s =
     (case aget (tvar s) p of
        Some (Some h) \<Rightarrow> (case ttab s ! h of (n, c, freed) \<Rightarrow>
          if freed then add_err (Mbi InvalidDatatype) s else s\<lparr>ttab := (ttab s)[h := (n, True, freed)]\<rparr>)
      | _ \<Rightarrow> add_err (Mbi InvalidDatatype) s)"
| "chk_obj (Type_free p) r s =
     (case aget (tvar s) p of
        Some (Some h) \<Rightarrow> (case ttab s ! h of (n, c, freed) \<Rightarrow>
          if freed then add_err (Mbi InvalidDatatype) s
          else s\<lparr>ttab := (ttab s)[h := (n, c, True)], tvar := aput (tvar s) p None\<rparr>)
      | _ \<Rightarrow> add_err (Mbi InvalidDatatype) s)"
| "chk_obj (Type_size d p) r s =
     chk (type_size s False d \<noteq> None) (Mbi InvalidDatatype) (access True p 4 s)"
| "chk_obj (Comm_split c col key p) r s =
     new_comm p (Some Intra) (chk (comm_ok s c) (Mbi InvalidCommunicator) s)"
| "chk_obj (Intercomm_create c l pc rl t p) r s =
     new_comm p (Some Inter) (chk (0 \<le> t) (Mbi InvalidTag)
       (chk (comm_kind_of s c = Some Intra \<and> comm_ok s pc) (Mbi InvalidCommunicator) s))"
| "chk_obj (Comm_compare c c' p) r s =
     chk (comm_ok s c \<and> comm_ok s c') (Mbi InvalidCommunicator) (access True p 4 s)"
| "chk_obj (Comm_free p) r s =
     (case aget (cvar s) p of Some (Some _) \<Rightarrow> s\<lparr>cvar := aput (cvar s) p None\<rparr>
      | _ \<Rightarrow> add_err (Mbi InvalidCommunicator) s)"
| "chk_obj (Dims_create n k) r s = s"
| "chk_obj (Cart_create c n ds ps ro p) r s =
     (let s1 = chk (comm_kind_of s c \<noteq> None \<and> comm_kind_of s c \<noteq> Some Inter)
                 (Mbi InvalidCommunicator) s;
          s2 = chk (prod_list ds \<le> np s) (Mbi InvalidOtherArg) s1
      in new_comm p (if out r 0 \<noteq> 0 then Some (Cart n) else None) s2)"
| "chk_obj (Cart_shift c dir disp) r s =
     (case comm_kind_of s c of Some (Cart n) \<Rightarrow> chk (0 \<le> dir \<and> dir < n) (Mbi InvalidOtherArg) s
      | _ \<Rightarrow> add_err (Mbi InvalidCommunicator) s)"
| "chk_obj (Cart_get c n) r s =
     (case comm_kind_of s c of Some (Cart k) \<Rightarrow> chk (n = k) (Mbi InvalidOtherArg) s
      | _ \<Rightarrow> add_err (Mbi InvalidCommunicator) s)"
| "chk_obj (Cart_coords c rk n) r s =
     (case comm_kind_of s c of Some (Cart k) \<Rightarrow> chk (n = k) (Mbi InvalidOtherArg) s
      | _ \<Rightarrow> add_err (Mbi InvalidCommunicator) s)"
| "chk_obj (Op_create p) r s =
     s\<lparr>ovar := aput (ovar s) p (Created_op (length (otab s))), otab := otab s @ [True]\<rparr>"
| "chk_obj (Op_free p) r s =
     (case aget (ovar s) p of
        Some (Created_op n) \<Rightarrow>
          if otab s ! n then s\<lparr>otab := (otab s)[n := False], ovar := aput (ovar s) p Null_op\<rparr>
          else add_err (Mbi InvalidOperator) s
      | _ \<Rightarrow> add_err (Mbi InvalidOperator) s)"
| "chk_obj (Comm_group c p) r s = new_group p (comm_ranks s c) (chk (comm_ok s c) (Mbi InvalidCommunicator) s)"
| "chk_obj (Group_incl g rs p) r s = new_group p (incl_ranks (group_ranks s g) rs) (chk (group_ok s g) (Mbi InvalidOtherArg) s)"
| "chk_obj (Group_excl g rs p) r s = new_group p (excl_ranks (group_ranks s g) rs) (chk (group_ok s g) (Mbi InvalidOtherArg) s)"
| "chk_obj (Group_free p) r s =
     (case aget (gvar s) p of
        Some (Some n) \<Rightarrow>
          if snd (gtab s ! n)
          then s\<lparr>gtab := (gtab s)[n := (fst (gtab s ! n), False)], gvar := aput (gvar s) p None\<rparr>
          else add_err (Mbi InvalidOtherArg) s
      | _ \<Rightarrow> add_err (Mbi InvalidOtherArg) s)"
| "chk_obj (Comm_create c g p) r s =
     new_comm p (if out r 0 \<noteq> 0 then Some Intra else None)
       (chk (group_ok s g) (Mbi InvalidOtherArg) (chk (comm_ok s c) (Mbi InvalidCommunicator) s))"
| "chk_obj (Comm_create_group c g t p) r s =
     new_comm p (if out r 0 \<noteq> 0 then Some Intra else None)
       (chk (group_ok s g) (Mbi InvalidOtherArg) (chk (0 \<le> t) (Mbi InvalidTag)
         (chk (comm_ok s c) (Mbi InvalidCommunicator) s)))"
| "chk_obj (Cart_sub c rs p) r s =
     (case comm_kind_of s c of
        Some (Cart n) \<Rightarrow> new_comm p (Some (Cart (int (length [x \<leftarrow> rs. x \<noteq> 0]))))
          (chk (int (length rs) = n) (Mbi InvalidOtherArg) s)
      | _ \<Rightarrow> add_err (Mbi InvalidCommunicator) s)"

definition with_win :: "ptr \<Rightarrow> (window \<Rightarrow> lstate \<Rightarrow> lstate) \<Rightarrow> lstate \<Rightarrow> lstate" where
  "with_win p f s = (case aget (wvar s) p of Some (Some w) \<Rightarrow> f w s | _ \<Rightarrow> add_err (Mbi InvalidWindow) s)"

text \<open>A one-sided operation: an epoch is open, the target lies in the window, and the
  local buffer is in use until the epoch is closed or flushed.\<close>

definition rma_op :: "bool \<Rightarrow> ptr \<Rightarrow> int \<Rightarrow> dtype \<Rightarrow> int \<Rightarrow> int \<Rightarrow> int \<Rightarrow> dtype \<Rightarrow> ptr \<Rightarrow> lstate \<Rightarrow> lstate" where
  "rma_op w b n d tgt disp n' d' p s =
     with_win p (\<lambda>v s.
       let s1 = chk (dest_ok s tgt) (Mbi InvalidSrcDest) s;
           s2 = chk (fenced v \<or> tgt \<in> set (locked v) \<or> tgt \<in> set (started_for v)) NoEpoch s1;
           s3 = chk (0 \<le> disp \<and> disp * win_unit v + bytes_of s n' d' \<le> win_bytes v) (Mbi InvalidOtherArg) s2;
           s4 = use_buf w b n d s3
       in s4\<lparr>wvar := aput (wvar s) p (Some (v\<lparr>rma_pending := rma_pending v @ [(w, region_of b (bytes_of s n d))]\<rparr>))\<rparr>) s"

fun chk_rma :: "rma_call \<Rightarrow> resp \<Rightarrow> lstate \<Rightarrow> lstate" where
  "chk_rma (Win_create b n u c p) r s =
     (chk (comm_ok s c) (Mbi InvalidCommunicator)
       (chk (n = 0 \<or> in_object (objs s) (region_of b n)) BufferOverflow s))
       \<lparr>wvar := aput (wvar s) p (Some \<lparr>win_bytes = n, win_unit = u, locked = [], fenced = False,
           started_for = [], posted = False, rma_pending = []\<rparr>)\<rparr>"
| "chk_rma (Win_free p) r s =
     with_win p (\<lambda>v s. (chk (locked v = []) NoEpoch s)\<lparr>wvar := aput (wvar s) p None\<rparr>) s"
| "chk_rma (Win_lock l rk a p) r s =
     with_win p (\<lambda>v s. (chk (rk \<notin> set (locked v)) NoEpoch (chk (dest_ok s rk) (Mbi InvalidSrcDest) s))
        \<lparr>wvar := aput (wvar s) p (Some (v\<lparr>locked := rk # locked v\<rparr>))\<rparr>) s"
| "chk_rma (Win_unlock rk p) r s =
     with_win p (\<lambda>v s. (chk (rk \<in> set (locked v)) NoEpoch s)
        \<lparr>wvar := aput (wvar s) p (Some (v\<lparr>locked := remove1 rk (locked v), rma_pending := []\<rparr>))\<rparr>) s"
| "chk_rma (Win_flush rk p) r s =
     with_win p (\<lambda>v s. (chk (rk \<in> set (locked v)) NoEpoch s)
        \<lparr>wvar := aput (wvar s) p (Some (v\<lparr>rma_pending := []\<rparr>))\<rparr>) s"
| "chk_rma (Win_fence a p) r s =
     with_win p (\<lambda>v s. s\<lparr>wvar := aput (wvar s) p (Some (v\<lparr>fenced := True, rma_pending := []\<rparr>))\<rparr>) s"
| "chk_rma (Win_start g a p) r s =
     with_win p (\<lambda>v s. (chk (started_for v = []) NoEpoch (chk (group_ok s g) (Mbi InvalidOtherArg) s))
        \<lparr>wvar := aput (wvar s) p (Some (v\<lparr>started_for := group_ranks s g\<rparr>))\<rparr>) s"
| "chk_rma (Win_complete p) r s =
     with_win p (\<lambda>v s. (chk (started_for v \<noteq> []) NoEpoch s)
        \<lparr>wvar := aput (wvar s) p (Some (v\<lparr>started_for := [], rma_pending := []\<rparr>))\<rparr>) s"
| "chk_rma (Win_post g a p) r s =
     with_win p (\<lambda>v s. (chk (\<not> posted v) NoEpoch (chk (group_ok s g) (Mbi InvalidOtherArg) s))
        \<lparr>wvar := aput (wvar s) p (Some (v\<lparr>posted := True\<rparr>))\<rparr>) s"
| "chk_rma (Win_wait p) r s =
     with_win p (\<lambda>v s. (chk (posted v) NoEpoch s)
        \<lparr>wvar := aput (wvar s) p (Some (v\<lparr>posted := False\<rparr>))\<rparr>) s"
| "chk_rma (Put b n d tgt disp n' d' p) r s = rma_op False b n d tgt disp n' d' p s"
| "chk_rma (Get b n d tgt disp n' d' p) r s = rma_op True b n d tgt disp n' d' p s"
| "chk_rma (Accumulate b n d tgt disp n' d' f p) r s = rma_op False b n d tgt disp n' d' p s"
| "chk_rma (Alloc_mem n (Ref x i)) r s = s\<lparr>objs := aput (objs s) x (n div 4)\<rparr>"
| "chk_rma (Alloc_mem n NULL) r s = s"
| "chk_rma (Free_mem p) r s = s"

fun chk_c :: "c_call \<Rightarrow> resp \<Rightarrow> lstate \<Rightarrow> lstate" where
  "chk_c (Decl x n) r s = s\<lparr>objs := aput (objs s) x n\<rparr>"
| "chk_c (Decl_type p MPI_DATATYPE_NULL) r s = s\<lparr>tvar := aput (tvar s) p None\<rparr>"
| "chk_c (Decl_type p (Type_var q)) r s =
     (case aget (tvar s) q of None \<Rightarrow> add_err UndefinedHandle s | Some h \<Rightarrow> s\<lparr>tvar := aput (tvar s) p h\<rparr>)"
| "chk_c (Decl_type p d) r s = s"
| "chk_c (Decl_op p MPI_OP_NULL) r s = s\<lparr>ovar := aput (ovar s) p Null_op\<rparr>"
| "chk_c (Decl_op p MPI_SUM) r s = s\<lparr>ovar := aput (ovar s) p Predefined_op\<rparr>"
| "chk_c (Decl_op p (Op_var q)) r s =
     (case aget (ovar s) q of None \<Rightarrow> add_err UndefinedHandle s | Some h \<Rightarrow> s\<lparr>ovar := aput (ovar s) p h\<rparr>)"
| "chk_c (Memset p v n) r s = access True p n s"
| "chk_c (Store p v) r s = access True p 4 s"
| "chk_c (Load p) r s = access False p 4 s"
| "chk_c (Copy_request p q) r s =
     (case aget (rvar s) q of None \<Rightarrow> add_err UndefinedHandle s
      | Some h \<Rightarrow> s\<lparr>rvar := aput (rvar s) p h\<rparr>)"
| "chk_c (Copy_group p q) r s =
     (case aget (gvar s) q of None \<Rightarrow> add_err UndefinedHandle s
      | Some h \<Rightarrow> s\<lparr>gvar := aput (gvar s) p h\<rparr>)"
| "chk_c (Malloc (Ref x i) n) r s = s\<lparr>objs := aput (objs s) x (n div 4)\<rparr>"
| "chk_c (Malloc NULL n) r s = s"
| "chk_c (Free p) r s = s"
| "chk_c (Fopen f) r s = s"
| "chk_c (Printf m) r s = s"
| "chk_c (Sleep n) r s = s"

text \<open>Every MPI call but \<open>MPI_Init\<close> needs MPI to be initialized and not finalized.\<close>

definition mpi :: "lstate \<Rightarrow> lstate" where
  "mpi s = chk (phase s = Running) OutOfInitFini s"

fun lstep :: "ccall \<times> resp \<Rightarrow> lstate \<Rightarrow> lstate" where
  "lstep (Sys Init, r) s = chk_sys Init r s"
| "lstep (Sys c, r) s = chk_sys c r (mpi s)"
| "lstep (P2p c, r) s = chk_p2p c r (mpi s)"
| "lstep (Rq c, r) s = chk_req c r (mpi s)"
| "lstep (Coll c, r) s = chk_coll c r (mpi s)"
| "lstep (Obj c, r) s = chk_obj c r (mpi s)"
| "lstep (Rma c, r) s = chk_rma c r (mpi s)"
| "lstep (C c, r) s = chk_c c r s"

section \<open>One run\<close>

text \<open>The errors of a run; one that comes to an end in \<open>return\<close>, and one that goes on for
  too long, must have finalized MPI.\<close>

definition unfinished :: "outcome \<Rightarrow> lstate \<Rightarrow> local_error list" where
  "unfinished e s = (if e = Abort_assert \<or> e = Undefined_behaviour \<or> phase s = Finalized then [] else [OutOfInitFini])"

definition local_errors :: "int \<Rightarrow> int \<Rightarrow> (ccall \<times> resp) list \<times> outcome \<Rightarrow> local_error list" where
  "local_errors rank nprocs es =
     (let s = fold lstep (fst es) (lstart rank nprocs) in
      errs s @ unfinished (snd es) s)"

text \<open>
  How the process \<open>rank\<close> of \<open>nprocs\<close> ends when its calls are answered by \<open>env\<close>,
  and the errors it makes on the way.
\<close>

definition verdict :: "int \<Rightarrow> int \<Rightarrow> (nat \<Rightarrow> ccall \<Rightarrow> resp) \<Rightarrow> prog \<Rightarrow> outcome \<times> local_error list" where
  "verdict rank nprocs env p = (let es = run env p 0 in (snd es, local_errors rank nprocs es))"

section \<open>Evaluating a verdict call by call\<close>

primrec verdict_from :: "(nat \<Rightarrow> ccall \<Rightarrow> resp) \<Rightarrow> prog \<Rightarrow> nat \<Rightarrow> lstate \<Rightarrow> outcome \<times> local_error list" where
  "verdict_from env (Ret n) i s = (Exit n, errs s @ (if phase s = Finalized then [] else [OutOfInitFini]))"
| "verdict_from env Assert_failed i s = (Abort_assert, errs s)"
| "verdict_from env No_fuel i s = (Out_of_fuel, errs s @ (if phase s = Finalized then [] else [OutOfInitFini]))"
| "verdict_from env Undefined i s = (Undefined_behaviour, errs s)"
| "verdict_from env (Call c k) i s = verdict_from env (k (env i c)) (Suc i) (lstep (c, env i c) s)"

lemma verdict_from_run:
  "verdict_from env p i s =
     (let es = run env p i; s' = fold lstep (fst es) s
      in (snd es, errs s' @ unfinished (snd es) s'))"
proof (induction p arbitrary: i s)
  case (Call c k)
  show ?case
    by (simp add: Call [OF rangeI] Let_def split_def)
qed (simp_all add: Let_def unfinished_def)

lemma verdict_eq: "verdict rank nprocs env p = verdict_from env p 0 (lstart rank nprocs)"
  by (simp add: verdict_def local_errors_def verdict_from_run Let_def)

text \<open>A check whose condition is decided leaves the state alone or adds its error.\<close>

lemma chk_ok: "b \<Longrightarrow> chk b e s = s"
  by (simp add: chk_def)

lemma chk_bad: "\<not> b \<Longrightarrow> chk b e s = add_err e s"
  by (simp add: chk_def)

lemma access_none: "n = 0 \<Longrightarrow> access w p n s = s"
  by (simp add: access_def)

lemma access_some: "n \<noteq> 0 \<Longrightarrow> access w p n s =
    chk (\<not> conflicts s w (region_of p n)) (Mbi LocalConcurrency)
      (chk (in_object (objs s) (region_of p n)) BufferOverflow s)"
  by (simp add: access_def)

lemmas check_simps [mon_simps] = Let_def verdict_eq lstart_def mpi_def chk_ok chk_bad add_err_def
  access_none access_some conflicts_def use_buf_def bytes_of_def dest_ok_def send_args_def
  recv_args_def root_ok_def op_arg_def new_request_def complete_def inspect_def start_def
  request_free_def for_each_def complete_listed_def new_comm_def new_type_def new_group_def group_ok_def group_ranks_def with_win_def rma_op_def

section \<open>Claims about every process\<close>

text \<open>
  Run by at least \<open>k\<close> processes, every process returns 0 from \<open>main\<close> without an error of
  its own, whatever MPI answers.
\<close>

definition clean_from :: "int \<Rightarrow> prog \<Rightarrow> bool" where
  "clean_from k p \<longleftrightarrow>
     (\<forall>rank nprocs env. world_env rank nprocs env \<longrightarrow> k \<le> nprocs \<longrightarrow> verdict rank nprocs env p = (Exit 0, []))"

text \<open>The errors \<open>es\<close> are those of process \<open>rank\<close>, whatever MPI answers.\<close>

definition reports :: "int \<Rightarrow> int \<Rightarrow> prog \<Rightarrow> local_error list \<Rightarrow> bool" where
  "reports rank k p es \<longleftrightarrow>
     (\<forall>nprocs env. world_env rank nprocs env \<longrightarrow> k \<le> nprocs \<longrightarrow> verdict rank nprocs env p = (Exit 0, es))"

lemma clean_fromI:
  "(\<And>rank nprocs env. world_env rank nprocs env \<Longrightarrow> k \<le> nprocs \<Longrightarrow>
      verdict rank nprocs env p = (Exit 0, [])) \<Longrightarrow> clean_from k p"
  by (simp add: clean_from_def)

text \<open>A proof by the ranks that the codes tell apart.\<close>

lemma clean_from_ranks:
  assumes "\<And>nprocs env. world_env 0 nprocs env \<Longrightarrow> k \<le> nprocs \<Longrightarrow> verdict 0 nprocs env p = (Exit 0, [])"
    and "\<And>nprocs env. world_env 1 nprocs env \<Longrightarrow> k \<le> nprocs \<Longrightarrow> verdict 1 nprocs env p = (Exit 0, [])"
    and "\<And>nprocs env. world_env 2 nprocs env \<Longrightarrow> k \<le> nprocs \<Longrightarrow> verdict 2 nprocs env p = (Exit 0, [])"
    and "\<And>nprocs env. world_env 3 nprocs env \<Longrightarrow> k \<le> nprocs \<Longrightarrow> verdict 3 nprocs env p = (Exit 0, [])"
    and "\<And>nprocs env. world_env 4 nprocs env \<Longrightarrow> k \<le> nprocs \<Longrightarrow> verdict 4 nprocs env p = (Exit 0, [])"
    and "\<And>rank nprocs env. 4 < rank \<Longrightarrow> world_env rank nprocs env \<Longrightarrow> k \<le> nprocs \<Longrightarrow>
      verdict rank nprocs env p = (Exit 0, [])"
  shows "clean_from k p"
proof (rule clean_fromI)
  fix rank nprocs env
  assume env: "world_env rank nprocs env" and k: "k \<le> nprocs"
  from env show "verdict rank nprocs env p = (Exit 0, [])"
    by (cases rule: low_rank_cases [OF env]) (simp_all add: assms k)
qed

lemma reportsI:
  "(\<And>nprocs env. world_env rank nprocs env \<Longrightarrow> k \<le> nprocs \<Longrightarrow>
      verdict rank nprocs env p = (Exit 0, es)) \<Longrightarrow> reports rank k p es"
  by (simp add: reports_def)

text \<open>A loop of calls that leave the state alone.\<close>

lemma verdict_from_loop:
  assumes "\<And>i r. i \<in> set is \<Longrightarrow> lstep (c i, r) s = s"
  shows "verdict_from env (seq (map (\<lambda>i. seq [call (c i)]) is) k) n s =
         verdict_from env k (n + length is) s"
  using assms by (induction "is" arbitrary: n) (simp_all add: call_def)

text \<open>A loop whose body leaves the state alone, in \<open>m\<close> calls.\<close>

lemma verdict_from_bodies:
  assumes "\<And>i n k. i \<in> set is \<Longrightarrow> verdict_from env (seq (body i) k) n s = verdict_from env k (n + m) s"
  shows "verdict_from env (seq (map (\<lambda>i. seq (body i)) is) k) n s = verdict_from env k (n + m * length is) s"
  using assms by (induction "is" arbitrary: n) (simp_all add: add.assoc)

lemma use_pieces_idle:
  "(\<And>n disp d. (n, disp, d) \<in> set ps \<Longrightarrow> use_buf w (padd p (disp div 4)) n d s = s) \<Longrightarrow> use_pieces w p ps s = s"
  by (induction ps) auto

section \<open>Errors are never withdrawn\<close>

text \<open>Every check adds errors behind those that are there.\<close>

definition grows :: "lstate \<Rightarrow> lstate \<Rightarrow> bool" where
  "grows s s' \<longleftrightarrow> (\<exists>es. errs s' = errs s @ es)"

named_theorems grows_intros \<open>the checks only add errors\<close>

lemma grows_refl [simp, intro]: "grows s s"
  by (simp add: grows_def)

lemma grows_trans: "grows s s' \<Longrightarrow> grows s' s'' \<Longrightarrow> grows s s''"
  by (auto simp: grows_def)

lemma grows_update [simp]:
  "grows s (s'\<lparr>phase := a\<rparr>) = grows s s'" "grows s (s'\<lparr>objs := b\<rparr>) = grows s s'"
  "grows s (s'\<lparr>rvar := c\<rparr>) = grows s s'" "grows s (s'\<lparr>rtab := d\<rparr>) = grows s s'"
  "grows s (s'\<lparr>tvar := e\<rparr>) = grows s s'" "grows s (s'\<lparr>ttab := f\<rparr>) = grows s s'"
  "grows s (s'\<lparr>ovar := g\<rparr>) = grows s s'" "grows s (s'\<lparr>cvar := h\<rparr>) = grows s s'"
  "grows s (s'\<lparr>wvar := i\<rparr>) = grows s s'" "grows s (s'\<lparr>otab := j\<rparr>) = grows s s'"
  "grows s (s'\<lparr>gvar := k\<rparr>) = grows s s'" "grows s (s'\<lparr>gtab := l\<rparr>) = grows s s'"
  by (simp_all add: grows_def)

lemma grows_chk [grows_intros]: "grows s s' \<Longrightarrow> grows s (chk b e s')"
  by (auto simp: grows_def chk_def add_err_def)

lemma grows_add_err [grows_intros]: "grows s s' \<Longrightarrow> grows s (add_err e s')"
  by (auto simp: grows_def add_err_def)

lemma grows_access [grows_intros]: "grows s s' \<Longrightarrow> grows s (access w p n s')"
  by (simp add: access_def grows_intros)

lemma grows_use_buf [grows_intros]: "grows s s' \<Longrightarrow> grows s (use_buf w p n d s')"
  by (simp add: use_buf_def Let_def grows_intros split: option.split)

lemma grows_args [grows_intros]:
  "grows s s' \<Longrightarrow> grows s (send_args dst t c s')" "grows s s' \<Longrightarrow> grows s (recv_args src tg c s')"
  "grows s s' \<Longrightarrow> grows s (root_ok root c s')" "grows s s' \<Longrightarrow> grows s (op_arg f c s')"
  by (simp_all add: send_args_def recv_args_def root_ok_def op_arg_def grows_intros)

lemma grows_requests [grows_intros]:
  "grows s s' \<Longrightarrow> grows s (new_request p q s')" "grows s s' \<Longrightarrow> grows s (complete p s')"
  "grows s s' \<Longrightarrow> grows s (inspect p s')" "grows s s' \<Longrightarrow> grows s (start p s')"
  "grows s s' \<Longrightarrow> grows s (request_free p s')"
  by (simp_all add: new_request_def complete_def inspect_def start_def request_free_def Let_def
      grows_intros split: option.split)

lemma grows_fold: "(\<And>x s'. grows s s' \<Longrightarrow> grows s (g x s')) \<Longrightarrow> grows s s' \<Longrightarrow> grows s (fold g xs s')"
  by (induction xs arbitrary: s') auto

lemma grows_each [grows_intros]:
  "(\<And>p s'. grows s s' \<Longrightarrow> grows s (f p s')) \<Longrightarrow> grows s s' \<Longrightarrow> grows s (for_each n f p s')"
  "grows s s' \<Longrightarrow> grows s (complete_listed is p s')"
  by (simp_all add: for_each_def complete_listed_def grows_fold grows_intros)

lemma grows_pieces [grows_intros]: "grows s s' \<Longrightarrow> grows s (use_pieces w p ps s')"
  by (induction w p ps s' rule: use_pieces.induct) (simp_all add: grows_intros)

lemma grows_objects [grows_intros]:
  "grows s s' \<Longrightarrow> grows s (new_comm p k s')" "grows s s' \<Longrightarrow> grows s (new_type p n s')"
  "grows s s' \<Longrightarrow> grows s (new_group p rs s')"
  "(\<And>v s'. grows s s' \<Longrightarrow> grows s (f v s')) \<Longrightarrow> grows s s' \<Longrightarrow> grows s (with_win p f s')"
  "grows s s' \<Longrightarrow> grows s (mpi s')"
  by (simp_all add: new_comm_def new_type_def new_group_def with_win_def mpi_def Let_def grows_intros split: option.split)

lemma grows_rma [grows_intros]: "grows s s' \<Longrightarrow> grows s (rma_op w b n d tgt disp n' d' p s')"
  by (simp add: rma_op_def Let_def grows_intros)

lemma grows_sys [grows_intros]: "grows s s' \<Longrightarrow> grows s (chk_sys c r s')"
  by (cases c) (simp_all add: Let_def grows_intros)

lemma grows_p2p [grows_intros]: "grows s s' \<Longrightarrow> grows s (chk_p2p c r s')"
  by (cases c) (simp_all add: Let_def grows_intros)

lemma grows_req [grows_intros]: "grows s s' \<Longrightarrow> grows s (chk_req c r s')"
  by (cases c) (simp_all add: grows_intros)

lemma grows_coll [grows_intros]: "grows s s' \<Longrightarrow> grows s (chk_coll c r s')"
  by (cases c) (simp_all add: Let_def grows_intros)

lemma grows_obj [grows_intros]: "grows s s' \<Longrightarrow> grows s (chk_obj c r s')"
  by (cases c) (simp_all add: Let_def grows_intros split: option.split prod.split comm_kind.split op_handle.split)

lemma grows_rma_call [grows_intros]: "grows s s' \<Longrightarrow> grows s (chk_rma c r s')"
  by (cases "(c, r, s')" rule: chk_rma.cases) (simp_all add: grows_intros)

lemma grows_c [grows_intros]: "grows s s' \<Longrightarrow> grows s (chk_c c r s')"
  by (cases "(c, r, s')" rule: chk_c.cases) (simp_all add: grows_intros split: option.split)

lemma grows_step: "grows s s' \<Longrightarrow> grows s (lstep e s')"
  by (cases "(e, s')" rule: lstep.cases) (simp_all only: prod.inject lstep.simps grows_intros)

lemma verdict_grows: "set (errs s) \<subseteq> set (snd (verdict_from env p i s))"
proof -
  have "grows s (fold lstep (fst (run env p i)) s)"
    by (rule grows_fold) (auto intro: grows_step)
  then show ?thesis
    by (auto simp: verdict_from_run Let_def grows_def)
qed

text \<open>The error \<open>e\<close> is one of those of process \<open>rank\<close>, whatever MPI answers.\<close>

definition blames :: "int \<Rightarrow> int \<Rightarrow> prog \<Rightarrow> local_error \<Rightarrow> bool" where
  "blames rank k p e \<longleftrightarrow> (\<forall>nprocs env. world_env rank nprocs env \<longrightarrow> k \<le> nprocs \<longrightarrow>
     e \<in> set (snd (verdict rank nprocs env p)))"

lemma blamesI:
  "(\<And>nprocs env. world_env rank nprocs env \<Longrightarrow> k \<le> nprocs \<Longrightarrow>
      e \<in> set (snd (verdict rank nprocs env p))) \<Longrightarrow> blames rank k p e"
  by (simp add: blames_def)

lemma kept_error: "e \<in> set (errs s) \<Longrightarrow> e \<in> set (snd (verdict_from env p i s))"
  using verdict_grows by blast

end
