(* ===== verification/World.thy ===== *)
theory World
  imports CMpi
begin

text \<open>
  Several processes together. MPI is not part of the repository: its library is a parameter,
  a relation \<open>R\<close> between the states of a run, about which two things are assumed. What it
  does is permitted by the MPI standard (\<open>step True\<close>), and it does something whenever the
  standard obliges it to (\<open>step False\<close>). The two differ in what an implementation is free
  to do: buffer a standard-mode send, let a process leave a collective that does not
  synchronise.

  A process is the sequence of its communication calls, read off its run. Point-to-point
  messages and collectives on \<open>MPI_COMM_WORLD\<close> are followed; one-sided calls are passed over,
  and about calls on another communicator nothing is known: they may return, and need not.
\<close>

section \<open>The communication calls of a process\<close>

text \<open>
  A send or a receive that has been started. The operations of a process are numbered in the
  order of their start.
\<close>

datatype op = Sop smode int int | Rop source rtag

text \<open>
  \<open>Item os ns\<close> starts the operations \<open>os\<close> and returns when those numbered \<open>ns\<close> are
  complete. \<open>Collective f root sync\<close> is a call of the collective \<open>f\<close>; \<open>sync\<close> says that
  no process can leave it before all have entered it.
\<close>

datatype item = Item "op list" "nat list" | Collective string int bool | Unknown

text \<open>
  The request handles of a process while its calls are read: a variable names an entry of a
  table that holds the operation a persistent request starts and the operation now active.
\<close>

record handles =
  hvar :: "(ptr \<times> nat) list"
  htab :: "(op option \<times> nat option) list"
  started :: nat

definition no_handles :: handles where
  "no_handles = \<lparr>hvar = [], htab = [], started = 0\<rparr>"

definition bind_request :: "ptr \<Rightarrow> op option \<Rightarrow> nat option \<Rightarrow> handles \<Rightarrow> handles" where
  "bind_request p t a h = h\<lparr>hvar := aput (hvar h) p (length (htab h)), htab := htab h @ [(t, a)]\<rparr>"

definition active_op :: "handles \<Rightarrow> ptr \<Rightarrow> nat option" where
  "active_op h p = (case aget (hvar h) p of None \<Rightarrow> None | Some n \<Rightarrow> snd (htab h ! n))"

definition clear_active :: "ptr \<Rightarrow> handles \<Rightarrow> handles" where
  "clear_active p h = (case aget (hvar h) p of None \<Rightarrow> h
     | Some n \<Rightarrow> h\<lparr>htab := (htab h)[n := (fst (htab h ! n), None)]\<rparr>)"

definition requests :: "int \<Rightarrow> ptr \<Rightarrow> ptr list" where
  "requests n p = (case p of NULL \<Rightarrow> [] | Ref x i \<Rightarrow> map (Ref x) (upto_lt i (i + n)))"

text \<open>Waiting for the requests \<open>ps\<close>, and starting them.\<close>

definition wait_for :: "ptr list \<Rightarrow> handles \<Rightarrow> item list \<times> handles" where
  "wait_for ps h =
     ([Item [] [k. p \<leftarrow> ps, k \<leftarrow> (case active_op h p of None \<Rightarrow> [] | Some k \<Rightarrow> [k])]],
      fold clear_active ps h)"

definition start_request :: "ptr \<Rightarrow> handles \<Rightarrow> item list \<times> handles" where
  "start_request p h =
     (case aget (hvar h) p of
        None \<Rightarrow> ([], h)
      | Some n \<Rightarrow>
         (case htab h ! n of
            (None, a) \<Rightarrow> ([], h)
          | (Some t, a) \<Rightarrow>
              ([Item [t] []],
               h\<lparr>htab := (htab h)[n := (Some t, Some (started h))], started := Suc (started h)\<rparr>)))"

fun start_requests :: "ptr list \<Rightarrow> handles \<Rightarrow> item list \<times> handles" where
  "start_requests [] h = ([], h)"
| "start_requests (p # ps) h =
     (let (is, h') = start_request p h; (is', h'') = start_requests ps h' in (is @ is', h''))"

definition block_on :: "op list \<Rightarrow> handles \<Rightarrow> item list \<times> handles" where
  "block_on os h =
     ([Item os [started h..<started h + length os]], h\<lparr>started := started h + length os\<rparr>)"

definition post :: "ptr \<Rightarrow> op \<Rightarrow> handles \<Rightarrow> item list \<times> handles" where
  "post p t h =
     ([Item [t] []], (bind_request p None (Some (started h)) h)\<lparr>started := Suc (started h)\<rparr>)"

definition on_world :: "comm \<Rightarrow> handles \<Rightarrow> item list \<times> handles \<Rightarrow> item list \<times> handles" where
  "on_world c h r = (if c = MPI_COMM_WORLD then r else ([Unknown], h))"

definition collective :: "comm \<Rightarrow> string \<Rightarrow> int \<Rightarrow> bool \<Rightarrow> handles \<Rightarrow> item list \<times> handles" where
  "collective c f root sync h = on_world c h ([Collective f root sync], h)"

fun p2p_items :: "p2p_call \<Rightarrow> handles \<Rightarrow> item list \<times> handles" where
  "p2p_items (Send m b n d dst t c) h = on_world c h (block_on [Sop m dst t] h)"
| "p2p_items (Recv b n d src t c) h = on_world c h (block_on [Rop src t] h)"
| "p2p_items (Sendrecv b n d dst t b' n' d' src t' c) h =
     on_world c h (block_on [Sop Standard dst t, Rop src t'] h)"
| "p2p_items (Probe src t c) h = ([Unknown], h)"
| "p2p_items (Get_count d p) h = ([], h)"
| "p2p_items (Isend m b n d dst t c p) h = on_world c h (post p (Sop m dst t) h)"
| "p2p_items (Irecv b n d src t c p) h = on_world c h (post p (Rop src t) h)"
| "p2p_items (Send_init m b n d dst t c p) h =
     on_world c h ([], bind_request p (Some (Sop m dst t)) None h)"
| "p2p_items (Recv_init b n d src t c p) h =
     on_world c h ([], bind_request p (Some (Rop src t)) None h)"

text \<open>
  The calls that report which requests are complete wait for those; an answer that names no
  active request is read as waiting for all of them.
\<close>

definition wait_some :: "int \<Rightarrow> ptr \<Rightarrow> int list \<Rightarrow> handles \<Rightarrow> item list \<times> handles" where
  "wait_some n p is h =
     (let ps = map (padd p) [i \<leftarrow> is. 0 \<le> i \<and> i < n \<and> active_op h (padd p i) \<noteq> None]
      in wait_for (if ps = [] then requests n p else ps) h)"

fun req_items :: "req_call \<Rightarrow> resp \<Rightarrow> handles \<Rightarrow> item list \<times> handles" where
  "req_items (Start p) r h = start_request p h"
| "req_items (Startall n p) r h = start_requests (requests n p) h"
| "req_items (Request_free p) r h = ([], h)"
| "req_items (Wait p) r h = wait_for [p] h"
| "req_items (Waitall n p) r h = wait_for (requests n p) h"
| "req_items (Waitany n p) r h = wait_some n p [out r 0] h"
| "req_items (Waitsome n p) r h = wait_some n p (take (nat (out r 0)) (tl r)) h"
| "req_items (Test p) r h = (if out r 0 \<noteq> 0 then wait_for [p] h else ([], h))"
| "req_items (Testall n p) r h = (if out r 0 \<noteq> 0 then wait_for (requests n p) h else ([], h))"
| "req_items (Testany n p) r h = (if out r 0 \<noteq> 0 then wait_some n p [out r 1] h else ([], h))"
| "req_items (Testsome n p) r h =
     (if out r 0 \<noteq> 0 then wait_some n p (take (nat (out r 0)) (tl r)) h else ([], h))"

text \<open>Collectives in which every process needs something from every other synchronise.\<close>

fun coll_items :: "coll_call \<Rightarrow> handles \<Rightarrow> item list \<times> handles" where
  "coll_items (Barrier c) h = collective c ''Barrier'' 0 True h"
| "coll_items (Bcast b n d root c) h = collective c ''Bcast'' root False h"
| "coll_items (Reduce b b' n d f root c) h = collective c ''Reduce'' root False h"
| "coll_items (Allreduce b b' n d f c) h = collective c ''Allreduce'' 0 True h"
| "coll_items (Scatter b n d b' n' d' root c) h = collective c ''Scatter'' root False h"
| "coll_items (Scatterv b ns ds d b' n' d' root c) h = collective c ''Scatterv'' root False h"
| "coll_items (Gather b n d b' n' d' root c) h = collective c ''Gather'' root False h"
| "coll_items (Allgather b n d b' n' d' c) h = collective c ''Allgather'' 0 True h"
| "coll_items (Alltoall b n d b' n' d' c) h = collective c ''Alltoall'' 0 True h"
| "coll_items (Alltoallv b ns ds d b' ns' ds' d' c) h = collective c ''Alltoallv'' 0 True h"
| "coll_items (Alltoallw b ns ds ts b' ns' ds' ts' c) h = collective c ''Alltoallw'' 0 True h"
| "coll_items (Reduce_scatter_block b b' n d f c) h = collective c ''Reduce_scatter_block'' 0 True h"
| "coll_items (Reduce_scatter b b' ns d f c) h = collective c ''Reduce_scatter'' 0 True h"
| "coll_items (Scan b b' n d f c) h = collective c ''Scan'' 0 False h"
| "coll_items (Exscan b b' n d f c) h = collective c ''Exscan'' 0 False h"

fun obj_items :: "obj_call \<Rightarrow> handles \<Rightarrow> item list \<times> handles" where
  "obj_items (Comm_split c col key p) h = collective c ''Comm_split'' 0 False h"
| "obj_items (Cart_create c n ds ps ro p) h = collective c ''Cart_create'' 0 False h"
| "obj_items (Comm_create c g p) h = collective c ''Comm_create'' 0 False h"
| "obj_items (Comm_create_group c g t p) h = ([Unknown], h)"
| "obj_items (Cart_sub c rs p) h = ([Unknown], h)"
| "obj_items (Intercomm_create c l pc rl t p) h = ([Unknown], h)"
| "obj_items (Comm_free p) h = ([Unknown], h)"
| "obj_items c h = ([], h)"

text \<open>Of the one-sided calls, those of the post-start-complete-wait protocol may block.\<close>

fun rma_items :: "rma_call \<Rightarrow> handles \<Rightarrow> item list \<times> handles" where
  "rma_items (Win_start g a p) h = ([Unknown], h)"
| "rma_items (Win_complete p) h = ([Unknown], h)"
| "rma_items (Win_wait p) h = ([Unknown], h)"
| "rma_items c h = ([], h)"

fun call_items :: "ccall \<Rightarrow> resp \<Rightarrow> handles \<Rightarrow> item list \<times> handles" where
  "call_items (Sys Finalize) r h = collective MPI_COMM_WORLD ''Finalize'' 0 False h"
| "call_items (Sys c) r h = ([], h)"
| "call_items (P2p c) r h = p2p_items c h"
| "call_items (Rq c) r h = req_items c r h"
| "call_items (Coll c) r h = coll_items c h"
| "call_items (Obj c) r h = obj_items c h"
| "call_items (Rma c) r h = rma_items c h"
| "call_items (C (Copy_request p q)) r h =
     ([], case aget (hvar h) q of None \<Rightarrow> h | Some n \<Rightarrow> h\<lparr>hvar := aput (hvar h) p n\<rparr>)"
| "call_items (C c) r h = ([], h)"

fun items_from :: "handles \<Rightarrow> (ccall \<times> resp) list \<Rightarrow> item list" where
  "items_from h [] = []"
| "items_from h ((c, r) # es) = (let (is, h') = call_items c r h in is @ items_from h' es)"

definition items :: "(nat \<Rightarrow> ccall \<Rightarrow> resp) \<Rightarrow> prog \<Rightarrow> item list" where
  "items env p = items_from no_handles (fst (run env p 0))"

text \<open>The same sequence, call by call.\<close>

primrec items_along :: "(nat \<Rightarrow> ccall \<Rightarrow> resp) \<Rightarrow> prog \<Rightarrow> nat \<Rightarrow> handles \<Rightarrow> item list" where
  "items_along env (Ret n) i h = []"
| "items_along env Assert_failed i h = []"
| "items_along env No_fuel i h = []"
| "items_along env Undefined i h = []"
| "items_along env (Call c k) i h =
     fst (call_items c (env i c) h) @
     items_along env (k (env i c)) (Suc i) (snd (call_items c (env i c) h))"

lemma items_along_run: "items_along env p i h = items_from h (fst (run env p i))"
proof (induction p arbitrary: i h)
  case (Call c k)
  show ?case
    by (simp add: Call [OF rangeI] Let_def split_def)
qed simp_all

lemma items_eq: "items env p = items_along env p 0 no_handles"
  by (simp add: items_def items_along_run)

lemmas item_simps = Let_def items_eq no_handles_def bind_request_def active_op_def clear_active_def
  requests_def wait_for_def start_request_def block_on_def post_def on_world_def collective_def
  wait_some_def

section \<open>States and steps\<close>

text \<open>
  \<open>T ! i\<close> is the sequence of process \<open>i\<close>. In a state, \<open>pos ! i\<close> of its calls have
  returned and it has entered the next one; \<open>matched\<close> pairs sends with receives, each
  named by its process and number.
\<close>

type_synonym opid = "nat \<times> nat"

record world =
  pos :: "nat list"
  matched :: "(opid \<times> opid) list"

definition start_world :: "item list list \<Rightarrow> world" where
  "start_world T = \<lparr>pos = map (\<lambda>_. 0) T, matched = []\<rparr>"

definition finished :: "item list list \<Rightarrow> world \<Rightarrow> bool" where
  "finished T w \<longleftrightarrow> pos w = map length T"

fun starts :: "item \<Rightarrow> op list" where
  "starts (Item os ns) = os"
| "starts _ = []"

definition ops :: "item list list \<Rightarrow> nat \<Rightarrow> op list" where
  "ops T i = concat (map starts (T ! i))"

definition op_at :: "item list list \<Rightarrow> opid \<Rightarrow> op" where
  "op_at T a = ops T (fst a) ! snd a"

definition posted :: "item list list \<Rightarrow> world \<Rightarrow> opid \<Rightarrow> bool" where
  "posted T w a \<longleftrightarrow> fst a < length T \<and>
     snd a < length (concat (map starts (take (Suc (pos w ! fst a)) (T ! fst a))))"

text \<open>A send and a receive that may be matched, by destination, source and tag.\<close>

fun compat_ops :: "nat \<Rightarrow> op \<Rightarrow> nat \<Rightarrow> op \<Rightarrow> bool" where
  "compat_ops i (Sop m d t) j (Rop src tg) =
     (d = int j \<and> (src = MPI_ANY_SOURCE \<or> src = Rank (int i)) \<and> (tg = MPI_ANY_TAG \<or> tg = Tag t))"
| "compat_ops i _ j _ = False"

definition compat :: "item list list \<Rightarrow> opid \<Rightarrow> opid \<Rightarrow> bool" where
  "compat T s r = compat_ops (fst s) (op_at T s) (fst r) (op_at T r)"

text \<open>
  Messages do not overtake: a send is matched with the first receive that fits, and a
  receive with the first send of its process that fits.
\<close>

definition sent :: "world \<Rightarrow> opid \<Rightarrow> bool" where
  "sent w s \<longleftrightarrow> s \<in> set (map fst (matched w))"

definition received :: "world \<Rightarrow> opid \<Rightarrow> bool" where
  "received w r \<longleftrightarrow> r \<in> set (map snd (matched w))"

definition can_match :: "item list list \<Rightarrow> world \<Rightarrow> opid \<Rightarrow> opid \<Rightarrow> bool" where
  "can_match T w s r \<longleftrightarrow>
     posted T w s \<and> posted T w r \<and> compat T s r \<and> \<not> sent w s \<and> \<not> received w r \<and>
     (\<forall>k\<in>set [0..<snd s]. compat T (fst s, k) r \<longrightarrow> sent w (fst s, k)) \<and>
     (\<forall>l\<in>set [0..<snd r]. compat T s (fst r, l) \<longrightarrow> received w (fst r, l))"

text \<open>
  When an operation is complete. \<open>eager\<close> says whether the library may have buffered a
  message of a standard-mode or ready-mode send.
\<close>

fun op_done :: "bool \<Rightarrow> world \<Rightarrow> opid \<Rightarrow> op \<Rightarrow> bool" where
  "op_done eager w a (Rop src tg) = received w a"
| "op_done eager w a (Sop Buffered d t) = True"
| "op_done eager w a (Sop Synchronous d t) = sent w a"
| "op_done eager w a (Sop Standard d t) = (eager \<or> sent w a)"
| "op_done eager w a (Sop Ready d t) = (eager \<or> sent w a)"

fun is_collective :: "item \<Rightarrow> bool" where
  "is_collective (Collective f root sync) = True"
| "is_collective _ = False"

definition all_entered :: "item list list \<Rightarrow> world \<Rightarrow> nat \<Rightarrow> item \<Rightarrow> bool" where
  "all_entered T w n c \<longleftrightarrow>
     (\<forall>j\<in>set [0..<length T].
        let cs = filter is_collective (take (Suc (pos w ! j)) (T ! j)) in n < length cs \<and> cs ! n = c)"

fun item_done :: "bool \<Rightarrow> item list list \<Rightarrow> world \<Rightarrow> nat \<Rightarrow> item \<Rightarrow> bool" where
  "item_done eager T w i (Item os ns) = (\<forall>k\<in>set ns. op_done eager w (i, k) (op_at T (i, k)))"
| "item_done eager T w i (Collective f root sync) =
     (eager \<and> \<not> sync \<or>
      all_entered T w (length (filter is_collective (take (pos w ! i) (T ! i)))) (Collective f root sync))"
| "item_done eager T w i Unknown = eager"

definition can_return :: "bool \<Rightarrow> item list list \<Rightarrow> world \<Rightarrow> nat \<Rightarrow> bool" where
  "can_return eager T w i \<longleftrightarrow>
     i < length T \<and> pos w ! i < length (T ! i) \<and> item_done eager T w i (T ! i ! (pos w ! i))"

definition return_call :: "nat \<Rightarrow> world \<Rightarrow> world" where
  "return_call i w = w\<lparr>pos := (pos w)[i := Suc (pos w ! i)]\<rparr>"

definition match_ops :: "opid \<Rightarrow> opid \<Rightarrow> world \<Rightarrow> world" where
  "match_ops s r w = w\<lparr>matched := (s, r) # matched w\<rparr>"

inductive step :: "bool \<Rightarrow> item list list \<Rightarrow> world \<Rightarrow> world \<Rightarrow> bool" for eager T where
  step_return: "can_return eager T w i \<Longrightarrow> step eager T w (return_call i w)"
| step_match: "can_match T w s r \<Longrightarrow> step eager T w (match_ops s r w)"

section \<open>MPI libraries\<close>

text \<open>A library that keeps to the standard on the processes \<open>T\<close>.\<close>

definition conforming :: "item list list \<Rightarrow> (world \<Rightarrow> world \<Rightarrow> bool) \<Rightarrow> bool" where
  "conforming T R \<longleftrightarrow>
     (\<forall>w w'. R w w' \<longrightarrow> step True T w w') \<and>
     (\<forall>w. (\<exists>w'. step False T w w') \<longrightarrow> (\<exists>w'. R w w'))"

end
