(* ===== verification/Progress.thy ===== *)
theory Progress
  imports World
begin

text \<open>
  When does a run of several processes come to an end? Without races between senders, the
  steps of a run never disable each other, so one completed run decides for all: if the
  processes can finish although no send is ever buffered, they finish under every library,
  and if they cannot finish although every send is buffered, they never do.
\<close>

section \<open>Runs that cannot get in each other's way\<close>

text \<open>
  A state \<open>p\<close> that is not behind a state \<open>w\<close> of some run, or has a step left: the law
  \<open>catch_up\<close> says this for one step and the locale extends it to runs.
\<close>

locale monotone_steps =
  fixes stp :: "'w \<Rightarrow> 'w \<Rightarrow> bool"
    and le :: "'w \<Rightarrow> 'w \<Rightarrow> bool"
    and inv :: "'w \<Rightarrow> bool"
    and init :: 'w
  assumes init_least: "inv p \<Longrightarrow> le init p"
    and inv_step: "inv w \<Longrightarrow> stp w w' \<Longrightarrow> inv w'"
    and inv_init: "inv init"
    and catch_up: "inv w \<Longrightarrow> inv p \<Longrightarrow> le w p \<Longrightarrow> stp w w' \<Longrightarrow> le w' p \<or> (\<exists>p'. stp p p')"
begin

lemma reachable_inv: "stp\<^sup>*\<^sup>* init w \<Longrightarrow> inv w"
  by (induction rule: rtranclp_induct) (auto intro: inv_init inv_step)

lemma stuck_is_greatest:
  assumes "stp\<^sup>*\<^sup>* init w" and "inv p" and stuck: "\<not> (\<exists>p'. stp p p')"
  shows "le w p"
  using assms(1)
proof (induction rule: rtranclp_induct)
  case base
  show ?case using init_least assms(2) .
next
  case (step w w')
  then show ?case
    using catch_up [OF reachable_inv [OF step.hyps(1)] assms(2)] stuck by blast
qed

end

section \<open>Libraries\<close>

locale mpi_library =
  fixes T :: "item list list"
    and R :: "world \<Rightarrow> world \<Rightarrow> bool"
  assumes permitted: "R w w' \<Longrightarrow> step True T w w'"
    and obliged: "step False T w w' \<Longrightarrow> \<exists>w''. R w w''"
begin

lemma reachable_permitted: "R\<^sup>*\<^sup>* w w' \<Longrightarrow> (step True T)\<^sup>*\<^sup>* w w'"
  by (rule mono_rtranclp [rule_format]) (rule permitted)

lemma stuck_obliged: "\<not> (\<exists>w'. R w w') \<Longrightarrow> \<not> (\<exists>w'. step False T w w')"
  using obliged by blast

end

lemma conforming_iff: "conforming T R \<longleftrightarrow> mpi_library T R"
  unfolding conforming_def mpi_library_def by blast

lemma op_done_eager: "op_done False w a x \<Longrightarrow> op_done True w a x"
  by (cases "(False, w, a, x)" rule: op_done.cases) auto

lemma item_done_eager: "item_done False T w i x \<Longrightarrow> item_done True T w i x"
  by (cases x) (auto intro: op_done_eager)

lemma can_return_eager: "can_return False T w i \<Longrightarrow> can_return True T w i"
  by (simp add: can_return_def item_done_eager)

lemma step_eager: "step False T w w' \<Longrightarrow> step True T w w'"
  by (induction rule: step.induct) (auto intro: can_return_eager step.intros)

text \<open>
  The library that buffers nothing and the library that may buffer everything both keep to
  the standard, so theorems about all conforming libraries are about some.
\<close>

interpretation rendezvous: mpi_library T "step False T" for T
  by unfold_locales (auto intro: step_eager)

interpretation buffering: mpi_library T "step True T" for T
  by unfold_locales (auto dest: step_eager)

section \<open>Operations and their matches\<close>

definition valid :: "item list list \<Rightarrow> opid \<Rightarrow> bool" where
  "valid T a \<longleftrightarrow> fst a < length T \<and> snd a < length (ops T (fst a))"

definition all_ops :: "item list list \<Rightarrow> (opid \<times> op) list" where
  "all_ops T = concat (map (\<lambda>i. map (\<lambda>(k, x). ((i, k), x)) (enumerate 0 (ops T i))) [0..<length T])"

lemma all_ops_valid: "valid T a \<Longrightarrow> (a, op_at T a) \<in> set (all_ops T)"
  by (cases a) (force simp: valid_def all_ops_def op_at_def in_set_enumerate_eq)

text \<open>
  No race: the sends that fit a receive all come from one process and fit the same receives.
  What an operation fits depends on its process and on the operation, not on its number.
\<close>

definition kinds :: "item list list \<Rightarrow> (nat \<times> op) list" where
  "kinds T = concat (map (\<lambda>i. map (Pair i) (remdups (ops T i))) [0..<length T])"

definition unambiguous :: "item list list \<Rightarrow> bool" where
  "unambiguous T \<longleftrightarrow>
     (\<forall>(i, x)\<in>set (kinds T). \<forall>(j, y)\<in>set (kinds T). compat_ops i x j y \<longrightarrow>
        (\<forall>(i', x')\<in>set (kinds T). compat_ops i' x' j y \<longrightarrow> i' = i \<and>
           (\<forall>(j', y')\<in>set (kinds T). compat_ops i x j' y' = compat_ops i' x' j' y')))"

text \<open>For evaluation, the kinds are computed once.\<close>

definition unambiguous_kinds :: "(nat \<times> op) list \<Rightarrow> bool" where
  "unambiguous_kinds ks \<longleftrightarrow>
     (\<forall>(i, x)\<in>set ks. \<forall>(j, y)\<in>set ks. compat_ops i x j y \<longrightarrow>
        (\<forall>(i', x')\<in>set ks. compat_ops i' x' j y \<longrightarrow> i' = i \<and>
           (\<forall>(j', y')\<in>set ks. compat_ops i x j' y' = compat_ops i' x' j' y')))"

lemma unambiguous_code [code]: "unambiguous T = unambiguous_kinds (kinds T)"
  by (simp add: unambiguous_def unambiguous_kinds_def)

text \<open>Receives that name their source and tag are enough.\<close>

fun named :: "op \<Rightarrow> bool" where
  "named (Rop (Rank r) (Tag t)) = True"
| "named (Rop src tg) = False"
| "named (Sop m d t) = True"

lemma kinds_started: "(i, x) \<in> set (kinds T) \<Longrightarrow> x \<in> set (concat (map starts (concat T)))"
  by (auto simp: kinds_def ops_def)

lemma named_compat:
  assumes "named y" "compat_ops i x j y" "compat_ops i' x' j y"
  shows "i' = i \<and> compat_ops i x j' y' = compat_ops i' x' j' y'"
  using assms by (cases y rule: named.cases; cases x; cases x'; cases y') auto

lemma named_unambiguous:
  assumes "list_all named (concat (map starts (concat T)))"
  shows "unambiguous T"
proof -
  have "named y" if "(j, y) \<in> set (kinds T)" for j y
    using assms kinds_started [OF that] by (auto simp: list_all_iff)
  then show ?thesis
    unfolding unambiguous_def using named_compat by blast
qed

lemma valid_kinds: "valid T a \<Longrightarrow> (fst a, op_at T a) \<in> set (kinds T)"
  by (cases a) (force simp: valid_def kinds_def op_at_def)

lemma unambiguousD:
  assumes "unambiguous T" "valid T s" "valid T r" "valid T s'" "compat T s r" "compat T s' r"
  shows "fst s' = fst s \<and> (\<forall>r'. valid T r' \<longrightarrow> compat T s r' = compat T s' r')"
proof -
  note in_kinds = assms(2-4) [THEN valid_kinds]
  from assms(1) [unfolded unambiguous_def, THEN bspec, OF in_kinds(1)] in_kinds(2)
  have "compat T s r \<longrightarrow> (\<forall>(i', x')\<in>set (kinds T). compat_ops i' x' (fst r) (op_at T r) \<longrightarrow>
     i' = fst s \<and> (\<forall>(j', y')\<in>set (kinds T).
        compat_ops (fst s) (op_at T s) j' y' = compat_ops i' x' j' y'))"
    by (fastforce simp: compat_def)
  then have "fst s' = fst s \<and> (\<forall>(j', y')\<in>set (kinds T).
        compat_ops (fst s) (op_at T s) j' y' = compat_ops (fst s') (op_at T s') j' y')"
    using in_kinds(3) assms(5,6) by (fastforce simp: compat_def)
  then show ?thesis
    using valid_kinds [of T] unfolding compat_def by fast
qed

lemma compat_source:
  "\<lbrakk>unambiguous T; valid T s; valid T r; valid T s'; compat T s r; compat T s' r\<rbrakk> \<Longrightarrow> fst s' = fst s"
  by (blast dest: unambiguousD)

lemma compat_row:
  "\<lbrakk>unambiguous T; valid T s; valid T r; valid T s'; compat T s r; compat T s' r; valid T r'\<rbrakk>
    \<Longrightarrow> compat T s r' = compat T s' r'"
  by (blast dest: unambiguousD)

lemma compat_column:
  "\<lbrakk>unambiguous T; valid T s; valid T r; valid T r'; compat T s r; compat T s r'; valid T s'\<rbrakk>
    \<Longrightarrow> compat T s' r = compat T s' r'"
  using compat_row [of T s r s' r'] compat_row [of T s r' s' r] by blast

lemma compat_dest: "compat T s r \<Longrightarrow> compat T s r' \<Longrightarrow> fst r = fst r'"
  unfolding compat_def
  by (cases "op_at T s"; cases "op_at T r"; cases "op_at T r'") auto

lemma starts_prefix: "length (concat (map starts (take n is))) \<le> length (concat (map starts is))"
proof -
  have "concat (map starts is) = concat (map starts (take n is)) @ concat (map starts (drop n is))"
    by (metis append_take_drop_id concat_append map_append)
  then show ?thesis by simp
qed

lemma starts_mono:
  "m \<le> n \<Longrightarrow> length (concat (map starts (take m is))) \<le> length (concat (map starts (take n is)))"
  using starts_prefix [of m "take n is"] by (simp add: min_def)

lemma posted_valid: "posted T w a \<Longrightarrow> valid T a"
  using starts_prefix [of "Suc (pos w ! fst a)" "T ! fst a"]
  by (auto simp: posted_def valid_def ops_def)

lemma valid_less: "valid T a \<Longrightarrow> k < snd a \<Longrightarrow> valid T (fst a, k)"
  by (simp add: valid_def)

text \<open>How many of the first \<open>n\<close> numbers satisfy \<open>P\<close>.\<close>

definition count_to :: "(nat \<Rightarrow> bool) \<Rightarrow> nat \<Rightarrow> nat" where
  "count_to P n = length (filter P [0..<n])"

lemma count_to_Suc [simp]: "count_to P (Suc n) = count_to P n + (if P n then 1 else 0)"
  by (simp add: count_to_def)

lemma count_to_0 [simp]: "count_to P 0 = 0"
  by (simp add: count_to_def)

lemma count_to_reached: "c < count_to P n \<Longrightarrow> \<exists>m<n. P m \<and> count_to P m = c"
proof (induction n)
  case (Suc n)
  then show ?case by (cases "c < count_to P n") (auto simp: less_Suc_eq split: if_splits)
qed simp

lemma count_to_mono: "m \<le> n \<Longrightarrow> count_to P m \<le> count_to P n"
  by (induction n) (auto simp: le_Suc_eq)

lemma count_to_less: "P m \<Longrightarrow> m < n \<Longrightarrow> count_to P m < count_to P n"
  using count_to_mono [of "Suc m" n P] by simp

lemma count_to_inject: "P m \<Longrightarrow> P n \<Longrightarrow> count_to P m = count_to P n \<Longrightarrow> m = n"
  using count_to_less [of P m n] count_to_less [of P n m] by (cases m n rule: linorder_cases) auto

lemma count_to_cong: "(\<And>m. m < n \<Longrightarrow> P m = Q m) \<Longrightarrow> count_to P n = count_to Q n"
  by (induction n) auto

section \<open>The match of an operation is fixed\<close>

text \<open>
  Without races the n-th send of a group of operations that fit each other is matched with
  the n-th receive of the group, whatever the order in which the library finds out.
\<close>

definition canonical :: "item list list \<Rightarrow> opid \<Rightarrow> opid \<Rightarrow> bool" where
  "canonical T s r \<longleftrightarrow> valid T s \<and> valid T r \<and> compat T s r \<and>
     count_to (\<lambda>k. compat T (fst s, k) r) (snd s) = count_to (\<lambda>l. compat T s (fst r, l)) (snd r)"

lemma canonicalD:
  assumes "canonical T s r"
  shows "valid T s" and "valid T r" and "compat T s r"
    and "count_to (\<lambda>k. compat T (fst s, k) r) (snd s) = count_to (\<lambda>l. compat T s (fst r, l)) (snd r)"
  using assms by (simp_all add: canonical_def)

lemma canonical_same_send:
  assumes c: "canonical T s r" and c': "canonical T s r'" and U: "unambiguous T"
  shows "r = r'"
proof -
  note C = canonicalD [OF c] and C' = canonicalD [OF c']
  have dest: "fst r = fst r'"
    using C(3) C'(3) by (rule compat_dest)
  have "count_to (\<lambda>k. compat T (fst s, k) r) (snd s) = count_to (\<lambda>k. compat T (fst s, k) r') (snd s)"
    using compat_column [OF U C(1,2) C'(2) C(3) C'(3)] valid_less [OF C(1)]
    by (intro count_to_cong) blast
  then have "count_to (\<lambda>l. compat T s (fst r, l)) (snd r) = count_to (\<lambda>l. compat T s (fst r, l)) (snd r')"
    using C(4) C'(4) dest by simp
  then have "snd r = snd r'"
    by (rule count_to_inject [rotated 2]) (use C(3) C'(3) dest in \<open>cases r; cases r'; simp\<close>)+
  with dest show ?thesis by (simp add: prod_eq_iff)
qed

lemma canonical_same_receive:
  assumes c: "canonical T s r" and c': "canonical T s' r" and U: "unambiguous T"
  shows "s = s'"
proof -
  note C = canonicalD [OF c] and C' = canonicalD [OF c']
  have src: "fst s' = fst s"
    using U C(1,2) C'(1) C(3) C'(3) by (rule compat_source)
  have "count_to (\<lambda>l. compat T s (fst r, l)) (snd r) = count_to (\<lambda>l. compat T s' (fst r, l)) (snd r)"
    using compat_row [OF U C(1,2) C'(1) C(3) C'(3)] valid_less [OF C(2)]
    by (intro count_to_cong) blast
  then have "count_to (\<lambda>k. compat T (fst s, k) r) (snd s) = count_to (\<lambda>k. compat T (fst s, k) r) (snd s')"
    using C(4) C'(4) src by simp
  then have "snd s = snd s'"
    by (rule count_to_inject [rotated 2]) (use C(3) C'(3) src in \<open>cases s; cases s'; simp\<close>)+
  with src show ?thesis by (simp add: prod_eq_iff)
qed

lemma canonical_earlier_receive:
  assumes U: "unambiguous T" and v: "valid T s" "valid T r" "compat T s r"
    and l: "l < snd r" "compat T s (fst r, l)"
    and n: "count_to (\<lambda>l. compat T s (fst r, l)) l = count_to (\<lambda>k. compat T (fst s, k) r) (snd s)"
  shows "canonical T s (fst r, l)"
proof -
  have vl: "valid T (fst r, l)" using v(2) l(1) by (rule valid_less)
  have "count_to (\<lambda>k. compat T (fst s, k) r) (snd s) = count_to (\<lambda>k. compat T (fst s, k) (fst r, l)) (snd s)"
    using compat_column [OF U v(1,2) vl v(3) l(2)] valid_less [OF v(1)]
    by (intro count_to_cong) blast
  with vl v l n show ?thesis by (simp add: canonical_def)
qed

lemma canonical_earlier_send:
  assumes U: "unambiguous T" and v: "valid T s" "valid T r" "compat T s r"
    and k: "k < snd s" "compat T (fst s, k) r"
    and n: "count_to (\<lambda>k. compat T (fst s, k) r) k = count_to (\<lambda>l. compat T s (fst r, l)) (snd r)"
  shows "canonical T (fst s, k) r"
proof -
  have vk: "valid T (fst s, k)" using v(1) k(1) by (rule valid_less)
  have "count_to (\<lambda>l. compat T s (fst r, l)) (snd r) = count_to (\<lambda>l. compat T (fst s, k) (fst r, l)) (snd r)"
    using compat_row [OF U v(1,2) vk v(3) k(2)] valid_less [OF v(2)]
    by (intro count_to_cong) blast
  with vk v k n show ?thesis by (simp add: canonical_def)
qed

text \<open>What every reachable state satisfies.\<close>

definition sound_world :: "item list list \<Rightarrow> world \<Rightarrow> bool" where
  "sound_world T w \<longleftrightarrow>
     length (pos w) = length T \<and> (\<forall>i<length T. pos w ! i \<le> length (T ! i)) \<and>
     (\<forall>(s, r)\<in>set (matched w). canonical T s r)"

lemma sentI: "(s, r) \<in> set (matched w) \<Longrightarrow> sent w s"
  by (force simp: sent_def)

lemma receivedI: "(s, r) \<in> set (matched w) \<Longrightarrow> received w r"
  by (force simp: received_def)

lemma sentE: "sent w s \<Longrightarrow> (\<And>r. (s, r) \<in> set (matched w) \<Longrightarrow> thesis) \<Longrightarrow> thesis"
  by (auto simp: sent_def)

lemma receivedE: "received w r \<Longrightarrow> (\<And>s. (s, r) \<in> set (matched w) \<Longrightarrow> thesis) \<Longrightarrow> thesis"
  by (auto simp: received_def)

lemma can_matchD:
  assumes "can_match T w s r"
  shows "valid T s" and "valid T r" and "compat T s r" and "\<not> sent w s" and "\<not> received w r"
    and "k < snd s \<Longrightarrow> compat T (fst s, k) r \<Longrightarrow> sent w (fst s, k)"
    and "l < snd r \<Longrightarrow> compat T s (fst r, l) \<Longrightarrow> received w (fst r, l)"
  using assms posted_valid [of T w] unfolding can_match_def by (blast, blast, blast, blast, blast, simp_all)

lemma can_match_canonical:
  assumes U: "unambiguous T" and M: "can_match T w s r"
    and C: "\<And>s r. (s, r) \<in> set (matched w) \<Longrightarrow> canonical T s r"
  shows "canonical T s r"
proof -
  note v = can_matchD(1-3) [OF M]
  let ?S = "\<lambda>k. compat T (fst s, k) r" and ?R = "\<lambda>l. compat T s (fst r, l)"
  have "\<not> count_to ?S (snd s) < count_to ?R (snd r)"
  proof
    assume "count_to ?S (snd s) < count_to ?R (snd r)"
    from count_to_reached [OF this] obtain l
      where l: "l < snd r" "?R l" "count_to ?R l = count_to ?S (snd s)" by blast
    obtain s' where s': "(s', (fst r, l)) \<in> set (matched w)"
      using can_matchD(7) [OF M l(1,2)] by (rule receivedE)
    from canonical_same_receive [OF C [OF s'] canonical_earlier_receive [OF U v l] U]
    show False using sentI [OF s'] can_matchD(4) [OF M] by blast
  qed
  moreover have "\<not> count_to ?R (snd r) < count_to ?S (snd s)"
  proof
    assume "count_to ?R (snd r) < count_to ?S (snd s)"
    from count_to_reached [OF this] obtain k
      where k: "k < snd s" "?S k" "count_to ?S k = count_to ?R (snd r)" by blast
    obtain r' where r': "((fst s, k), r') \<in> set (matched w)"
      using can_matchD(6) [OF M k(1,2)] by (rule sentE)
    from canonical_same_send [OF C [OF r'] canonical_earlier_send [OF U v k] U]
    show False using receivedI [OF r'] can_matchD(5) [OF M] by blast
  qed
  ultimately show ?thesis using v by (simp add: canonical_def)
qed

lemma sound_start: "sound_world T (start_world T)"
  by (simp add: sound_world_def start_world_def)

lemma sound_worldD:
  assumes "sound_world T w"
  shows "length (pos w) = length T" and "i < length T \<Longrightarrow> pos w ! i \<le> length (T ! i)"
    and "(s, r) \<in> set (matched w) \<Longrightarrow> canonical T s r"
  using assms by (auto simp: sound_world_def)

lemma pos_return: "i < length (pos w) \<Longrightarrow>
    pos (return_call i w) ! j = (if i = j then Suc (pos w ! i) else pos w ! j)"
  by (simp add: return_call_def nth_list_update)

lemma return_simps [simp]:
  "length (pos (return_call i w)) = length (pos w)" "matched (return_call i w) = matched w"
  by (simp_all add: return_call_def)

lemma match_simps [simp]:
  "pos (match_ops s r w) = pos w" "matched (match_ops s r w) = (s, r) # matched w"
  by (simp_all add: match_ops_def)

lemma sound_step:
  assumes "unambiguous T" and "sound_world T w" and "step e T w w'"
  shows "sound_world T w'"
  using assms(3,2)
proof (induction rule: step.induct)
  case (step_return w i)
  then show ?case
    by (simp add: sound_world_def pos_return can_return_def Suc_le_eq)
next
  case (step_match w s r)
  have "canonical T s r"
    using sound_worldD(3) [OF step_match(2)] by (rule can_match_canonical [OF assms(1) step_match(1)])
  with step_match(2) show ?case
    by (simp add: sound_world_def)
qed

section \<open>Steps are never lost\<close>

definition behind :: "world \<Rightarrow> world \<Rightarrow> bool" where
  "behind w p \<longleftrightarrow> length (pos w) = length (pos p) \<and>
     (\<forall>i<length (pos p). pos w ! i \<le> pos p ! i) \<and> set (matched w) \<subseteq> set (matched p)"

lemma behind_sent: "behind w p \<Longrightarrow> sent w s \<Longrightarrow> sent p s"
  by (auto simp: behind_def sent_def)

lemma behind_received: "behind w p \<Longrightarrow> received w r \<Longrightarrow> received p r"
  by (auto simp: behind_def received_def)

lemma behind_posted: "behind w p \<Longrightarrow> sound_world T p \<Longrightarrow> posted T w a \<Longrightarrow> posted T p a"
  using starts_mono [of "Suc (pos w ! fst a)" "Suc (pos p ! fst a)" "T ! fst a"]
  by (fastforce simp: behind_def posted_def sound_world_def)

lemma behind_op_done: "behind w p \<Longrightarrow> op_done e w a x \<Longrightarrow> op_done e p a x"
  by (cases "(e, w, a, x)" rule: op_done.cases) (auto intro: behind_sent behind_received)

lemma filter_take_mono:
  assumes "m \<le> n" and "k < length (filter P (take m xs))"
  shows "k < length (filter P (take n xs)) \<and> filter P (take n xs) ! k = filter P (take m xs) ! k"
proof -
  have "take n xs = take m xs @ drop m (take n xs)"
    using assms(1) by (metis append_take_drop_id min.absorb1 take_take)
  then have "filter P (take n xs) = filter P (take m xs) @ filter P (drop m (take n xs))"
    by (metis filter_append)
  with assms(2) show ?thesis by (simp add: nth_append)
qed

lemma behind_all_entered:
  assumes "behind w p" and "sound_world T p" and "all_entered T w n c"
  shows "all_entered T p n c"
  unfolding all_entered_def Let_def
proof
  fix j assume j: "j \<in> set [0..<length T]"
  then have "Suc (pos w ! j) \<le> Suc (pos p ! j)"
    using assms(1,2) by (simp add: behind_def sound_world_def)
  from filter_take_mono [OF this, of n is_collective "T ! j"] assms(3) j
  show "n < length (filter is_collective (take (Suc (pos p ! j)) (T ! j))) \<and>
        filter is_collective (take (Suc (pos p ! j)) (T ! j)) ! n = c"
    by (auto simp: all_entered_def Let_def)
qed

lemma behind_item_done:
  assumes "behind w p" and "sound_world T p" and "pos w ! i = pos p ! i" and "item_done e T w i x"
  shows "item_done e T p i x"
  using assms(4)
proof (cases x)
  case (Item os ns)
  with assms(4) show ?thesis by (auto intro: behind_op_done [OF assms(1)])
next
  case (Collective f root sync)
  with assms(4,3) show ?thesis
    by (auto intro: behind_all_entered [OF assms(1,2)])
qed simp

lemma behind_return:
  assumes "behind w p" and "sound_world T p" and "can_return e T w i"
  shows "behind (return_call i w) p \<or> can_return e T p i"
proof (cases "pos w ! i = pos p ! i")
  case True
  with assms show ?thesis
    by (auto simp: can_return_def intro: behind_item_done)
next
  case False
  have i: "i < length (pos p)" "pos w ! i \<le> pos p ! i"
    using assms by (simp_all add: behind_def can_return_def sound_world_def)
  with False have "pos w ! i < pos p ! i" by simp
  with assms(1) i(1) show ?thesis
    by (simp add: behind_def pos_return Suc_le_eq)
qed

lemma behind_match:
  assumes U: "unambiguous T" and b: "behind w p" and S: "sound_world T w" "sound_world T p"
    and M: "can_match T w s r"
  shows "behind (match_ops s r w) p \<or> can_match T p s r"
proof (cases "(s, r) \<in> set (matched p)")
  case True
  with b show ?thesis by (simp add: behind_def)
next
  case False
  have c: "canonical T s r"
    using sound_worldD(3) [OF S(1)] by (rule can_match_canonical [OF U M])
  have "\<not> sent p s"
    using False canonical_same_send [OF c sound_worldD(3) [OF S(2)] U] by (metis sentE)
  moreover have "\<not> received p r"
    using False canonical_same_receive [OF c sound_worldD(3) [OF S(2)] U] by (metis receivedE)
  ultimately show ?thesis
    using M behind_posted [OF b S(2)] behind_sent [OF b] behind_received [OF b]
    unfolding can_match_def by blast
qed

lemma catch_up:
  assumes U: "unambiguous T" and "sound_world T w" and "sound_world T p" and "behind w p"
    and "step e T w w'"
  shows "behind w' p \<or> (\<exists>p'. step e T p p')"
  using assms(5,2,4)
proof (induction rule: step.induct)
  case (step_return w i)
  then show ?case
    using behind_return [OF step_return(3) assms(3) step_return(1)] step.step_return by blast
next
  case (step_match w s r)
  then show ?case
    using behind_match [OF U step_match(3,2) assms(3) step_match(1)] step.step_match by blast
qed

lemma start_behind: "sound_world T p \<Longrightarrow> behind (start_world T) p"
  by (simp add: behind_def start_world_def sound_world_def)

interpretation race_free: monotone_steps
    "\<lambda>w w'. unambiguous T \<and> step e T w w'" behind "sound_world T" "start_world T" for e T
  by unfold_locales (auto intro: sound_start start_behind sound_step dest: catch_up)

lemma race_free_steps: "unambiguous T \<Longrightarrow> (\<lambda>w w'. unambiguous T \<and> step e T w w') = step e T"
  by (intro ext) simp

lemma reachable_sound:
  "unambiguous T \<Longrightarrow> (step e T)\<^sup>*\<^sup>* (start_world T) w \<Longrightarrow> sound_world T w"
  using race_free.reachable_inv [of T e w] by (simp add: race_free_steps)

lemma stuck_ahead:
  assumes "unambiguous T" and "(step e T)\<^sup>*\<^sup>* (start_world T) w"
    and "sound_world T p" and "\<not> (\<exists>p'. step e T p p')"
  shows "behind w p"
  using race_free.stuck_is_greatest [of T e w p] assms by (simp add: race_free_steps)

lemma behind_finished:
  assumes "finished T w" and "behind w p" and "sound_world T p"
  shows "finished T p"
  using assms unfolding finished_def behind_def sound_world_def
  by (auto simp: list_eq_iff_nth_eq intro: le_antisym)

section \<open>How a run ends\<close>

lemma library_reachable:
  assumes "conforming T R" and "R\<^sup>*\<^sup>* w w'"
  shows "(step True T)\<^sup>*\<^sup>* w w'"
  using mpi_library.reachable_permitted [of T R] assms by (simp add: conforming_iff)

lemma library_stuck:
  assumes "conforming T R" and "\<not> (\<exists>w'. R w w')"
  shows "\<not> (\<exists>w'. step False T w w')"
  using mpi_library.stuck_obliged [of T R] assms by (simp add: conforming_iff)

lemma completes_under_every_library:
  assumes U: "unambiguous T"
    and F: "(step False T)\<^sup>*\<^sup>* (start_world T) f" "finished T f"
    and C: "conforming T R" and w: "R\<^sup>*\<^sup>* (start_world T) w" "\<not> (\<exists>w'. R w w')"
  shows "finished T w"
proof -
  have S: "sound_world T w"
    using U library_reachable [OF C w(1)] by (rule reachable_sound)
  have "behind f w"
    using U F(1) S library_stuck [OF C w(2)] by (rule stuck_ahead)
  then show ?thesis using F(2) S by (blast intro: behind_finished)
qed

lemma completes_under_no_library:
  assumes U: "unambiguous T"
    and G: "(step True T)\<^sup>*\<^sup>* (start_world T) g" "\<not> (\<exists>g'. step True T g g')" "\<not> finished T g"
    and C: "conforming T R" and w: "R\<^sup>*\<^sup>* (start_world T) w"
  shows "\<not> finished T w"
proof
  assume "finished T w"
  moreover have "behind w g"
    using U library_reachable [OF C w] reachable_sound [OF U G(1)] G(2) by (rule stuck_ahead)
  ultimately show False
    using behind_finished reachable_sound [OF U G(1)] G(3) by blast
qed

section \<open>Every run is finite\<close>

text \<open>Each step lets a call return or matches a send that was not matched.\<close>

definition total_steps :: "item list list \<Rightarrow> nat" where
  "total_steps T = sum_list (map length T) + length (all_ops T)"

definition bounded_world :: "item list list \<Rightarrow> world \<Rightarrow> bool" where
  "bounded_world T w \<longleftrightarrow>
     length (pos w) = length T \<and> (\<forall>i<length T. pos w ! i \<le> length (T ! i)) \<and>
     distinct (map fst (matched w)) \<and> set (map fst (matched w)) \<subseteq> set (map fst (all_ops T))"

lemma posted_all_ops: "posted T w a \<Longrightarrow> a \<in> set (map fst (all_ops T))"
  using all_ops_valid [of T a] posted_valid [of T w a] by force

lemma bounded_start: "bounded_world T (start_world T)"
  by (simp add: bounded_world_def start_world_def)

lemma bounded_step:
  assumes "step e T w w'" and "bounded_world T w"
  shows "bounded_world T w' \<and>
         sum_list (pos w') + length (matched w') = Suc (sum_list (pos w) + length (matched w))"
  using assms
proof (induction rule: step.induct)
  case (step_return w i)
  then have i: "i < length (pos w)" by (simp add: can_return_def bounded_world_def)
  have "sum_list (pos (return_call i w)) = Suc (sum_list (pos w))"
    using i member_le_sum_list [OF nth_mem [OF i]] by (simp add: return_call_def sum_list_update)
  then show ?case
    using step_return i by (simp add: bounded_world_def pos_return can_return_def Suc_le_eq)
next
  case (step_match w s r)
  then show ?case
    using posted_all_ops [of T w s]
    by (auto simp: bounded_world_def can_match_def sent_def)
qed

lemma bounded_reach:
  "(step e T ^^ n) (start_world T) w \<Longrightarrow>
     bounded_world T w \<and> sum_list (pos w) + length (matched w) = n"
proof (induction n arbitrary: w)
  case 0
  then have "w = start_world T" by simp
  then show ?case using bounded_start [of T] by (simp add: start_world_def)
next
  case (Suc n)
  then show ?case using bounded_step by (metis relpowp_Suc_E)
qed

lemma bounded_total:
  assumes "bounded_world T w"
  shows "sum_list (pos w) + length (matched w) \<le> total_steps T"
proof -
  have "sum_list (pos w) \<le> sum_list (map length T)"
    using assms unfolding bounded_world_def sum_list_sum_nth
    by (auto simp: atLeast0LessThan intro: sum_mono)
  moreover have "length (map fst (matched w)) \<le> length (map fst (all_ops T))"
    using assms unfolding bounded_world_def
    by (metis List.finite_set card_length card_mono distinct_card order.trans)
  ultimately show ?thesis by (simp add: total_steps_def)
qed

lemma runs_are_finite: "(step e T ^^ n) (start_world T) w \<Longrightarrow> n \<le> total_steps T"
  using bounded_reach bounded_total by metis

section \<open>Runs computed\<close>

text \<open>
  The run that lets every call return as soon as it may and matches, when none may, the next
  of the pairs \<open>plan\<close> names, or with an empty plan the first pair that fits among the
  operations posted and not matched. It makes at most \<open>fuel\<close> steps.
\<close>

definition next_return :: "bool \<Rightarrow> item list list \<Rightarrow> world \<Rightarrow> nat option" where
  "next_return e T w = List.find (can_return e T w) [0..<length T]"

definition posted_ops :: "item list list \<Rightarrow> world \<Rightarrow> (opid \<times> op) list" where
  "posted_ops T w = concat (map (\<lambda>i. map (\<lambda>(k, x). ((i, k), x))
     (enumerate 0 (concat (map starts (take (Suc (pos w ! i)) (T ! i)))))) [0..<length T])"

fun first_for :: "opid \<times> op \<Rightarrow> (opid \<times> op) list \<Rightarrow> opid option" where
  "first_for (s, x) [] = None"
| "first_for (s, x) ((r, y) # rs) =
     (if compat_ops (fst s) x (fst r) y then Some r else first_for (s, x) rs)"

fun first_match :: "(opid \<times> op) list \<Rightarrow> (opid \<times> op) list \<Rightarrow> (opid \<times> opid) option" where
  "first_match [] rs = None"
| "first_match ((s, x) # ss) rs =
     (case first_for (s, x) rs of Some r \<Rightarrow> Some (s, r) | None \<Rightarrow> first_match ss rs)"

definition next_match :: "item list list \<Rightarrow> world \<Rightarrow> (opid \<times> opid) option" where
  "next_match T w =
     (let ps = posted_ops T w
      in first_match (filter (\<lambda>(a, x). \<not> sent w a) ps) (filter (\<lambda>(a, x). \<not> received w a) ps))"

definition stuck :: "bool \<Rightarrow> item list list \<Rightarrow> world \<Rightarrow> bool" where
  "stuck e T w \<longleftrightarrow> next_return e T w = None \<and> next_match T w = None"

fun run_plan :: "nat \<Rightarrow> bool \<Rightarrow> item list list \<Rightarrow> (opid \<times> opid) list \<Rightarrow> world \<Rightarrow> world" where
  "run_plan 0 e T plan w = w"
| "run_plan (Suc fuel) e T plan w =
     (case next_return e T w of
        Some i \<Rightarrow> run_plan fuel e T plan (return_call i w)
      | None \<Rightarrow>
         (case plan of
            (s, r) # plan' \<Rightarrow>
              if can_match T w s r then run_plan fuel e T plan' (match_ops s r w) else w
          | [] \<Rightarrow>
             (case next_match T w of
                Some (s, r) \<Rightarrow> run_plan fuel e T [] (match_ops s r w)
              | None \<Rightarrow> w)))"

lemma next_returnD: "next_return e T w = Some i \<Longrightarrow> can_return e T w i"
  by (auto simp: next_return_def find_Some_iff)

lemma next_return_None: "next_return e T w = None \<longleftrightarrow> \<not> (\<exists>i. can_return e T w i)"
  by (auto simp: next_return_def find_None_iff can_return_def)

text \<open>The operations of a process come in the order of their numbers.\<close>

definition by_number :: "opid \<times> op \<Rightarrow> opid \<times> op \<Rightarrow> bool" where
  "by_number a b \<longleftrightarrow> (fst (fst a) = fst (fst b) \<longrightarrow> snd (fst a) < snd (fst b))"

lemma sorted_numbered: "sorted_wrt by_number (map (\<lambda>(k, x). ((i, k), x)) (enumerate n xs))"
  by (induction xs arbitrary: n) (auto simp: by_number_def in_set_enumerate_eq)

lemma sorted_concat_numbered:
  "sorted_wrt by_number (concat (map (\<lambda>i. map (\<lambda>(k, x). ((i, k), x)) (enumerate 0 (f i))) [0..<n]))"
proof (induction n)
  case (Suc n)
  have "by_number a b"
    if "a \<in> set (concat (map (\<lambda>i. map (\<lambda>(k, x). ((i, k), x)) (enumerate 0 (f i))) [0..<n]))"
      and "b \<in> set (map (\<lambda>(k, x). ((n, k), x)) (enumerate 0 (f n)))" for a b
    using that by (auto simp: by_number_def)
  with Suc show ?case by (simp add: sorted_wrt_append sorted_numbered del: set_map)
qed simp

lemma posted_ops_sorted: "sorted_wrt by_number (posted_ops T w)"
  unfolding posted_ops_def by (rule sorted_concat_numbered)

lemma posted_opsD:
  assumes "(a, x) \<in> set (posted_ops T w)"
  shows "posted T w a" and "x = op_at T a"
proof -
  from assms have i: "fst a < length T"
    and k: "snd a < length (concat (map starts (take (Suc (pos w ! fst a)) (T ! fst a))))"
    and x: "x = concat (map starts (take (Suc (pos w ! fst a)) (T ! fst a))) ! snd a"
    by (auto simp: posted_ops_def in_set_enumerate_eq)
  from i k show "posted T w a" by (simp add: posted_def)
  have "ops T (fst a) = concat (map starts (take (Suc (pos w ! fst a)) (T ! fst a))) @
      concat (map starts (drop (Suc (pos w ! fst a)) (T ! fst a)))"
    unfolding ops_def by (metis append_take_drop_id concat_append map_append)
  with k x show "x = op_at T a" by (simp add: op_at_def nth_append)
qed

lemma posted_opsI:
  assumes "posted T w a"
  shows "(a, op_at T a) \<in> set (posted_ops T w)"
proof -
  let ?os = "concat (map starts (take (Suc (pos w ! fst a)) (T ! fst a)))"
  from assms have "(a, ?os ! snd a) \<in> set (posted_ops T w)"
    by (cases a) (force simp: posted_def posted_ops_def in_set_enumerate_eq)
  with posted_opsD(2) [OF this] show ?thesis by simp
qed

lemma first_for_Some:
  assumes "first_for (s, x) rs = Some r" and "sorted_wrt by_number rs"
  shows "\<exists>y. (r, y) \<in> set rs \<and> compat_ops (fst s) x (fst r) y \<and>
    (\<forall>l y'. ((fst r, l), y') \<in> set rs \<longrightarrow> l < snd r \<longrightarrow> \<not> compat_ops (fst s) x (fst r) y')"
  using assms
proof (induction rs)
  case (Cons z rs)
  obtain r' y' where z: "z = (r', y')" by (cases z)
  show ?case
  proof (cases "compat_ops (fst s) x (fst r') y'")
    case True
    with Cons.prems z show ?thesis
      by (cases r') (fastforce simp: by_number_def)
  next
    case False
    with Cons z obtain y where "(r, y) \<in> set rs" "compat_ops (fst s) x (fst r) y"
      "\<forall>l y'. ((fst r, l), y') \<in> set rs \<longrightarrow> l < snd r \<longrightarrow> \<not> compat_ops (fst s) x (fst r) y'"
      by auto
    with False z show ?thesis by (cases r') auto
  qed
qed simp

lemma first_for_None:
  "first_for (s, x) rs = None \<Longrightarrow> (r, y) \<in> set rs \<Longrightarrow> \<not> compat_ops (fst s) x (fst r) y"
  by (induction "(s, x)" rs rule: first_for.induct) (auto split: if_splits)

lemma first_match_Some:
  assumes "first_match ss rs = Some (s, r)" and "sorted_wrt by_number ss" and "sorted_wrt by_number rs"
  shows "\<exists>x y. (s, x) \<in> set ss \<and> (r, y) \<in> set rs \<and> compat_ops (fst s) x (fst r) y \<and>
    (\<forall>k x'. ((fst s, k), x') \<in> set ss \<longrightarrow> k < snd s \<longrightarrow> \<not> compat_ops (fst s) x' (fst r) y) \<and>
    (\<forall>l y'. ((fst r, l), y') \<in> set rs \<longrightarrow> l < snd r \<longrightarrow> \<not> compat_ops (fst s) x (fst r) y')"
  using assms
proof (induction ss)
  case (Cons z ss)
  obtain s' x' where z: "z = (s', x')" by (cases z)
  show ?case
  proof (cases "first_for (s', x') rs")
    case None
    with Cons z obtain x y where "(s, x) \<in> set ss" "(r, y) \<in> set rs" "compat_ops (fst s) x (fst r) y"
      "\<forall>k x'. ((fst s, k), x') \<in> set ss \<longrightarrow> k < snd s \<longrightarrow> \<not> compat_ops (fst s) x' (fst r) y"
      "\<forall>l y'. ((fst r, l), y') \<in> set rs \<longrightarrow> l < snd r \<longrightarrow> \<not> compat_ops (fst s) x (fst r) y'"
      by auto
    moreover from this None have "\<not> compat_ops (fst s') x' (fst r) y"
      using first_for_None by blast
    ultimately show ?thesis unfolding z by (intro exI [of _ x] exI [of _ y]) auto
  next
    case (Some r')
    with Cons.prems z have [simp]: "s' = s" "r' = r" by auto
    from first_for_Some [OF Some Cons.prems(3)] obtain y
      where "(r, y) \<in> set rs" "compat_ops (fst s) x' (fst r) y"
      "\<forall>l y'. ((fst r, l), y') \<in> set rs \<longrightarrow> l < snd r \<longrightarrow> \<not> compat_ops (fst s) x' (fst r) y'"
      by auto
    moreover have "\<not> k < snd s" if "((fst s, k), x'') \<in> set (z # ss)" for k x''
      using that Cons.prems(2) z by (cases s) (fastforce simp: by_number_def)
    ultimately show ?thesis unfolding z by auto
  qed
qed simp

lemma first_match_None:
  "first_match ss rs = None \<Longrightarrow> (s, x) \<in> set ss \<Longrightarrow> (r, y) \<in> set rs \<Longrightarrow> \<not> compat_ops (fst s) x (fst r) y"
  by (induction ss rs rule: first_match.induct) (auto split: option.splits dest: first_for_None)

lemma posted_less: "posted T w a \<Longrightarrow> k < snd a \<Longrightarrow> posted T w (fst a, k)"
  by (simp add: posted_def)

lemma next_matchD:
  assumes "next_match T w = Some (s, r)"
  shows "can_match T w s r"
proof -
  let ?ss = "filter (\<lambda>(a, x). \<not> sent w a) (posted_ops T w)"
  let ?rs = "filter (\<lambda>(a, x). \<not> received w a) (posted_ops T w)"
  obtain x y where m: "(s, x) \<in> set ?ss" "(r, y) \<in> set ?rs" "compat_ops (fst s) x (fst r) y"
    and S: "\<And>k x'. ((fst s, k), x') \<in> set ?ss \<Longrightarrow> k < snd s \<Longrightarrow> \<not> compat_ops (fst s) x' (fst r) y"
    and R: "\<And>l y'. ((fst r, l), y') \<in> set ?rs \<Longrightarrow> l < snd r \<Longrightarrow> \<not> compat_ops (fst s) x (fst r) y'"
    using first_match_Some [OF assms [unfolded next_match_def Let_def]
        sorted_wrt_filter [OF posted_ops_sorted] sorted_wrt_filter [OF posted_ops_sorted]]
    by blast
  have p: "posted T w s" "posted T w r" "x = op_at T s" "y = op_at T r" "\<not> sent w s" "\<not> received w r"
    using m posted_opsD [of s x] posted_opsD [of r y] by auto
  have "sent w (fst s, k)" if "k < snd s" "compat T (fst s, k) r" for k
    using S [OF _ that(1), of "op_at T (fst s, k)"] posted_opsI [OF posted_less [OF p(1) that(1)]] that(2) p(4)
    by (auto simp: compat_def)
  moreover have "received w (fst r, l)" if "l < snd r" "compat T s (fst r, l)" for l
    using R [OF _ that(1), of "op_at T (fst r, l)"] posted_opsI [OF posted_less [OF p(2) that(1)]] that(2) p(3)
    by (auto simp: compat_def)
  ultimately show ?thesis
    using p m(3) by (simp add: can_match_def compat_def)
qed

lemma next_match_None: "next_match T w = None \<Longrightarrow> \<not> can_match T w s r"
proof
  assume N: "next_match T w = None" and M: "can_match T w s r"
  then have m: "posted T w s" "posted T w r" "compat T s r" "\<not> sent w s" "\<not> received w r"
    by (simp_all add: can_match_def)
  then show False
    using first_match_None [OF N [unfolded next_match_def Let_def], of s "op_at T s" r "op_at T r"]
      posted_opsI [of T w s] posted_opsI [of T w r]
    by (simp add: compat_def)
qed

lemma step_then:
  "can_return e T w i \<Longrightarrow> (step e T)\<^sup>*\<^sup>* (return_call i w) w' \<Longrightarrow> (step e T)\<^sup>*\<^sup>* w w'"
  "can_match T w s r \<Longrightarrow> (step e T)\<^sup>*\<^sup>* (match_ops s r w) w' \<Longrightarrow> (step e T)\<^sup>*\<^sup>* w w'"
  by (meson step_return step_match converse_rtranclp_into_rtranclp)+

lemma run_plan_reachable: "(step e T)\<^sup>*\<^sup>* w (run_plan fuel e T plan w)"
proof (induction fuel e T plan w rule: run_plan.induct)
  case (2 fuel e T plan w)
  then show ?case
    by (auto split: list.splits prod.splits option.splits intro: step_then dest: next_returnD next_matchD)
qed simp

lemma stuck_iff: "stuck e T w \<longleftrightarrow> \<not> (\<exists>w'. step e T w w')"
proof
  assume "stuck e T w"
  then have "\<not> can_return e T w i" "\<not> can_match T w s r" for i s r
    using next_return_None next_match_None by (auto simp: stuck_def)
  then show "\<not> (\<exists>w'. step e T w w')"
    by (auto elim: step.cases)
next
  assume N: "\<not> (\<exists>w'. step e T w w')"
  then have "next_return e T w = None"
    using step_return next_returnD by (metis option.exhaust)
  moreover have "next_match T w = None"
    using N step_match next_matchD by (metis option.exhaust prod.exhaust)
  ultimately show "stuck e T w"
    by (simp add: stuck_def)
qed

end
