(* ===== verification/Deadlock.thy ===== *)
theory Deadlock
  imports Progress
begin

text \<open>
  What is claimed about the end of a program run by \<open>n\<close> processes, and how it is computed.
  \<open>env i\<close> answers the calls of process \<open>i\<close>; the sequences of communication calls follow
  from it.
\<close>

section \<open>Claims\<close>

definition answers :: "nat \<Rightarrow> (nat \<Rightarrow> nat \<Rightarrow> ccall \<Rightarrow> resp) \<Rightarrow> bool" where
  "answers n env \<longleftrightarrow> (\<forall>i<n. world_env (int i) (int n) (env i))"

definition procs :: "nat \<Rightarrow> (nat \<Rightarrow> nat \<Rightarrow> ccall \<Rightarrow> resp) \<Rightarrow> prog \<Rightarrow> item list list" where
  "procs n env p = map (\<lambda>i. items (env i) p) [0..<n]"

text \<open>
  Under every library, every run of the sequences \<open>T\<close> is finite, and one that cannot go on
  has all processes past their last call.
\<close>

definition ends_well :: "item list list \<Rightarrow> bool" where
  "ends_well T \<longleftrightarrow>
     (\<forall>R. conforming T R \<longrightarrow>
        (\<forall>k w. (R ^^ k) (start_world T) w \<longrightarrow>
           k \<le> total_steps T \<and> ((\<exists>w'. R w w') \<or> finished T w)))"

text \<open>Under no library do all processes get past their last call.\<close>

definition never_ends :: "item list list \<Rightarrow> bool" where
  "never_ends T \<longleftrightarrow>
     (\<forall>R w. conforming T R \<longrightarrow> R\<^sup>*\<^sup>* (start_world T) w \<longrightarrow> \<not> finished T w)"

text \<open>
  A library gets into a state that cannot be left although a process has not finished;
  \<open>e\<close> tells whether it is the one that may buffer messages or the one that does not.
\<close>

definition may_block :: "bool \<Rightarrow> item list list \<Rightarrow> bool" where
  "may_block e T \<longleftrightarrow>
     (\<exists>w. (step e T)\<^sup>*\<^sup>* (start_world T) w \<and> \<not> (\<exists>w'. step e T w w') \<and> \<not> finished T w)"

text \<open>A library can also get all processes past their last call.\<close>

definition may_finish :: "bool \<Rightarrow> item list list \<Rightarrow> bool" where
  "may_finish e T \<longleftrightarrow> (\<exists>w. (step e T)\<^sup>*\<^sup>* (start_world T) w \<and> finished T w)"

text \<open>The same of a program, whatever its calls are answered.\<close>

definition always_finishes :: "nat \<Rightarrow> prog \<Rightarrow> bool" where
  "always_finishes n p \<longleftrightarrow> (\<forall>env. answers n env \<longrightarrow> ends_well (procs n env p))"

definition never_finishes :: "nat \<Rightarrow> prog \<Rightarrow> bool" where
  "never_finishes n p \<longleftrightarrow> (\<forall>env. answers n env \<longrightarrow> never_ends (procs n env p))"

definition can_deadlock :: "bool \<Rightarrow> nat \<Rightarrow> prog \<Rightarrow> bool" where
  "can_deadlock e n p \<longleftrightarrow> (\<forall>env. answers n env \<longrightarrow> may_block e (procs n env p))"

definition can_finish :: "bool \<Rightarrow> nat \<Rightarrow> prog \<Rightarrow> bool" where
  "can_finish e n p \<longleftrightarrow> (\<forall>env. answers n env \<longrightarrow> may_finish e (procs n env p))"

text \<open>That library cannot get into a state that blocks.\<close>

definition no_deadlock :: "bool \<Rightarrow> nat \<Rightarrow> prog \<Rightarrow> bool" where
  "no_deadlock e n p \<longleftrightarrow> (\<forall>env. answers n env \<longrightarrow> \<not> may_block e (procs n env p))"

section \<open>Programs whose calls are fixed\<close>

definition std_procs :: "nat \<Rightarrow> prog \<Rightarrow> item list list" where
  "std_procs n p = map (\<lambda>i. items (std_env (int i) (int n)) p) [0..<n]"

lemma std_answers: "answers n (\<lambda>i. std_env (int i) (int n))"
  by (simp add: answers_def world_env_def)

text \<open>The answers that the calls of a program do not depend on.\<close>

definition fixed_calls :: "nat \<Rightarrow> prog \<Rightarrow> bool" where
  "fixed_calls n p \<longleftrightarrow> (\<forall>env. answers n env \<longrightarrow> procs n env p = std_procs n p)"

definition fixed_from :: "int \<Rightarrow> prog \<Rightarrow> bool" where
  "fixed_from k p \<longleftrightarrow> (\<forall>rank n env. world_env rank n env \<longrightarrow> k \<le> n \<longrightarrow>
     items env p = items (std_env rank n) p)"

lemma fixed_fromI:
  "(\<And>rank n env. world_env rank n env \<Longrightarrow> world_env rank n (std_env rank n) \<Longrightarrow> k \<le> n \<Longrightarrow>
      items env p = items (std_env rank n) p) \<Longrightarrow> fixed_from k p"
  unfolding fixed_from_def using std_world_env world_env_rank by blast

lemma fixed_from_ranks:
  assumes "\<And>n env. world_env 0 n env \<Longrightarrow> world_env 0 n (std_env 0 n) \<Longrightarrow> k \<le> n \<Longrightarrow>
      items env p = items (std_env 0 n) p"
    and "\<And>n env. world_env 1 n env \<Longrightarrow> world_env 1 n (std_env 1 n) \<Longrightarrow> k \<le> n \<Longrightarrow>
      items env p = items (std_env 1 n) p"
    and "\<And>n env. world_env 2 n env \<Longrightarrow> world_env 2 n (std_env 2 n) \<Longrightarrow> k \<le> n \<Longrightarrow>
      items env p = items (std_env 2 n) p"
    and "\<And>n env. world_env 3 n env \<Longrightarrow> world_env 3 n (std_env 3 n) \<Longrightarrow> k \<le> n \<Longrightarrow>
      items env p = items (std_env 3 n) p"
    and "\<And>n env. world_env 4 n env \<Longrightarrow> world_env 4 n (std_env 4 n) \<Longrightarrow> k \<le> n \<Longrightarrow>
      items env p = items (std_env 4 n) p"
    and "\<And>rank n env. 4 < rank \<Longrightarrow> world_env rank n env \<Longrightarrow> world_env rank n (std_env rank n) \<Longrightarrow>
      k \<le> n \<Longrightarrow> items env p = items (std_env rank n) p"
  shows "fixed_from k p"
proof (rule fixed_fromI)
  fix rank n env
  assume env: "world_env rank n env" "world_env rank n (std_env rank n)" and k: "k \<le> n"
  show "items env p = items (std_env rank n) p"
    using env k by (cases rule: low_rank_cases [OF env(1)]) (blast intro: assms)+
qed

lemma fixed_from_calls: "fixed_from k p \<Longrightarrow> k \<le> int n \<Longrightarrow> fixed_calls n p"
  by (simp add: fixed_from_def fixed_calls_def answers_def procs_def std_procs_def)

section \<open>Computing the claims\<close>

definition finishes_check :: "nat \<Rightarrow> item list list \<Rightarrow> bool" where
  "finishes_check fuel T \<longleftrightarrow>
     unambiguous T \<and> finished T (run_plan fuel False T [] (start_world T))"

definition never_check :: "nat \<Rightarrow> item list list \<Rightarrow> bool" where
  "never_check fuel T \<longleftrightarrow> unambiguous T \<and>
     (let w = run_plan fuel True T [] (start_world T) in stuck True T w \<and> \<not> finished T w)"

definition deadlock_check :: "nat \<Rightarrow> bool \<Rightarrow> (opid \<times> opid) list \<Rightarrow> item list list \<Rightarrow> bool" where
  "deadlock_check fuel e plan T \<longleftrightarrow>
     (let w = run_plan fuel e T plan (start_world T) in stuck e T w \<and> \<not> finished T w)"

definition passes_check :: "nat \<Rightarrow> bool \<Rightarrow> (opid \<times> opid) list \<Rightarrow> item list list \<Rightarrow> bool" where
  "passes_check fuel e plan T \<longleftrightarrow> finished T (run_plan fuel e T plan (start_world T))"

lemma ends_wellI:
  assumes "finishes_check fuel T"
  shows "ends_well T"
  unfolding ends_well_def
proof (intro allI impI conjI)
  fix R k w
  assume C: "conforming T R" and w: "(R ^^ k) (start_world T) w"
  then have "(step True T ^^ k) (start_world T) w"
    unfolding conforming_def by (metis (no_types, lifting) relpowp_mono)
  then show "k \<le> total_steps T" by (rule runs_are_finite)
  show "(\<exists>w'. R w w') \<or> finished T w"
    using completes_under_every_library [OF _ run_plan_reachable, of T fuel "[]" R w]
      assms C relpowp_imp_rtranclp [OF w]
    unfolding finishes_check_def by blast
qed

lemma never_endsI: "never_check fuel T \<Longrightarrow> never_ends T"
  unfolding never_ends_def never_check_def Let_def stuck_iff
  using completes_under_no_library [OF _ run_plan_reachable, of T fuel "[]"] by blast

lemma may_blockI: "deadlock_check fuel e plan T \<Longrightarrow> may_block e T"
  unfolding may_block_def deadlock_check_def Let_def stuck_iff
  using run_plan_reachable by blast

lemma may_finishI: "passes_check fuel e plan T \<Longrightarrow> may_finish e T"
  unfolding may_finish_def passes_check_def
  using run_plan_reachable by blast

lemma not_may_block:
  assumes U: "unambiguous T" and F: "finished T (run_plan fuel e T plan (start_world T))"
  shows "\<not> may_block e T"
proof
  assume "may_block e T"
  then obtain w where w: "(step e T)\<^sup>*\<^sup>* (start_world T) w" "\<not> (\<exists>w'. step e T w w')" "\<not> finished T w"
    unfolding may_block_def by blast
  have S: "sound_world T w" using U w(1) by (rule reachable_sound)
  from stuck_ahead [OF U run_plan_reachable S w(2)] behind_finished [OF F _ S] w(3)
  show False by blast
qed

lemmas proc_simps = std_procs_def upt_rec item_simps

text \<open>For programs whose calls are fixed; 200 steps are more than any of them makes.\<close>

lemma finishes_at:
  "fixed_from k p \<Longrightarrow> k \<le> int n \<Longrightarrow> finishes_check 200 (std_procs n p) \<Longrightarrow> always_finishes n p"
  using fixed_from_calls by (fastforce simp: always_finishes_def fixed_calls_def intro: ends_wellI)

lemma never_finishes_at:
  "fixed_from k p \<Longrightarrow> k \<le> int n \<Longrightarrow> never_check 200 (std_procs n p) \<Longrightarrow> never_finishes n p"
  using fixed_from_calls by (fastforce simp: never_finishes_def fixed_calls_def intro: never_endsI)

lemma deadlock_at:
  "fixed_from k p \<Longrightarrow> k \<le> int n \<Longrightarrow> deadlock_check 200 e plan (std_procs n p) \<Longrightarrow> can_deadlock e n p"
  using fixed_from_calls by (fastforce simp: can_deadlock_def fixed_calls_def intro: may_blockI)

lemma can_finish_at:
  "fixed_from k p \<Longrightarrow> k \<le> int n \<Longrightarrow> passes_check 200 e plan (std_procs n p) \<Longrightarrow> can_finish e n p"
  using fixed_from_calls by (fastforce simp: can_finish_def fixed_calls_def intro: may_finishI)

lemma no_deadlock_at:
  assumes "fixed_from k p" and "k \<le> int n" and "unambiguous (std_procs n p)"
    and "finished (std_procs n p) (run_plan 200 e (std_procs n p) [] (start_world (std_procs n p)))"
  shows "no_deadlock e n p"
  using fixed_from_calls [OF assms(1,2)] not_may_block [OF assms(3,4)]
  by (simp add: fixed_calls_def no_deadlock_def)

section \<open>More receives than messages\<close>

text \<open>
  The sends to process \<open>j\<close>, and the numbers of the receives it waits for in its calls up to
  the n-th. \<open>b ! i\<close> is a bound on the calls that process \<open>i\<close> has returned from: if each
  process that has one waits, up to that call, for more messages than the processes start
  sending to it within their bounds, none of them passes its bound, whatever is matched with
  what.
\<close>

fun is_recv :: "op \<Rightarrow> bool" where
  "is_recv (Rop src tg) = True"
| "is_recv (Sop m d t) = False"

fun sends_to :: "nat \<Rightarrow> op \<Rightarrow> bool" where
  "sends_to j (Sop m d t) = (d = int j)"
| "sends_to j (Rop src tg) = False"

fun waits :: "item \<Rightarrow> nat list" where
  "waits (Item os ns) = ns"
| "waits _ = []"

definition posted_by :: "item list list \<Rightarrow> nat list \<Rightarrow> opid \<Rightarrow> bool" where
  "posted_by T b a \<longleftrightarrow> snd a < length (concat (map starts (take (Suc (b ! fst a)) (T ! fst a))))"

definition messages_for :: "item list list \<Rightarrow> nat list \<Rightarrow> nat \<Rightarrow> opid list" where
  "messages_for T b j = map fst (filter (\<lambda>(a, x). sends_to j x \<and> posted_by T b a) (all_ops T))"

definition awaited :: "item list list \<Rightarrow> nat \<Rightarrow> nat \<Rightarrow> nat list" where
  "awaited T j n =
     remdups (filter (\<lambda>k. is_recv (op_at T (j, k))) (concat (map waits (take (Suc n) (T ! j)))))"

definition starved :: "item list list \<Rightarrow> nat list \<Rightarrow> bool" where
  "starved T b \<longleftrightarrow> length b = length T \<and>
     (\<forall>j\<in>set [0..<length T]. b ! j < length (T ! j) \<longrightarrow>
        length (messages_for T b j) < length (awaited T j (b ! j))) \<and>
     (\<exists>j\<in>set [0..<length T]. b ! j < length (T ! j))"

text \<open>What holds of every state: sends are matched once, and returned calls got their messages.\<close>

definition fed :: "item list list \<Rightarrow> world \<Rightarrow> bool" where
  "fed T w \<longleftrightarrow> length (pos w) = length T \<and> distinct (map fst (matched w)) \<and>
     (\<forall>(s, r)\<in>set (matched w). posted T w s \<and> compat T s r) \<and>
     (\<forall>j<length T. \<forall>n<pos w ! j. \<forall>k\<in>set (waits (T ! j ! n)). is_recv (op_at T (j, k)) \<longrightarrow> received w (j, k))"

lemma fed_start: "fed T (start_world T)"
  by (simp add: fed_def start_world_def)

lemma done_received: "item_done e T w i x \<Longrightarrow> k \<in> set (waits x) \<Longrightarrow> is_recv (op_at T (i, k)) \<Longrightarrow> received w (i, k)"
  by (cases x; cases "op_at T (i, k)") fastforce+

lemma posted_return: "i < length (pos w) \<Longrightarrow> posted T w a \<Longrightarrow> posted T (return_call i w) a"
  using starts_mono [of "Suc (pos w ! i)" "Suc (Suc (pos w ! i))" "T ! i"]
  by (auto simp: posted_def pos_return)

lemma posted_match [simp]: "posted T (match_ops s r w) a = posted T w a"
  by (simp add: posted_def)

lemma fed_step: "step e T w w' \<Longrightarrow> fed T w \<Longrightarrow> fed T w'"
proof (induction rule: step.induct)
  case (step_return w i)
  then show ?case
    by (auto simp: fed_def can_return_def pos_return less_Suc_eq received_def posted_return dest: done_received
        split: if_splits)
next
  case (step_match w s r)
  have "distinct (map fst (matched (match_ops s r w)))"
    using step_match can_matchD(4) [OF step_match(1)] by (simp add: fed_def sent_def)
  moreover have "\<forall>(s, r)\<in>set (matched (match_ops s r w)). posted T (match_ops s r w) s \<and> compat T s r"
    using step_match by (auto simp: fed_def can_match_def)
  ultimately show ?case
    using step_match(2) by (auto simp: fed_def received_def)
qed

lemma fed_reachable: "(step e T)\<^sup>*\<^sup>* (start_world T) w \<Longrightarrow> fed T w"
  by (induction rule: rtranclp_induct) (auto intro: fed_start fed_step)

lemma message_listed:
  "valid T s \<Longrightarrow> compat T s (j, k) \<Longrightarrow> posted_by T b s \<Longrightarrow> s \<in> set (messages_for T b j)"
  using all_ops_valid [of T s]
  by (cases "op_at T s"; cases "op_at T (j, k)") (force simp: messages_for_def compat_def)+

text \<open>Different receives got different messages.\<close>

lemma received_le_messages:
  assumes F: "fed T w" and received: "\<And>k. k \<in> set ks \<Longrightarrow> received w (j, k)" and "distinct ks"
    and posted: "\<And>s. posted T w s \<Longrightarrow> posted_by T b s"
  shows "length ks \<le> length (messages_for T b j)"
proof -
  have "\<exists>s. (s, (j, k)) \<in> set (matched w)" if "k \<in> set ks" for k
    using received [OF that] by (blast elim: receivedE)
  then obtain f where f: "\<And>k. k \<in> set ks \<Longrightarrow> (f k, (j, k)) \<in> set (matched w)" by metis
  have "inj_on f (set ks)"
  proof (rule inj_onI)
    fix k l assume "k \<in> set ks" "l \<in> set ks" "f k = f l"
    then have "(f k, (j, k)) \<in> set (matched w)" "(f k, (j, l)) \<in> set (matched w)"
      using f by fastforce+
    moreover have "distinct (map fst (matched w))" using F by (simp add: fed_def)
    ultimately have "(j, k) = (j, l)" by (rule eq_key_imp_eq_value [rotated])
    then show "k = l" by simp
  qed
  moreover have "f k \<in> set (messages_for T b j)" if "k \<in> set ks" for k
  proof (rule message_listed)
    have "posted T w (f k)" and compat: "compat T (f k) (j, k)"
      using f [OF that] F unfolding fed_def by blast+
    then show "valid T (f k)" "posted_by T b (f k)" by (blast intro: posted_valid posted)+
    show "compat T (f k) (j, k)" using compat .
  qed
  then have "f ` set ks \<subseteq> set (messages_for T b j)" by blast
  ultimately have "card (set ks) \<le> card (set (messages_for T b j))"
    by (meson List.finite_set card_inj_on_le)
  then show ?thesis
    using card_length [of "messages_for T b j"] distinct_card [OF assms(3)] by simp
qed

definition within :: "nat list \<Rightarrow> world \<Rightarrow> bool" where
  "within b w \<longleftrightarrow> (\<forall>i<length b. pos w ! i \<le> b ! i)"

lemma within_posted: "within b w \<Longrightarrow> length b = length T \<Longrightarrow> posted T w a \<Longrightarrow> posted_by T b a"
  using starts_mono [of "Suc (pos w ! fst a)" "Suc (b ! fst a)" "T ! fst a"]
  by (force simp: within_def posted_def posted_by_def)

lemma starved_step:
  assumes S: "starved T b" and "fed T w \<and> within b w" and "step e T w w'"
  shows "fed T w' \<and> within b w'"
proof
  show "fed T w'" using fed_step assms by blast
  from S have b: "length b = length T" by (simp add: starved_def)
  from assms(3,2) show "within b w'"
  proof (induction rule: step.induct)
    case (step_match w s r)
    then show ?case by (simp add: within_def)
  next
    case (step_return w i)
    then have i: "i < length T" "pos w ! i < length (T ! i)" and F: "fed T w" and W: "within b w"
      and "length (pos w) = length T"
      by (simp_all add: can_return_def fed_def)
    have "pos w ! i \<noteq> b ! i"
    proof
      assume at: "pos w ! i = b ! i"
      have "received w (i, k)" if "k \<in> set (awaited T i (b ! i))" for k
      proof -
        from that have recv: "is_recv (op_at T (i, k))" by (simp add: awaited_def)
        from that at obtain x where x: "x \<in> set (take (Suc (pos w ! i)) (T ! i))" "k \<in> set (waits x)"
          by (auto simp: awaited_def)
        with i have "x = T ! i ! (pos w ! i) \<or> (\<exists>n<pos w ! i. x = T ! i ! n)"
          by (force simp: take_Suc_conv_app_nth in_set_conv_nth)
        with x(2) have "k \<in> set (waits (T ! i ! (pos w ! i))) \<or>
            (\<exists>n<pos w ! i. k \<in> set (waits (T ! i ! n)))" by blast
        then show ?thesis
          using F i recv step_return(1) done_received by (fastforce simp: fed_def can_return_def)
      qed
      then have "length (awaited T i (b ! i)) \<le> length (messages_for T b i)"
        using F within_posted [OF W b] by (intro received_le_messages) (simp_all add: awaited_def)
      with S i at show False by (fastforce simp: starved_def)
    qed
    with W b i \<open>length (pos w) = length T\<close> show ?case
      by (auto simp: within_def pos_return Suc_le_eq order_less_le)
  qed
qed

lemma starved_never_ends:
  assumes S: "starved T b"
  shows "never_ends T"
  unfolding never_ends_def conforming_iff
proof (intro allI impI)
  fix R w assume "mpi_library T R" and "R\<^sup>*\<^sup>* (start_world T) w"
  then have "(step True T)\<^sup>*\<^sup>* (start_world T) w" by (rule mpi_library.reachable_permitted)
  then have "fed T w \<and> within b w"
  proof (induction rule: rtranclp_induct)
    case base
    have "within b (start_world T)" using S by (simp add: within_def start_world_def starved_def)
    then show ?case using fed_start by blast
  next
    case (step v w)
    then show ?case using starved_step [OF S] by blast
  qed
  moreover obtain j where "j < length T" "b ! j < length (T ! j)" "length b = length T"
    using S by (auto simp: starved_def)
  ultimately show "\<not> finished T w" by (force simp: finished_def within_def)
qed

lemma never_finishes_starved:
  "fixed_from k p \<Longrightarrow> k \<le> int n \<Longrightarrow> starved (std_procs n p) b \<Longrightarrow> never_finishes n p"
  using fixed_from_calls by (fastforce simp: never_finishes_def fixed_calls_def intro: starved_never_ends)

end
