(* ===== verification/Claims.thy ===== *)
theory Claims
  imports Local Deadlock
begin

text \<open>What is claimed of a whole code, and the rules that reduce a claim to evaluation.\<close>

text \<open>
  A code is correct from \<open>k\<close> processes on: no process makes an error of its own, and for
  the numbers of processes \<open>ns\<close> every run under every library is finite and ends with all
  processes past their last call.
\<close>

definition correct :: "int \<Rightarrow> nat list \<Rightarrow> prog \<Rightarrow> bool" where
  "correct k ns p \<longleftrightarrow> clean_from k p \<and> (\<forall>n\<in>set ns. always_finishes n p)"

lemma correctI:
  assumes "clean_from k p" and "fixed_from k p"
    and "\<forall>n\<in>set ns. k \<le> int n \<and> finishes_check 200 (std_procs n p)"
  shows "correct k ns p"
  using assms by (auto simp: correct_def intro: finishes_at)

end
