(* ===== verification/Checks_P2P.thy ===== *)
theory Checks_P2P
  imports Codes_Aside Claims
begin

text \<open>
  The codes with blocking point-to-point communication, verified against the comments at their head. For
  each, two lemmas by evaluation: its processes make no local error, and which calls they
  make does not depend on what MPI answers. The claims follow by computing one run.
\<close>

section \<open>Codes expected to be correct\<close>

lemma any_src_clean: "clean_from 2 no_error_p2p_any_src"
  by (rule clean_from_ranks; simp add: mon_simps code_defs)

lemma any_src_fixed: "fixed_from 2 no_error_p2p_any_src"
  by (rule fixed_from_ranks; simp add: item_simps code_defs)

lemma any_src2_clean: "clean_from 2 no_error_p2p_any_src2"
  by (rule clean_from_ranks; simp add: mon_simps code_defs)

lemma any_src2_fixed: "fixed_from 2 no_error_p2p_any_src2"
  by (rule fixed_from_ranks; simp add: item_simps code_defs)

lemma any_src3_clean: "clean_from 2 no_error_p2p_any_src3"
  by (rule clean_from_ranks; simp add: mon_simps code_defs)

lemma any_src3_fixed: "fixed_from 2 no_error_p2p_any_src3"
  by (rule fixed_from_ranks; simp add: item_simps code_defs)

lemma bsend_recv_clean: "clean_from 2 no_error_p2p_bsend_recv"
  by (rule clean_from_ranks; simp add: mon_simps code_defs)

lemma bsend_recv_fixed: "fixed_from 2 no_error_p2p_bsend_recv"
  by (rule fixed_from_ranks; simp add: item_simps code_defs)

lemma sendrecv_send_recv_clean: "clean_from 2 no_error_p2p_sendrecv_send_recv"
  by (rule clean_from_ranks; simp add: mon_simps code_defs)

lemma sendrecv_send_recv_fixed: "fixed_from 2 no_error_p2p_sendrecv_send_recv"
  by (rule fixed_from_ranks; simp add: item_simps code_defs)

lemma sendrecv_clean: "clean_from 2 no_error_p2p_sendrecv"
  by (rule clean_from_ranks; simp add: mon_simps code_defs)

lemma sendrecv_fixed: "fixed_from 2 no_error_p2p_sendrecv"
  by (rule fixed_from_ranks; simp add: item_simps code_defs)

text \<open>
  C1. The three codes that receive from \<open>MPI_ANY_SOURCE\<close> and are expected to be correct
  are: no process makes an error of its own, and run by 2, 3 or 4 processes they end under
  every MPI library. So are the buffered send followed by a standard send, the
  \<open>MPI_Sendrecv\<close> answered by a receive and a send, and the exchange of three pairs of them.
\<close>

theorem blocking_codes_correct:
  "correct 2 [2, 3, 4] no_error_p2p_any_src \<and> correct 2 [2, 3, 4] no_error_p2p_any_src2 \<and>
   correct 2 [2, 3, 4] no_error_p2p_any_src3 \<and> correct 2 [2, 3, 4] no_error_p2p_bsend_recv \<and>
   correct 2 [2, 3, 4] no_error_p2p_sendrecv_send_recv \<and> correct 2 [2, 3] no_error_p2p_sendrecv"
  by (intro conjI correctI any_src_clean any_src2_clean any_src3_clean bsend_recv_clean
      sendrecv_send_recv_clean sendrecv_clean sendrecv_fixed any_src_fixed any_src2_fixed any_src3_fixed bsend_recv_fixed
      sendrecv_send_recv_fixed; simp add: proc_simps code_defs; code_simp)

lemma sendrecv2_clean: "clean_from 2 no_error_p2p_sendrecv2"
  by (rule clean_fromI) (simp add: mon_simps code_defs)

lemma sendrecv2_fixed: "fixed_from 2 no_error_p2p_sendrecv2"
  by (rule fixed_fromI) (simp add: item_simps code_defs)

lemma sendrecv3_clean: "clean_from 2 no_error_p2p_sendrecv3"
proof (rule clean_fromI)
  fix rank nprocs env
  assume env: "world_env rank nprocs env" and n: "2 \<le> nprocs"
  from env n show "verdict rank nprocs env no_error_p2p_sendrecv3 = (Exit 0, [])"
    by (cases rule: rank_cases [OF env n]) (simp_all add: mon_simps code_defs)
qed

lemma sendrecv3_fixed: "fixed_from 2 no_error_p2p_sendrecv3"
  by (rule fixed_fromI) (simp add: item_simps code_defs)

lemma ring_clean: "clean_from 1 no_error_p2p_send_recv_ring"
proof (rule clean_fromI)
  fix rank nprocs env
  assume env: "world_env rank nprocs env" and n: "1 \<le> nprocs"
  from env show "verdict rank nprocs env no_error_p2p_send_recv_ring = (Exit 0, [])"
    using world_env_rank [OF env] n by (cases "rank mod 2 = 0") (simp_all add: mon_simps code_defs)
qed

lemma ring_fixed: "fixed_from 1 no_error_p2p_send_recv_ring"
proof (rule fixed_fromI)
  fix rank n env
  assume "world_env rank n env" "world_env rank n (std_env rank n)"
  then show "items env no_error_p2p_send_recv_ring = items (std_env rank n) no_error_p2p_send_recv_ring"
    by (cases "rank mod 2 = 0") (simp_all add: item_simps code_defs)
qed

lemma ring_alone: "can_deadlock False 1 no_error_p2p_send_recv_ring"
  by (rule deadlock_at [OF ring_fixed, where plan = "[]"]; simp add: proc_simps code_defs; code_simp)

lemma recv_loop_clean: "clean_from 2 no_error_p2p_recv_any_src_loop"
proof (rule clean_fromI)
  fix rank nprocs env
  assume env: "world_env rank nprocs env" and n: "2 \<le> nprocs"
  from env show "verdict rank nprocs env no_error_p2p_recv_any_src_loop = (Exit 0, [])"
    using world_env_rank [OF env] n
    by (cases "rank = 0")
      (simp_all add: check_simps stmt_defs no_error_p2p_recv_any_src_loop_def
        verdict_from_loop)
qed

lemma recv_loop_fixed: "fixed_calls 2 no_error_p2p_recv_any_src_loop"
  unfolding fixed_calls_def
proof (intro allI impI)
  fix env assume "answers 2 env"
  then have "world_env 0 2 (env 0)" "world_env 1 2 (env (Suc 0))"
    by (simp_all add: answers_def eval_nat_numeral All_less_Suc)
  then show "procs 2 env no_error_p2p_recv_any_src_loop = std_procs 2 no_error_p2p_recv_any_src_loop"
    by (simp add: procs_def proc_simps code_defs)
qed

lemma recv_loop_finishes: "always_finishes 2 no_error_p2p_recv_any_src_loop"
proof -
  have "finishes_check 200 (std_procs 2 no_error_p2p_recv_any_src_loop)"
    by (simp add: proc_simps code_defs; code_simp)
  with recv_loop_fixed show ?thesis
    by (simp add: always_finishes_def fixed_calls_def ends_wellI)
qed

text \<open>
  C2. The exchanges around a ring with \<open>MPI_Sendrecv\<close> are correct, whichever way the
  neighbours are computed. The ring in which even processes send first is correct for an even
  and for an odd number of processes from 2 to 6; run by one process it sends to itself, and
  deadlocks with a library that does not buffer. In the code where process 0 receives one
  message of each other process, no process errs, whatever their number, and with two
  processes it always finishes.
\<close>

theorem rings_and_loops_correct:
  "correct 2 [2, 3, 4] no_error_p2p_sendrecv2 \<and> correct 2 [2, 3, 4] no_error_p2p_sendrecv3 \<and>
   correct 1 [2, 3, 4, 5, 6] no_error_p2p_send_recv_ring \<and>
   can_deadlock False 1 no_error_p2p_send_recv_ring \<and>
   clean_from 2 no_error_p2p_recv_any_src_loop \<and> always_finishes 2 no_error_p2p_recv_any_src_loop"
  by (intro conjI correctI sendrecv2_clean sendrecv3_clean sendrecv2_fixed sendrecv3_fixed
      ring_clean ring_fixed ring_alone recv_loop_clean recv_loop_finishes;
      simp add: proc_simps code_defs; code_simp)

end
