(* ===== verification/Codes_Nonblock.thy ===== *)
theory Codes_Nonblock
  imports Codes_P2P
begin

text \<open>
  The codes of src/codes that use requests. The response of \<open>MPI_Waitany\<close> is
  \<open>[index]\<close>, of \<open>MPI_Waitsome\<close> \<open>[outcount, indices...]\<close>, of \<open>MPI_Test\<close> and
  \<open>MPI_Testall\<close> \<open>[flag]\<close>, of \<open>MPI_Testany\<close> \<open>[flag, index]\<close>. A loop that
  tests until a flag is set has the number of iterations it may take as a parameter.
\<close>

section \<open>Codes expected to be correct\<close>

definition no_error_p2p_irecv_any_src_loop :: prog where
  "no_error_p2p_irecv_any_src_loop = mbi_main [(''buf0'', buf_size), (''buf1'', buf_size)] (\<lambda>rank nprocs.
    (let NUMREPS = 3 in
    [call (MPI_Barrier W),
     if_c (NUMREPS < 1) [call (C_printf ''! Not enough repetitions !'')],
     if_else (nprocs < 2) [call (C_printf ''! This test needs at least 2 processes !'')]
     [if_else (rank = 0)
       [call (C_memset (Ref ''buf0'' 0) 0 (buf_size * 4)),
        call (MPI_Irecv (Ref ''buf1'' 0) buf_size MPI_INT MPI_ANY_SOURCE (Tag 0) W (Ref ''req'' 0)),
        call (MPI_Send (Ref ''buf0'' 0) buf_size MPI_INT 1 0 W),
        for_c (upto_lt 0 NUMREPS) (\<lambda>i.
         [call (MPI_Send (Ref ''buf0'' 0) buf_size MPI_INT 1 0 W),
          call (MPI_Recv (Ref ''buf0'' 0) buf_size MPI_INT (Rank 1) (Tag 0) W)]),
        call (MPI_Wait (Ref ''req'' 0))]
      [if_c (rank = 1)
       [call (MPI_Irecv (Ref ''buf1'' 0) buf_size MPI_INT MPI_ANY_SOURCE (Tag 0) W (Ref ''req'' 0)),
        call (MPI_Recv (Ref ''buf0'' 0) buf_size MPI_INT (Rank 0) (Tag 0) W),
        call (MPI_Send (Ref ''buf0'' 0) buf_size MPI_INT 0 0 W),
        for_c (upto_lt 0 (NUMREPS - 1)) (\<lambda>i.
         [call (MPI_Send (Ref ''buf0'' 0) buf_size MPI_INT 0 0 W),
          call (MPI_Recv (Ref ''buf0'' 0) buf_size MPI_INT (Rank 0) (Tag 0) W)]),
        call (MPI_Send (Ref ''buf0'' 0) buf_size MPI_INT 0 0 W),
        call (MPI_Wait (Ref ''req'' 0))]]],
     call (MPI_Barrier W)]) @ mbi_end)"

definition no_error_p2p_irecv_isend_loop :: prog where
  "no_error_p2p_irecv_isend_loop = mbi_main [(''buf0'', buf_size), (''buf1'', buf_size)] (\<lambda>rank nprocs.
    (let req_count = 5 in
    [call (MPI_Barrier W),
     if_else (nprocs < 2) [call (C_printf ''! This test needs at least 2 processes !'')]
      (let dest = (if rank = nprocs - 1 then 0 else rank + 1);
           src = (if rank = 0 then nprocs - 1 else rank - 1) in
       [call (C_memset (Ref ''buf0'' 0) rank (buf_size * 4)),
        call (C_memset (Ref ''buf1'' 0) rank (buf_size * 4)),
        for_c (upto_lt 0 req_count) (\<lambda>i.
         [call (MPI_Irecv (Ref ''buf0'' 0) buf_size MPI_INT (Rank src) (Tag 0) W (Ref ''req1'' 0)),
          call (MPI_Isend (Ref ''buf1'' 0) buf_size MPI_INT dest 0 W (Ref ''req2'' 0)),
          call (MPI_Wait (Ref ''req2'' 0)),
          call (MPI_Wait (Ref ''req1'' 0))])]),
     call (MPI_Barrier W)]) @ mbi_end)"

definition no_error_p2p_irecv_send_2_handles :: prog where
  "no_error_p2p_irecv_send_2_handles = mbi_main [(''buf0'', buf_size), (''buf1'', buf_size)] (\<lambda>rank nprocs.
    [call (MPI_Barrier W),
     if_else (nprocs \<noteq> 2) [call (C_printf ''! This test needs 2 processes !'')]
     [if_else (rank = 0)
       [call (C_memset (Ref ''buf0'' 0) 0 (buf_size * 4)),
        call (MPI_Irecv (Ref ''buf1'' 0) buf_size MPI_INT (Rank 1) (Tag 0) W (Ref ''req'' 0)),
        call (C_copy_request (Ref ''req2'' 0) (Ref ''req'' 0)),
        call (MPI_Send (Ref ''buf0'' 0) buf_size MPI_INT 1 0 W),
        call (MPI_Wait (Ref ''req2'' 0))]
      [if_c (rank = 1)
       [call (C_memset (Ref ''buf1'' 0) 1 (buf_size * 4)),
        call (MPI_Irecv (Ref ''buf0'' 0) buf_size MPI_INT (Rank 0) (Tag 0) W (Ref ''req'' 0)),
        call (C_copy_request (Ref ''req2'' 0) (Ref ''req'' 0)),
        call (MPI_Wait (Ref ''req2'' 0)),
        call (MPI_Send (Ref ''buf1'' 0) buf_size MPI_INT 0 0 W)]]],
     call (MPI_Barrier W)] @ mbi_end)"

definition no_error_p2p_test :: "nat \<Rightarrow> prog" where
  "no_error_p2p_test fuel = mbi_main [(''buf0'', buf_size), (''buf1'', buf_size)] (\<lambda>rank nprocs.
    [call (MPI_Barrier W),
     if_else (nprocs < 2) [call (C_printf ''! This test needs at least 2 processes !'')]
     [if_else (rank = 0)
       [call (C_memset (Ref ''buf0'' 0) 0 (buf_size * 4)),
        call (MPI_Irecv (Ref ''buf1'' 0) buf_size MPI_INT (Rank 1) (Tag 0) W (Ref ''req'' 0)),
        call (MPI_Send (Ref ''buf0'' 0) buf_size MPI_INT 1 0 W),
        poll fuel (MPI_Test (Ref ''req'' 0))]
      [if_c (rank = 1)
       [call (C_memset (Ref ''buf1'' 0) 1 (buf_size * 4)),
        call (MPI_Irecv (Ref ''buf0'' 0) buf_size MPI_INT (Rank 0) (Tag 0) W (Ref ''req'' 0)),
        poll fuel (MPI_Test (Ref ''req'' 0)),
        call (MPI_Send (Ref ''buf1'' 0) buf_size MPI_INT 0 0 W)]]],
     call (MPI_Barrier W)] @ mbi_end)"

definition no_error_p2p_testall :: "nat \<Rightarrow> prog" where
  "no_error_p2p_testall fuel = mbi_main [(''buf0'', buf_size), (''buf1'', buf_size)] (\<lambda>rank nprocs.
    [call (MPI_Barrier W),
     if_else (nprocs < 2) [call (C_printf ''! This test needs at least 2 processes !'')]
     [if_else (rank = 0)
       [call (MPI_Irecv (Ref ''buf0'' 0) buf_size MPI_INT (Rank 1) (Tag 0) W (Ref ''reqs'' 0)),
        call (MPI_Irecv (Ref ''buf1'' 0) buf_size MPI_INT (Rank 1) (Tag 0) W (Ref ''reqs'' 1)),
        poll fuel (MPI_Testall 2 (Ref ''reqs'' 0)),
        call (MPI_Send (Ref ''buf1'' 0) buf_size MPI_INT 1 1 W)]
      [if_else (rank = 1)
       [call (C_memset (Ref ''buf0'' 0) 0 (buf_size * 4)),
        call (MPI_Isend (Ref ''buf0'' 0) buf_size MPI_INT 0 0 W (Ref ''reqs'' 0)),
        call (MPI_Isend (Ref ''buf0'' 0) buf_size MPI_INT 2 1 W (Ref ''reqs'' 1)),
        poll fuel (MPI_Testall 2 (Ref ''reqs'' 0)),
        call (MPI_Send (Ref ''buf0'' 0) buf_size MPI_INT 0 0 W),
        call (MPI_Recv (Ref ''buf1'' 0) buf_size MPI_INT (Rank 0) (Tag 1) W)]
      [if_c (rank = 2)
       [call (MPI_Recv (Ref ''buf1'' 0) buf_size MPI_INT (Rank 1) (Tag 1) W)]]]],
     call (MPI_Barrier W)] @ mbi_end)"

text \<open>\<open>while (!flag) MPI_Testany(i, reqs, &done, &flag, &status); assert(done == i - 1);\<close>\<close>

definition no_error_p2p_testany :: "nat \<Rightarrow> prog" where
  "no_error_p2p_testany fuel = mbi_main
     [(''buf0'', buf_size), (''buf1'', buf_size), (''buf2'', buf_size), (''i'', 1), (''flipbit'', 1),
      (''done'', 1), (''flag'', 1)] (\<lambda>rank nprocs.
    [call (MPI_Barrier W),
     if_else (nprocs < 2) [call (C_printf ''! This test needs at least 2 processes !'')]
     [if_else (rank = 0)
       [call (MPI_Irecv (Ref ''buf0'' 0) buf_size MPI_INT (Rank 1) (Tag 1) W (Ref ''reqs'' 0)),
        call (MPI_Irecv (Ref ''buf1'' 0) buf_size MPI_INT (Rank 1) (Tag 2) W (Ref ''reqs'' 1)),
        call (MPI_Irecv (Ref ''buf2'' 0) buf_size MPI_INT (Rank 1) (Tag 3) W (Ref ''reqs'' 2)),
        for_c (downto_gt 3 0) (\<lambda>i.
         [call (MPI_Send (Ref ''flipbit'' 0) 1 MPI_INT 1 i W),
          call (C_printf ''req = %p''),
          poll_done fuel (MPI_Testany i (Ref ''reqs'' 0)) (\<lambda>done. assert_c (done = i - 1))])]
      [if_c (rank = 1)
       [call (C_memset (Ref ''buf0'' 0) 1 (buf_size * 4)),
        for_c (downto_gt 3 0) (\<lambda>i.
         [call (MPI_Recv (Ref ''flipbit'' 0) 1 MPI_INT (Rank 0) (Tag i) W),
          call (MPI_Send (Ref ''buf0'' 0) buf_size MPI_INT 0 i W)])]]],
     call (MPI_Barrier W)] @ mbi_end)"

definition no_error_p2p_type_free :: prog where
  "no_error_p2p_type_free =
    (let ITERATIONS = 10; TYPES_PER_ITERATION = 3; TYPES_TO_COMMIT = 1 in
     mbi_main [(''buf'', buf_size * TYPES_TO_COMMIT)] (\<lambda>rank nprocs.
    [if_else (nprocs < 2) [call (C_printf ''! This test needs at least 2 processes !'')]
     [call (MPI_Barrier W),
      if_c (nprocs mod 2 = 0 \<or> rank \<noteq> nprocs - 1)
       (let partner = (if rank mod 2 \<noteq> 0 then rank - 1 else rank + 1) in
        [for_c (upto_lt 0 ITERATIONS) (\<lambda>i.
          [for_c (upto_lt 0 TYPES_PER_ITERATION) (\<lambda>j.
            [call (MPI_Type_contiguous buf_size MPI_INT (Ref ''newtype'' j)),
             (let buf_j = j + TYPES_TO_COMMIT - TYPES_PER_ITERATION in
              if_c (0 \<le> buf_j)
               [call (MPI_Type_commit (Ref ''newtype'' j)),
                if_else (rank mod 2 \<noteq> 0)
                 [call (MPI_Irecv (Ref ''buf'' (buf_j * buf_size)) 1 (Type_var (Ref ''newtype'' j))
                          (Rank partner) (Tag buf_j) W (Ref ''reqs'' buf_j))]
                 [call (MPI_Isend (Ref ''buf'' (buf_j * buf_size)) 1 (Type_var (Ref ''newtype'' j))
                          partner buf_j W (Ref ''reqs'' buf_j))]]),
             if_c (j < TYPES_PER_ITERATION) [call (MPI_Type_free (Ref ''newtype'' j))]]),
           call (MPI_Waitall TYPES_TO_COMMIT (Ref ''reqs'' 0))])])],
     call (MPI_Barrier W)] @ mbi_end))"

definition no_error_p2p_waitall_loop :: prog where
  "no_error_p2p_waitall_loop = mbi_main [(''size1'', 5), (''i'', 1)] (\<lambda>rank nprocs.
    [need_procs 2 nprocs,
     if_c (rank = 0)
      [for_c (upto_lt 0 5) (\<lambda>i.
        [call (MPI_Isend (Ref ''nprocs'' 0) 1 MPI_INT 1 i W (Ref ''reqs'' i))]),
       for_c (upto_lt 5 10) (\<lambda>i.
        [call (MPI_Irecv (Ref ''size1'' (i - 5)) 1 MPI_INT (Rank 1) (Tag i) W (Ref ''reqs'' i))])],
     if_c (rank = 1)
      [for_c (upto_lt 0 5) (\<lambda>i.
        [call (MPI_Irecv (Ref ''size1'' i) 1 MPI_INT (Rank 0) (Tag (4 - i)) W (Ref ''reqs'' i))]),
       for_c (upto_lt 5 10) (\<lambda>i.
        [call (MPI_Isend (Ref ''nprocs'' 0) 1 MPI_INT 0 (14 - i) W (Ref ''reqs'' i))])],
     call (MPI_Waitall 10 (Ref ''reqs'' 0))] @ mbi_end)"

definition no_error_p2p_waitall :: prog where
  "no_error_p2p_waitall = mbi_main [(''buf0'', buf_size), (''buf1'', buf_size)] (\<lambda>rank nprocs.
    [call (MPI_Barrier W),
     if_else (nprocs < 3) [call (C_printf ''! This test needs at least 3 processes !'')]
     [if_else (rank = 0)
       [call (MPI_Irecv (Ref ''buf0'' 0) buf_size MPI_INT (Rank 1) (Tag 0) W (Ref ''reqs'' 0)),
        call (MPI_Irecv (Ref ''buf1'' 0) buf_size MPI_INT (Rank 1) (Tag 0) W (Ref ''reqs'' 1)),
        call (MPI_Waitall 2 (Ref ''reqs'' 0)),
        call (MPI_Send (Ref ''buf1'' 0) buf_size MPI_INT 1 1 W)]
      [if_else (rank = 1)
       [call (C_memset (Ref ''buf0'' 0) 0 (buf_size * 4)),
        call (MPI_Isend (Ref ''buf0'' 0) buf_size MPI_INT 0 0 W (Ref ''reqs'' 0)),
        call (MPI_Isend (Ref ''buf0'' 0) buf_size MPI_INT 2 1 W (Ref ''reqs'' 1)),
        call (MPI_Waitall 2 (Ref ''reqs'' 0)),
        call (MPI_Send (Ref ''buf0'' 0) buf_size MPI_INT 0 0 W),
        call (MPI_Recv (Ref ''buf1'' 0) buf_size MPI_INT (Rank 0) (Tag 1) W)]
      [if_c (rank = 2)
       [call (MPI_Recv (Ref ''buf1'' 0) buf_size MPI_INT (Rank 1) (Tag 1) W)]]]],
     call (MPI_Barrier W)] @ mbi_end)"

text \<open>The loop adds up the completions that \<open>MPI_Waitsome\<close> reports until there are 3.\<close>

definition no_error_p2p_waitsome :: "nat \<Rightarrow> prog" where
  "no_error_p2p_waitsome fuel = mbi_main
     [(''i'', 1), (''outcount'', 1), (''indices'', 3), (''num'', 1), (''buf'', 3)] (\<lambda>rank nprocs.
    [need_procs 3 nprocs,
     if_c (rank = 0)
      [call (MPI_Send (Ref ''buf'' 0) 1 MPI_INT 1 666 W),
       call (MPI_Recv (Ref ''buf'' 1) 1 MPI_INT (Rank 1) (Tag 666) W)],
     if_c (rank = 1)
      [call (MPI_Irecv (Ref ''buf'' 0) 1 MPI_INT (Rank 0) (Tag 666) W (Ref ''requests'' 0)),
       call (MPI_Isend (Ref ''buf'' 1) 1 MPI_INT 0 666 W (Ref ''requests'' 1)),
       call (MPI_Irecv (Ref ''buf'' 2) 2 MPI_INT (Rank 2) (Tag 123) W (Ref ''requests'' 2)),
       (\<lambda>k. while_c fuel (\<lambda>(i, num). i < 3)
          (\<lambda>(i, num) k'. Call (MPI_Waitsome 3 (Ref ''requests'' 0)) (\<lambda>r. k' (i + out r 0, num + 1)))
          (0 :: int, 0 :: int) (\<lambda>_. k)),
       call (C_printf ''Finished up with %d calls to MPI_Waitsome.'')],
     if_c (rank = 2) [call (MPI_Send (Ref ''buf'' 0) 1 MPI_INT 1 123 W)]] @ mbi_end)"

section \<open>Codes that may deadlock\<close>

definition p2p_any_src_wait_deadlock :: prog where
  "p2p_any_src_wait_deadlock = mbi_main [(''buf'', 1)] (\<lambda>rank nprocs.
    [need_procs 4 nprocs,
     if_c (rank = 0)
      [call (MPI_Irecv (Ref ''nprocs'' 0) 1 MPI_INT MPI_ANY_SOURCE (Tag 666) W (Ref ''request'' 0)),
       call (MPI_Recv (Ref ''buf'' 0) 1 MPI_INT (Rank 3) (Tag 123) W),
       call (MPI_Wait (Ref ''request'' 0))],
     if_c (rank = 1)
      [call (MPI_Irecv (Ref ''nprocs'' 0) 1 MPI_INT MPI_ANY_SOURCE (Tag 666) W (Ref ''request'' 0)),
       call (MPI_Send (Ref ''buf'' 0) 1 MPI_INT 0 666 W),
       call (MPI_Recv (Ref ''buf'' 0) 1 MPI_INT (Rank 3) (Tag 123) W),
       call (MPI_Wait (Ref ''request'' 0))],
     if_c (rank = 2)
      [call (MPI_Irecv (Ref ''nprocs'' 0) 1 MPI_INT MPI_ANY_SOURCE (Tag 666) W (Ref ''request'' 0)),
       call (MPI_Send (Ref ''buf'' 0) 1 MPI_INT 1 666 W),
       call (MPI_Recv (Ref ''buf'' 0) 1 MPI_INT (Rank 3) (Tag 123) W),
       call (MPI_Wait (Ref ''request'' 0))],
     if_c (rank = 3)
      [call (MPI_Irecv (Ref ''nprocs'' 0) 1 MPI_INT MPI_ANY_SOURCE (Tag 666) W (Ref ''request'' 0)),
       call (MPI_Send (Ref ''buf'' 0) 1 MPI_INT 2 666 W),
       call (MPI_Wait (Ref ''request'' 0)),
       call (MPI_Send (Ref ''buf'' 0) 1 MPI_INT 0 123 W),
       call (MPI_Send (Ref ''buf'' 0) 1 MPI_INT 1 123 W),
       call (MPI_Send (Ref ''buf'' 0) 1 MPI_INT 2 123 W)]] @ mbi_end)"

definition p2p_any_src_wait_deadlock3 :: prog where
  "p2p_any_src_wait_deadlock3 = mbi_main [(''buf0'', buf_size), (''buf1'', buf_size)] (\<lambda>rank nprocs.
    [call (MPI_Barrier W),
     if_else (nprocs < 3) [call (C_printf ''! This test needs at least 3 processes !'')]
     [if_else (rank = 0)
       [call (C_sleep 60),
        call (MPI_Irecv (Ref ''buf0'' 0) buf_size MPI_INT MPI_ANY_SOURCE (Tag 0) W (Ref ''req'' 0)),
        call (MPI_Recv (Ref ''buf1'' 0) buf_size MPI_INT (Rank 2) (Tag 0) W),
        call (MPI_Send (Ref ''buf1'' 0) buf_size MPI_INT 2 0 W),
        call (MPI_Recv (Ref ''buf1'' 0) buf_size MPI_INT MPI_ANY_SOURCE (Tag 0) W),
        call (MPI_Wait (Ref ''req'' 0))]
      [if_else (rank = 2)
       [call (C_memset (Ref ''buf0'' 0) 0 (buf_size * 4)),
        call (MPI_Send (Ref ''buf0'' 0) buf_size MPI_INT 0 0 W),
        call (MPI_Recv (Ref ''buf1'' 0) buf_size MPI_INT (Rank 0) (Tag 0) W),
        call (MPI_Send (Ref ''buf1'' 0) buf_size MPI_INT 0 0 W)]
      [if_c (rank = 1)
       [call (C_memset (Ref ''buf1'' 0) 1 (buf_size * 4)),
        call (C_sleep 30),
        call (MPI_Send (Ref ''buf1'' 0) buf_size MPI_INT 0 0 W)]]]],
     call (MPI_Barrier W)] @ mbi_end)"

definition p2p_any_src_wait_deadlock4 :: prog where
  "p2p_any_src_wait_deadlock4 = mbi_main [(''buf0'', buf_size), (''buf1'', buf_size)] (\<lambda>rank nprocs.
    [call (MPI_Barrier W),
     if_else (nprocs < 2) [call (C_printf ''! This test needs at least 2 processes !'')]
     [if_else (rank = 0)
       [call (C_memset (Ref ''buf0'' 0) 0 (buf_size * 4)),
        call (MPI_Irecv (Ref ''buf1'' 0) buf_size MPI_INT MPI_ANY_SOURCE (Tag 0) W (Ref ''req'' 0)),
        call (C_printf ''Proc 0:  Request number - %d''),
        call (MPI_Send (Ref ''buf0'' 0) buf_size MPI_INT 1 0 W),
        call (MPI_Recv (Ref ''buf0'' 0) buf_size MPI_INT (Rank 1) (Tag 0) W),
        call (MPI_Send (Ref ''buf0'' 0) buf_size MPI_INT 1 0 W),
        call (MPI_Wait (Ref ''req'' 0)),
        call (C_printf ''Proc 0:  Request number after wait test- %d'')]
      [if_c (rank = 1)
       [call (C_memset (Ref ''buf1'' 0) 1 (buf_size * 4)),
        call (MPI_Irecv (Ref ''buf1'' 0) buf_size MPI_INT MPI_ANY_SOURCE (Tag 0) W (Ref ''req'' 0)),
        call (C_printf ''Proc 1:  Request number - %d''),
        call (MPI_Send (Ref ''buf1'' 0) buf_size MPI_INT 0 0 W),
        call (MPI_Recv (Ref ''buf0'' 0) buf_size MPI_INT (Rank 0) (Tag 0) W),
        call (MPI_Send (Ref ''buf1'' 0) buf_size MPI_INT 0 0 W),
        call (MPI_Wait (Ref ''req'' 0)),
        call (C_printf ''Proc 1:  Request number after wait test- %d'')]]],
     call (MPI_Barrier W)] @ mbi_end)"

definition p2p_any_src_waitall_deadlock :: prog where
  "p2p_any_src_waitall_deadlock = mbi_main [(''buf0'', buf_size), (''buf1'', buf_size)] (\<lambda>rank nprocs.
    [call (MPI_Barrier W),
     if_else (nprocs < 3) [call (C_printf ''! This test needs at least 3 processes !'')]
     [if_else (rank = 0)
       [call (MPI_Irecv (Ref ''buf0'' 0) buf_size MPI_INT MPI_ANY_SOURCE (Tag 0) W (Ref ''reqs'' 0)),
        call (MPI_Irecv (Ref ''buf1'' 0) buf_size MPI_INT MPI_ANY_SOURCE (Tag 0) W (Ref ''reqs'' 1)),
        call (MPI_Waitall 2 (Ref ''reqs'' 0)),
        call (MPI_Send (Ref ''buf1'' 0) buf_size MPI_INT 1 1 W),
        call (MPI_Send (Ref ''buf0'' 0) buf_size MPI_INT 2 2 W)]
      [if_else (rank = 1)
       [call (C_memset (Ref ''buf0'' 0) 0 (buf_size * 4)),
        call (MPI_Send (Ref ''buf0'' 0) buf_size MPI_INT 0 0 W),
        call (MPI_Recv (Ref ''buf1'' 0) buf_size MPI_INT (Rank 0) (Tag 1) W)]
      [if_c (rank = 2)
       [call (MPI_Recv (Ref ''buf0'' 0) buf_size MPI_INT (Rank 0) (Tag 2) W),
        call (C_memset (Ref ''buf1'' 0) 1 (buf_size * 4)),
        call (MPI_Send (Ref ''buf1'' 0) buf_size MPI_INT 0 0 W)]]]],
     call (MPI_Barrier W)] @ mbi_end)"

definition p2p_any_src_waitall_deadlock2 :: prog where
  "p2p_any_src_waitall_deadlock2 = mbi_main [(''buf0'', buf_size), (''buf1'', buf_size)] (\<lambda>rank nprocs.
    [call (MPI_Barrier W),
     if_else (nprocs < 2) [call (C_printf ''! This test needs at least 2 processes !'')]
     [if_else (rank = 0)
       [call (MPI_Irecv (Ref ''buf0'' 0) buf_size MPI_INT MPI_ANY_SOURCE (Tag 0) W (Ref ''reqs'' 0)),
        call (MPI_Irecv (Ref ''buf1'' 0) buf_size MPI_INT MPI_ANY_SOURCE (Tag 0) W (Ref ''reqs'' 1)),
        call (MPI_Waitall 2 (Ref ''reqs'' 0)),
        call (MPI_Send (Ref ''buf1'' 0) buf_size MPI_INT 1 1 W)]
      [if_c (rank = 1)
       [call (C_memset (Ref ''buf0'' 0) 0 (buf_size * 4)),
        call (MPI_Send (Ref ''buf0'' 0) buf_size MPI_INT 0 0 W),
        call (MPI_Recv (Ref ''buf1'' 0) buf_size MPI_INT (Rank 0) (Tag 1) W),
        call (MPI_Send (Ref ''buf0'' 0) buf_size MPI_INT 0 0 W)]]],
     call (MPI_Barrier W)] @ mbi_end)"

definition p2p_any_src_waitall_deadlock3 :: prog where
  "p2p_any_src_waitall_deadlock3 = mbi_main [(''buf0'', buf_size), (''buf1'', buf_size)] (\<lambda>rank nprocs.
    [call (MPI_Barrier W),
     if_else (nprocs < 3) [call (C_printf ''! This test needs at least 3 processes !'')]
     [if_else (rank = 0)
       [call (MPI_Irecv (Ref ''buf0'' 0) buf_size MPI_INT MPI_ANY_SOURCE (Tag 0) W (Ref ''reqs'' 0)),
        call (MPI_Irecv (Ref ''buf1'' 0) buf_size MPI_INT MPI_ANY_SOURCE (Tag 0) W (Ref ''reqs'' 1)),
        call (MPI_Waitall 2 (Ref ''reqs'' 0)),
        call (MPI_Send (Ref ''buf1'' 0) buf_size MPI_INT 1 1 W)]
      [if_else (rank = 1)
       [call (C_memset (Ref ''buf0'' 0) 0 (buf_size * 4)),
        call (MPI_Isend (Ref ''buf0'' 0) buf_size MPI_INT 0 0 W (Ref ''reqs'' 0)),
        call (MPI_Isend (Ref ''buf0'' 0) buf_size MPI_INT 2 1 W (Ref ''reqs'' 1)),
        call (MPI_Waitall 2 (Ref ''reqs'' 0)),
        call (MPI_Recv (Ref ''buf1'' 0) buf_size MPI_INT (Rank 0) (Tag 1) W),
        call (MPI_Send (Ref ''buf0'' 0) buf_size MPI_INT 0 0 W)]
      [if_c (rank = 2)
       [call (MPI_Recv (Ref ''buf1'' 0) buf_size MPI_INT (Rank 1) (Tag 1) W)]]]],
     call (MPI_Barrier W)] @ mbi_end)"

definition p2p_any_src_waitany_deadlock :: prog where
  "p2p_any_src_waitany_deadlock = mbi_main [(''buf0'', buf_size), (''buf1'', buf_size), (''done'', 1)] (\<lambda>rank nprocs.
    [call (MPI_Barrier W),
     if_else (nprocs < 2) [call (C_printf ''! This test needs at least 2 processes !'')]
     [if_else (rank = 0)
       [call (MPI_Irecv (Ref ''buf0'' 0) buf_size MPI_INT MPI_ANY_SOURCE (Tag 0) W (Ref ''reqs'' 0)),
        call (MPI_Irecv (Ref ''buf1'' 0) buf_size MPI_INT MPI_ANY_SOURCE (Tag 0) W (Ref ''reqs'' 1)),
        call (MPI_Waitany 2 (Ref ''reqs'' 0)),
        call (MPI_Send (Ref ''buf1'' 0) buf_size MPI_INT 1 1 W)]
      [if_c (rank = 1)
       [call (C_memset (Ref ''buf0'' 0) 0 (buf_size * 4)),
        call (MPI_Recv (Ref ''buf1'' 0) buf_size MPI_INT (Rank 0) (Tag 1) W),
        call (MPI_Send (Ref ''buf0'' 0) buf_size MPI_INT 0 0 W)]]],
     call (MPI_Barrier W)] @ mbi_end)"

definition p2p_any_src_waitany_deadlock2 :: prog where
  "p2p_any_src_waitany_deadlock2 = mbi_main [(''buf0'', buf_size), (''buf1'', buf_size), (''done'', 1)] (\<lambda>rank nprocs.
    [call (MPI_Barrier W),
     if_else (nprocs < 3) [call (C_printf ''! This test needs at least 3 processes !'')]
     [if_else (rank = 0)
       [call (MPI_Irecv (Ref ''buf0'' 0) buf_size MPI_INT MPI_ANY_SOURCE (Tag 0) W (Ref ''reqs'' 0)),
        call (MPI_Irecv (Ref ''buf1'' 0) buf_size MPI_INT MPI_ANY_SOURCE (Tag 0) W (Ref ''reqs'' 1)),
        call (MPI_Waitall 2 (Ref ''reqs'' 0)),
        call (MPI_Send (Ref ''buf1'' 0) buf_size MPI_INT 1 1 W)]
      [if_else (rank = 1)
       [call (C_memset (Ref ''buf0'' 0) 0 (buf_size * 4)),
        call (MPI_Isend (Ref ''buf0'' 0) buf_size MPI_INT 0 0 W (Ref ''reqs'' 0)),
        call (MPI_Isend (Ref ''buf0'' 0) buf_size MPI_INT 2 1 W (Ref ''reqs'' 1)),
        call_then (MPI_Waitany 2 (Ref ''reqs'' 0)) (\<lambda>r.
         (let done = out r 0 in
          [call (MPI_Recv (Ref ''buf1'' 0) buf_size MPI_INT (Rank 0) (Tag 1) W),
           call (MPI_Send (Ref ''buf0'' 0) buf_size MPI_INT 0 0 W),
           call (MPI_Wait (Ref ''reqs'' ((done + 1) smod 2)))]))]
      [if_c (rank = 2)
       [call (MPI_Recv (Ref ''buf1'' 0) buf_size MPI_INT (Rank 1) (Tag 1) W)]]]],
     call (MPI_Barrier W)] @ mbi_end)"

definition p2p_pers_deadlock2 :: prog where
  "p2p_pers_deadlock2 = mbi_main [(''buf0'', buf_size), (''buf1'', buf_size)] (\<lambda>rank nprocs.
    [call (MPI_Barrier W),
     if_else (nprocs < 2) [call (C_printf ''! This test needs at least 2 processes !'')]
     [if_else (rank = 0)
       [call (C_memset (Ref ''buf0'' 0) 0 (buf_size * 4)),
        call (MPI_Send_init (Ref ''buf0'' 0) buf_size MPI_INT 1 0 W (Ref ''aReq'' 0)),
        call (MPI_Recv_init (Ref ''buf1'' 0) buf_size MPI_INT (Rank 1) (Tag 0) W (Ref ''aReq'' 1)),
        call (MPI_Start (Ref ''aReq'' 0)),
        call (MPI_Start (Ref ''aReq'' 1)),
        call (MPI_Waitall 2 (Ref ''aReq'' 0)),
        call (C_memset (Ref ''buf0'' 0) 1 (buf_size * 4)),
        call (MPI_Startall 2 (Ref ''aReq'' 0)),
        call (C_copy_request (Ref ''free_req'' 0) (Ref ''aReq'' 1)),
        call (MPI_Request_free (Ref ''free_req'' 0)),
        call (MPI_Waitall 2 (Ref ''aReq'' 0))]
      [if_c (rank = 1)
       [call (C_memset (Ref ''buf1'' 0) 1 (buf_size * 4)),
        call (MPI_Recv_init (Ref ''buf0'' 0) buf_size MPI_INT (Rank 0) (Tag 0) W (Ref ''aReq'' 0)),
        call (MPI_Send_init (Ref ''buf1'' 0) buf_size MPI_INT 0 0 W (Ref ''aReq'' 1)),
        call (MPI_Start (Ref ''aReq'' 0)),
        call (MPI_Start (Ref ''aReq'' 1)),
        call (MPI_Waitall 2 (Ref ''aReq'' 0)),
        call (C_memset (Ref ''buf1'' 0) 0 (buf_size * 4)),
        call (MPI_Startall 2 (Ref ''aReq'' 0)),
        call (C_copy_request (Ref ''free_req'' 0) (Ref ''aReq'' 1)),
        call (MPI_Request_free (Ref ''free_req'' 0)),
        call (MPI_Waitall 2 (Ref ''aReq'' 0))]]],
     call (MPI_Barrier W),
     call (MPI_Request_free (Ref ''aReq'' 0))] @ mbi_end)"

definition p2p_waitall_deadlock :: prog where
  "p2p_waitall_deadlock = mbi_main [(''buf0'', buf_size), (''buf1'', buf_size)] (\<lambda>rank nprocs.
    [call (MPI_Barrier W),
     if_else (nprocs < 3) [call (C_printf ''! This test needs at least 3 processes !'')]
     [if_else (rank = 0)
       [call (MPI_Irecv (Ref ''buf0'' 0) buf_size MPI_INT (Rank 1) (Tag 0) W (Ref ''reqs'' 0)),
        call (MPI_Irecv (Ref ''buf1'' 0) buf_size MPI_INT (Rank 1) (Tag 0) W (Ref ''reqs'' 1)),
        call (MPI_Waitall 2 (Ref ''reqs'' 0)),
        call (MPI_Send (Ref ''buf1'' 0) buf_size MPI_INT 1 1 W)]
      [if_else (rank = 1)
       [call (C_memset (Ref ''buf0'' 0) 0 (buf_size * 4)),
        call (MPI_Isend (Ref ''buf0'' 0) buf_size MPI_INT 0 0 W (Ref ''reqs'' 0)),
        call (MPI_Isend (Ref ''buf0'' 0) buf_size MPI_INT 2 1 W (Ref ''reqs'' 1)),
        call (MPI_Waitall 2 (Ref ''reqs'' 0)),
        call (MPI_Recv (Ref ''buf1'' 0) buf_size MPI_INT (Rank 0) (Tag 1) W),
        call (MPI_Send (Ref ''buf0'' 0) buf_size MPI_INT 0 0 W)]
      [if_c (rank = 2)
       [call (MPI_Recv (Ref ''buf1'' 0) buf_size MPI_INT (Rank 1) (Tag 1) W)]]]],
     call (MPI_Barrier W)] @ mbi_end)"

definition p2p_waitany_deadlock :: prog where
  "p2p_waitany_deadlock = mbi_main
     [(''buf0'', buf_size), (''buf1'', buf_size), (''buf2'', buf_size), (''i'', 1), (''flipbit'', 1),
      (''done'', 1)] (\<lambda>rank nprocs.
    [call (MPI_Barrier W),
     if_else (nprocs < 2) [call (C_printf ''! This test needs at least 2 processes !'')]
     [if_else (rank = 0)
       [call (MPI_Irecv (Ref ''buf0'' 0) buf_size MPI_INT (Rank 1) (Tag 0) W (Ref ''reqs'' 0)),
        call (MPI_Irecv (Ref ''buf1'' 0) buf_size MPI_INT (Rank 1) (Tag 0) W (Ref ''reqs'' 1)),
        call (MPI_Irecv (Ref ''buf2'' 0) buf_size MPI_INT (Rank 1) (Tag 0) W (Ref ''reqs'' 2)),
        for_c (downto_gt 3 0) (\<lambda>i.
         [call_then (MPI_Waitany i (Ref ''reqs'' 0)) (\<lambda>r.
           [assert_c (out r 0 = i - 1),
            call (MPI_Send (Ref ''flipbit'' 0) 1 MPI_INT 1 i W)])])]
      [if_c (rank = 1)
       [call (C_memset (Ref ''buf0'' 0) 1 (buf_size * 4)),
        for_c (downto_gt 3 0) (\<lambda>i.
         [call (MPI_Recv (Ref ''flipbit'' 0) 1 MPI_INT (Rank 0) (Tag i) W),
          call (MPI_Send (Ref ''buf0'' 0) buf_size MPI_INT 0 0 W)])]]],
     call (MPI_Barrier W)] @ mbi_end)"

lemmas nonblock_codes [code_defs] = no_error_p2p_irecv_any_src_loop_def no_error_p2p_irecv_isend_loop_def
  no_error_p2p_irecv_send_2_handles_def no_error_p2p_test_def no_error_p2p_testall_def
  no_error_p2p_testany_def no_error_p2p_type_free_def no_error_p2p_waitall_loop_def
  no_error_p2p_waitall_def no_error_p2p_waitsome_def p2p_any_src_wait_deadlock_def
  p2p_any_src_wait_deadlock3_def p2p_any_src_wait_deadlock4_def p2p_any_src_waitall_deadlock_def
  p2p_any_src_waitall_deadlock2_def p2p_any_src_waitall_deadlock3_def
  p2p_any_src_waitany_deadlock_def p2p_any_src_waitany_deadlock2_def p2p_pers_deadlock2_def
  p2p_waitall_deadlock_def p2p_waitany_deadlock_def

end
