(* ===== verification/Checks_Nonblock.thy ===== *)
theory Checks_Nonblock
  imports Codes_Nonblock Codes_Aside Claims
begin

text \<open>
  The codes of src/codes with requests that are expected to be correct. Those that test a
  request until it is complete end when the test says so within the iterations allowed.
\<close>

section \<open>Requests that are waited for\<close>

lemma irecv_loop_clean: "clean_from 2 no_error_p2p_irecv_any_src_loop"
  by (rule clean_from_ranks; simp add: mon_simps code_defs)

lemma irecv_loop_fixed: "fixed_from 2 no_error_p2p_irecv_any_src_loop"
  by (rule fixed_from_ranks; simp add: item_simps code_defs)

lemma waitall_clean: "clean_from 3 no_error_p2p_waitall"
  by (rule clean_from_ranks; simp add: mon_simps code_defs)

lemma waitall_fixed: "fixed_from 3 no_error_p2p_waitall"
  by (rule fixed_from_ranks; simp add: item_simps code_defs)

lemma isend_loop_clean: "clean_from 2 no_error_p2p_irecv_isend_loop"
proof (rule clean_fromI)
  fix rank nprocs env
  assume env: "world_env rank nprocs env" and n: "2 \<le> nprocs"
  from env n show "verdict rank nprocs env no_error_p2p_irecv_isend_loop = (Exit 0, [])"
    by (cases rule: rank_cases [OF env n]) (simp_all add: mon_simps code_defs)
qed

lemma isend_loop_fixed: "fixed_from 2 no_error_p2p_irecv_isend_loop"
  by (rule fixed_fromI) (simp add: item_simps code_defs)

lemma two_handles_clean: "clean_from 1 no_error_p2p_irecv_send_2_handles"
proof (rule clean_fromI)
  fix rank nprocs env
  assume env: "world_env rank nprocs env" and n: "1 \<le> nprocs"
  from env show "verdict rank nprocs env no_error_p2p_irecv_send_2_handles = (Exit 0, [])"
    by (cases "nprocs = 2"; cases rule: low_rank_cases [OF env]) (simp_all add: mon_simps code_defs)
qed

lemma two_handles_fixed: "fixed_from 1 no_error_p2p_irecv_send_2_handles"
proof (rule fixed_fromI)
  fix rank n env
  assume env: "world_env rank n env" and "world_env rank n (std_env rank n)"
  then show "items env no_error_p2p_irecv_send_2_handles =
             items (std_env rank n) no_error_p2p_irecv_send_2_handles"
    by (cases "n = 2"; cases rule: low_rank_cases [OF env]) (simp_all add: item_simps code_defs)
qed

lemma irecv_send_clean: "clean_from 2 no_error_p2p_irecv_send"
  by (rule clean_from_ranks; simp add: mon_simps code_defs)

lemma irecv_send_fixed: "fixed_from 2 no_error_p2p_irecv_send"
  by (rule fixed_from_ranks; simp add: item_simps code_defs)

lemma wait_any_src_clean: "clean_from 2 no_error_p2p_wait_any_src"
  by (rule clean_from_ranks; simp add: mon_simps code_defs)

lemma wait_any_src_fixed: "fixed_from 2 no_error_p2p_wait_any_src"
  by (rule fixed_from_ranks; simp add: item_simps code_defs)

lemma wait_any_src3_clean: "clean_from 3 no_error_p2p_wait_any_src3"
  by (rule clean_from_ranks; simp add: mon_simps code_defs)

lemma wait_any_src3_fixed: "fixed_from 3 no_error_p2p_wait_any_src3"
  by (rule fixed_from_ranks; simp add: item_simps code_defs)

text \<open>One round of the loop of \<open>no-error-p2p-wait-any-src4.c\<close>.\<close>

definition src4_round :: "int \<Rightarrow> int \<Rightarrow> stmt" where
  "src4_round dst src = seq
      [call (MPI_Irecv (Ref ''buf2'' 0) 1 MPI_INT (Rank src) (Tag 666) W (Ref ''request2'' 0)),
       call (MPI_Send (Ref ''buf'' 0) 1 MPI_INT dst 666 W),
       call (MPI_Wait (Ref ''request2'' 0))]"

lemma for_round:
  "for_c is (\<lambda>i.
      [call (MPI_Irecv (Ref ''buf2'' 0) 1 MPI_INT (Rank src) (Tag 666) W (Ref ''request2'' 0)),
       call (MPI_Send (Ref ''buf'' 0) 1 MPI_INT dst 666 W),
       call (MPI_Wait (Ref ''request2'' 0))]) = seq (map (\<lambda>i. src4_round dst src) is)"
  by (simp only: for_c_def src4_round_def)

text \<open>The requests of the loop that are complete, and the one that is pending around it.\<close>

abbreviation spent :: "nat \<Rightarrow> request list" where
  "spent n \<equiv> replicate n \<lparr>writes = True, mem = Some (''buf2'', 0, 4), active = False, persistent = False, live = False\<rparr>"

abbreviation pending :: request where
  "pending \<equiv> \<lparr>writes = True, mem = Some (''buf3'', 0, 4), active = True, persistent = False, live = True\<rparr>"

lemma one_round:
  assumes "0 \<le> dst" "dst < np s" "0 \<le> src" "src < np s"
    and "phase s = Running" "wvar s = []" "aget (objs s) ''buf'' = Some 1" "aget (objs s) ''buf2'' = Some 1"
    and "aget (rvar s) (Ref ''request2'' 0) = None \<or> aget (rvar s) (Ref ''request2'' 0) = Some None" 
    and "rtab s = pending # spent n"
  shows "verdict_from env (src4_round dst src k) j s =
    verdict_from env k (j + 3) (s\<lparr>rtab := pending # spent (Suc n), rvar := aput (rvar s) (Ref ''request2'' 0) None\<rparr>)"
  using assms(9) by (elim disjE; use assms in \<open>simp add: check_simps src4_round_def call_def nth_append list_update_append replicate_append_same eval_nat_numeral\<close>)

lemma rounds:
  assumes "0 \<le> dst" "dst < np s" "0 \<le> src" "src < np s"
    and "phase s = Running" "wvar s = []" "aget (objs s) ''buf'' = Some 1" "aget (objs s) ''buf2'' = Some 1"
    and "aget (rvar s) (Ref ''request2'' 0) = Some None" 
    and "rtab s = pending # spent n"
  shows "verdict_from env (seq (map (\<lambda>i. src4_round dst src) is) k) j s =
    verdict_from env k (j + 3 * length is) (s\<lparr>rtab := pending # spent (n + length is), rvar := aput (rvar s) (Ref ''request2'' 0) None\<rparr>)"
  using assms
proof (induction "is" arbitrary: j n s)
  case Nil
  then show ?case by (cases s) (simp add: aput_same)
next
  case (Cons i "is")
  have "aget (rvar s) (Ref ''request2'' 0) = None \<or> aget (rvar s) (Ref ''request2'' 0) = Some None" 
    using Cons.prems(9) by simp
  note r = one_round [OF Cons.prems(1-8) this Cons.prems(10)]
  show ?case
    by (simp add: r del: replicate_Suc, subst Cons.IH [where n = "Suc n"]) (use Cons.prems in \<open>simp_all add: ac_simps\<close>)
qed

lemma first_round: "0 < n \<Longrightarrow> seq (map f (upto_lt 0 (int n))) k = f 0 (seq (map f (upto_lt 1 (int n))) k)"
  by (simp add: upto_lt_step)

lemma src4_verdict: "world_env rank nprocs env \<Longrightarrow> 4 \<le> nprocs \<Longrightarrow> verdict rank nprocs env (no_error_p2p_wait_any_src4 n) = (Exit 0, [])"
proof (cases "n = 0")
  case False
  moreover assume "world_env rank nprocs env" "4 \<le> nprocs"
  ultimately show ?thesis
  apply (simp only: no_error_p2p_wait_any_src4_def Let_def for_round first_round neq0_conv)
  by (simp add: first_round one_round next_rank prev_rank check_simps stmt_defs, subst rounds [where n = 1])
    (simp_all add: next_rank prev_rank check_simps nth_append list_update_append replicate_append_same)
next
  case True
  moreover assume "world_env rank nprocs env" "4 \<le> nprocs"
  ultimately show ?thesis
  by (simp add: next_rank prev_rank check_simps stmt_defs no_error_p2p_wait_any_src4_def)
qed

lemma src4_clean: "clean_from 4 (no_error_p2p_wait_any_src4 n)"
  by (rule clean_fromI) (rule src4_verdict)

lemma src4_fixed: "fixed_calls 4 (no_error_p2p_wait_any_src4 3)"
  unfolding fixed_calls_def
proof (intro allI impI)
  fix env assume "answers 4 env"
  then have "world_env 0 4 (env 0)" "world_env 1 4 (env 1)" "world_env 2 4 (env 2)" "world_env 3 4 (env 3)"
    by (simp_all add: answers_def eval_nat_numeral All_less_Suc)
  then show "procs 4 env (no_error_p2p_wait_any_src4 3) = std_procs 4 (no_error_p2p_wait_any_src4 3)"
    by (simp add: procs_def proc_simps code_defs eval_nat_numeral)
qed

lemma src4_finishes: "always_finishes 4 (no_error_p2p_wait_any_src4 3)"
proof -
  have "finishes_check 200 (std_procs 4 (no_error_p2p_wait_any_src4 3))"
    by (simp add: proc_simps code_defs; code_simp)
  with src4_fixed show ?thesis
    by (simp add: always_finishes_def fixed_calls_def ends_wellI)
qed

lemma waitall_loop_reports:
  "reports 0 2 no_error_p2p_waitall_loop []" "reports 1 2 no_error_p2p_waitall_loop []"
  by (rule reportsI; simp add: mon_simps code_defs)+

lemma waitall_loop_others: "1 < rank \<Longrightarrow> reports rank 2 no_error_p2p_waitall_loop (replicate 10 UndefinedHandle)"
  by (rule reportsI) (simp add: mon_simps code_defs numeral_eq_Suc)

lemma waitall_loop_fixed: "fixed_from 2 no_error_p2p_waitall_loop"
  by (rule fixed_from_ranks; simp add: item_simps code_defs)

text \<open>
  C3. The code that keeps a wildcard receive pending during a ping-pong, the one that waits
  for two requests at a time, the ring of five rounds of \<open>MPI_Irecv\<close> and \<open>MPI_Isend\<close>,
  the code that waits through a copy of the request, and the three codes set aside that wait
  for pending receives are correct. \<open>no-error-p2p-wait-any-src4.c\<close>, which keeps a wildcard
  receive pending around a ring of exchanges, makes no local error however often its loop is
  executed (50000 times in the source), and with three iterations it always finishes.
  \<open>no-error-p2p-waitall-loop.c\<close> is correct for the two processes of its test; every further
  process waits for ten requests it never initialized.
\<close>

theorem request_codes_correct:
  "correct 2 [2, 3] no_error_p2p_irecv_any_src_loop \<and> correct 3 [3, 4] no_error_p2p_waitall \<and>
   correct 2 [2, 3, 4] no_error_p2p_irecv_isend_loop \<and> correct 1 [2, 3] no_error_p2p_irecv_send_2_handles \<and>
   correct 2 [2, 3] no_error_p2p_irecv_send \<and> correct 2 [2, 3] no_error_p2p_wait_any_src \<and>
   correct 3 [3, 4] no_error_p2p_wait_any_src3 \<and>
   clean_from 4 (no_error_p2p_wait_any_src4 50000) \<and> always_finishes 4 (no_error_p2p_wait_any_src4 3) \<and>
   reports 0 2 no_error_p2p_waitall_loop [] \<and> reports 1 2 no_error_p2p_waitall_loop [] \<and>
   always_finishes 2 no_error_p2p_waitall_loop \<and>
   reports 2 2 no_error_p2p_waitall_loop (replicate 10 UndefinedHandle)"
  by (intro conjI waitall_loop_reports waitall_loop_others finishes_at [OF waitall_loop_fixed] src4_clean src4_finishes correctI irecv_loop_clean irecv_loop_fixed waitall_clean waitall_fixed
      isend_loop_clean isend_loop_fixed two_handles_clean two_handles_fixed
      irecv_send_clean irecv_send_fixed wait_any_src_clean wait_any_src_fixed wait_any_src3_clean
      wait_any_src3_fixed;
      simp add: proc_simps code_defs; code_simp)

end
