(* ===== verification/Polling.thy ===== *)
theory Polling
  imports Claims
begin

text \<open>
  Codes whose control flow depends on what MPI answers: claims under a hypothesis on the
  answers, and the loops that test a request until MPI says it is complete.
\<close>

section \<open>Claims under a hypothesis on the answers\<close>

text \<open>\<open>Q env\<close> is what the answers \<open>env\<close> to one process are assumed to satisfy.\<close>

definition possible :: "((nat \<Rightarrow> ccall \<Rightarrow> resp) \<Rightarrow> bool) \<Rightarrow> bool" where
  "possible Q \<longleftrightarrow> (\<forall>rank nprocs. 0 \<le> rank \<longrightarrow> rank < nprocs \<longrightarrow> (\<exists>env. world_env rank nprocs env \<and> Q env))"

definition clean_under :: "((nat \<Rightarrow> ccall \<Rightarrow> resp) \<Rightarrow> bool) \<Rightarrow> int \<Rightarrow> prog \<Rightarrow> bool" where
  "clean_under Q k p \<longleftrightarrow> (\<forall>rank nprocs env. world_env rank nprocs env \<longrightarrow> Q env \<longrightarrow> k \<le> nprocs \<longrightarrow>
     verdict rank nprocs env p = (Exit 0, []))"

definition finishes_under :: "((nat \<Rightarrow> ccall \<Rightarrow> resp) \<Rightarrow> bool) \<Rightarrow> nat \<Rightarrow> prog \<Rightarrow> bool" where
  "finishes_under Q n p \<longleftrightarrow>
     (\<forall>env. answers n env \<longrightarrow> (\<forall>i<n. Q (env i)) \<longrightarrow> ends_well (procs n env p))"

definition never_finishes_under :: "((nat \<Rightarrow> ccall \<Rightarrow> resp) \<Rightarrow> bool) \<Rightarrow> nat \<Rightarrow> prog \<Rightarrow> bool" where
  "never_finishes_under Q n p \<longleftrightarrow>
     (\<forall>env. answers n env \<longrightarrow> (\<forall>i<n. Q (env i)) \<longrightarrow> never_ends (procs n env p))"

definition correct_under :: "((nat \<Rightarrow> ccall \<Rightarrow> resp) \<Rightarrow> bool) \<Rightarrow> int \<Rightarrow> nat list \<Rightarrow> prog \<Rightarrow> bool" where
  "correct_under Q k ns p \<longleftrightarrow> possible Q \<and> clean_under Q k p \<and> list_all (\<lambda>n. finishes_under Q n p) ns"

text \<open>The process \<open>rank\<close> of \<open>n\<close> exactly ends in \<open>v\<close>.\<close>

definition runs_under ::
    "((nat \<Rightarrow> ccall \<Rightarrow> resp) \<Rightarrow> bool) \<Rightarrow> int \<Rightarrow> int \<Rightarrow> prog \<Rightarrow> outcome \<times> local_error list \<Rightarrow> bool" where
  "runs_under Q rank n p v \<longleftrightarrow> (\<forall>env. world_env rank n env \<longrightarrow> Q env \<longrightarrow> verdict rank n env p = v)"

lemma clean_underI:
  "(\<And>rank nprocs env. world_env rank nprocs env \<Longrightarrow> Q env \<Longrightarrow> k \<le> nprocs \<Longrightarrow>
      verdict rank nprocs env p = (Exit 0, [])) \<Longrightarrow> clean_under Q k p"
  by (simp add: clean_under_def)

text \<open>A sequence of calls each process makes whatever \<open>Q\<close> leaves open.\<close>

lemma procs_under:
  assumes "answers n env" and "\<forall>i<n. Q (env i)"
    and "\<And>i env. i < n \<Longrightarrow> world_env (int i) (int n) env \<Longrightarrow> Q env \<Longrightarrow> items env p = T ! i"
    and "length T = n"
  shows "procs n env p = T"
  using assms by (intro nth_equalityI) (auto simp: procs_def answers_def)

lemma finishes_underI:
  assumes "\<And>i env. i < n \<Longrightarrow> world_env (int i) (int n) env \<Longrightarrow> Q env \<Longrightarrow> items env p = T ! i"
    and "length T = n" and "finishes_check 200 T"
  shows "finishes_under Q n p"
  unfolding finishes_under_def
proof (intro allI impI)
  fix env assume "answers n env" "\<forall>i<n. Q (env i)"
  then have "procs n env p = T" using assms(1,2) by (rule procs_under)
  then show "ends_well (procs n env p)" using assms(3) by (simp add: ends_wellI)
qed

section \<open>Testing until a request is complete\<close>

fun is_test :: "ccall \<Rightarrow> bool" where
  "is_test (Rq (Test p)) = True"
| "is_test (Rq (Testall n p)) = True"
| "is_test (Rq (Testany n p)) = True"
| "is_test (Rq (Testsome n p)) = True"
| "is_test _ = False"

text \<open>
  MPI makes progress: of \<open>fuel\<close> tests in a row, one says that the request is complete. An
  \<open>MPI_Testany\<close> that does names the last request of its array, if \<open>last_one\<close>.
\<close>

definition progress :: "nat \<Rightarrow> (nat \<Rightarrow> ccall \<Rightarrow> resp) \<Rightarrow> bool" where
  "progress fuel env \<longleftrightarrow> (\<forall>i c. is_test c \<longrightarrow> (\<exists>j<fuel. out (env (i + j) c) 0 \<noteq> 0))"

definition last_one :: "(nat \<Rightarrow> ccall \<Rightarrow> resp) \<Rightarrow> bool" where
  "last_one env \<longleftrightarrow> (\<forall>i n p. out (env i (MPI_Testany n p)) 0 \<noteq> 0 \<longrightarrow> out (env i (MPI_Testany n p)) 1 = n - 1)"

fun yes_env :: "int \<Rightarrow> int \<Rightarrow> nat \<Rightarrow> ccall \<Rightarrow> resp" where
  "yes_env rank nprocs i (Rq (Testany n p)) = [1, n - 1]"
| "yes_env rank nprocs i c = (if is_test c then [1] else std_env rank nprocs i c)"

lemma yes_world_env: "0 \<le> rank \<Longrightarrow> rank < nprocs \<Longrightarrow> world_env rank nprocs (yes_env rank nprocs)"
  by (simp add: world_env_def)

lemma yes_flag: "is_test c \<Longrightarrow> out (yes_env rank nprocs i c) 0 = 1"
  by (cases c rule: is_test.cases) auto

lemma yes_progress: "progress (Suc fuel) (yes_env rank nprocs)"
  by (auto simp: progress_def yes_flag)

lemma yes_last: "last_one (yes_env rank nprocs)"
  by (simp add: last_one_def out_def)

lemma progress_possible:
  "possible (progress (Suc fuel))" "possible (\<lambda>env. progress (Suc fuel) env \<and> last_one env)"
  unfolding possible_def using yes_world_env yes_progress yes_last by blast+

text \<open>The number of tests, from the \<open>i\<close>-th call on, before the one that says yes.\<close>

definition tests :: "(nat \<Rightarrow> ccall \<Rightarrow> resp) \<Rightarrow> nat \<Rightarrow> ccall \<Rightarrow> nat" where
  "tests env i c = (LEAST j. out (env (i + j) c) 0 \<noteq> 0)"

lemma tests_answered:
  assumes "progress fuel env" and "is_test c"
  shows "tests env i c < fuel" and "out (env (i + tests env i c) c) 0 \<noteq> 0"
    and "j < tests env i c \<Longrightarrow> out (env (i + j) c) 0 = 0"
proof -
  obtain j0 where j0: "j0 < fuel" "out (env (i + j0) c) 0 \<noteq> 0"
    using assms unfolding progress_def by blast
  show "out (env (i + tests env i c) c) 0 \<noteq> 0"
    unfolding tests_def by (rule LeastI [of "\<lambda>j. out (env (i + j) c) 0 \<noteq> 0"]) (rule j0)
  show "tests env i c < fuel"
    using Least_le [of "\<lambda>j. out (env (i + j) c) 0 \<noteq> 0", OF j0(2)] j0(1) by (simp add: tests_def)
  show "out (env (i + j) c) 0 = 0" if "j < tests env i c"
    using not_less_Least [OF that [unfolded tests_def]] by blast
qed

text \<open>
  The run of such a loop: the calls up to the first that says yes, and what follows. A loop
  around \<open>MPI_Test\<close> is one around \<open>MPI_Testany\<close> whose index is not used.
\<close>

lemma run_poll_done:
  assumes "j < fuel" "out (env (n + j) c) 0 \<noteq> 0" "\<And>i. i < j \<Longrightarrow> out (env (n + i) c) 0 = 0"
  shows "run env (poll_done fuel c f k) n =
    (let (es, e) = run env (f (out (env (n + j) c) 1) k) (Suc (n + j))
     in (map (\<lambda>i. (c, env (n + i) c)) [0..<Suc j] @ es, e))"
proof -
  let ?loop = "\<lambda>fuel x. while_c fuel (\<lambda>(flag, done). flag = (0::int))
     (\<lambda>_ k'. Call c (\<lambda>r. k' (out r 0, out r 1))) x (\<lambda>(flag, done). f done k)"
  from assms have "run env (?loop fuel (0, x)) n =
    (let (es, e) = run env (f (out (env (n + j) c) 1) k) (Suc (n + j))
     in (map (\<lambda>i. (c, env (n + i) c)) [0..<Suc j] @ es, e))" for x
  proof (induction fuel arbitrary: n j x)
    case (Suc fuel)
    show ?case
    proof (cases j)
      case 0
      with Suc.prems show ?thesis by (simp add: while_c.simps)
    next
      case (Suc j')
      have no: "out (env n c) 0 = 0" using Suc.prems(3) [of 0] Suc by simp
      have "map (\<lambda>i. (c, env (n + i) c)) [0..<Suc j] =
          (c, env n c) # map (\<lambda>i. (c, env (Suc n + i) c)) [0..<Suc j']"
        by (simp add: Suc upt_conv_Cons map_Suc_upt [symmetric] del: upt_Suc map_Suc_upt)
      then show ?thesis
        using Suc.IH [of j' "Suc n" "out (env n c) 1"] Suc Suc.prems(1,2) Suc.prems(3) [of "Suc i" for i]
        by (simp add: while_c.simps [of "Suc fuel"] no Let_def split_def)
    qed
  qed simp
  then show ?thesis by (simp add: poll_done_def)
qed

lemma run_tests:
  assumes "progress fuel env" and "is_test c"
  shows "run env (poll_done fuel c f k) n =
    (let (es, e) = run env (f (out (env (n + tests env n c) c) 1) k) (Suc (n + tests env n c))
     in (map (\<lambda>i. (c, env (n + i) c)) [0..<tests env n c] @ (c, env (n + tests env n c) c) # es, e))"
  using run_poll_done [of "tests env n c" fuel env n c f k] tests_answered [OF assms, where i = n]
  by simp

lemma poll_is_poll_done: "poll fuel c k = poll_done fuel c (\<lambda>_ k. k) k"
proof -
  have "while_c fuel (\<lambda>flag. flag = (0::int)) (\<lambda>_ k'. Call c (\<lambda>r. k' (out r 0))) a (\<lambda>_. k) =
    while_c fuel (\<lambda>(flag, done). flag = (0::int)) (\<lambda>_ k'. Call c (\<lambda>r. k' (out r 0, out r 1))) (a, b)
      (\<lambda>(flag, done). k)" for a b
    by (induction fuel arbitrary: a b) (simp_all add: while_c.simps)
  then show ?thesis by (simp add: poll_def poll_done_def)
qed

lemma fold_idle: "(\<And>x. x \<in> set xs \<Longrightarrow> g x s = s) \<Longrightarrow> fold g xs s = s"
  by (induction xs) auto

lemma items_from_idle:
  "(\<And>e. e \<in> set es' \<Longrightarrow> call_items (fst e) (snd e) h = ([], h)) \<Longrightarrow>
     items_from h (es' @ es) = items_from h es"
  by (induction es') (auto simp: Let_def)

lemma verdict_poll_done:
  assumes Q: "progress fuel env" and c: "is_test c" and idle: "\<And>r. out r 0 = 0 \<Longrightarrow> lstep (c, r) s = s"
  shows "verdict_from env (poll_done fuel c f k) n s =
    verdict_from env (f (out (env (n + tests env n c) c) 1) k) (Suc (n + tests env n c))
      (lstep (c, env (n + tests env n c) c) s)"
proof -
  have "fold lstep (map (\<lambda>i. (c, env (n + i) c)) [0..<tests env n c]) s = s"
    using tests_answered(3) [OF Q c, where i = n] by (intro fold_idle) (auto simp: idle)
  then show ?thesis
    by (simp add: verdict_from_run run_tests [OF Q c] Let_def split_def)
qed

lemma items_poll_done:
  assumes Q: "progress fuel env" and c: "is_test c"
    and idle: "\<And>r. out r 0 = 0 \<Longrightarrow> call_items c r h = ([], h)"
  shows "items_along env (poll_done fuel c f k) n h =
    fst (call_items c (env (n + tests env n c) c) h) @
    items_along env (f (out (env (n + tests env n c) c) 1) k) (Suc (n + tests env n c))
      (snd (call_items c (env (n + tests env n c) c) h))"
proof -
  have "items_from h (map (\<lambda>i. (c, env (n + i) c)) [0..<tests env n c] @ es) = items_from h es" for es
    using tests_answered(3) [OF Q c, where i = n] by (intro items_from_idle) (auto simp: idle)
  then show ?thesis
    by (simp add: items_along_run run_tests [OF Q c] Let_def split_def)
qed

text \<open>Any answer that says yes has the effect of \<open>[1]\<close>, and any other that of \<open>[0]\<close>.\<close>

lemma verdict_poll [mon_simps]:
  "progress fuel env \<Longrightarrow> lstep (MPI_Test p, [0]) s = s \<Longrightarrow>
     verdict_from env (poll fuel (MPI_Test p) k) n s =
     verdict_from env k (Suc (n + tests env n (MPI_Test p))) (lstep (MPI_Test p, [1]) s)"
  "progress fuel env \<Longrightarrow> lstep (MPI_Testall m p, [0]) s = s \<Longrightarrow>
     verdict_from env (poll fuel (MPI_Testall m p) k) n s =
     verdict_from env k (Suc (n + tests env n (MPI_Testall m p))) (lstep (MPI_Testall m p, [1]) s)"
  using tests_answered(2) [of fuel env] by (simp_all add: poll_is_poll_done verdict_poll_done)

lemma items_poll:
  "progress fuel env \<Longrightarrow> items_along env (poll fuel (MPI_Test p) k) n h =
     fst (call_items (MPI_Test p) [1] h) @
     items_along env k (Suc (n + tests env n (MPI_Test p))) (snd (call_items (MPI_Test p) [1] h))"
  "progress fuel env \<Longrightarrow> items_along env (poll fuel (MPI_Testall m p) k) n h =
     fst (call_items (MPI_Testall m p) [1] h) @
     items_along env k (Suc (n + tests env n (MPI_Testall m p))) (snd (call_items (MPI_Testall m p) [1] h))"
  using tests_answered(2) [of fuel env] by (simp_all add: poll_is_poll_done items_poll_done)

text \<open>A yes of \<open>MPI_Testany\<close> that names the last request.\<close>

lemma verdict_testany [mon_simps]:
  assumes "progress fuel env" and "last_one env" and "lstep (MPI_Testany m p, [0]) s = s"
  shows "verdict_from env (poll_done fuel (MPI_Testany m p) f k) n s =
     verdict_from env (f (m - 1) k) (Suc (n + tests env n (MPI_Testany m p)))
       (lstep (MPI_Testany m p, [1, m - 1]) s)"
  using assms tests_answered(2) [OF assms(1), of "MPI_Testany m p" n]
  by (subst verdict_poll_done) (simp_all add: last_one_def)

lemma items_testany:
  assumes "progress fuel env" and "last_one env"
  shows "items_along env (poll_done fuel (MPI_Testany m p) f k) n h =
     fst (call_items (MPI_Testany m p) [1, m - 1] h) @
     items_along env (f (m - 1) k) (Suc (n + tests env n (MPI_Testany m p)))
       (snd (call_items (MPI_Testany m p) [1, m - 1] h))"
  using assms tests_answered(2) [OF assms(1), of "MPI_Testany m p" n]
  by (subst items_poll_done) (simp_all add: last_one_def)


text \<open>The calls of the processes when every test says yes at once.\<close>

definition tested_procs :: "nat \<Rightarrow> prog \<Rightarrow> item list list" where
  "tested_procs n p = map (\<lambda>i. items (yes_env (int i) (int n)) p) [0..<n]"

lemma finishes_testedI:
  assumes "\<And>i env. i < n \<Longrightarrow> world_env (int i) (int n) env \<Longrightarrow> Q env \<Longrightarrow>
      world_env (int i) (int n) (yes_env (int i) (int n)) \<Longrightarrow>
      progress (Suc 0) (yes_env (int i) (int n)) \<Longrightarrow> last_one (yes_env (int i) (int n)) \<Longrightarrow>
      items env p = items (yes_env (int i) (int n)) p'"
    and "finishes_check 200 (tested_procs n p')"
  shows "finishes_under Q n p"
  using assms(2)
  by (rule finishes_underI [rotated 2]) (simp_all add: tested_procs_def assms(1) yes_world_env yes_progress yes_last)

lemmas tested_simps = tested_procs_def upt_rec item_simps items_poll items_testany yes_progress yes_last

section \<open>Answers that a code branches on\<close>

text \<open>
  Of \<open>m\<close> requests \<open>MPI_Waitany\<close> names one. In the processes of \<open>any_env\<close> the
  answer depends on \<open>m\<close> only, by a table.
\<close>

definition valid_index :: "(nat \<Rightarrow> ccall \<Rightarrow> resp) \<Rightarrow> bool" where
  "valid_index env \<longleftrightarrow> (\<forall>i m p. 0 < m \<longrightarrow>
     0 \<le> out (env i (MPI_Waitany m p)) 0 \<and> out (env i (MPI_Waitany m p)) 0 < m)"

fun any_env :: "(int \<times> int) list \<Rightarrow> int \<Rightarrow> int \<Rightarrow> nat \<Rightarrow> ccall \<Rightarrow> resp" where
  "any_env ds rank nprocs i (Rq (Waitany m p)) = (case aget ds m of Some d \<Rightarrow> [d] | None \<Rightarrow> [0])"
| "any_env ds rank nprocs i c = std_env rank nprocs i c"

lemma any_world_env: "0 \<le> rank \<Longrightarrow> rank < nprocs \<Longrightarrow> world_env rank nprocs (any_env ds rank nprocs)"
  by (simp add: world_env_def)

lemma valid_index_possible: "possible valid_index"
  unfolding possible_def
  using any_world_env [of _ _ "[]"] by (fastforce simp: valid_index_def)

definition any_procs :: "(int \<times> int) list \<Rightarrow> nat \<Rightarrow> prog \<Rightarrow> item list list" where
  "any_procs ds n p = map (\<lambda>i. items (any_env ds (int i) (int n)) p) [0..<n]"

lemmas any_simps = any_procs_def upt_rec item_simps

lemma never_finishes_anyI:
  assumes "\<And>env. answers n env \<Longrightarrow> \<forall>i<n. valid_index (env i) \<Longrightarrow>
      list_ex (\<lambda>ds. procs n env p = any_procs ds n p) dss"
    and "list_all (\<lambda>ds. never_check 200 (any_procs ds n p)) dss"
  shows "never_finishes_under valid_index n p"
  unfolding never_finishes_under_def
  using assms by (fastforce simp: list_ex_iff list_all_iff intro: never_endsI)

text \<open>
  A message of \<open>MPI_Recv\<close> has a source and a content; \<open>received_from k\<close> and
  \<open>received_value v\<close> fix them for all receives of a process.
\<close>

definition received_from :: "int \<Rightarrow> (nat \<Rightarrow> ccall \<Rightarrow> resp) \<Rightarrow> bool" where
  "received_from k env \<longleftrightarrow> (\<forall>i b n d s t c. out (env i (MPI_Recv b n d s t c)) 0 = k)"

definition received_value :: "int \<Rightarrow> (nat \<Rightarrow> ccall \<Rightarrow> resp) \<Rightarrow> bool" where
  "received_value v env \<longleftrightarrow> (\<forall>i b n d s t c. out (env i (MPI_Recv b n d s t c)) 2 = v)"

fun recv_env :: "int \<Rightarrow> int \<Rightarrow> int \<Rightarrow> int \<Rightarrow> nat \<Rightarrow> ccall \<Rightarrow> resp" where
  "recv_env k v rank nprocs i (P2p (Recv b n d s t c)) = [k, 0, v]"
| "recv_env k v rank nprocs i c = std_env rank nprocs i c"

lemma recv_world_env: "0 \<le> rank \<Longrightarrow> rank < nprocs \<Longrightarrow> world_env rank nprocs (recv_env k v rank nprocs)"
  by (simp add: world_env_def)

lemma received_possible: "possible (received_from k)" "possible (received_value v)"
  unfolding possible_def
  using recv_world_env [of _ _ k v]
  by (fastforce simp: received_from_def received_value_def out_def)+

definition recv_procs :: "int \<Rightarrow> int \<Rightarrow> nat \<Rightarrow> prog \<Rightarrow> item list list" where
  "recv_procs k v n p = map (\<lambda>i. items (recv_env k v (int i) (int n)) p) [0..<n]"

lemmas recv_simps = recv_procs_def upt_rec item_simps

definition can_deadlock_under ::
    "((nat \<Rightarrow> ccall \<Rightarrow> resp) \<Rightarrow> bool) \<Rightarrow> bool \<Rightarrow> nat \<Rightarrow> prog \<Rightarrow> bool" where
  "can_deadlock_under Q e n p \<longleftrightarrow>
     (\<forall>env. answers n env \<longrightarrow> (\<forall>i<n. Q (env i)) \<longrightarrow> may_block e (procs n env p))"

lemma can_deadlock_underI:
  assumes "\<And>i env. i < n \<Longrightarrow> world_env (int i) (int n) env \<Longrightarrow> Q env \<Longrightarrow> items env p = T ! i"
    and "length T = n" and "deadlock_check 200 e plan T"
  shows "can_deadlock_under Q e n p"
  unfolding can_deadlock_under_def
proof (intro allI impI)
  fix env assume "answers n env" "\<forall>i<n. Q (env i)"
  then have "procs n env p = T" using assms(1,2) by (rule procs_under)
  then show "may_block e (procs n env p)" using assms(3) by (simp add: may_blockI)
qed

definition no_deadlock_under ::
    "((nat \<Rightarrow> ccall \<Rightarrow> resp) \<Rightarrow> bool) \<Rightarrow> bool \<Rightarrow> nat \<Rightarrow> prog \<Rightarrow> bool" where
  "no_deadlock_under Q e n p \<longleftrightarrow>
     (\<forall>env. answers n env \<longrightarrow> (\<forall>i<n. Q (env i)) \<longrightarrow> \<not> may_block e (procs n env p))"

lemma no_deadlock_underI:
  assumes "\<And>i env. i < n \<Longrightarrow> world_env (int i) (int n) env \<Longrightarrow> Q env \<Longrightarrow> items env p = T ! i"
    and "length T = n" and "unambiguous T" and "passes_check fuel e plan T"
  shows "no_deadlock_under Q e n p"
  unfolding no_deadlock_under_def
proof (intro allI impI)
  fix env assume "answers n env" "\<forall>i<n. Q (env i)"
  then have "procs n env p = T" using assms(1,2) by (rule procs_under)
  then show "\<not> may_block e (procs n env p)" using not_may_block assms(3,4) by (simp add: passes_check_def)
qed

lemma starved_underI:
  assumes "\<And>i env. i < n \<Longrightarrow> world_env (int i) (int n) env \<Longrightarrow> Q env \<Longrightarrow> items env p = T ! i"
    and "length T = n" and "starved T b"
  shows "never_finishes_under Q n p"
  unfolding never_finishes_under_def
proof (intro allI impI)
  fix env assume "answers n env" "\<forall>i<n. Q (env i)"
  then have "procs n env p = T" using assms(1,2) by (rule procs_under)
  then show "never_ends (procs n env p)" using assms(3) by (simp add: starved_never_ends)
qed

lemma correct_underI:
  assumes "possible Q" and "clean_under Q k p" and "\<And>n. n \<in> set ns \<Longrightarrow> finishes_under Q n p"
  shows "correct_under Q k ns p"
  using assms by (simp add: correct_under_def list_all_iff)

end
