(* ===== verification/Checks_Polling.thy ===== *)
theory Checks_Polling
  imports Codes_Nonblock Codes_Aside Polling
begin

text \<open>
  The codes of src/codes that test requests in a loop, wait for any request or for some, or
  branch on a message: their calls depend on what MPI answers, so the claims name what is
  assumed of the answers.
\<close>

section \<open>Requests that are tested\<close>

lemma test_clean: "clean_under (progress fuel) 2 (no_error_p2p_test fuel)"
proof (rule clean_underI)
  fix rank nprocs env
  assume env: "world_env rank nprocs env" and Q: "progress fuel env" and n: "2 \<le> nprocs"
  from env Q n show "verdict rank nprocs env (no_error_p2p_test fuel) = (Exit 0, [])"
    by (cases rule: low_rank_cases [OF env]) (simp_all add: mon_simps code_defs)
qed

lemma test_items:
  assumes "world_env (int i) n env" "progress fuel env" "2 \<le> n" "world_env (int i) n (yes_env (int i) n)"
    "progress (Suc 0) (yes_env (int i) n)"
  shows "items env (no_error_p2p_test fuel) = items (yes_env (int i) n) (no_error_p2p_test (Suc 0))"
  using assms by (cases "i = 0"; cases "i = 1") (simp_all add: items_poll item_simps code_defs)

lemma test_finishes: "n = 2 \<or> n = 3 \<Longrightarrow> finishes_under (progress fuel) n (no_error_p2p_test fuel)"
  by (erule disjE; hypsubst; rule finishes_testedI [OF test_items]; simp add: tested_simps code_defs; code_simp)

lemma testall_clean: "clean_under (progress fuel) 3 (no_error_p2p_testall fuel)"
proof (rule clean_underI)
  fix rank nprocs env
  assume env: "world_env rank nprocs env" and Q: "progress fuel env" and n: "3 \<le> nprocs"
  from env Q n show "verdict rank nprocs env (no_error_p2p_testall fuel) = (Exit 0, [])"
    by (cases rule: low_rank_cases [OF env]) (simp_all add: mon_simps code_defs)
qed

lemma testall_items:
  assumes "world_env (int i) n env" "progress fuel env" "2 \<le> n" "world_env (int i) n (yes_env (int i) n)"
    "progress (Suc 0) (yes_env (int i) n)"
  shows "items env (no_error_p2p_testall fuel) = items (yes_env (int i) n) (no_error_p2p_testall (Suc 0))"
  using assms by (cases "i = 0"; cases "i = 1"; cases "i = 2") (simp_all add: items_poll item_simps code_defs)

lemma testall_finishes: "finishes_under (progress fuel) 3 (no_error_p2p_testall fuel)"
  by (rule finishes_testedI [OF testall_items]; simp add: tested_simps code_defs; code_simp)

lemma testany_clean: "clean_under (\<lambda>env. progress fuel env \<and> last_one env) 2 (no_error_p2p_testany fuel)"
proof (rule clean_underI)
  fix rank nprocs env
  assume env: "world_env rank nprocs env" and Q: "progress fuel env \<and> last_one env" and n: "2 \<le> nprocs"
  from env Q n show "verdict rank nprocs env (no_error_p2p_testany fuel) = (Exit 0, [])"
    by (cases rule: low_rank_cases [OF env]) (simp_all add: mon_simps code_defs)
qed

lemma testany_items:
  assumes "world_env (int i) n env" "progress fuel env \<and> last_one env" "2 \<le> n"
    "world_env (int i) n (yes_env (int i) n)" "progress (Suc 0) (yes_env (int i) n)"
    "last_one (yes_env (int i) n)"
  shows "items env (no_error_p2p_testany fuel) = items (yes_env (int i) n) (no_error_p2p_testany (Suc 0))"
  using assms by (cases "i = 0"; cases "i = 1") (simp_all add: items_testany item_simps code_defs)

lemma testany_finishes:
  "finishes_under (\<lambda>env. progress fuel env \<and> last_one env) 2 (no_error_p2p_testany fuel)"
  by (rule finishes_testedI [OF testany_items]; simp add: tested_simps code_defs; code_simp)

text \<open>
  C16. If one of \<open>fuel\<close> tests in a row says that a request is complete, the codes that
  test in a loop are correct: \<open>no-error-p2p-test.c\<close> from 2 processes on and
  \<open>no-error-p2p-testall.c\<close>, which checks for 2, from 3 on. If in addition each
  \<open>MPI_Testany\<close> that says yes names the last request of its array, whose message alone can
  be there, \<open>no-error-p2p-testany.c\<close> is correct: its assertion holds in every round.
\<close>

theorem polling_codes_correct:
  "correct_under (progress (Suc fuel)) 2 [2, 3] (no_error_p2p_test (Suc fuel)) \<and>
   correct_under (progress (Suc fuel)) 3 [3] (no_error_p2p_testall (Suc fuel)) \<and>
   correct_under (\<lambda>env. progress (Suc fuel) env \<and> last_one env) 2 [2] (no_error_p2p_testany (Suc fuel))"
  by (intro conjI correct_underI progress_possible test_clean testall_clean testany_clean;
      simp add: test_finishes testall_finishes testany_finishes)

section \<open>Waiting for any request\<close>

lemma valid_index_cases:
  assumes "valid_index env"
  shows "out (env i (MPI_Waitany 1 p)) 0 = 0"
    and "out (env i (MPI_Waitany 2 p)) 0 = 0 \<or> out (env i (MPI_Waitany 2 p)) 0 = 1"
    and "out (env i (MPI_Waitany 3 p)) 0 = 0 \<or> out (env i (MPI_Waitany 3 p)) 0 = 1 \<or>
         out (env i (MPI_Waitany 3 p)) 0 = 2"
  using assms [unfolded valid_index_def, rule_format, of 1 i p]
    assms [unfolded valid_index_def, rule_format, of 2 i p]
    assms [unfolded valid_index_def, rule_format, of 3 i p] by auto

lemma waitany_deadlock_procs:
  assumes "answers 2 env" and "\<forall>i<2. valid_index (env i)"
  shows "list_ex (\<lambda>ds. procs 2 env p2p_any_src_waitany_deadlock = any_procs ds 2 p2p_any_src_waitany_deadlock)
    [[(2, 0)], [(2, 1)]]"
proof -
  have env: "world_env 0 2 (env 0)" "world_env 1 2 (env 1)" and Q: "valid_index (env 0)"
    using assms by (simp_all add: answers_def numeral_2_eq_2 All_less_Suc)
  note index = valid_index_cases [OF Q]
  from env show ?thesis
    by (simp add: procs_def any_simps code_defs) (use index in blast)
qed

lemma smod_two: "(1::int) smod 2 = 1" "(2::int) smod 2 = 0"
  by code_simp+

lemma waitany_deadlock2_procs:
  assumes "answers 3 env" and "\<forall>i<3. valid_index (env i)"
  shows "list_ex (\<lambda>ds. procs 3 env p2p_any_src_waitany_deadlock2 = any_procs ds 3 p2p_any_src_waitany_deadlock2)
    [[(2, 0)], [(2, 1)]]"
proof -
  have env: "world_env 0 3 (env 0)" "world_env 1 3 (env (Suc 0))" "world_env 2 3 (env (Suc (Suc 0)))"
    and Q: "valid_index (env (Suc 0))"
    using assms by (simp_all add: answers_def eval_nat_numeral All_less_Suc)
  from valid_index_cases(2) [OF Q, of 16 "Ref ''reqs'' 0"] env show ?thesis
    by (elim disjE) (simp_all add: smod_two eval_nat_numeral procs_def any_simps code_defs)
qed

lemma waitany_procs:
  assumes "answers 2 env" and "\<forall>i<2. valid_index (env i)"
  shows "list_ex (\<lambda>ds. procs 2 env p2p_waitany_deadlock = any_procs ds 2 p2p_waitany_deadlock)
    [[(3, 0)], [(3, 1)], [(3, 2), (2, 0)], [(3, 2), (2, 1), (1, 0)]]"
proof -
  have env: "world_env 0 2 (env 0)" "world_env 1 2 (env 1)" and Q: "valid_index (env 0)"
    using assms by (simp_all add: answers_def numeral_2_eq_2 All_less_Suc)
  note index = valid_index_cases(3) [OF Q, of 19 "Ref ''reqs'' 0"]
    valid_index_cases(2) [OF Q, of 21 "Ref ''reqs'' 0"] valid_index_cases(1) [OF Q, of 23 "Ref ''reqs'' 0"]
  from index env show ?thesis
    by (elim disjE) (simp_all add: eval_nat_numeral procs_def any_simps code_defs)
qed

lemma waitany_deadlock2_clean: "clean_under valid_index 3 p2p_any_src_waitany_deadlock2"
proof (rule clean_underI)
  fix rank nprocs env
  assume env: "world_env rank nprocs env" and Q: "valid_index env" and n: "3 \<le> nprocs"
  from valid_index_cases(2) [OF Q, of 16 "Ref ''reqs'' 0"] env n
  show "verdict rank nprocs env p2p_any_src_waitany_deadlock2 = (Exit 0, [])"
    by (cases rule: low_rank_cases [OF env]; elim disjE)
      (simp_all add: smod_two eval_nat_numeral mon_simps code_defs)
qed

text \<open>
  C31. Whichever requests \<open>MPI_Waitany\<close> names, the three codes with it never finish
  under any library: each process waits for a message that the other sends later. The
  second, which waits for its other request at the end, is free of local errors.
\<close>

theorem waitany_deadlocks:
  "possible valid_index \<and> never_finishes_under valid_index 2 p2p_any_src_waitany_deadlock \<and>
   never_finishes_under valid_index 3 p2p_any_src_waitany_deadlock2 \<and>
   never_finishes_under valid_index 2 p2p_waitany_deadlock \<and>
   clean_under valid_index 3 p2p_any_src_waitany_deadlock2"
  by (intro conjI valid_index_possible waitany_deadlock2_clean
      never_finishes_anyI [OF waitany_deadlock_procs] never_finishes_anyI [OF waitany_deadlock2_procs]
      never_finishes_anyI [OF waitany_procs]; simp add: smod_two any_simps code_defs; code_simp)

section \<open>Branching on a message\<close>
















section \<open>Waiting for some requests\<close>

lemma waitsome_overflow: "blames 1 3 (no_error_p2p_waitsome fuel) BufferOverflow"
  by (rule blamesI) (simp add: mon_simps code_defs kept_error)

lemma waitsome_others:
  "reports 0 3 (no_error_p2p_waitsome fuel) []" "reports 2 3 (no_error_p2p_waitsome fuel) []"
  by (rule reportsI; simp add: mon_simps code_defs)+

text \<open>
  C18. \<open>no-error-p2p-waitsome.c\<close>: however often process 1 calls \<open>MPI_Waitsome\<close> and
  whatever it answers, process 1 posts a receive of two elements at \<open>buf[2]\<close> of an array of
  three. Processes 0 and 2 make no error.
\<close>

theorem waitsome_buffer_overflow:
  "blames 1 3 (no_error_p2p_waitsome fuel) BufferOverflow \<and>
   reports 0 3 (no_error_p2p_waitsome fuel) [] \<and> reports 2 3 (no_error_p2p_waitsome fuel) []"
  by (intro conjI waitsome_overflow waitsome_others)

end
