(* ===== verification/Checks_Coll.thy ===== *)
theory Checks_Coll
  imports Codes_Coll Codes_Aside Polling
begin

text \<open>
  The codes of src/codes and of src/codes/MayBeRemoved on collectives, communicators, groups,
  operators, topologies and datatypes, each process on its own and around barriers.
\<close>

section \<open>Collectives\<close>

lemma barrier_type_free_clean: "clean_from 1 no_error_coll_barrier_type_free"
  by (rule clean_fromI) (simp add: mon_simps code_defs)

lemma barrier_type_free_fixed: "fixed_from 1 no_error_coll_barrier_type_free"
  by (rule fixed_fromI) (simp add: item_simps code_defs)

lemma type_commit_twice_clean: "clean_from 1 no_error_coll_type_commit_twice"
  by (rule clean_fromI) (simp add: mon_simps code_defs)

lemma type_commit_twice_fixed: "fixed_from 1 no_error_coll_type_commit_twice"
  by (rule fixed_fromI) (simp add: item_simps code_defs)

lemma com_compare_clean: "clean_from 2 no_error_com_compare"
  by (rule clean_fromI) (simp add: mon_simps code_defs)

lemma com_compare_fixed: "fixed_from 2 no_error_com_compare"
  by (rule fixed_fromI) (simp add: item_simps code_defs)

lemma scatterv_stores:
  assumes "aget (objs s) x = Some nprocs" "aget (objs s) y = Some nprocs" "rtab s = []" "wvar s = []"
  shows "verdict_from env (seq (map (\<lambda>i. seq [call (C_store (Ref x i) 1),
      call (C_store (Ref y i) (nprocs - (i + 1)))]) (upto_lt 0 nprocs)) k) j s =
    verdict_from env k (j + 2 * nat nprocs) s"
  using assms by (subst verdict_from_bodies [where m = 2]) (simp_all add: check_simps call_def)

lemma scatterv_pieces:
  "aget (objs s) x = Some nprocs \<Longrightarrow> rtab s = [] \<Longrightarrow> wvar s = [] \<Longrightarrow>
   use_pieces False (Ref x 0) (map2 (\<lambda>n k. (n, 4 * k, MPI_INT)) (map (\<lambda>i. 1) (upto_lt 0 nprocs))
     (map (\<lambda>i. nprocs - (i + 1)) (upto_lt 0 nprocs))) s = s"
  by (rule use_pieces_idle) (auto simp: check_simps zip_map_map zip_same_conv_map)

lemma scatterv_root:
  "world_env 1 nprocs env \<Longrightarrow> 2 \<le> nprocs \<Longrightarrow> verdict 1 nprocs env no_error_coll_scatterv = (Exit 0, [])"
  by (simp add: check_simps stmt_defs no_error_coll_scatterv_def, subst scatterv_stores)
    (simp_all add: check_simps scatterv_pieces)

lemma scatterv_clean: "clean_from 2 no_error_coll_scatterv"
proof (rule clean_fromI)
  fix rank nprocs env
  assume env: "world_env rank nprocs env" and n: "2 \<le> nprocs"
  show "verdict rank nprocs env no_error_coll_scatterv = (Exit 0, [])"
  proof (cases "rank = 1")
    case True
    with env n scatterv_root show ?thesis by simp
  next
    case False
    with env n show ?thesis by (simp add: check_simps stmt_defs no_error_coll_scatterv_def)
  qed
qed

text \<open>The codes of MayBeRemoved around barriers.\<close>

lemma aside_barriers_clean:
  "clean_from 1 no_error_coll_barrier" "clean_from 1 no_error_coll_barrierSTATIC"
  "clean_from 2 no_error_coll_barrier_inter" "clean_from 1 no_error_coll_datatype"
  "clean_from 1 no_error_coll_grp" "clean_from 1 no_error_coll_grp_excl_loop"
  by (rule clean_fromI; simp add: mon_simps code_defs)+

lemma aside_barriers_fixed:
  "fixed_from 1 no_error_coll_barrier" "fixed_from 1 no_error_coll_barrierSTATIC"
  "fixed_from 2 no_error_coll_barrier_inter" "fixed_from 1 no_error_coll_datatype"
  "fixed_from 1 no_error_coll_grp" "fixed_from 1 no_error_coll_grp_excl_loop"
  by (rule fixed_fromI; simp add: item_simps code_defs)+

text \<open>
  C23. The codes around a barrier that create, commit (once or twice) and free a datatype,
  and the one that compares communicators, are correct, and so are those of MayBeRemoved that
  reach the barrier by either branch of an \<open>if\<close>, through a function, or with the ranks in
  allocated memory, and those that free a datatype or a group through a copy of its handle or
  ten groups in a loop. The pieces that \<open>no-error-coll-scatterv.c\<close> sends from its root lie
  in the array it allocates, whatever the number of processes: no process makes an error.
\<close>

theorem small_collectives_correct:
  "correct 1 [1, 2, 3] no_error_coll_barrier_type_free \<and>
   correct 1 [1, 2, 3] no_error_coll_type_commit_twice \<and> correct 2 [2, 3] no_error_com_compare \<and>
   correct 1 [1, 2, 3] no_error_coll_barrier \<and> correct 1 [1, 2, 3] no_error_coll_barrierSTATIC \<and>
   correct 2 [2, 3] no_error_coll_barrier_inter \<and> correct 1 [1, 2, 3] no_error_coll_datatype \<and>
   correct 1 [1, 2, 3] no_error_coll_grp \<and> correct 1 [1, 2, 3] no_error_coll_grp_excl_loop \<and>
   clean_from 2 no_error_coll_scatterv"
  by (intro conjI correctI barrier_type_free_clean barrier_type_free_fixed type_commit_twice_clean
      type_commit_twice_fixed com_compare_clean com_compare_fixed scatterv_clean
      aside_barriers_clean aside_barriers_fixed;
      simp add: proc_simps code_defs; code_simp)

text \<open>Without a fault of its own when run by \<open>n\<close> processes exactly.\<close>

definition clean_at :: "int \<Rightarrow> prog \<Rightarrow> bool" where
  "clean_at n p \<longleftrightarrow> (\<forall>rank env. world_env rank n env \<longrightarrow> verdict rank n env p = (Exit 0, []))"

lemma three_processes:
  assumes "world_env rank nprocs env" and "nprocs \<le> 3"
  obtains "rank = 0" | "rank = 1" | "rank = 2"
  using world_env_rank [OF assms(1)] assms(2) by fastforce

lemma reduceScatterBlock_clean: "clean_at 3 no_error_coll_reduceScatterBlock"
  unfolding clean_at_def
proof (intro allI impI)
  fix rank env assume env: "world_env rank 3 env"
  then show "verdict rank 3 env no_error_coll_reduceScatterBlock = (Exit 0, [])"
    by (cases rule: three_processes [OF env]) (simp_all add: mon_simps code_defs)
qed

lemmas alltoallw_defs = alltoallw_typesize_def alltoallw_sendcnt_def alltoallw_recvcnt_def
  smod_int_alt_def signed_divide_int_def

text \<open>The loop that fills the send buffer leaves the state alone.\<close>

lemma alltoallw_fill:
  assumes "aget (objs s) x = Some 200" "rtab s = []" "wvar s = []"
  shows "verdict_from env (seq (map (\<lambda>i. seq [call (C_store (Ref x i) (v i))]) (upto_lt 0 100)) k) n s =
    verdict_from env k (n + 100) s"
  using assms by (subst verdict_from_loop) (simp_all add: check_simps)

lemma alltoallw_run:
  assumes "world_env rank n env" and "n = 2 \<and> rank \<in> {0, 1} \<or> n = 3 \<and> rank \<in> {0, 1, 2}"
  shows "verdict rank n env no_error_coll_alltoallw = (Exit 0, [])"
  using assms
  by (elim disjE conjE insertE emptyE; hypsubst;
      simp add: check_simps stmt_defs no_error_coll_alltoallw_def alltoallw_fill;
      simp add: mon_simps code_defs alltoallw_defs)

lemma alltoallw_clean_at: "n = 2 \<or> n = 3 \<Longrightarrow> clean_at n no_error_coll_alltoallw"
  unfolding clean_at_def using alltoallw_run world_env_rank by fastforce

lemma alltoallw_negative: "blames 5 6 no_error_coll_alltoallw (Mbi InvalidOtherArg)"
  by (rule blamesI, simp add: check_simps stmt_defs no_error_coll_alltoallw_def alltoallw_fill)
    (simp add: mon_simps code_defs alltoallw_defs kept_error)

section \<open>Buffers that are too small\<close>

text \<open>The process \<open>rank\<close> of \<open>n\<close> exactly reports \<open>es\<close>.\<close>

definition reports_at :: "int \<Rightarrow> int \<Rightarrow> prog \<Rightarrow> local_error list \<Rightarrow> bool" where
  "reports_at rank n p es \<longleftrightarrow> (\<forall>env. world_env rank n env \<longrightarrow> verdict rank n env p = (Exit 0, es))"

lemma reports_atI:
  "(\<And>env. world_env rank n env \<Longrightarrow> verdict rank n env p = (Exit 0, es)) \<Longrightarrow> reports_at rank n p es"
  by (simp add: reports_at_def)

lemma parities:
  "0 smod 2 = (0::int)" "1 smod 2 = (1::int)" "2 smod 2 = (0::int)" "6 sdiv 3 = (2::int)" "6 sdiv 2 = (3::int)"
  by code_simp+

lemma reduceScatter_clean: "clean_at 3 no_error_coll_reduceScatter"
  unfolding clean_at_def
proof (intro allI impI)
  fix rank env assume env: "world_env rank 3 env"
  then show "verdict rank 3 env no_error_coll_reduceScatter = (Exit 0, [])"
    by (cases rule: three_processes [OF env]) (simp_all add: mon_simps parities code_defs)
qed

lemma scans_clean: "clean_at 3 coll_exscan_type_len_error" "clean_at 3 coll_scan_type_len_error"
  unfolding clean_at_def
proof (intro allI impI)
  fix rank env assume env: "world_env rank 3 env"
  then show "verdict rank 3 env coll_exscan_type_len_error = (Exit 0, [])"
    by (cases rule: three_processes [OF env]) (simp_all add: mon_simps parities code_defs)
next
  show "\<forall>rank env. world_env rank 3 env \<longrightarrow> verdict rank 3 env coll_scan_type_len_error = (Exit 0, [])"
  proof (intro allI impI)
    fix rank env assume env: "world_env rank 3 env"
    then show "verdict rank 3 env coll_scan_type_len_error = (Exit 0, [])"
      by (cases rule: three_processes [OF env]) (simp_all add: mon_simps parities code_defs)
  qed
qed

lemma allreduce_overflow:
  "reports_at 0 3 coll_allreduce_type_len_error []"
  "reports_at 1 3 coll_allreduce_type_len_error [BufferOverflow, BufferOverflow]"
  "reports_at 2 3 coll_allreduce_type_len_error []"
  by (rule reports_atI; simp add: mon_simps parities code_defs)+

lemma reduceScatterBlock_overflow: "reports_at 1 3 coll_reduceScatterBlock_type_len_error [BufferOverflow]"
  by (rule reports_atI; simp add: mon_simps parities code_defs)

lemma alltoallv_fill:
  assumes "aget (objs s) ''outbuf'' = Some 200" "rtab s = []" "wvar s = []"
  shows "verdict_from env (fill_outbuf rank 100 k) n s = verdict_from env k (n + 100) s"
  using assms unfolding fill_outbuf_def for_c_def by (subst verdict_from_loop) (simp_all add: check_simps)

lemma alltoallv_overflow: "reports_at 0 3 coll_alltoallv_type_len_error [BufferOverflow]"
  by (rule reports_atI; simp add: check_simps stmt_defs need_three_def make_conti_def
      coll_alltoallv_type_len_error_def alltoallv_fill;
      simp add: mon_simps smod_int_alt_def signed_divide_int_def)

text \<open>
  C19. Run by three processes, \<open>no-error-coll-alltoallw.c\<close> sends from each process to each
  other as many integers as that one receives, all within the buffers; with six processes a
  count of process 5 is negative, because \<open>%\<close> of C truncates. The codes with
  \<open>MPI_Reduce_scatter\<close>, \<open>MPI_Reduce_scatter_block\<close> and the two scans stay in their buffers
  too. Three of the codes whose processes disagree about an amount have an error that is not
  in their header: process 1 of \<open>coll-allreduce-type-len-error.c\<close> passes 19 elements of
  arrays of 18, that of \<open>coll-reduceScatterBlock-type-len-error.c\<close> 21 elements of an array
  of 20, and process 0 of \<open>coll-alltoallv-type-len-error.c\<close>, whose displacements count
  datatypes of three integers, sends from behind the end of its array of 200.
\<close>

theorem collective_buffers:
  "list_all (\<lambda>r. list_all (\<lambda>i. alltoallw_sendcnt r i * alltoallw_typesize r i =
      alltoallw_recvcnt i r * alltoallw_typesize i r) [0, 1, 2]) [0, 1, 2] \<and>
   clean_at 2 no_error_coll_alltoallw \<and> clean_at 3 no_error_coll_alltoallw \<and>
   blames 5 6 no_error_coll_alltoallw (Mbi InvalidOtherArg) \<and>
   clean_at 3 no_error_coll_reduceScatterBlock \<and> clean_at 3 no_error_coll_reduceScatter \<and>
   clean_at 3 coll_exscan_type_len_error \<and> clean_at 3 coll_scan_type_len_error \<and>
   reports_at 0 3 coll_allreduce_type_len_error [] \<and>
   reports_at 1 3 coll_allreduce_type_len_error [BufferOverflow, BufferOverflow] \<and>
   reports_at 2 3 coll_allreduce_type_len_error [] \<and>
   reports_at 1 3 coll_reduceScatterBlock_type_len_error [BufferOverflow] \<and>
   reports_at 0 3 coll_alltoallv_type_len_error [BufferOverflow]"
  by (intro conjI alltoallw_clean_at reduceScatterBlock_clean alltoallw_negative reduceScatter_clean
      scans_clean allreduce_overflow reduceScatterBlock_overflow alltoallv_overflow)
    (code_simp | simp)+

section \<open>Topologies\<close>

text \<open>\<open>MPI_Cart_create\<close> gives every process a communicator, or gives some \<open>MPI_COMM_NULL\<close>.\<close>

definition cart_comm :: "bool \<Rightarrow> (nat \<Rightarrow> ccall \<Rightarrow> resp) \<Rightarrow> bool" where
  "cart_comm b env \<longleftrightarrow> (\<forall>i c n ds ps r p. out (env i (MPI_Cart_create c n ds ps r p)) 0 = of_bool b)"

fun cart_env :: "bool \<Rightarrow> int \<Rightarrow> int \<Rightarrow> nat \<Rightarrow> ccall \<Rightarrow> resp" where
  "cart_env b rank nprocs i (Obj (Cart_create c n ds ps r p)) = [of_bool b]"
| "cart_env b rank nprocs i c = std_env rank nprocs i c"

lemma cart_possible: "possible (cart_comm b)"
  unfolding possible_def
proof (intro allI impI)
  fix rank nprocs :: int assume "0 \<le> rank" "rank < nprocs"
  then have "world_env rank nprocs (cart_env b rank nprocs) \<and> cart_comm b (cart_env b rank nprocs)"
    by (simp add: world_env_def cart_comm_def)
  then show "\<exists>env. world_env rank nprocs env \<and> cart_comm b env" by blast
qed

text \<open>All processes report \<open>es\<close>, if the answers satisfy \<open>Q\<close>.\<close>

definition all_report :: "((nat \<Rightarrow> ccall \<Rightarrow> resp) \<Rightarrow> bool) \<Rightarrow> int \<Rightarrow> prog \<Rightarrow> local_error list \<Rightarrow> bool" where
  "all_report Q k p es \<longleftrightarrow> (\<forall>rank nprocs env. world_env rank nprocs env \<longrightarrow> Q env \<longrightarrow> k \<le> nprocs \<longrightarrow>
     verdict rank nprocs env p = (Exit 0, es))"

text \<open>In a grid of 2 x 2 processes, \<open>MPI_Cart_sub\<close> gives every process of the grid a communicator.\<close>

definition grid_comm :: "bool \<Rightarrow> (nat \<Rightarrow> ccall \<Rightarrow> resp) \<Rightarrow> bool" where
  "grid_comm b env \<longleftrightarrow> cart_comm b env \<and> (\<forall>i c rs p. out (env i (MPI_Cart_sub c rs p)) 0 = 1)"

fun grid_env :: "bool \<Rightarrow> int \<Rightarrow> int \<Rightarrow> nat \<Rightarrow> ccall \<Rightarrow> resp" where
  "grid_env b rank nprocs i (Obj (Cart_sub c rs p)) = [1]"
| "grid_env b rank nprocs i c = cart_env b rank nprocs i c"

lemma grid_possible: "possible (grid_comm b)"
proof -
  have "world_env rank nprocs (grid_env b rank nprocs)" if "0 \<le> rank" "rank < nprocs" for rank nprocs
    using that by (simp add: world_env_def)
  moreover have "grid_comm b (grid_env b rank nprocs)" for rank nprocs
    by (simp add: grid_comm_def cart_comm_def)
  ultimately show ?thesis unfolding possible_def by blast
qed

lemma isqrt_values: "isqrt 4 = 2" "isqrt 5 = 2"
  by code_simp+

lemma topo_cart_runs:
  "list_all (\<lambda>rank. runs_under (grid_comm True) rank 4 no_error_topo_cart (Exit 0, [])) [0, 1, 2, 3]"
  "runs_under (grid_comm False) 4 5 no_error_topo_cart (Undefined_behaviour, [])"
  by (simp_all add: runs_under_def grid_comm_def cart_comm_def isqrt_values mon_simps code_defs)

lemma cart_com_clean: "clean_under (cart_comm True) 2 no_error_topo_cart_com"
  by (rule clean_underI) (simp add: cart_comm_def mon_simps code_defs)

lemma cart_com_null: "all_report (cart_comm False) 2 no_error_topo_cart_com [Mbi InvalidCommunicator]"
  by (simp add: all_report_def cart_comm_def mon_simps code_defs)

lemma cart_shift_dim: "all_report (cart_comm True) 2 topo_cart_shift_dim_error [Mbi InvalidOtherArg]"
  by (simp add: all_report_def cart_comm_def mon_simps code_defs)

lemma cart_shift_null: "all_report (cart_comm False) 2 topo_cart_shift_dim_error [Mbi InvalidCommunicator]"
  by (simp add: all_report_def cart_comm_def mon_simps code_defs)

lemma cart_intercom: "all_report (\<lambda>env. True) 2 topo_cart_intercom_error [Mbi InvalidCommunicator]"
  unfolding all_report_def
proof (intro allI impI)
  fix rank nprocs env
  assume env: "world_env rank nprocs env" "2 \<le> nprocs"
  then show "verdict rank nprocs env topo_cart_intercom_error = (Exit 0, [Mbi InvalidCommunicator])"
    by (cases "rank mod 2 = 0") (simp_all add: mon_simps code_defs)
qed

section \<open>Datatypes\<close>

lemma type_null_reports:
  "reports 0 2 type_null_error [Mbi InvalidDatatype]" "reports 1 2 type_null_error []"
  "reports 0 1 type_null_error2 [Mbi InvalidDatatype, Mbi InvalidDatatype]"
  by (rule reportsI; simp add: mon_simps code_defs)+

text \<open>
  C24. The errors in calls on objects. \<open>no-error-topo-cart-com.c\<close> is free of errors where
  \<open>MPI_Cart_create\<close> yields a communicator, but asks for the topology of
  \<open>MPI_COMM_NULL\<close> in the processes that are left out of the grid;
  \<open>topo-cart-shift-dim-error.c\<close> asks for dimension 3 of two, and
  \<open>topo-cart-intercom-error.c\<close> builds a grid on an intercommunicator in every process.
  \<open>no-error-topo-cart.c\<close> is free of errors with the four processes of its test; with five,
  the one outside the grid compares communicators it never initialized. In
  the two codes about \<open>MPI_DATATYPE_NULL\<close> process 0 commits a null datatype, and builds a
  type from one and frees the variable that got no type.
\<close>

theorem object_errors:
  "possible (cart_comm True) \<and> possible (cart_comm False) \<and>
   clean_under (cart_comm True) 2 no_error_topo_cart_com \<and>
   all_report (cart_comm False) 2 no_error_topo_cart_com [Mbi InvalidCommunicator] \<and>
   all_report (cart_comm True) 2 topo_cart_shift_dim_error [Mbi InvalidOtherArg] \<and>
   all_report (\<lambda>env. True) 2 topo_cart_intercom_error [Mbi InvalidCommunicator] \<and>
   possible (grid_comm True) \<and> possible (grid_comm False) \<and>
   list_all (\<lambda>rank. runs_under (grid_comm True) rank 4 no_error_topo_cart (Exit 0, [])) [0, 1, 2, 3] \<and>
   runs_under (grid_comm False) 4 5 no_error_topo_cart (Undefined_behaviour, []) \<and>
   reports 0 2 type_null_error [Mbi InvalidDatatype] \<and> reports 1 2 type_null_error [] \<and>
   reports 0 1 type_null_error2 [Mbi InvalidDatatype, Mbi InvalidDatatype]"
  by (intro conjI cart_possible cart_com_clean cart_com_null cart_shift_dim cart_intercom
      grid_possible topo_cart_runs
      type_null_reports)

section \<open>Handles\<close>
















end
