(* ===== verification/Matching.thy ===== *)
theory Matching
  imports Local Deadlock
begin

text \<open>
  What the labels of README.md whose scope is several processes promise about collectives:
  the processes call the same one in the same order (\<open>CallMatching\<close>), with the same root
  (\<open>RootMatching\<close>) and operator (\<open>OperatorMatching\<close>), and each process gives every other
  as many bytes as that one expects of it (\<open>DatatypeMatching\<close>). The collectives of one
  process on \<open>MPI_COMM_WORLD\<close> are read off its run, with the sizes its datatypes have at
  that moment.
\<close>

section \<open>What a call asks of the others\<close>

text \<open>\<open>s_out ! j\<close> bytes go to process \<open>j\<close>, and \<open>s_in ! j\<close> are expected of it.\<close>

record signature =
  s_call :: string
  s_root :: "int option"
  s_op :: "mpi_op option"
  s_out :: "int list"
  s_in :: "int list"

definition each :: "lstate \<Rightarrow> int \<Rightarrow> int list" where
  "each s b = replicate (nat (np s)) b"

definition only :: "lstate \<Rightarrow> int \<Rightarrow> int \<Rightarrow> int list" where
  "only s r b = (each s 0)[nat r := b]"

definition root_only :: "lstate \<Rightarrow> int \<Rightarrow> int list \<Rightarrow> int list" where
  "root_only s root bs = (if me s = root then bs else each s 0)"

text \<open>A collective in which all give and expect \<open>b\<close> bytes, and one with a root.\<close>

definition balanced :: "string \<Rightarrow> mpi_op option \<Rightarrow> lstate \<Rightarrow> int \<Rightarrow> int \<Rightarrow> signature" where
  "balanced f a s b b' = \<lparr>s_call = f, s_root = None, s_op = a, s_out = each s b, s_in = each s b'\<rparr>"

definition rooted :: "string \<Rightarrow> int \<Rightarrow> mpi_op option \<Rightarrow> int list \<Rightarrow> int list \<Rightarrow> signature" where
  "rooted f root a bs bs' = \<lparr>s_call = f, s_root = Some root, s_op = a, s_out = bs, s_in = bs'\<rparr>"

fun signature_of :: "lstate \<Rightarrow> coll_call \<Rightarrow> signature" where
  "signature_of s (Barrier c) = balanced ''Barrier'' None s 0 0"
| "signature_of s (Bcast b n d root c) =
     rooted ''Bcast'' root None (root_only s root (each s (bytes_of s n d))) (only s root (bytes_of s n d))"
| "signature_of s (Reduce b b' n d f root c) =
     rooted ''Reduce'' root (Some f) (only s root (bytes_of s n d)) (root_only s root (each s (bytes_of s n d)))"
| "signature_of s (Allreduce b b' n d f c) =
     balanced ''Allreduce'' (Some f) s (bytes_of s n d) (bytes_of s n d)"
| "signature_of s (Scatter b n d b' n' d' root c) =
     rooted ''Scatter'' root None (root_only s root (each s (bytes_of s n d))) (only s root (bytes_of s n' d'))"
| "signature_of s (Scatterv b ns ds d b' n' d' root c) =
     rooted ''Scatterv'' root None (root_only s root (map (\<lambda>n. bytes_of s n d) ns))
       (only s root (bytes_of s n' d'))"
| "signature_of s (Gather b n d b' n' d' root c) =
     rooted ''Gather'' root None (only s root (bytes_of s n d)) (root_only s root (each s (bytes_of s n' d')))"
| "signature_of s (Allgather b n d b' n' d' c) =
     balanced ''Allgather'' None s (bytes_of s n d) (bytes_of s n' d')"
| "signature_of s (Alltoall b n d b' n' d' c) =
     balanced ''Alltoall'' None s (bytes_of s n d) (bytes_of s n' d')"
| "signature_of s (Alltoallv b ns ds d b' ns' ds' d' c) =
     \<lparr>s_call = ''Alltoallv'', s_root = None, s_op = None,
      s_out = map (\<lambda>n. bytes_of s n d) ns, s_in = map (\<lambda>n. bytes_of s n d') ns'\<rparr>"
| "signature_of s (Alltoallw b ns ds ts b' ns' ds' ts' c) =
     \<lparr>s_call = ''Alltoallw'', s_root = None, s_op = None,
      s_out = map (\<lambda>(n, d). bytes_of s n d) (zip ns ts), s_in = map (\<lambda>(n, d). bytes_of s n d) (zip ns' ts')\<rparr>"
| "signature_of s (Reduce_scatter_block b b' n d f c) =
     balanced ''Reduce_scatter_block'' (Some f) s (bytes_of s n d) (bytes_of s n d)"
| "signature_of s (Reduce_scatter b b' ns d f c) =
     \<lparr>s_call = ''Reduce_scatter'', s_root = None, s_op = Some f,
      s_out = map (\<lambda>n. bytes_of s n d) ns, s_in = each s (bytes_of s (ns ! nat (me s)) d)\<rparr>"
| "signature_of s (Scan b b' n d f c) = balanced ''Scan'' (Some f) s (bytes_of s n d) (bytes_of s n d)"
| "signature_of s (Exscan b b' n d f c) = balanced ''Exscan'' (Some f) s (bytes_of s n d) (bytes_of s n d)"

fun coll_comm :: "coll_call \<Rightarrow> comm" where
  "coll_comm (Barrier c) = c"
| "coll_comm (Bcast b n d root c) = c"
| "coll_comm (Reduce b b' n d f root c) = c"
| "coll_comm (Allreduce b b' n d f c) = c"
| "coll_comm (Scatter b n d b' n' d' root c) = c"
| "coll_comm (Scatterv b ns ds d b' n' d' root c) = c"
| "coll_comm (Gather b n d b' n' d' root c) = c"
| "coll_comm (Allgather b n d b' n' d' c) = c"
| "coll_comm (Alltoall b n d b' n' d' c) = c"
| "coll_comm (Alltoallv b ns ds d b' ns' ds' d' c) = c"
| "coll_comm (Alltoallw b ns ds ts b' ns' ds' ts' c) = c"
| "coll_comm (Reduce_scatter_block b b' n d f c) = c"
| "coll_comm (Reduce_scatter b b' ns d f c) = c"
| "coll_comm (Scan b b' n d f c) = c"
| "coll_comm (Exscan b b' n d f c) = c"

section \<open>The collectives of a run\<close>

fun call_signature :: "lstate \<Rightarrow> ccall \<Rightarrow> signature list" where
  "call_signature s (Coll c) = (if coll_comm c = MPI_COMM_WORLD then [signature_of s c] else [])"
| "call_signature s c = []"

fun signatures_from :: "lstate \<Rightarrow> (ccall \<times> resp) list \<Rightarrow> signature list" where
  "signatures_from s [] = []"
| "signatures_from s ((c, r) # es) = call_signature s c @ signatures_from (lstep (c, r) s) es"

definition signatures :: "int \<Rightarrow> int \<Rightarrow> (nat \<Rightarrow> ccall \<Rightarrow> resp) \<Rightarrow> prog \<Rightarrow> signature list" where
  "signatures rank nprocs env p = signatures_from (lstart rank nprocs) (fst (run env p 0))"

text \<open>The same, call by call.\<close>

primrec signatures_along :: "(nat \<Rightarrow> ccall \<Rightarrow> resp) \<Rightarrow> prog \<Rightarrow> nat \<Rightarrow> lstate \<Rightarrow> signature list" where
  "signatures_along env (Ret n) i s = []"
| "signatures_along env Assert_failed i s = []"
| "signatures_along env No_fuel i s = []"
| "signatures_along env Undefined i s = []"
| "signatures_along env (Call c k) i s =
     call_signature s c @ signatures_along env (k (env i c)) (Suc i) (lstep (c, env i c) s)"

lemma signatures_along_run: "signatures_along env p i s = signatures_from s (fst (run env p i))"
proof (induction p arbitrary: i s)
  case (Call c k)
  show ?case by (simp add: Call [OF rangeI] Let_def split_def)
qed simp_all

lemma signatures_eq: "signatures rank nprocs env p = signatures_along env p 0 (lstart rank nprocs)"
  by (simp add: signatures_def signatures_along_run)

text \<open>A loop whose bodies leave the state alone and call no collective.\<close>

lemma signatures_along_bodies:
  assumes "\<And>i n k. i \<in> set is \<Longrightarrow> signatures_along env (seq (body i) k) n s = signatures_along env k (n + m) s"
  shows "signatures_along env (seq (map (\<lambda>i. seq (body i)) is) k) n s = signatures_along env k (n + m * length is) s"
  using assms by (induction "is" arbitrary: n) (simp_all add: add.assoc)

section \<open>Disagreement\<close>

definition all_same :: "'a list \<Rightarrow> bool" where
  "all_same xs = list_all (\<lambda>x. x = hd xs) xs"

definition amounts_match :: "signature list \<Rightarrow> bool" where
  "amounts_match ss = list_all (\<lambda>i. list_all (\<lambda>j. s_out (ss ! i) ! j = s_in (ss ! j) ! i)
     [0..<length ss]) [0..<length ss]"

text \<open>What is wrong with one call of each process, and with the first that is wrong.\<close>

definition disagreement :: "signature list \<Rightarrow> detail option" where
  "disagreement ss =
     (if \<not> all_same (map s_call ss) then Some CallMatching
      else if \<not> all_same (map s_root ss) then Some RootMatching
      else if \<not> all_same (map s_op ss) then Some OperatorMatching
      else if \<not> amounts_match ss then Some DatatypeMatching
      else None)"

fun first_disagreement :: "nat \<Rightarrow> signature list list \<Rightarrow> detail option" where
  "first_disagreement 0 sss = (if list_all (\<lambda>ss. ss = []) sss then None else Some CallMatching)"
| "first_disagreement (Suc n) sss =
     (if list_all (\<lambda>ss. ss = []) sss then None
      else if list_ex (\<lambda>ss. ss = []) sss then Some CallMatching
      else case disagreement (map hd sss) of
          Some d \<Rightarrow> Some d
        | None \<Rightarrow> first_disagreement n (map tl sss))"

definition mismatch :: "signature list list \<Rightarrow> detail option" where
  "mismatch sss = first_disagreement (length (hd sss)) sss"

text \<open>Run by \<open>n\<close> processes, the collectives disagree as \<open>d\<close> says, or agree (\<open>None\<close>).\<close>

definition matching :: "nat \<Rightarrow> prog \<Rightarrow> detail option \<Rightarrow> bool" where
  "matching n p d \<longleftrightarrow> (\<forall>env. answers n env \<longrightarrow>
     mismatch (map (\<lambda>i. signatures (int i) (int n) (env i) p) [0..<n]) = d)"

lemma matching2I:
  assumes "\<And>e0 e1. world_env 0 2 e0 \<Longrightarrow> world_env 1 2 e1 \<Longrightarrow>
    mismatch [signatures 0 2 e0 p, signatures 1 2 e1 p] = d"
  shows "matching 2 p d"
  using assms by (simp add: matching_def answers_def eval_nat_numeral All_less_Suc)

lemma matching3I:
  assumes "\<And>e0 e1 e2. world_env 0 3 e0 \<Longrightarrow> world_env 1 3 e1 \<Longrightarrow> world_env 2 3 e2 \<Longrightarrow>
    mismatch [signatures 0 3 e0 p, signatures 1 3 e1 p, signatures 2 3 e2 p] = d"
  shows "matching 3 p d"
  using assms by (simp add: matching_def answers_def eval_nat_numeral All_less_Suc)

lemma matching5I:
  assumes "\<And>e0 e1 e2 e3 e4. world_env 0 5 e0 \<Longrightarrow> world_env 1 5 e1 \<Longrightarrow> world_env 2 5 e2 \<Longrightarrow>
      world_env 3 5 e3 \<Longrightarrow> world_env 4 5 e4 \<Longrightarrow>
    mismatch [signatures 0 5 e0 p, signatures 1 5 e1 p, signatures 2 5 e2 p, signatures 3 5 e3 p, signatures 4 5 e4 p] = d"
  shows "matching 5 p d"
  using assms by (simp add: matching_def answers_def eval_nat_numeral All_less_Suc)

lemma matching6I:
  assumes "\<And>e0 e1 e2 e3 e4 e5. world_env 0 6 e0 \<Longrightarrow> world_env 1 6 e1 \<Longrightarrow> world_env 2 6 e2 \<Longrightarrow>
      world_env 3 6 e3 \<Longrightarrow> world_env 4 6 e4 \<Longrightarrow> world_env 5 6 e5 \<Longrightarrow>
    mismatch [signatures 0 6 e0 p, signatures 1 6 e1 p, signatures 2 6 e2 p, signatures 3 6 e3 p, signatures 4 6 e4 p,
      signatures 5 6 e5 p] = d"
  shows "matching 6 p d"
  using assms by (simp add: matching_def answers_def eval_nat_numeral All_less_Suc)

text \<open>
  The tests come in the order of the labels, and agreement means that all four hold of every
  call.
\<close>

lemma first_disagreement_None:
  "first_disagreement n sss = None \<Longrightarrow> \<exists>m. list_all (\<lambda>ss. length ss = m) sss \<and> (\<forall>k<m. disagreement (map (\<lambda>ss. ss ! k) sss) = None)"
proof (induction n sss rule: first_disagreement.induct)
  case (1 sss)
  then show ?case by (auto simp: list_all_iff split: if_splits)
next
  case (2 n sss)
  show ?case
  proof (cases "list_all (\<lambda>ss. ss = []) sss")
    case True
    then show ?thesis by (auto simp: list_all_iff)
  next
    case False
    with "2.prems" have ne: "list_all (\<lambda>ss. ss \<noteq> []) sss" and d: "disagreement (map hd sss) = None"
      and rest: "first_disagreement n (map tl sss) = None"
      by (auto simp: list_all_iff list_ex_iff split: if_splits option.splits)
    from "2.IH" False ne d rest obtain m where
      m: "list_all (\<lambda>ss. length ss = m) (map tl sss)"
        "\<forall>k<m. disagreement (map (\<lambda>ss. ss ! k) (map tl sss)) = None"
      by (auto simp: list_all_iff list_ex_iff)
    have "disagreement (map (\<lambda>ss. ss ! k) sss) = None" if "k < Suc m" for k
    proof (cases k)
      case 0
      have "map (\<lambda>ss. ss ! k) sss = map hd sss"
        using ne 0 by (auto simp: list_all_iff hd_conv_nth)
      with d show ?thesis by metis
    next
      case (Suc k')
      have "map (\<lambda>ss. ss ! k) sss = map (\<lambda>ss. ss ! k') (map tl sss)"
        using ne Suc by (auto simp: list_all_iff neq_Nil_conv)
      with m(2) that Suc show ?thesis by (metis Suc_less_eq)
    qed
    moreover have "list_all (\<lambda>ss. length ss = Suc m) sss"
      using m(1) ne by (auto simp: list_all_iff)
    ultimately show ?thesis by blast
  qed
qed

lemmas sig_simps = check_simps signatures_eq each_def only_def root_only_def balanced_def rooted_def
  eval_nat_numeral

end
