(* ===== verification/Checks_Aside.thy ===== *)
theory Checks_Aside
  imports Matching Codes_Aside Claims
begin

text \<open>
  The codes of src/codes/MayBeRemoved on collectives: which of them disagree between the
  processes and about what, and which agree. The codes of src/codes that are expected to be
  correct are checked for agreement too.
\<close>

section \<open>Evaluating the collectives\<close>

lemma fill_signatures:
  assumes "aget (objs s) ''outbuf'' = Some m" "n \<le> m" "rtab s = []" "wvar s = []"
  shows "signatures_along env (fill_outbuf rank n k) j s = signatures_along env k (j + nat n) s"
  using assms unfolding fill_outbuf_def for_c_def
  by (subst signatures_along_bodies [where m = 1]) (simp_all add: check_simps call_def upto_lt_def)

lemmas agree_simps = sig_simps stmt_defs need_three_def make_conti_def fill_signatures
  smod_int_alt_def signed_divide_int_def

lemmas compare_simps = mismatch_def disagreement_def all_same_def amounts_match_def upt_rec

section \<open>Amounts of data\<close>

lemma allgather_mismatch: "matching 3 coll_allgather_type_len_error (Some DatatypeMatching)"
  by (rule matching3I; simp add: agree_simps coll_allgather_type_len_error_def; simp add: compare_simps)

lemma allreduce_mismatch: "matching 3 coll_allreduce_type_len_error (Some DatatypeMatching)"
  by (rule matching3I; simp add: agree_simps coll_allreduce_type_len_error_def; simp add: compare_simps)

lemma alltoall_mismatch: "matching 3 coll_alltoall_type_len_error (Some DatatypeMatching)"
  by (rule matching3I; simp add: agree_simps coll_alltoall_type_len_error_def; simp add: compare_simps)

lemma alltoallv_mismatch: "matching 3 coll_alltoallv_type_len_error (Some DatatypeMatching)"
  by (rule matching3I; simp add: agree_simps coll_alltoallv_type_len_error_def; simp add: compare_simps)

lemma alltoallw_values:
  "alltoallw_typesize 0 0 = 3" "alltoallw_typesize 0 1 = 1" "alltoallw_typesize 0 2 = 2"
  "alltoallw_typesize 1 0 = 1" "alltoallw_typesize 1 1 = 2" "alltoallw_typesize 1 2 = 3"
  "alltoallw_typesize 2 0 = 2" "alltoallw_typesize 2 1 = 3" "alltoallw_typesize 2 2 = 1"
  "alltoallw_sendcnt 0 0 = 2" "alltoallw_sendcnt 0 1 = 12" "alltoallw_sendcnt 0 2 = 9"
  "alltoallw_sendcnt 1 0 = 18" "alltoallw_sendcnt 1 1 = 3" "alltoallw_sendcnt 1 2 = 4"
  "alltoallw_sendcnt 2 0 = 6" "alltoallw_sendcnt 2 1 = 6" "alltoallw_sendcnt 2 2 = 6"
  "alltoallw_recvcnt 0 0 = 2" "alltoallw_recvcnt 0 1 = 18" "alltoallw_recvcnt 0 2 = 6"
  "alltoallw_recvcnt 1 0 = 12" "alltoallw_recvcnt 1 1 = 3" "alltoallw_recvcnt 1 2 = 6"
  "alltoallw_recvcnt 2 0 = 9" "alltoallw_recvcnt 2 1 = 4" "alltoallw_recvcnt 2 2 = 6"
  "alltoallw_wrong_recvcnt 0 0 = 2" "alltoallw_wrong_recvcnt 0 1 = 18" "alltoallw_wrong_recvcnt 0 2 = 6"
  "alltoallw_wrong_recvcnt 1 0 = 18" "alltoallw_wrong_recvcnt 1 1 = 6" "alltoallw_wrong_recvcnt 1 2 = 8"
  "alltoallw_wrong_recvcnt 2 0 = 9" "alltoallw_wrong_recvcnt 2 1 = 4" "alltoallw_wrong_recvcnt 2 2 = 6"
  by code_simp+

lemma upto_lt_3: "upto_lt 0 3 = [0, 1, 2]"
  by (simp add: upto_lt_def upto.simps)

lemma alltoallw_mismatch: "matching 3 coll_alltoallw_type_len_error (Some DatatypeMatching)"
  by (rule matching3I; simp add: sig_simps stmt_defs need_three_def fill_signatures upto_lt_3 alltoallw_values
      coll_alltoallw_type_len_error_def; simp add: compare_simps)

lemma exscan_mismatch: "matching 3 coll_exscan_type_len_error (Some DatatypeMatching)"
  by (rule matching3I; simp add: agree_simps coll_exscan_type_len_error_def; simp add: compare_simps)

lemma scan_mismatch: "matching 3 coll_scan_type_len_error (Some DatatypeMatching)"
  by (rule matching3I; simp add: agree_simps coll_scan_type_len_error_def; simp add: compare_simps)

lemma reduceScatterBlock_mismatch: "matching 3 coll_reduceScatterBlock_type_len_error (Some DatatypeMatching)"
  by (rule matching3I; simp add: agree_simps coll_reduceScatterBlock_type_len_error_def; simp add: compare_simps)

lemma scatter_mismatch: "matching 3 coll_scatter_type_len_error (Some DatatypeMatching)"
  by (rule matching3I; simp add: agree_simps upto_lt_step coll_scatter_type_len_error_def; simp add: compare_simps)

lemma scatterv_mismatch: "matching 3 coll_scatterv_type_len_error (Some DatatypeMatching)"
  by (rule matching3I; simp add: agree_simps coll_scatterv_type_len_error_def; simp add: compare_simps)

lemma gather_mismatch: "matching 2 coll_gather_type_len_error (Some DatatypeMatching)"
  by (rule matching2I; simp add: agree_simps coll_gather_type_len_error_def; simp add: compare_simps)

text \<open>
  C20. In eleven codes on collectives the processes name the same collective and root, but
  some process gives another a different number of bytes than that one expects: the label
  \<open>DatatypeMatching\<close>, whatever MPI answers. The number differs by \<open>rank % 2\<close>, in
  a count or in the counts of the vector variants, and in \<open>coll-gather-type-len-error.c\<close>
  because three integers are sent where one pair is received.
\<close>

theorem amounts_disagree:
  "matching 3 coll_allgather_type_len_error (Some DatatypeMatching) \<and>
   matching 3 coll_allreduce_type_len_error (Some DatatypeMatching) \<and>
   matching 3 coll_alltoall_type_len_error (Some DatatypeMatching) \<and>
   matching 3 coll_alltoallv_type_len_error (Some DatatypeMatching) \<and>
   matching 3 coll_alltoallw_type_len_error (Some DatatypeMatching) \<and>
   matching 3 coll_exscan_type_len_error (Some DatatypeMatching) \<and>
   matching 3 coll_scan_type_len_error (Some DatatypeMatching) \<and>
   matching 3 coll_reduceScatterBlock_type_len_error (Some DatatypeMatching) \<and>
   matching 3 coll_scatter_type_len_error (Some DatatypeMatching) \<and>
   matching 3 coll_scatterv_type_len_error (Some DatatypeMatching) \<and>
   matching 2 coll_gather_type_len_error (Some DatatypeMatching)"
  by (intro conjI allgather_mismatch allreduce_mismatch alltoall_mismatch alltoallv_mismatch
      alltoallw_mismatch exscan_mismatch scan_mismatch reduceScatterBlock_mismatch
      scatter_mismatch scatterv_mismatch gather_mismatch)

section \<open>Calls and roots\<close>

lemma root_bcast: "matching 2 RootMismatch_Bcast (Some RootMatching)"
  by (rule matching2I; simp add: agree_simps RootMismatch_Bcast_def; simp add: compare_simps)

lemma root_reduce: "matching 3 collective_reduce_root_mismatch (Some RootMatching)"
  by (rule matching3I; simp add: agree_simps upto_lt_step collective_reduce_root_mismatch_def; simp add: compare_simps)

lemma order_five: "matching 5 OrderErr_Reduce_Allreduce None"
  by (rule matching5I; simp add: agree_simps OrderErr_Reduce_Allreduce_def; simp add: compare_simps)

lemma order_six: "matching 6 OrderErr_Reduce_Allreduce (Some CallMatching)"
  by (rule matching6I; simp add: agree_simps OrderErr_Reduce_Allreduce_def; simp add: compare_simps)

lemma barrier_loop: "matching 2 coll_barrier_loop_mismatch (Some CallMatching)"
  by (rule matching2I; simp add: agree_simps upto_lt_step coll_barrier_loop_mismatch_def; simp add: compare_simps)

lemma barrier_missing: "matching 2 coll_mismatch_barrier_inter (Some CallMatching)"
  by (rule matching2I; simp add: agree_simps coll_mismatch_barrier_inter_def; simp add: compare_simps)

lemma barrier_loop_fixed: "fixed_from 2 coll_barrier_loop_mismatch"
  by (rule fixed_from_ranks; simp add: item_simps code_defs)

lemma barrier_missing_fixed: "fixed_from 2 coll_mismatch_barrier_inter"
  by (rule fixed_from_ranks; simp add: item_simps code_defs)

text \<open>
  C21. The codes whose processes disagree about the call or its root: two processes
  broadcast from 0 and 1 in different orders, every process reduces to itself, one process
  enters a barrier nine times and the other ten times, or one of them never; these two never
  finish. In
  \<open>OrderErr_Reduce_Allreduce.c\<close> process 5 skips a reduction, so that the code is wrong with
  six processes and agrees with five.
\<close>

theorem calls_disagree:
  "matching 2 RootMismatch_Bcast (Some RootMatching) \<and>
   matching 3 collective_reduce_root_mismatch (Some RootMatching) \<and>
   matching 2 coll_barrier_loop_mismatch (Some CallMatching) \<and> never_finishes 2 coll_barrier_loop_mismatch \<and>
   matching 2 coll_mismatch_barrier_inter (Some CallMatching) \<and> never_finishes 2 coll_mismatch_barrier_inter \<and>
   matching 6 OrderErr_Reduce_Allreduce (Some CallMatching) \<and>
   matching 5 OrderErr_Reduce_Allreduce None"
  by (intro conjI root_bcast root_reduce barrier_loop barrier_missing order_six order_five
      never_finishes_at [OF barrier_loop_fixed] never_finishes_at [OF barrier_missing_fixed];
      simp add: proc_simps code_defs; code_simp)

section \<open>Agreement\<close>

lemma barrier_codes_match:
  "matching 2 no_error_coll_barrier_inter None" "matching 2 no_error_coll_barrier None"
  "matching 2 no_error_coll_barrierSTATIC None" "matching 2 no_error_coll_barrier_type_free None"
  "matching 2 no_error_coll_type_commit_twice None" "matching 2 no_error_coll_datatype None"
  by (rule matching2I; simp add: agree_simps no_error_coll_barrier_inter_def no_error_coll_barrier_def
      no_error_coll_barrierSTATIC_def no_error_coll_barrier_type_free_def no_error_coll_type_commit_twice_def
      no_error_coll_datatype_def; simp add: compare_simps)+

lemma reduceScatter_matches: "matching 3 no_error_coll_reduceScatter None"
  by (rule matching3I; simp add: agree_simps no_error_coll_reduceScatter_def; simp add: compare_simps)

lemma reduceScatterBlock_matches: "matching 3 no_error_coll_reduceScatterBlock None"
  by (rule matching3I; simp add: agree_simps upto_lt_step no_error_coll_reduceScatterBlock_def; simp add: compare_simps)

lemma scatterv_matches: "matching 3 no_error_coll_scatterv None"
  by (rule matching3I; simp add: agree_simps upto_lt_step no_error_coll_scatterv_def; simp add: compare_simps)

lemma alltoallw_fill_signatures:
  assumes "aget (objs s) x = Some 200" "rtab s = []" "wvar s = []"
  shows "signatures_along env (seq (map (\<lambda>i. seq [call (C_store (Ref x i) (v i))]) (upto_lt 0 100)) k) n s =
    signatures_along env k (n + 100) s"
  using assms by (subst signatures_along_bodies [where m = 1]) (simp_all add: check_simps call_def upto_lt_def)

lemma alltoallw_matches: "matching 3 no_error_coll_alltoallw None"
  by (rule matching3I; simp add: sig_simps stmt_defs alltoallw_fill_signatures upto_lt_3 alltoallw_values
      no_error_coll_alltoallw_def; simp add: compare_simps)

text \<open>
  C22. The codes with collectives that are expected to be correct: run by two or three
  processes, all call the same collectives in the same order, with the same root and
  operator, and every process gives each other as many bytes as that one expects.
\<close>

theorem collectives_agree:
  "matching 2 no_error_coll_barrier_inter None \<and> matching 2 no_error_coll_barrier None \<and>
   matching 2 no_error_coll_barrierSTATIC None \<and> matching 2 no_error_coll_barrier_type_free None \<and>
   matching 2 no_error_coll_type_commit_twice None \<and> matching 2 no_error_coll_datatype None \<and>
   matching 3 no_error_coll_reduceScatter None \<and> matching 3 no_error_coll_reduceScatterBlock None \<and>
   matching 3 no_error_coll_scatterv None \<and> matching 3 no_error_coll_alltoallw None"
  by (intro conjI barrier_codes_match reduceScatter_matches reduceScatterBlock_matches
      scatterv_matches alltoallw_matches)

end
