(* ===== verification/BTbroadcast.thy ===== *)
theory BTbroadcast
  imports Polling
begin

text \<open>
  medium-BTbroadcast.c: a broadcast along a binomial tree that the processes compute from
  the bits of their ranks. An \<open>int\<close> of C is an integer here; an expression whose value C
  leaves undefined (a shift by a negative amount or by 31 and more of a one, a left shift
  that does not fit) is \<open>None\<close>. The theory shows which messages the tree has, that each is
  sent by one process and received by one, and where the computation is undefined.
\<close>

unbundle bit_operations_syntax

section \<open>Bit operations\<close>

text \<open>\<open>1 << pos\<close>.\<close>

definition one_shifted :: "int \<Rightarrow> int option" where
  "one_shifted q = (if 0 \<le> q \<and> q < 31 then Some (push_bit (nat q) 1) else None)"

definition ishft :: "int \<Rightarrow> int \<Rightarrow> int option" where
  "ishft i shift =
     (if shift = 0 then Some i
      else if shift > 0 then
        (if shift < 32 \<and> 0 \<le> i \<and> push_bit (nat shift) i < 2 ^ 31 then Some (push_bit (nat shift) i) else None)
      else if - shift < 32 then Some (drop_bit (nat (- shift)) i) else None)"

definition btest :: "int \<Rightarrow> int \<Rightarrow> int option" where
  "btest i q = map_option (\<lambda>m. i AND m) (one_shifted q)"

definition ibclr :: "int \<Rightarrow> int \<Rightarrow> int option" where
  "ibclr i q = map_option (\<lambda>m. i AND NOT m) (one_shifted q)"

definition ibset :: "int \<Rightarrow> int \<Rightarrow> int option" where
  "ibset i q = map_option (\<lambda>m. i OR m) (one_shifted q)"

section \<open>The loops\<close>

text \<open>\<open>while (target < pe) target = ishft(target, 1);\<close>\<close>

partial_function (option) bt_top :: "int \<Rightarrow> int \<Rightarrow> int option" where
  "bt_top pe target =
     (if target < pe then Option.bind (ishft target 1) (bt_top pe) else Some target)"

text \<open>\<open>while (target > 0) \{ ...; target = ishft(target, -1); \}\<close>: the values of the target.\<close>

function bt_halves :: "int \<Rightarrow> int list" where
  "bt_halves target =
     (if target > 0 then target # (case ishft target (- 1) of None \<Rightarrow> [] | Some t \<Rightarrow> bt_halves t) else [])"
  by auto
termination
  by (relation "measure nat") (auto simp: ishft_def drop_bit_Suc)

text \<open>\<open>while (btest(myrank, position) == false) position++;\<close>\<close>

function bt_position :: "int \<Rightarrow> int \<Rightarrow> int option" where
  "bt_position myrank position =
     (case btest myrank position of None \<Rightarrow> None
      | Some b \<Rightarrow> if b = 0 then bt_position myrank (position + 1) else Some position)"
  by auto
termination
  by (relation "measure (\<lambda>(r, q). nat (31 - q))") (auto simp: btest_def one_shifted_def split: if_splits)

text \<open>
  \<open>target = ibset(myrank, j); while (target > pe - 1) \{ j--; target = ibset(myrank, j); \}\<close>
\<close>

function bt_last :: "int \<Rightarrow> int \<Rightarrow> int \<Rightarrow> int option" where
  "bt_last pe myrank j =
     (case ibset myrank j of None \<Rightarrow> None
      | Some target \<Rightarrow> if target > pe - 1 then bt_last pe myrank (j - 1) else Some j)"
  by auto
termination
  by (relation "measure (\<lambda>(pe, r, j). nat (j + 1))") (auto simp: ibset_def one_shifted_def split: if_splits)

declare bt_halves.simps [simp del] bt_position.simps [simp del] bt_last.simps [simp del]

section \<open>Who sends to whom\<close>

text \<open>The test that tells the leaves from the inner processes.\<close>

definition bt_leaf :: "int \<Rightarrow> int \<Rightarrow> bool" where
  "bt_leaf pe myrank \<longleftrightarrow> btest myrank 0 = Some 1 \<or> myrank = pe"

text \<open>The source of the one receive of a process other than 0.\<close>

definition bt_source :: "int \<Rightarrow> int \<Rightarrow> int option" where
  "bt_source pe myrank =
     Option.bind (bt_position myrank (if bt_leaf pe myrank then 0 else 1)) (ibclr myrank)"

text \<open>The destinations of the sends of process 0, and of the others.\<close>

definition bt_root_targets :: "int \<Rightarrow> int list option" where
  "bt_root_targets pe = Option.bind (bt_top pe 1) (\<lambda>t. map_option bt_halves (ishft t (- 1)))"

definition bt_inner_targets :: "int \<Rightarrow> int \<Rightarrow> int list option" where
  "bt_inner_targets pe myrank =
     Option.bind (bt_position myrank 1) (\<lambda>position.
       Option.bind (bt_last pe myrank (position - 1)) (\<lambda>j.
         those (map (ibset myrank) (downto_gt j (- 1)))))"

definition bt_targets :: "int \<Rightarrow> int \<Rightarrow> int list option" where
  "bt_targets pe myrank =
     (if myrank = 0 then bt_root_targets pe
      else if bt_leaf pe myrank then Some [] else bt_inner_targets pe myrank)"

section \<open>Bits of ranks\<close>

text \<open>The abstract tree: a child is its parent with a one below all ones of the parent.\<close>

definition bt_edge :: "int \<Rightarrow> int \<Rightarrow> bool" where
  "bt_edge r c \<longleftrightarrow> (\<exists>k. c = set_bit k r \<and> (\<forall>m\<le>k. \<not> bit r m))"

definition lowest :: "nat \<Rightarrow> int \<Rightarrow> bool" where
  "lowest k r \<longleftrightarrow> bit r k \<and> (\<forall>m<k. \<not> bit r m)"

lemma one_shifted_nat: "k < 31 \<Longrightarrow> one_shifted (int k) = Some (2 ^ k)"
  by (simp add: one_shifted_def push_bit_eq_mult)

lemma btest_nat: "k < 31 \<Longrightarrow> btest r (int k) = Some (r AND 2 ^ k)"
  by (simp add: btest_def one_shifted_nat)

lemma ibset_nat: "k < 31 \<Longrightarrow> ibset r (int k) = Some (set_bit k r)"
  by (simp add: ibset_def one_shifted_nat set_bit_eq_or)

lemma ibclr_nat: "k < 31 \<Longrightarrow> ibclr r (int k) = Some (unset_bit k r)"
  by (simp add: ibclr_def one_shifted_nat unset_bit_eq_and_not)

lemma set_low_bit: "\<not> bit r k \<Longrightarrow> set_bit k r = r + 2 ^ k" for r :: int
  by (simp add: set_bit_eq)

lemma bit_bound: "bit r k \<Longrightarrow> 0 \<le> r \<Longrightarrow> 2 ^ k \<le> r" for r :: int
  by (metis bit_take_bit_iff leI less_irrefl take_bit_int_eq_self)

lemma bit_small: "bit r k \<Longrightarrow> 0 \<le> r \<Longrightarrow> r < 2 ^ n \<Longrightarrow> k < n" for r :: int
  using bit_bound [of r k] by (metis le_less_trans one_less_numeral_iff power_less_imp_less_exp semiring_norm(76))

lemma some_lowest:
  assumes "0 < (r :: int)"
  shows "\<exists>k. lowest k r"
proof -
  from assms obtain k where "bit r k" by (metis bit_eq_iff bit_0_eq bot_apply bot_bool_def less_irrefl)
  then show ?thesis
    unfolding lowest_def using LeastI [of "bit r"] not_less_Least [of _ "bit r"] by blast
qed

lemma lowest_unique: "lowest k r \<Longrightarrow> lowest k' r \<Longrightarrow> k = k'"
  unfolding lowest_def by (metis nat_neq_iff)

lemma lowest_child: "\<forall>m\<le>k. \<not> bit r m \<Longrightarrow> lowest k (set_bit k r)" for r :: int
  by (auto simp: lowest_def bit_set_bit_iff)

lemma unset_child: "\<forall>m\<le>k. \<not> bit r m \<Longrightarrow> unset_bit k (set_bit k r) = r" for r :: int
  by (rule bit_eqI) (auto simp: bit_set_bit_iff bit_unset_bit_iff)

lemma edge_lowest: "lowest k c \<Longrightarrow> bt_edge r c \<longleftrightarrow> r = unset_bit k c"
proof
  assume c: "lowest k c" and "r = unset_bit k c"
  then show "bt_edge r c"
    unfolding bt_edge_def
    by (intro exI [of _ k] conjI bit_eqI) (auto simp: lowest_def bit_set_bit_iff bit_unset_bit_iff le_less)
next
  assume c: "lowest k c" and "bt_edge r c"
  then obtain k' where k': "c = set_bit k' r" "\<forall>m\<le>k'. \<not> bit r m" unfolding bt_edge_def by blast
  with lowest_child lowest_unique c have "k = k'" by blast
  with k' unset_child show "r = unset_bit k c" by simp
qed

lemma edge_less: "bt_edge r c \<Longrightarrow> r < c"
  unfolding bt_edge_def by (force simp: set_low_bit)

section \<open>What the loops compute\<close>

lemma bt_position_lowest:
  assumes "lowest k r" and "k < 31" and "q \<le> k"
  shows "bt_position r (int q) = Some (int k)"
  using assms(3)
proof (induction "k - q" arbitrary: q)
  case 0
  with assms show ?case
    by (simp add: bt_position.simps [of r "int q"] btest_nat lowest_def and_exp_eq_0_iff_not_bit)
next
  case (Suc d)
  then have "\<not> bit r q" using assms(1) by (simp add: lowest_def)
  with Suc assms(2) show ?case
    using Suc.hyps(1) [of "Suc q"]
    by (simp add: bt_position.simps [of r "int q"] btest_nat and_exp_eq_0_iff_not_bit algebra_simps)
qed

lemma leaf_iff: "bt_leaf pe r \<longleftrightarrow> bit r 0 \<or> r = pe" for r :: int
  using btest_nat [of 0 r] by (auto simp: bt_leaf_def and_one_eq bit_0 odd_iff_mod_2_eq_one)

lemma bt_source_lowest:
  assumes "lowest k c" and "0 \<le> c" and "c < 2 ^ 31" and "c \<noteq> pe"
  shows "bt_source pe c = Some (unset_bit k c)"
proof -
  have k: "k < 31" using assms bit_small by (auto simp: lowest_def)
  have "bt_position c (if bt_leaf pe c then 0 else 1) = Some (int k)"
  proof (cases "bit c 0")
    case True
    with assms show ?thesis using bt_position_lowest [OF assms(1) k, of 0] by (simp add: leaf_iff)
  next
    case False
    then have "1 \<le> k" using assms(1) by (cases k) (auto simp: lowest_def)
    with False assms show ?thesis using bt_position_lowest [OF assms(1) k, of 1] by (simp add: leaf_iff)
  qed
  with k show ?thesis by (simp add: bt_source_def ibclr_nat)
qed

lemma bt_source_edge:
  assumes "0 < c" and "c < 2 ^ 31" and "c \<noteq> pe"
  shows "bt_source pe c = Some r \<longleftrightarrow> bt_edge r c"
proof -
  obtain k where k: "lowest k c" using some_lowest [OF assms(1)] by blast
  then show ?thesis using bt_source_lowest [OF k] edge_lowest [OF k] assms by auto
qed

lemma bt_last_found:
  assumes "\<forall>m\<le>n. \<not> bit r m" and "n < 31" and "r + 1 < pe"
  shows "\<exists>j\<le>n. bt_last pe r (int n) = Some (int j) \<and> r + 2 ^ j < pe \<and>
    (\<forall>m\<le>n. r + 2 ^ m < pe \<longrightarrow> m \<le> j)"
  using assms(1,2)
proof (induction n)
  case 0
  with assms(3) show ?case
    using ibset_nat [of 0 r] by (simp add: bt_last.simps [of pe r 0] set_low_bit)
next
  case (Suc n)
  show ?case
  proof (cases "r + 2 ^ Suc n < pe")
    case True
    with Suc.prems show ?thesis
      by (intro exI [of _ "Suc n"])
        (use ibset_nat [of "Suc n" r] in \<open>simp add: bt_last.simps [of pe r "1 + int n"] set_low_bit\<close>)
  next
    case False
    with Suc.prems have "bt_last pe r (int (Suc n)) = bt_last pe r (int n)"
      using ibset_nat [of "Suc n" r] by (simp add: bt_last.simps [of pe r "1 + int n"] set_low_bit)
    moreover obtain j where "j \<le> n" "bt_last pe r (int n) = Some (int j)" "r + 2 ^ j < pe"
      "\<forall>m\<le>n. r + 2 ^ m < pe \<longrightarrow> m \<le> j"
      using Suc by fastforce
    ultimately show ?thesis
      using False by (intro exI [of _ j]) (auto simp: le_Suc_eq)
  qed
qed

lemma bt_last_lost:
  assumes "\<forall>m\<le>n. \<not> bit r m" and "n < 31" and "pe \<le> r + 1"
  shows "bt_last pe r (int n) = None"
  using assms(1,2)
proof (induction n)
  case 0
  with assms(3) show ?case
    using ibset_nat [of 0 r]
    by (simp add: bt_last.simps [of pe r 0] bt_last.simps [of pe r "- 1"] set_low_bit ibset_def one_shifted_def)
next
  case (Suc n)
  have "(1::int) \<le> 2 ^ Suc n" by (rule one_le_power) simp
  with Suc assms(3) show ?case
    using ibset_nat [of "Suc n" r] by (simp add: bt_last.simps [of pe r "1 + int n"] set_low_bit)
qed

lemma set_downto_nat: "set (downto_gt (int j) (- 1)) = int ` {..j}"
proof -
  have "x \<in> int ` {..j}" if "- 1 < x" "x \<le> int j" for x
    using that by (intro image_eqI [of _ _ "nat x"]) auto
  then show ?thesis by auto
qed

lemma those_map_Some: "(\<And>x. x \<in> set xs \<Longrightarrow> f x = Some (g x)) \<Longrightarrow> those (map f xs) = Some (map g xs)"
  by (induction xs) auto

lemma bt_inner_targets_at:
  assumes k: "lowest k r" "0 < k" "k < 31" and r: "r + 1 < pe"
  shows "\<exists>j<k. bt_inner_targets pe r = Some (map (\<lambda>i. r + 2 ^ nat i) (downto_gt (int j) (- 1))) \<and>
    (\<forall>m<k. r + 2 ^ m < pe \<longleftrightarrow> m \<le> j)"
proof -
  have low: "\<forall>m\<le>k - 1. \<not> bit r m" using k by (auto simp: lowest_def)
  have position: "bt_position r 1 = Some (int k)"
    using bt_position_lowest [OF k(1,3), of 1] k(2) by simp
  have k1: "k - 1 < 31" using k(3) by simp
  obtain j where j: "j \<le> k - 1" "bt_last pe r (int (k - 1)) = Some (int j)" "r + 2 ^ j < pe"
    "\<forall>m\<le>k - 1. r + 2 ^ m < pe \<longrightarrow> m \<le> j"
    using bt_last_found [OF low k1 r] by blast
  have "ibset r i = Some (r + 2 ^ nat i)" if "i \<in> set (downto_gt (int j) (- 1))" for i
  proof -
    from that obtain m where m: "i = int m" "m \<le> j" by (auto simp: set_downto_nat simp del: set_downto_gt)
    with j(1) k low show ?thesis by (simp add: ibset_nat set_low_bit)
  qed
  then have "those (map (ibset r) (downto_gt (int j) (- 1))) =
      Some (map (\<lambda>i. r + 2 ^ nat i) (downto_gt (int j) (- 1)))"
    by (rule those_map_Some)
  then have "bt_inner_targets pe r = Some (map (\<lambda>i. r + 2 ^ nat i) (downto_gt (int j) (- 1)))"
    using j(2) k(2) by (simp add: bt_inner_targets_def position of_nat_diff)
  moreover have "r + 2 ^ m < pe \<longleftrightarrow> m \<le> j" if "m < k" for m
  proof
    assume "m \<le> j"
    then have "(2::int) ^ m \<le> 2 ^ j" by (simp add: power_increasing)
    with j(3) show "r + 2 ^ m < pe" by linarith
  qed (use j(4) that in auto)
  ultimately show ?thesis using j(1) k(2) by (intro exI [of _ j]) auto
qed

lemma bt_inner_targets_none:
  assumes "lowest k r" "0 < k" "k < 31" "pe \<le> r + 1"
  shows "bt_inner_targets pe r = None"
proof -
  have "\<forall>m\<le>k - 1. \<not> bit r m" using assms by (auto simp: lowest_def)
  then show ?thesis
    using bt_position_lowest [OF assms(1,3), of 1] bt_last_lost [of "k - 1" r pe] assms
    by (simp add: bt_inner_targets_def of_nat_diff)
qed

text \<open>Process 0 sends to the powers of two.\<close>

lemma bt_top_power:
  assumes "pe \<le> 2 ^ 30"
  shows "\<exists>k. bt_top pe 1 = Some (2 ^ k) \<and> (\<forall>m. 2 ^ m < pe \<longleftrightarrow> m < k) \<and> k \<le> 30"
proof -
  have "n \<le> 30 \<Longrightarrow> \<forall>m<n. 2 ^ m < pe \<Longrightarrow>
      \<exists>k. bt_top pe (2 ^ n) = Some (2 ^ k) \<and> (\<forall>m. 2 ^ m < pe \<longleftrightarrow> m < k) \<and> k \<le> 30" for n
  proof (induction "30 - n" arbitrary: n rule: less_induct)
    case less
    show ?case
    proof (cases "2 ^ n < pe")
      case True
      then have "(2::int) ^ n < 2 ^ 30" using assms by linarith
      then have n: "n < 30" by (rule power_less_imp_less_exp [rotated]) simp
      then have "(2::int) ^ Suc n < 2 ^ 31" by (intro power_strict_increasing) auto
      then have "bt_top pe (2 ^ n) = bt_top pe (2 ^ Suc n)"
        using True by (simp add: bt_top.simps [of pe "2 ^ n"] ishft_def push_bit_eq_mult mult.commute)
      with less.hyps [of "Suc n"] less.prems n True show ?thesis by (auto simp: less_Suc_eq)
    next
      case False
      have "m < n" if "2 ^ m < pe" for m
        using that False by (meson linorder_not_le one_le_numeral order.strict_trans2 power_increasing)
      with False less.prems show ?thesis by (intro exI [of _ n]) (auto simp: bt_top.simps [of pe "2 ^ n"])
    qed
  qed
  from this [of 0] show ?thesis by simp
qed

lemma bt_halves_power: "bt_halves (2 ^ n) = map (\<lambda>i. 2 ^ nat i) (downto_gt (int n) (- 1))"
proof (induction n)
  case 0
  show ?case
    by (simp add: bt_halves.simps [of 1] bt_halves.simps [of 0] ishft_def downto_gt_step drop_bit_Suc)
next
  case (Suc n)
  have "bt_halves (2 ^ Suc n) = 2 ^ Suc n # bt_halves (2 ^ n)"
    by (simp add: bt_halves.simps [of "2 * 2 ^ n"] ishft_def drop_bit_Suc)
  with Suc show ?case by (simp add: downto_gt_step nat_add_distrib)
qed

lemma bt_root_targets_at:
  assumes "0 < pe" and "pe \<le> 2 ^ 30"
  shows "\<exists>k. bt_root_targets pe = Some (map (\<lambda>i. 2 ^ nat i) (downto_gt (int k - 1) (- 1))) \<and>
    (\<forall>m. 2 ^ m < pe \<longleftrightarrow> m < k)"
proof -
  obtain k where k: "bt_top pe 1 = Some (2 ^ k)" "\<forall>m. 2 ^ m < pe \<longleftrightarrow> m < k"
    using bt_top_power [OF assms(2)] by blast
  have "bt_root_targets pe = Some (map (\<lambda>i. 2 ^ nat i) (downto_gt (int k - 1) (- 1)))"
  proof (cases k)
    case 0
    then show ?thesis
      using k by (simp add: bt_root_targets_def ishft_def drop_bit_Suc bt_halves.simps [of 0])
  next
    case (Suc n)
    then show ?thesis
      using k bt_halves_power [of n] by (simp add: bt_root_targets_def ishft_def drop_bit_Suc)
  qed
  with k(2) show ?thesis by blast
qed

section \<open>The tree\<close>

lemma set_powers: "set (map (\<lambda>i. r + 2 ^ nat i) (downto_gt (int k - 1) (- 1))) = {c. \<exists>m<k. c = r + 2 ^ m}"
  for r :: int
proof (cases k)
  case (Suc n)
  then show ?thesis
    by (auto simp: set_downto_nat less_Suc_eq_le image_image simp del: set_downto_gt)
qed simp

lemma distinct_powers: "distinct (map (\<lambda>i. r + 2 ^ nat i) (downto_gt j (- 1)))" for r :: int
  by (auto simp: distinct_map downto_gt_def inj_on_def)

lemma bt_targets_edges:
  assumes "0 < pe" "pe \<le> 2 ^ 30" "0 \<le> r" "r < pe" and ts: "bt_targets pe r = Some ts"
  shows "distinct ts \<and> (\<forall>c. c \<in> set ts \<longleftrightarrow> c < pe \<and> bt_edge r c)"
proof (cases "r = 0")
  case True
  obtain k where k: "bt_root_targets pe = Some (map (\<lambda>i. 0 + 2 ^ nat i) (downto_gt (int k - 1) (- 1)))"
    "\<forall>m. 2 ^ m < pe \<longleftrightarrow> m < k"
    using bt_root_targets_at [OF assms(1,2)] by auto
  have "bt_edge 0 c \<longleftrightarrow> (\<exists>m. c = 2 ^ m)" for c
    by (auto simp: bt_edge_def set_low_bit)
  with k ts True show ?thesis
    using set_powers [of 0 k] distinct_powers [of 0 "int k - 1"] by (auto simp: bt_targets_def)
next
  case False
  then obtain k where k: "lowest k r" using some_lowest assms(3) by force
  have k31: "k < 30" using k bit_small [of r k 30] assms by (auto simp: lowest_def)
  have edge: "bt_edge r c \<longleftrightarrow> (\<exists>m<k. c = r + 2 ^ m)" for c
  proof -
    have "(\<forall>m'\<le>m. \<not> bit r m') \<longleftrightarrow> m < k" for m
      using k unfolding lowest_def by (meson le_less_trans linorder_not_le)
    moreover have "m < k \<Longrightarrow> set_bit m r = r + 2 ^ m" for m
      using k by (simp add: lowest_def set_low_bit)
    ultimately show ?thesis unfolding bt_edge_def by metis
  qed
  show ?thesis
  proof (cases "bit r 0")
    case True
    then have "k = 0" using k by (cases k) (auto simp: lowest_def)
    with True False ts assms edge show ?thesis by (simp add: bt_targets_def leaf_iff)
  next
    case odd: False
    then have k0: "0 < k" using k by (cases k) (auto simp: lowest_def)
    from odd False ts assms have inner: "bt_inner_targets pe r = Some ts"
      by (simp add: bt_targets_def leaf_iff)
    then have "r + 1 < pe"
      using bt_inner_targets_none [OF k k0, of pe] k31 by (cases "r + 1 < pe") auto
    with bt_inner_targets_at [OF k k0] k31 obtain j where j: "j < k"
      "bt_inner_targets pe r = Some (map (\<lambda>i. r + 2 ^ nat i) (downto_gt (int (Suc j) - 1) (- 1)))"
      "\<forall>m<k. r + 2 ^ m < pe \<longleftrightarrow> m \<le> j"
      by fastforce
    with inner show ?thesis
      using set_powers [of r "Suc j"] distinct_powers [of r "int j"] edge by (auto simp: less_Suc_eq_le)
  qed
qed

lemma bt_targets_undefined:
  assumes "0 < pe" "pe \<le> 2 ^ 30" "0 \<le> r" "r < pe"
  shows "bt_targets pe r = None \<longleftrightarrow> 0 < r \<and> even r \<and> r = pe - 1"
proof (cases "r = 0")
  case True
  then show ?thesis using bt_root_targets_at [OF assms(1,2)] by (auto simp: bt_targets_def)
next
  case False
  then obtain k where k: "lowest k r" using some_lowest assms(3) by force
  have k31: "k < 30" using k bit_small [of r k 30] assms by (auto simp: lowest_def)
  show ?thesis
  proof (cases "bit r 0")
    case True
    with False assms show ?thesis by (auto simp: bt_targets_def leaf_iff bit_0)
  next
    case odd: False
    then have k0: "0 < k" using k by (cases k) (auto simp: lowest_def)
    from odd False assms have "bt_targets pe r = bt_inner_targets pe r"
      by (simp add: bt_targets_def leaf_iff)
    then show ?thesis
      using bt_inner_targets_none [OF k k0, of pe] bt_inner_targets_at [OF k k0, of pe] odd False k31 assms
      by (cases "r + 1 < pe") (auto simp: bit_0)
  qed
qed

text \<open>
  C4. The messages of the broadcast match: what process \<open>r\<close> of \<open>pe\<close> sends, it sends
  once to each process that waits for a message from \<open>r\<close>, and to no other; and these are
  the children of \<open>r\<close> in the binomial tree.
\<close>

theorem bt_messages_match:
  assumes "0 < pe" and "pe \<le> 2 ^ 30" and "0 \<le> r" and "r < pe" and "bt_targets pe r = Some ts"
  shows "distinct ts \<and> set ts = {c. 0 < c \<and> c < pe \<and> bt_source pe c = Some r} \<and>
    set ts = {c. c < pe \<and> bt_edge r c}"
proof -
  have "bt_source pe c = Some r \<longleftrightarrow> bt_edge r c" if "0 < c" "c < pe" for c
    using that assms(2) by (intro bt_source_edge) auto
  moreover have "bt_edge r c \<Longrightarrow> 0 < c" for c
    using edge_less assms(3) by force
  ultimately show ?thesis
    using bt_targets_edges [OF assms] by auto
qed

theorem bt_messages_match_witness:
  "set [6, 5 :: int] = {c. 0 < c \<and> c < 7 \<and> bt_source 7 c = Some 4}"
proof -
  have "bt_targets 7 4 = Some [6, 5]" by code_simp
  from bt_messages_match [OF _ _ _ _ this] show ?thesis by simp
qed



section \<open>The program\<close>

text \<open>
  \<open>while (check == 0.0) MPI_Get(&check, ...);\<close> has a budget; what \<open>check\<close> holds when it
  is read is the response of the load. \<open>syn\<close>, \<open>check\<close> and the window have 4 bytes.
\<close>

definition bt_wait :: "nat \<Rightarrow> int \<Rightarrow> stmt" where
  "bt_wait fuel myrank k =
     while_c fuel (\<lambda>check. check = (0::int))
       (\<lambda>_ k'. Call (MPI_Get (Ref ''check'' 0) 1 MPI_FLOAT myrank 0 1 MPI_FLOAT (Ref ''win'' 0)) (\<lambda>_.
                Call (C_load (Ref ''check'' 0)) (\<lambda>r. k' (out r 0))))
       0 (\<lambda>_. k)"

definition bt_receive :: "nat \<Rightarrow> int \<Rightarrow> int \<Rightarrow> stmt list" where
  "bt_receive fuel pe myrank =
     [value_of (bt_source pe myrank) (\<lambda>source.
       [call (MPI_Recv (Ref ''syn'' 0) 1 MPI_FLOAT (Rank source) (Tag 1) MPI_COMM_WORLD),
        call (MPI_Get (Ref ''a'' 0) 1 MPI_FLOAT source 0 1 MPI_FLOAT (Ref ''win'' 0)),
        call (C_store (Ref ''check'' 0) 0),
        bt_wait fuel myrank])]"

definition bt_send :: "int list \<Rightarrow> stmt list" where
  "bt_send ts =
     [call (C_store (Ref ''syn'' 0) 1),
      for_c ts (\<lambda>t. [call (MPI_Send (Ref ''syn'' 0) 1 MPI_FLOAT t 1 MPI_COMM_WORLD)])]"

definition medium_BTbroadcast :: "nat \<Rightarrow> prog" where
  "medium_BTbroadcast fuel =
     decls [(''myrank'', 1), (''sharedBuffer'', 1), (''a'', 1), (''n'', 1), (''target'', 1), (''pe'', 1),
            (''position'', 1), (''j'', 1), (''syn'', 1), (''check'', 1)]
       (Call MPI_Init (\<lambda>_.
        Call (MPI_Comm_size MPI_COMM_WORLD (Ref ''pe'' 0)) (\<lambda>n.
        Call (MPI_Comm_rank MPI_COMM_WORLD (Ref ''myrank'' 0)) (\<lambda>r.
        (let myrank = out r 0; pe = out n 0; win = Ref ''win'' 0 in
         seq
          [call (C_store (Ref ''sharedBuffer'' 0) myrank),
           call (C_store (Ref ''n'' 0) 1),
           call (MPI_Win_create (Ref ''sharedBuffer'' 0) 1 4 MPI_COMM_WORLD win),
           call (MPI_Barrier MPI_COMM_WORLD),
           call (MPI_Win_fence 0 win),
           value_of (bt_targets pe myrank) (\<lambda>ts.
             if myrank = 0 then bt_send ts
             else if bt_leaf pe myrank then bt_receive fuel pe myrank
             else bt_receive fuel pe myrank @ bt_send ts),
           call (MPI_Win_fence 0 win),
           call (MPI_Barrier MPI_COMM_WORLD),
           call MPI_Finalize] (Ret 0))))))"

lemmas bt_codes [code_defs] = bt_receive_def bt_send_def bt_wait_def medium_BTbroadcast_def

lemma leaf_one:
  "bt_leaf pe 1" "bt_targets pe 1 = Some []" "1 \<noteq> pe \<Longrightarrow> bt_source pe 1 = Some 0"
proof -
  show "bt_leaf pe 1" by (simp add: leaf_iff)
  then show "bt_targets pe 1 = Some []" by (simp add: bt_targets_def)
  show "bt_source pe 1 = Some 0" if "1 \<noteq> pe"
    using bt_source_lowest [of 0 1 pe] that by (simp add: lowest_def unset_bit_eq)
qed

lemma bt_wait_races: "blames 1 2 (medium_BTbroadcast (Suc fuel)) (Mbi LocalConcurrency)"
  by (rule blamesI) (simp add: leaf_one while_c.simps kept_error mon_simps code_defs)

lemma bt_window_small: "blames 1 2 (medium_BTbroadcast fuel) (Mbi InvalidOtherArg)"
  by (rule blamesI) (simp add: leaf_one while_c.simps [of fuel] kept_error mon_simps code_defs split: nat.split)

definition undefined_in :: "int \<Rightarrow> int \<Rightarrow> prog \<Rightarrow> bool" where
  "undefined_in rank n p \<longleftrightarrow> (\<forall>env. world_env rank n env \<longrightarrow> fst (verdict rank n env p) = Undefined_behaviour)"

lemma last_undefined:
  assumes "odd pe" and "1 < pe" and "pe \<le> 2 ^ 30"
  shows "undefined_in (pe - 1) pe (medium_BTbroadcast fuel)"
proof -
  have "bt_targets pe (pe - 1) = None"
    using bt_targets_undefined [of pe "pe - 1"] assms by simp
  then show ?thesis
    using assms by (simp add: undefined_in_def mon_simps code_defs)
qed

text \<open>
  C6. The errors of \<open>medium-BTbroadcast.c\<close>. Run by an odd number of processes, the last one
  shifts a one by -1 before it receives anything. Whatever MPI answers, process 1 of two reads
  \<open>check\<close> while an \<open>MPI_Get\<close> into it is pending, and gets an integer from a window of one byte.
\<close>

theorem bt_faults:
  assumes "odd pe" and "1 < pe" and "pe \<le> 2 ^ 30"
  shows "undefined_in (pe - 1) pe (medium_BTbroadcast fuel) \<and>
    blames 1 2 (medium_BTbroadcast (Suc fuel)) (Mbi LocalConcurrency) \<and>
    blames 1 2 (medium_BTbroadcast (Suc fuel)) (Mbi InvalidOtherArg)"
  by (intro conjI last_undefined [OF assms] bt_wait_races bt_window_small)

theorem bt_faults_witness: "undefined_in 2 3 (medium_BTbroadcast 5)"
  using bt_faults [of 3 5] by simp

end
