(* ===== verification/Heat.thy ===== *)
theory Heat
  imports Deadlock
begin

text \<open>
  The parts of medium-heat.c that decide which cells of the grid a process owns, sends and
  receives, and with whom: \<open>heatMPISetup\<close>, \<open>heatBoundary\<close>, \<open>heatTimestep\<close> and
  \<open>heatMPIGather\<close>. The grid \<open>theta\<close> is one array of rows of \<open>xsize + 2\<close> cells; a cell is
  named by its index in it. The values of the cells are floating-point numbers and are not
  modelled. The messages of the time stepping loop all go over the Cartesian communicator; read
  as sequences of communication calls they are run by the steps of theory \<open>World\<close>.
\<close>

section \<open>The Cartesian communicator\<close>

text \<open>
  What the MPI standard says of \<open>MPI_Cart_create\<close> with two periodic directions: ranks are
  numbered along the last direction first, and \<open>MPI_Cart_shift\<close> by one gives the source and
  the destination.
\<close>

definition cart_rank :: "int \<times> int \<Rightarrow> int \<times> int \<Rightarrow> int" where
  "cart_rank dims c = fst c * snd dims + snd c"

definition cart_coords :: "int \<times> int \<Rightarrow> int \<Rightarrow> int \<times> int" where
  "cart_coords dims r = (r div snd dims, r mod snd dims)"

definition cart_shift :: "int \<times> int \<Rightarrow> int \<Rightarrow> nat \<Rightarrow> int \<times> int" where
  "cart_shift dims r direction =
     (let (x, y) = cart_coords dims r;
          at = (\<lambda>d. if direction = 0 then cart_rank dims ((x + d) mod fst dims, y)
                    else cart_rank dims (x, (y + d) mod snd dims))
      in (at (- 1), at 1))"

section \<open>The sub-grids\<close>

text \<open>The grid, and what a process knows: its rank, its neighbours and its sub-grid.\<close>

record heatGrid =
  ysize :: int
  xsize :: int

record dataMPI =
  rank :: int
  up :: int
  down :: int
  left :: int
  right :: int
  start_x :: int
  start_y :: int
  num_cells_x :: int
  num_cells_y :: int

text \<open>
  The distribution of one direction: \<open>dims\<close> processes, of which this one has coordinate
  \<open>coord\<close>. No operand of the divisions is negative.
\<close>

definition heat_start :: "int \<Rightarrow> int \<Rightarrow> int \<Rightarrow> int" where
  "heat_start sz dims coord = 1 + (sz div dims) * coord"

definition heat_num :: "int \<Rightarrow> int \<Rightarrow> int \<Rightarrow> int" where
  "heat_num sz dims coord =
     (if coord + 1 \<noteq> dims then sz div dims else sz - heat_start sz dims coord + 1)"

definition heatMPISetup :: "heatGrid \<Rightarrow> int \<times> int \<Rightarrow> int \<Rightarrow> dataMPI" where
  "heatMPISetup grid dims r =
     (let coords = cart_coords dims r
      in \<lparr>rank = r, up = fst (cart_shift dims r 1), down = snd (cart_shift dims r 1),
          left = fst (cart_shift dims r 0), right = snd (cart_shift dims r 0),
          start_x = heat_start (xsize grid) (fst dims) (fst coords),
          start_y = heat_start (ysize grid) (snd dims) (snd coords),
          num_cells_x = heat_num (xsize grid) (fst dims) (fst coords),
          num_cells_y = heat_num (ysize grid) (snd dims) (snd coords)\<rparr>)"

section \<open>Cells\<close>

text \<open>\<open>&theta[y][x]\<close>, the cells of a row, of a column type, and of a block type.\<close>

definition cell :: "heatGrid \<Rightarrow> int \<Rightarrow> int \<Rightarrow> int" where
  "cell grid y x = y * (xsize grid + 2) + x"

definition row_cells :: "int \<Rightarrow> int \<Rightarrow> int list" where
  "row_cells c n = [c..c + n - 1]"

definition column_cells :: "heatGrid \<Rightarrow> int \<Rightarrow> int \<Rightarrow> int list" where
  "column_cells grid c n = map (\<lambda>i. c + i * (xsize grid + 2)) [0..n - 1]"

definition block_cells :: "heatGrid \<Rightarrow> int \<Rightarrow> int \<Rightarrow> int \<Rightarrow> int list" where
  "block_cells grid c rows n = concat (map (\<lambda>i. row_cells (c + i * (xsize grid + 2)) n) [0..rows - 1])"

section \<open>The exchange of borders\<close>

text \<open>
  The calls on the Cartesian communicator: the cells of \<open>theta\<close> that are sent or received
  (none, for the maximum of \<open>dtheta\<close>), the partner, the tag, and the index of the request.
\<close>

datatype heat_call =
    H_Isend "int list" int int nat
  | H_Send "int list" int int
  | H_Recv "int list" source rtag
  | H_Waitall nat

definition heatBoundary :: "heatGrid \<Rightarrow> dataMPI \<Rightarrow> heat_call list" where
  "heatBoundary grid my =
     (let row = (\<lambda>y. row_cells (cell grid y (start_x my)) (num_cells_x my + 1));
          column = (\<lambda>x. column_cells grid (cell grid (start_y my) x) (num_cells_y my)) in
      [H_Isend (row (start_y my)) (up my) 123 0,
       H_Recv (row (start_y my + num_cells_y my)) (Rank (down my)) (Tag 123),
       H_Isend (row (start_y my + num_cells_y my - 1)) (down my) 123 1,
       H_Recv (row (start_y my - 1)) (Rank (up my)) (Tag 123),
       H_Isend (column (start_x my)) (left my) 123 2,
       H_Recv (column (start_x my + num_cells_x my)) (Rank (right my)) (Tag 123),
       H_Isend (column (start_x my + num_cells_x my - 1)) (right my) 123 3,
       H_Recv (column (start_x my - 1)) MPI_ANY_SOURCE MPI_ANY_TAG,
       H_Waitall 3])"

text \<open>
  The requests pending after some calls, and the pairs of a pending send and a receive that
  writes a cell it reads: the request and the cell.
\<close>

fun heat_pending :: "heat_call list \<Rightarrow> (nat \<times> int list) list \<Rightarrow> (nat \<times> int list) list" where
  "heat_pending [] ps = ps"
| "heat_pending (H_Isend cs p t i # hs) ps = heat_pending hs (ps @ [(i, cs)])"
| "heat_pending (H_Send cs p t # hs) ps = heat_pending hs ps"
| "heat_pending (H_Recv cs p t # hs) ps = heat_pending hs ps"
| "heat_pending (H_Waitall n # hs) ps = heat_pending hs (filter (\<lambda>(i, cs). n \<le> i) ps)"

fun heat_conflicts :: "heat_call list \<Rightarrow> (nat \<times> int list) list \<Rightarrow> (nat \<times> int) list" where
  "heat_conflicts [] ps = []"
| "heat_conflicts (H_Isend cs p t i # hs) ps = heat_conflicts hs (ps @ [(i, cs)])"
| "heat_conflicts (H_Send cs p t # hs) ps = heat_conflicts hs ps"
| "heat_conflicts (H_Recv cs p t # hs) ps =
     concat (map (\<lambda>(i, ds). map (Pair i) (filter (\<lambda>c. c \<in> set cs) ds)) ps) @ heat_conflicts hs ps"
| "heat_conflicts (H_Waitall n # hs) ps = heat_conflicts hs (filter (\<lambda>(i, cs). n \<le> i) ps)"

section \<open>The time step\<close>

text \<open>
  The cells that one sweep of \<open>heatTimestep\<close> reads from \<open>theta\<close>, and those the copy back
  from \<open>thetanew\<close> writes.
\<close>

definition own_points :: "dataMPI \<Rightarrow> (int \<times> int) list" where
  "own_points my = concat (map (\<lambda>y. map (Pair y) [start_x my..start_x my + num_cells_x my - 1])
     [start_y my..start_y my + num_cells_y my - 1])"

definition heat_reads :: "heatGrid \<Rightarrow> dataMPI \<Rightarrow> int list" where
  "heat_reads grid my = concat (map (\<lambda>(y, x). [cell grid y (x - 1), cell grid y (x + 1),
     cell grid y x, cell grid (y - 1) x, cell grid (y + 1) x]) (own_points my))"

definition heat_writes :: "heatGrid \<Rightarrow> dataMPI \<Rightarrow> int list" where
  "heat_writes grid my = map (\<lambda>(y, x). cell grid y x) (own_points my)"

text \<open>The messages at its end, which give every process the maximum of \<open>dtheta\<close>.\<close>

definition heatTimestep :: "dataMPI \<Rightarrow> int \<Rightarrow> heat_call list" where
  "heatTimestep my nprocs =
     (if rank my \<noteq> 0 then [H_Send [] 0 567, H_Recv [] (Rank 0) (Tag 234)]
      else map (\<lambda>i. H_Recv [] (Rank i) (Tag 567)) [1..nprocs - 1] @
           map (\<lambda>i. H_Send [] i 234) [1..nprocs - 1])"

text \<open>The one iteration of the loop in \<open>main\<close>, which ends with \<open>break\<close>.\<close>

definition heat_loop :: "heatGrid \<Rightarrow> dataMPI \<Rightarrow> int \<Rightarrow> heat_call list" where
  "heat_loop grid my nprocs = heatBoundary grid my @ heatTimestep my nprocs"

section \<open>Gathering\<close>

text \<open>The cells process \<open>my\<close> sends to process 0, and those process 0 receives from it.\<close>

definition heat_sent :: "heatGrid \<Rightarrow> dataMPI \<Rightarrow> int list" where
  "heat_sent grid my =
     block_cells grid (cell grid (start_y my) (start_x my)) (num_cells_y my - 1) (num_cells_x my)"

definition heat_received :: "heatGrid \<Rightarrow> dataMPI \<Rightarrow> int list" where
  "heat_received grid my =
     block_cells grid (cell grid (start_y my) (start_x my)) (num_cells_y my) (num_cells_x my)"

section \<open>Properties\<close>

lemma heat_num_last: "0 < d \<Longrightarrow> heat_num sz d (d - 1) = sz - (sz div d) * (d - 1)"
  by (simp add: heat_num_def heat_start_def)

lemma heat_num_other: "c \<noteq> d - 1 \<Longrightarrow> heat_num sz d c = sz div d"
  by (simp add: heat_num_def)

lemma heat_owner_unique:
  assumes "0 < d" "0 \<le> sz" "c < d" "c' < d" "c < c'"
    and "x < heat_start sz d c + heat_num sz d c"
  shows "x < heat_start sz d c'"
proof -
  have "(sz div d) * (c + 1) \<le> (sz div d) * c'"
    using assms by (intro mult_left_mono) (simp_all add: pos_imp_zdiv_nonneg_iff)
  then show ?thesis
    using assms by (simp add: heat_num_other heat_start_def algebra_simps)
qed

lemma heat_owner_exists:
  assumes "0 < d" "0 \<le> sz" "1 \<le> x" "x \<le> sz"
  shows "\<exists>c. 0 \<le> c \<and> c < d \<and> heat_start sz d c \<le> x \<and> x < heat_start sz d c + heat_num sz d c"
proof (cases "heat_start sz d (d - 1) \<le> x")
  case True
  with assms show ?thesis
    by (intro exI [of _ "d - 1"]) (simp add: heat_num_last heat_start_def)
next
  case False
  let ?q = "sz div d" let ?c = "(x - 1) div ?q"
  have q: "0 < ?q" using False assms by (cases "?q = 0") (simp_all add: heat_start_def pos_imp_zdiv_nonneg_iff order_less_le)
  have x: "x - 1 = ?q * ?c + (x - 1) mod ?q" "0 \<le> (x - 1) mod ?q" "(x - 1) mod ?q < ?q"
    using q by simp_all
  from False have "x - 1 < ?q * (d - 1)" by (simp add: heat_start_def)
  with x have "?q * ?c < ?q * (d - 1)" by linarith
  then have "?c < d - 1" using q by simp
  moreover have "?q * ?c \<le> x - 1" "x - 1 < ?q * ?c + ?q" using x by linarith+
  moreover have "0 \<le> ?c" using q assms by (simp add: pos_imp_zdiv_nonneg_iff)
  ultimately show ?thesis
    by (intro exI [of _ ?c]) (simp add: heat_num_other heat_start_def)
qed

lemma heat_bounds:
  assumes "0 < d" "0 \<le> n" "0 \<le> c" "c < d"
  shows "1 \<le> heat_start n d c" and "0 \<le> heat_num n d c" and "heat_start n d c + heat_num n d c \<le> n + 1"
proof -
  have q: "0 \<le> n div d" using assms by (simp add: pos_imp_zdiv_nonneg_iff)
  with assms show "1 \<le> heat_start n d c" by (simp add: heat_start_def)
  have "n div d * (c + 1) \<le> n div d * d"
    using q assms by (intro mult_left_mono) simp_all
  also have "\<dots> \<le> n" using div_mult_mod_eq [of n d] pos_mod_sign [of d n] assms by linarith
  finally have le: "n div d * c + n div d \<le> n" by (simp add: algebra_simps)
  with q show "0 \<le> heat_num n d c" by (simp add: heat_num_def heat_start_def)
  from le show "heat_start n d c + heat_num n d c \<le> n + 1"
    by (cases "c = d - 1") (simp_all add: heat_num_def heat_start_def)
qed

text \<open>
  C8. Whatever the number of processes in a direction and the number of cells, each cell
  belongs to exactly one coordinate, and the cells of a coordinate lie in the grid.
\<close>

theorem heat_partition:
  assumes "0 < d" and "0 \<le> n"
  shows "\<forall>x. 1 \<le> x \<and> x \<le> n \<longleftrightarrow>
    (\<exists>!c. 0 \<le> c \<and> c < d \<and> heat_start n d c \<le> x \<and> x < heat_start n d c + heat_num n d c)"
proof (intro allI iffI)
  fix x assume x: "1 \<le> x \<and> x \<le> n"
  then obtain c where c: "0 \<le> c" "c < d" "heat_start n d c \<le> x" "x < heat_start n d c + heat_num n d c"
    using heat_owner_exists assms by blast
  show "\<exists>!c. 0 \<le> c \<and> c < d \<and> heat_start n d c \<le> x \<and> x < heat_start n d c + heat_num n d c"
  proof (rule ex1I [of _ c])
    fix c' assume c': "0 \<le> c' \<and> c' < d \<and> heat_start n d c' \<le> x \<and> x < heat_start n d c' + heat_num n d c'"
    show "c' = c"
      using heat_owner_unique [OF assms c(2), of c' x] heat_owner_unique [OF assms, of c' c x] c c'
      by (cases c c' rule: linorder_cases) auto
  qed (use c in auto)
next
  fix x assume "\<exists>!c. 0 \<le> c \<and> c < d \<and> heat_start n d c \<le> x \<and> x < heat_start n d c + heat_num n d c"
  then obtain c where c: "0 \<le> c" "c < d" "heat_start n d c \<le> x" "x < heat_start n d c + heat_num n d c"
    by blast
  with heat_bounds [OF assms c(1,2)] show "1 \<le> x \<and> x \<le> n" by linarith
qed

theorem heat_partition_witness:
  "\<exists>!c::int. 0 \<le> c \<and> c < 3 \<and> heat_start 20 3 c \<le> 20 \<and> 20 < heat_start 20 3 c + heat_num 20 3 c"
  by (rule iffD1 [OF heat_partition [THEN spec]]) simp_all

lemma heat_next: "c + 1 < d \<Longrightarrow> heat_start sz d c + heat_num sz d c = heat_start sz d (c + 1)"
  by (simp add: heat_num_other heat_start_def algebra_simps)

section \<open>Who exchanges borders with whom\<close>

text \<open>
  A rank of the grid, and the messages that \<open>heatBoundary\<close> sends from process \<open>m\<close> to process
  \<open>k\<close>, with their tags, and its receives at process \<open>k\<close> of messages of \<open>m\<close>, in the order
  of the calls. The receive that names no source counts for the left neighbour.
\<close>

definition on_cart :: "int \<times> int \<Rightarrow> int \<Rightarrow> bool" where
  "on_cart dims r \<longleftrightarrow> 0 < fst dims \<and> 0 < snd dims \<and> 0 \<le> r \<and> r < fst dims * snd dims"

fun sends_for :: "int \<Rightarrow> heat_call list \<Rightarrow> (int list \<times> int) list" where
  "sends_for k [] = []"
| "sends_for k (H_Isend cs p t i # hs) = (if p = k then [(cs, t)] else []) @ sends_for k hs"
| "sends_for k (H_Send cs p t # hs) = (if p = k then [(cs, t)] else []) @ sends_for k hs"
| "sends_for k (H_Recv cs p t # hs) = sends_for k hs"
| "sends_for k (H_Waitall n # hs) = sends_for k hs"

fun receives_of :: "int \<Rightarrow> int \<Rightarrow> heat_call list \<Rightarrow> (int list \<times> rtag) list" where
  "receives_of l m [] = []"
| "receives_of l m (H_Recv cs (Rank r) t # hs) = (if r = m then [(cs, t)] else []) @ receives_of l m hs"
| "receives_of l m (H_Recv cs MPI_ANY_SOURCE t # hs) = (if l = m then [(cs, t)] else []) @ receives_of l m hs"
| "receives_of l m (H_Isend cs p t i # hs) = receives_of l m hs"
| "receives_of l m (H_Send cs p t # hs) = receives_of l m hs"
| "receives_of l m (H_Waitall n # hs) = receives_of l m hs"

text \<open>Two cells of the array that are the same point of the periodic grid.\<close>

definition same_point :: "heatGrid \<Rightarrow> int \<Rightarrow> int \<Rightarrow> bool" where
  "same_point grid c d \<longleftrightarrow>
     (c div (xsize grid + 2)) mod ysize grid = (d div (xsize grid + 2)) mod ysize grid \<and>
     (c mod (xsize grid + 2)) mod xsize grid = (d mod (xsize grid + 2)) mod xsize grid"

definition delivers :: "heatGrid \<Rightarrow> int list \<times> int \<Rightarrow> int list \<times> rtag \<Rightarrow> bool" where
  "delivers grid s r \<longleftrightarrow>
     snd r \<in> {MPI_ANY_TAG, Tag (snd s)} \<and> list_all2 (same_point grid) (fst s) (fst r)"

lemma heatMPISetup_simps [simp]:
  "rank (heatMPISetup grid dims r) = r"
  "up (heatMPISetup grid dims r) = fst (cart_shift dims r 1)"
  "down (heatMPISetup grid dims r) = snd (cart_shift dims r 1)"
  "left (heatMPISetup grid dims r) = fst (cart_shift dims r 0)"
  "right (heatMPISetup grid dims r) = snd (cart_shift dims r 0)"
  "start_x (heatMPISetup grid dims r) = heat_start (xsize grid) (fst dims) (fst (cart_coords dims r))"
  "start_y (heatMPISetup grid dims r) = heat_start (ysize grid) (snd dims) (snd (cart_coords dims r))"
  "num_cells_x (heatMPISetup grid dims r) = heat_num (xsize grid) (fst dims) (fst (cart_coords dims r))"
  "num_cells_y (heatMPISetup grid dims r) = heat_num (ysize grid) (snd dims) (snd (cart_coords dims r))"
  by (simp_all add: heatMPISetup_def Let_def)

lemma on_cart_coords:
  assumes "on_cart dims r"
  shows "0 \<le> fst (cart_coords dims r)" and "fst (cart_coords dims r) < fst dims"
    and "0 \<le> snd (cart_coords dims r)" and "snd (cart_coords dims r) < snd dims"
proof -
  have "r div snd dims * snd dims + r mod snd dims = r" by (rule div_mult_mod_eq)
  moreover have "0 \<le> r mod snd dims" using assms by (simp add: on_cart_def)
  ultimately have "r div snd dims * snd dims \<le> r" by linarith
  then have "r div snd dims * snd dims < fst dims * snd dims"
    using assms unfolding on_cart_def by linarith
  then show "fst (cart_coords dims r) < fst dims"
    using assms by (simp add: on_cart_def cart_coords_def)
qed (use assms in \<open>simp_all add: on_cart_def cart_coords_def pos_imp_zdiv_nonneg_iff\<close>)

lemma cart_coords_rank:
  "0 \<le> y \<Longrightarrow> y < snd dims \<Longrightarrow> cart_coords dims (cart_rank dims (x, y)) = (x, y)"
  by (simp add: cart_coords_def cart_rank_def)

lemma cart_rank_coords: "cart_rank dims (cart_coords dims r) = r"
  by (simp add: cart_coords_def cart_rank_def)

lemma coords_shift:
  assumes "on_cart dims r"
  shows "cart_coords dims (fst (cart_shift dims r 0)) =
      ((fst (cart_coords dims r) - 1) mod fst dims, snd (cart_coords dims r))"
    and "cart_coords dims (snd (cart_shift dims r 0)) =
      ((fst (cart_coords dims r) + 1) mod fst dims, snd (cart_coords dims r))"
    and "cart_coords dims (fst (cart_shift dims r 1)) =
      (fst (cart_coords dims r), (snd (cart_coords dims r) - 1) mod snd dims)"
    and "cart_coords dims (snd (cart_shift dims r 1)) =
      (fst (cart_coords dims r), (snd (cart_coords dims r) + 1) mod snd dims)"
  using on_cart_coords [OF assms] assms
  by (auto simp: cart_shift_def Let_def cart_coords_rank on_cart_def split: prod.split)

text \<open>Two processes have the same coordinates only if they are the same.\<close>

lemma cart_coords_inject: "cart_coords dims r = cart_coords dims r' \<longleftrightarrow> r = r'"
  by (metis cart_rank_coords)

lemma mod_pred:
  fixes b d :: int
  assumes "0 \<le> b" "b < d"
  shows "(b - 1) mod d = (if b = 0 then d - 1 else b - 1)"
  using assms by (simp add: zmod_minus1)

lemma mod_succ:
  fixes b d :: int
  assumes "0 \<le> b" "b < d"
  shows "(b + 1) mod d = (if b + 1 = d then 0 else b + 1)"
  using assms by simp

text \<open>Neighbours know of each other.\<close>

lemma shift_sym:
  assumes "on_cart dims m" and "on_cart dims k" and "i < 2"
  shows "snd (cart_shift dims m i) = k \<longleftrightarrow> fst (cart_shift dims k i) = m"
  using on_cart_coords [OF assms(1)] on_cart_coords [OF assms(2)] assms(3)
  unfolding cart_coords_inject [of dims, symmetric]
  by (auto simp: less_2_cases_iff coords_shift [OF assms(1), simplified] coords_shift [OF assms(2), simplified]
      prod_eq_iff mod_pred mod_succ split: if_splits)

text \<open>Where the sub-grids of two neighbours meet, the last with the first included.\<close>

lemma heat_meet:
  assumes "0 \<le> c" "c < d"
  shows "(heat_start n d ((c + 1) mod d) + e) mod n = (heat_start n d c + heat_num n d c + e) mod n"
proof (cases "c + 1 = d")
  case True
  have "(1 + e) mod n = ((1 + e) + n) mod n" by simp
  with True show ?thesis by (simp add: heat_start_def heat_num_def algebra_simps)
next
  case False
  with assms show ?thesis by (simp add: heat_next)
qed

text \<open>Rows and columns as points.\<close>

lemma row_points: "row_cells (cell grid y x) n = map (\<lambda>i. cell grid y (x + i)) [0..n - 1]"
  by (rule nth_equalityI) (simp_all add: row_cells_def cell_def)

lemma column_points: "column_cells grid (cell grid y x) n = map (\<lambda>i. cell grid (y + i) x) [0..n - 1]"
  by (simp add: column_cells_def cell_def algebra_simps)

lemma same_point_cell:
  assumes "0 \<le> x" "x < xsize grid + 2" "0 \<le> x'" "x' < xsize grid + 2"
    and "y mod ysize grid = y' mod ysize grid" "x mod xsize grid = x' mod xsize grid"
  shows "same_point grid (cell grid y x) (cell grid y' x')"
  using assms by (simp add: same_point_def cell_def)

lemma same_row:
  assumes "0 \<le> x" "x + n \<le> xsize grid + 2" "y mod ysize grid = y' mod ysize grid"
  shows "list_all2 (same_point grid) (row_cells (cell grid y x) n) (row_cells (cell grid y' x) n)"
  using assms unfolding row_points list.rel_map
  by (auto intro!: list.rel_refl_strong same_point_cell)

lemma same_column:
  assumes "0 \<le> x" "x < xsize grid + 2" "0 \<le> x'" "x' < xsize grid + 2" "x mod xsize grid = x' mod xsize grid"
  shows "list_all2 (same_point grid) (column_cells grid (cell grid y x) n) (column_cells grid (cell grid y x') n)"
  using assms unfolding column_points list.rel_map
  by (auto intro!: list.rel_refl_strong same_point_cell)

text \<open>The two messages between a process and the next one in either direction.\<close>

lemma row_meets:
  assumes "on_cart dims m" and "0 < xsize grid" and "0 < ysize grid"
  defines "my \<equiv> heatMPISetup grid dims m"
  defines "lower \<equiv> heatMPISetup grid dims (down my)"
  defines "row \<equiv> \<lambda>me y. row_cells (cell grid y (start_x me)) (num_cells_x me + 1)"
  shows "list_all2 (same_point grid) (row my (start_y my + num_cells_y my - 1)) (row lower (start_y lower - 1))"
    and "list_all2 (same_point grid) (row lower (start_y lower)) (row my (start_y my + num_cells_y my))"
proof -
  note c = on_cart_coords [OF assms(1)]
  have x: "start_x lower = start_x my" "num_cells_x lower = num_cells_x my"
    using coords_shift(4) [OF assms(1)] by (simp_all add: lower_def my_def)
  have y: "(start_y lower + e) mod ysize grid = (start_y my + num_cells_y my + e) mod ysize grid" for e
    using heat_meet [OF c(3,4)] coords_shift(4) [OF assms(1)] by (simp add: lower_def my_def)
  have b: "0 \<le> start_x my" "start_x my + (num_cells_x my + 1) \<le> xsize grid + 2"
    using heat_bounds [of "fst dims" "xsize grid"] c(1,2) assms(2) by (force simp: my_def)+
  show "list_all2 (same_point grid) (row my (start_y my + num_cells_y my - 1)) (row lower (start_y lower - 1))"
    unfolding row_def x using b y [of "- 1"] by (intro same_row) simp_all
  show "list_all2 (same_point grid) (row lower (start_y lower)) (row my (start_y my + num_cells_y my))"
    unfolding row_def x using b y [of 0] by (intro same_row) simp_all
qed

lemma column_meets:
  assumes "on_cart dims m" and "0 < xsize grid" and "0 < ysize grid"
  defines "my \<equiv> heatMPISetup grid dims m"
  defines "next \<equiv> heatMPISetup grid dims (right my)"
  defines "column \<equiv> \<lambda>me x. column_cells grid (cell grid (start_y me) x) (num_cells_y me)"
  shows "list_all2 (same_point grid) (column my (start_x my + num_cells_x my - 1)) (column next (start_x next - 1))"
    and "list_all2 (same_point grid) (column next (start_x next)) (column my (start_x my + num_cells_x my))"
proof -
  note c = on_cart_coords [OF assms(1)]
  have c': "0 \<le> fst (cart_coords dims (right my))" "fst (cart_coords dims (right my)) < fst dims"
    using coords_shift(2) [OF assms(1)] c by (simp_all add: my_def)
  have y: "start_y next = start_y my" "num_cells_y next = num_cells_y my"
    using coords_shift(2) [OF assms(1)] by (simp_all add: next_def my_def)
  have x: "(start_x next + e) mod xsize grid = (start_x my + num_cells_x my + e) mod xsize grid" for e
    using heat_meet [OF c(1,2)] coords_shift(2) [OF assms(1)] by (simp add: next_def my_def)
  have b: "1 \<le> start_x my" "0 \<le> num_cells_x my" "start_x my + num_cells_x my \<le> xsize grid + 1"
    "1 \<le> start_x next" "0 \<le> num_cells_x next" "start_x next + num_cells_x next \<le> xsize grid + 1"
    using heat_bounds [of "fst dims" "xsize grid"] c(1,2) c'(1,2) assms(2) by (force simp: my_def next_def)+
  show "list_all2 (same_point grid) (column my (start_x my + num_cells_x my - 1)) (column next (start_x next - 1))"
    unfolding column_def y using b x [of "- 1"] by (intro same_column) simp_all
  show "list_all2 (same_point grid) (column next (start_x next)) (column my (start_x my + num_cells_x my))"
    unfolding column_def y using b x [of 0] by (intro same_column) simp_all
qed

lemma list_all2_if:
  "b = c \<Longrightarrow> (b \<Longrightarrow> P x y) \<Longrightarrow> list_all2 P (if b then [x] else []) (if c then [y] else [])"
  by simp

text \<open>
  C9. The exchange of borders on the periodic grid, for all numbers of processes in the two
  directions and all grids: the n-th message of \<open>heatBoundary\<close> from one process to another, or
  to itself, is the one that the n-th receive of messages of that process needs. Its tag fits,
  and every cell sent is the same point of the torus as the cell it is received in. As messages
  do not overtake, these are the pairs MPI forms when the receive without a source gets the
  message of the left neighbour: every other message of the exchange is taken by a receive that
  names its source.
\<close>

theorem heat_borders_meet:
  assumes "on_cart dims m" and "on_cart dims k" and "0 < xsize grid" and "0 < ysize grid"
  shows "list_all2 (delivers grid)
    (sends_for k (heatBoundary grid (heatMPISetup grid dims m)))
    (receives_of (left (heatMPISetup grid dims k)) m (heatBoundary grid (heatMPISetup grid dims k)))"
proof -
  let ?m = "heatMPISetup grid dims m" and ?k = "heatMPISetup grid dims k"
  let ?row = "\<lambda>me y. row_cells (cell grid y (start_x me)) (num_cells_x me + 1)"
  let ?column = "\<lambda>me x. column_cells grid (cell grid (start_y me) x) (num_cells_y me)"
  have sends: "sends_for k (heatBoundary grid ?m) =
      (if up ?m = k then [(?row ?m (start_y ?m), 123)] else []) @
      (if down ?m = k then [(?row ?m (start_y ?m + num_cells_y ?m - 1), 123)] else []) @
      (if left ?m = k then [(?column ?m (start_x ?m), 123)] else []) @
      (if right ?m = k then [(?column ?m (start_x ?m + num_cells_x ?m - 1), 123)] else [])"
    unfolding heatBoundary_def Let_def sends_for.simps by simp
  have receives: "receives_of (left ?k) m (heatBoundary grid ?k) =
      (if down ?k = m then [(?row ?k (start_y ?k + num_cells_y ?k), Tag 123)] else []) @
      (if up ?k = m then [(?row ?k (start_y ?k - 1), Tag 123)] else []) @
      (if right ?k = m then [(?column ?k (start_x ?k + num_cells_x ?k), Tag 123)] else []) @
      (if left ?k = m then [(?column ?k (start_x ?k - 1), MPI_ANY_TAG)] else [])"
    unfolding heatBoundary_def Let_def receives_of.simps by simp
  have sym: "up ?m = k \<longleftrightarrow> down ?k = m" "down ?m = k \<longleftrightarrow> up ?k = m"
    "left ?m = k \<longleftrightarrow> right ?k = m" "right ?m = k \<longleftrightarrow> left ?k = m"
    using shift_sym [OF assms(1,2)] shift_sym [OF assms(2,1)] by force+
  have "list_all2 (same_point grid) (?row ?m (start_y ?m)) (?row ?k (start_y ?k + num_cells_y ?k))" if "down ?k = m"
    using row_meets(2) [OF assms(2-4)] unfolding that .
  moreover have "list_all2 (same_point grid) (?row ?m (start_y ?m + num_cells_y ?m - 1)) (?row ?k (start_y ?k - 1))"
    if "down ?m = k"
    using row_meets(1) [OF assms(1,3,4)] unfolding that .
  moreover have "list_all2 (same_point grid) (?column ?m (start_x ?m)) (?column ?k (start_x ?k + num_cells_x ?k))"
    if "right ?k = m"
    using column_meets(2) [OF assms(2-4)] unfolding that .
  moreover have "list_all2 (same_point grid) (?column ?m (start_x ?m + num_cells_x ?m - 1)) (?column ?k (start_x ?k - 1))"
    if "right ?m = k"
    using column_meets(1) [OF assms(1,3,4)] unfolding that .
  ultimately show ?thesis
    unfolding sends receives by (intro list_all2_appendI list_all2_if) (simp_all only: sym delivers_def fst_conv snd_conv insert_iff simp_thms)
qed

theorem heat_borders_meet_witness:
  "list_all2 (delivers \<lparr>ysize = 20, xsize = 20\<rparr>)
    (sends_for 2 (heatBoundary \<lparr>ysize = 20, xsize = 20\<rparr> (heatMPISetup \<lparr>ysize = 20, xsize = 20\<rparr> (2, 2) 0)))
    (receives_of 0 0 (heatBoundary \<lparr>ysize = 20, xsize = 20\<rparr> (heatMPISetup \<lparr>ysize = 20, xsize = 20\<rparr> (2, 2) 2)))
   \<and> length (sends_for 2 (heatBoundary \<lparr>ysize = 20, xsize = 20\<rparr> (heatMPISetup \<lparr>ysize = 20, xsize = 20\<rparr> (2, 2) 0))) = 2"
  using heat_borders_meet [of "(2, 2)" 0 2 "\<lparr>ysize = 20, xsize = 20\<rparr>"]
  by (simp add: on_cart_def cart_shift_def cart_coords_def cart_rank_def heatBoundary_def Let_def)

lemma heat_boundary_races:
  assumes "0 < num_cells_x my" and "0 < num_cells_y my"
  shows "(0, cell grid (start_y my) (start_x my + num_cells_x my)) \<in> set (heat_conflicts (heatBoundary grid my) [])
    \<and> map fst (heat_pending (heatBoundary grid my) []) = [3]"
  using assms
  by (auto simp: heatBoundary_def Let_def row_cells_def column_cells_def cell_def image_iff
      intro!: bexI [of _ 0])

text \<open>The cells that the receives of a list of calls write.\<close>

fun heat_filled :: "heat_call list \<Rightarrow> int list" where
  "heat_filled [] = []"
| "heat_filled (H_Recv cs p t # hs) = cs @ heat_filled hs"
| "heat_filled (h # hs) = heat_filled hs"

lemma own_points_iff: "(y, x) \<in> set (own_points my) \<longleftrightarrow>
   start_y my \<le> y \<and> y < start_y my + num_cells_y my \<and> start_x my \<le> x \<and> x < start_x my + num_cells_x my"
  by (force simp: own_points_def)

lemma heat_filled_row:
  assumes "start_x my \<le> x" and "x < start_x my + num_cells_x my"
    and "y = start_y my - 1 \<or> y = start_y my + num_cells_y my"
  shows "cell grid y x \<in> set (heat_filled (heatBoundary grid my))"
  using assms by (auto simp: heatBoundary_def Let_def row_cells_def cell_def)

lemma heat_filled_column:
  assumes "start_y my \<le> y" and "y < start_y my + num_cells_y my"
    and "x = start_x my - 1 \<or> x = start_x my + num_cells_x my"
  shows "cell grid y x \<in> set (heat_filled (heatBoundary grid my))"
proof -
  have "cell grid y x \<in> set (column_cells grid (cell grid (start_y my) x) (num_cells_y my))"
    unfolding column_cells_def using assms(1,2)
    by (auto simp: cell_def algebra_simps intro!: image_eqI [of _ _ "y - start_y my"])
  with assms(3) show ?thesis by (auto simp: heatBoundary_def Let_def)
qed

text \<open>A point that is in the sub-grid, in a row next to it or in a column next to it.\<close>

lemma heat_point_known:
  assumes "(y, x) \<in> set (own_points my)"
    and "(y', x') \<in> {(y, x - 1), (y, x + 1), (y, x), (y - 1, x), (y + 1, x)}"
  shows "cell grid y' x' \<in> set (heat_writes grid my) \<or> cell grid y' x' \<in> set (heat_filled (heatBoundary grid my))"
proof (cases "(y', x') \<in> set (own_points my)")
  case True
  then show ?thesis unfolding heat_writes_def by force
next
  case False
  with assms have "(y' = start_y my - 1 \<or> y' = start_y my + num_cells_y my) \<and>
        start_x my \<le> x' \<and> x' < start_x my + num_cells_x my \<or>
      (x' = start_x my - 1 \<or> x' = start_x my + num_cells_x my) \<and>
        start_y my \<le> y' \<and> y' < start_y my + num_cells_y my"
    unfolding own_points_iff by auto
  then show ?thesis using heat_filled_row heat_filled_column by blast
qed

text \<open>
  C7. The exchange of borders is complete: every cell that the time step reads is one of
  the sub-grid, which the process itself writes, or was filled by a receive of
  \<open>heatBoundary\<close>.
\<close>

theorem heat_halo_complete:
  "set (heat_reads grid my) - set (heat_writes grid my) - set (heat_filled (heatBoundary grid my)) = {}"
proof -
  have "c \<in> set (heat_writes grid my) \<or> c \<in> set (heat_filled (heatBoundary grid my))"
    if c: "c \<in> set (heat_reads grid my)" for c
  proof -
    from c obtain y x where p: "(y, x) \<in> set (own_points my)"
      and "c \<in> {cell grid y (x - 1), cell grid y (x + 1), cell grid y x, cell grid (y - 1) x, cell grid (y + 1) x}"
      by (auto simp: heat_reads_def)
    then obtain y' x' where "(y', x') \<in> {(y, x - 1), (y, x + 1), (y, x), (y - 1, x), (y + 1, x)}"
      and "c = cell grid y' x'" by blast
    with heat_point_known [OF p] show ?thesis by blast
  qed
  then show ?thesis by blast
qed

lemma block_snoc:
  "0 < rows \<Longrightarrow> block_cells grid c rows n =
     block_cells grid c (rows - 1) n @ row_cells (c + (rows - 1) * (xsize grid + 2)) n"
  by (simp add: block_cells_def upto_rec2)

lemma heat_gather_loses_row:
  assumes "0 < num_cells_y my"
  shows "heat_received grid my =
    heat_sent grid my @ row_cells (cell grid (start_y my + num_cells_y my - 1) (start_x my)) (num_cells_x my)"
  using block_snoc [OF assms, of grid "cell grid (start_y my) (start_x my)" "num_cells_x my"]
  by (simp add: heat_received_def heat_sent_def cell_def algebra_simps)

text \<open>
  C10. In \<open>heatBoundary\<close> the first row is sent with one cell too many: the receive of the
  right border writes a cell that the pending send reads. The last send is still pending when
  the function returns. What a process sends to be gathered lacks exactly the last row of its
  sub-grid, which process 0 expects.
\<close>

theorem heat_faults:
  assumes "0 < num_cells_x my" and "0 < num_cells_y my"
  shows "(0, cell grid (start_y my) (start_x my + num_cells_x my)) \<in> set (heat_conflicts (heatBoundary grid my) []) \<and>
    map fst (heat_pending (heatBoundary grid my) []) = [3] \<and>
    heat_received grid my =
      heat_sent grid my @ row_cells (cell grid (start_y my + num_cells_y my - 1) (start_x my)) (num_cells_x my)"
  using heat_boundary_races [OF assms] heat_gather_loses_row [OF assms(2)] by simp

theorem heat_faults_witness:
  "(0, 33) \<in> set (heat_conflicts (heatBoundary \<lparr>ysize = 20, xsize = 20\<rparr>
      (heatMPISetup \<lparr>ysize = 20, xsize = 20\<rparr> (2, 2) 0)) [])"
  using heat_faults [of "heatMPISetup \<lparr>ysize = 20, xsize = 20\<rparr> (2, 2) 0" "\<lparr>ysize = 20, xsize = 20\<rparr>"]
  by (simp add: heatMPISetup_def cart_coords_def heat_start_def heat_num_def cell_def)

section \<open>The loop on four processes\<close>

text \<open>
  The communication calls of a list of calls: the operations are numbered from \<open>k\<close> on, and
  \<open>reqs\<close> gives the operation of a request. The messages of the loop go over the same
  communicator, in which \<open>MPI_Cart_create\<close> keeps the ranks, as its argument \<open>reorder\<close> is 0.
\<close>

fun heat_items :: "nat \<Rightarrow> (nat \<times> nat) list \<Rightarrow> heat_call list \<Rightarrow> item list" where
  "heat_items k reqs [] = []"
| "heat_items k reqs (H_Isend cs p t i # hs) =
     Item [Sop Standard p t] [] # heat_items (Suc k) (reqs @ [(i, k)]) hs"
| "heat_items k reqs (H_Send cs p t # hs) = Item [Sop Standard p t] [k] # heat_items (Suc k) reqs hs"
| "heat_items k reqs (H_Recv cs p t # hs) = Item [Rop p t] [k] # heat_items (Suc k) reqs hs"
| "heat_items k reqs (H_Waitall n # hs) =
     Item [] (map snd (filter (\<lambda>(i, j). i < n) reqs)) # heat_items k (filter (\<lambda>(i, j). n \<le> i) reqs) hs"

definition heat_procs :: "(dataMPI \<Rightarrow> heat_call \<Rightarrow> heat_call) \<Rightarrow> heatGrid \<Rightarrow> int \<times> int \<Rightarrow> item list list" where
  "heat_procs f grid dims =
     (let n = fst dims * snd dims in
      map (\<lambda>r. let my = heatMPISetup grid dims r in heat_items 0 [] (map (f my) (heat_loop grid my n))) [0..n - 1])"

text \<open>The calls of the code, and those in which the wildcard receive names the left neighbour.\<close>

definition as_written :: "dataMPI \<Rightarrow> heat_call \<Rightarrow> heat_call" where
  "as_written my h = h"

fun left_named :: "dataMPI \<Rightarrow> heat_call \<Rightarrow> heat_call" where
  "left_named my (H_Recv cs MPI_ANY_SOURCE t) = H_Recv cs (Rank (left my)) (Tag 123)"
| "left_named my h = h"

lemmas heat_eval = heat_procs_def as_written_def heat_loop_def heatBoundary_def heatTimestep_def Let_def
  cart_shift_def cart_coords_def cart_rank_def

text \<open>
  Process 0 takes, in its last receive of \<open>heatBoundary\<close>, the message with tag 567 that process
  1 sends in \<open>heatTimestep\<close>, or the column of process 2.
\<close>

definition heat_plan :: "opid \<Rightarrow> (opid \<times> opid) list" where
  "heat_plan s = [((0, 0), (1, 1)), ((1, 0), (0, 1)), ((2, 0), (3, 1)), ((3, 0), (2, 1)),
     ((0, 2), (1, 3)), ((1, 2), (0, 3)), ((2, 2), (3, 3)), ((3, 2), (2, 3)),
     ((0, 4), (2, 5)), ((2, 4), (0, 5)), ((1, 4), (3, 5)), ((3, 4), (1, 5)),
     ((1, 6), (3, 7)), ((3, 6), (1, 7)), ((0, 6), (2, 7)), (s, (0, 7))]"

lemma heat_blocks: "deadlock_check 200 e (heat_plan (1, 8)) (heat_procs as_written grid (2, 2))"
  by (cases e; simp add: heat_eval; code_simp)

lemma heat_passes: "passes_check 200 e (heat_plan (2, 6)) (heat_procs as_written grid (2, 2))"
  by (cases e; simp add: heat_eval; code_simp)

lemma heat_named_finishes: "finishes_check 200 (heat_procs left_named grid (2, 2))"
  by (simp add: heat_eval; code_simp)

text \<open>
  C11. The loop of medium-heat.c on its four processes, on any grid, with buffered messages or
  without: its last receive of borders, which names neither source nor tag, can take the
  message that a process which is further on sends at the end of the time step. Then the run
  blocks; if it takes the column of its left neighbour, the run can finish. With the left
  neighbour and its tag in place of the wildcards the loop ends well under every library.
\<close>

theorem heat_wildcard_deadlock:
  "may_block e (heat_procs as_written grid (2, 2)) \<and> may_finish e (heat_procs as_written grid (2, 2)) \<and>
   ends_well (heat_procs left_named grid (2, 2))"
  by (intro conjI may_blockI [OF heat_blocks] may_finishI [OF heat_passes] ends_wellI [OF heat_named_finishes])

end
