(* ===== verification/Diffusion.thy ===== *)
theory Diffusion
  imports Claims Codes_P2P Polling
begin

text \<open>
  src/codes/medium-Diffusion2D.c: a diffusion equation on a torus of 4 x 8 points, which 8
  processes hold as blocks of 2 x 2 points with a border of ghost cells. First the program
  with its calls, then the values: the floating-point expression of \<open>update()\<close> is a
  parameter, and one time step of the processes is compared with one of the whole torus.
\<close>

section \<open>Constants and neighbours\<close>

abbreviation (input) nprocsx :: int where "nprocsx \<equiv> 2"
abbreviation (input) nprocsy :: int where "nprocsy \<equiv> 4"
abbreviation (input) nxl :: int where "nxl \<equiv> 2"
abbreviation (input) nyl :: int where "nyl \<equiv> 2"
abbreviation (input) nylg :: int where "nylg \<equiv> 6"

definition xcoord :: "int \<Rightarrow> int" where "xcoord rank = rank smod nprocsx"
definition ycoord :: "int \<Rightarrow> int" where "ycoord rank = rank sdiv nprocsx"

definition up :: "int \<Rightarrow> int" where
  "up rank = xcoord rank + nprocsx * ((ycoord rank + 1) smod nprocsy)"

definition down :: "int \<Rightarrow> int" where
  "down rank = xcoord rank + nprocsx * ((ycoord rank + nprocsy - 1) smod nprocsy)"

definition left :: "int \<Rightarrow> int" where
  "left rank = (xcoord rank + nprocsx - 1) smod nprocsx + nprocsx * ycoord rank"

definition right :: "int \<Rightarrow> int" where
  "right rank = (xcoord rank + 1) smod nprocsx + nprocsx * ycoord rank"

section \<open>The program\<close>

text \<open>
  A double takes two elements of an object. \<open>u[i][j]\<close> is the double \<open>nylg * i + j\<close> of
  \<open>u\<close>, whose extent in the source is \<open>u[nxlg][nylg]\<close>.
\<close>

definition load_double :: "string \<Rightarrow> int \<Rightarrow> stmt" where
  "load_double x k = seq [call (C_load (Ref x (2 * k))), call (C_load (Ref x (2 * k + 1)))]"

definition store_double :: "string \<Rightarrow> int \<Rightarrow> stmt" where
  "store_double x k = call (C_memset (Ref x (2 * k)) 0 8)"

definition at :: "int \<Rightarrow> int \<Rightarrow> int" where
  "at i j = nylg * i + j"

text \<open>The calls of \<open>initdata()\<close> that set \<open>np\<close> and \<open>rank\<close> are in \<open>diffusion_main\<close>.\<close>

definition initdata :: "int \<Rightarrow> stmt list" where
  "initdata rank =
    [call (C_printf ''rank %d/%d is alive ''),
     for_c (upto_lt 1 (nxl + 1)) (\<lambda>i. [for_c (upto_lt 1 (nyl + 1)) (\<lambda>j. [store_double ''u'' (at i j)])])]"

text \<open>\<open>sprintf\<close>, \<open>fseek\<close> and \<open>fclose\<close> are left out; where \<open>fseek\<close> goes is defined below.\<close>

definition write_frame_2 :: "int \<Rightarrow> stmt list" where
  "write_frame_2 rank =
    [call (C_decl ''buf'' (2 * nxl)),
     if_else (rank \<noteq> 0)
      [for_c (upto_lt 1 (nyl + 1)) (\<lambda>j.
        [for_c (upto_lt 1 (nxl + 1)) (\<lambda>i. [load_double ''u'' (at i j), store_double ''buf'' (i - 1)]),
         call (C_printf ''rank %d sends to 0''),
         call (MPI_Send (Ref ''buf'' 0) nxl MPI_DOUBLE 0 (j - 1) W)])]
      [call_then (C_fopen ''./diffusion2_%d.out'') (\<lambda>file.
       [assert_c (out file 0 \<noteq> 0),
        for_c (upto_lt 0 nprocsy) (\<lambda>n. [for_c (upto_lt 1 (nyl + 1)) (\<lambda>j.
         [for_c (upto_lt 0 nprocsx) (\<lambda>m.
           [if_else (n * nprocsx + m \<noteq> 0)
             [for_c (upto_lt 1 (nxl + 1)) (\<lambda>i. [call (C_printf ''        '')])]
             [for_c (upto_lt 1 (nxl + 1)) (\<lambda>i. [load_double ''u'' (at i j), call (C_printf ''%8.2f'')])]]),
          call (C_printf [CHR 0x0A])])]),
        for_c (upto_lt 0 (nyl * (nprocsx * nprocsy - 1))) (\<lambda>k.
         [call (C_printf ''rank %d recv from any source''),
          call (MPI_Recv (Ref ''buf'' 0) nxl MPI_DOUBLE MPI_ANY_SOURCE MPI_ANY_TAG W),
          for_c (upto_lt 1 (nxl + 1)) (\<lambda>i. [load_double ''buf'' (i - 1), call (C_printf ''%8.2f'')])])])]]"

text \<open>The variant in which process 0 receives the pieces of a line in their order.\<close>

definition write_frame_1 :: "int \<Rightarrow> stmt list" where
  "write_frame_1 rank =
    [call (C_decl ''buf'' (2 * nxl)),
     if_else (rank \<noteq> 0)
      [for_c (upto_lt 1 (nyl + 1)) (\<lambda>j.
        [for_c (upto_lt 1 (nxl + 1)) (\<lambda>i. [load_double ''u'' (at i j), store_double ''buf'' (i - 1)]),
         call (MPI_Send (Ref ''buf'' 0) nxl MPI_DOUBLE 0 0 W)])]
      [call_then (C_fopen ''./diffusion1_%d.out'') (\<lambda>file.
       [assert_c (out file 0 \<noteq> 0),
        for_c (upto_lt 0 nprocsy) (\<lambda>n. [for_c (upto_lt 1 (nyl + 1)) (\<lambda>j.
         [for_c (upto_lt 0 nprocsx) (\<lambda>m.
           [if_else (n * nprocsx + m \<noteq> 0)
             [call (MPI_Recv (Ref ''buf'' 0) nxl MPI_DOUBLE (Rank (n * nprocsx + m)) (Tag 0) W)]
             [for_c (upto_lt 1 (nxl + 1)) (\<lambda>i. [load_double ''u'' (at i j), store_double ''buf'' (i - 1)])],
            for_c (upto_lt 1 (nxl + 1)) (\<lambda>i. [load_double ''buf'' (i - 1), call (C_printf ''%8.2f'')])]),
          call (C_printf [CHR 0x0A])])])])]]"

text \<open>
  One of the four parts of \<open>exchange_ghost_cells()\<close>: the cells \<open>from\<close> are copied to the
  buffer and sent to \<open>dst\<close>, those \<open>into\<close> are received from \<open>src\<close>.
\<close>

definition exchange_part ::
  "string \<Rightarrow> string \<Rightarrow> (int \<Rightarrow> int \<times> int) \<Rightarrow> (int \<Rightarrow> int \<times> int) \<Rightarrow> int \<Rightarrow> int \<Rightarrow> stmt list" where
  "exchange_part sbuf rbuf from into dst src =
    [for_c (upto_lt 1 3) (\<lambda>i. [load_double ''u'' (at (fst (from i)) (snd (from i))), store_double sbuf (i - 1)]),
     call (MPI_Send (Ref sbuf 0) 2 MPI_DOUBLE dst 0 W),
     call (MPI_Recv (Ref rbuf 0) 2 MPI_DOUBLE (Rank src) (Tag 0) W),
     for_c (upto_lt 1 3) (\<lambda>i. [load_double rbuf (i - 1), store_double ''u'' (at (fst (into i)) (snd (into i)))])]"

definition exchange_ghost_cells :: "int \<Rightarrow> stmt list" where
  "exchange_ghost_cells rank =
    [call (C_decl ''sbufx'' (2 * nxl)), call (C_decl ''rbufx'' (2 * nxl)),
     call (C_decl ''sbufy'' (2 * nyl)), call (C_decl ''rbufy'' (2 * nyl))] @
    exchange_part ''sbufx'' ''rbufx'' (\<lambda>i. (i, 1)) (\<lambda>i. (i, nyl + 1)) (down rank) (up rank) @
    exchange_part ''sbufx'' ''rbufx'' (\<lambda>i. (i, nyl)) (\<lambda>i. (i, 0)) (up rank) (down rank) @
    exchange_part ''sbufy'' ''rbufy'' (\<lambda>j. (1, j)) (\<lambda>j. (nxl + 1, j)) (left rank) (right rank) @
    exchange_part ''sbufy'' ''rbufy'' (\<lambda>j. (nxl, j)) (\<lambda>j. (0, j)) (right rank) (left rank)"

definition update :: "stmt list" where
  "update =
    [call (C_decl ''u_new'' (2 * (4 * nylg))),
     for_c (upto_lt 1 (nxl + 1)) (\<lambda>i. [for_c (upto_lt 1 (nyl + 1)) (\<lambda>j.
      [load_double ''u'' (at i j), load_double ''u'' (at (i + 1) j), load_double ''u'' (at (i - 1) j),
       load_double ''u'' (at i (j + 1)), load_double ''u'' (at i (j - 1)),
       store_double ''u_new'' (at i j)])]),
     for_c (upto_lt 1 (nxl + 1)) (\<lambda>i. [for_c (upto_lt 1 (nyl + 1)) (\<lambda>j.
      [load_double ''u_new'' (at i j), store_double ''u'' (at i j)])])]"

text \<open>\<open>write_frame\<close> is a macro that stands for \<open>write_frame_2\<close>.\<close>

definition diffusion_main :: "(int \<Rightarrow> stmt list) \<Rightarrow> prog" where
  "diffusion_main write_frame =
     decls [(''np'', 1), (''rank'', 1), (''xcoord'', 1), (''ycoord'', 1), (''up'', 1), (''down'', 1),
        (''left'', 1), (''right'', 1), (''u'', 2 * (4 * nylg)), (''iter'', 1)]
      (Call MPI_Init (\<lambda>_.
       Call (MPI_Comm_size W (Ref ''np'' 0)) (\<lambda>n.
       Call (MPI_Comm_rank W (Ref ''rank'' 0)) (\<lambda>r.
       seq
        (initdata (out r 0) @ write_frame (out r 0) @
         [call (C_printf ''rank %d BARRIER''),
          call (MPI_Barrier W),
          for_c (upto_lt 1 2) (\<lambda>iter. exchange_ghost_cells (out r 0) @ update)] @ mbi_end) (Ret 0)))))"

definition medium_Diffusion2D :: prog where
  "medium_Diffusion2D = diffusion_main write_frame_2"

lemmas diffusion_defs [code_defs] = medium_Diffusion2D_def diffusion_main_def initdata_def
  write_frame_2_def write_frame_1_def
  exchange_ghost_cells_def exchange_part_def update_def at_def

text \<open>Reading and writing doubles concerns no other process, and is no error in bounds.\<close>

lemma doubles_in_bounds:
  assumes "aget (objs s) x = Some m" "0 \<le> k" "2 * k + 2 \<le> m" "rtab s = []" "wvar s = []"
  shows "verdict_from env (load_double x k p) n s = verdict_from env p (Suc (Suc n)) s"
    and "verdict_from env (store_double x k p) n s = verdict_from env p (Suc n) s"
  using assms by (simp_all add: load_double_def store_double_def call_def check_simps)

lemma doubles_items:
  "items_along env (load_double x k p) n h = items_along env p (Suc (Suc n)) h"
  "items_along env (store_double x k p) n h = items_along env p (Suc n) h"
  by (simp_all add: load_double_def store_double_def call_def)

lemma neighbours:
  "map up [0, 1, 2, 3, 4, 5, 6, 7] = [2, 3, 4, 5, 6, 7, 0, 1]"
  "map down [0, 1, 2, 3, 4, 5, 6, 7] = [6, 7, 0, 1, 2, 3, 4, 5]"
  "map left [0, 1, 2, 3, 4, 5, 6, 7] = [1, 0, 3, 2, 5, 4, 7, 6]"
  "map right [0, 1, 2, 3, 4, 5, 6, 7] = [1, 0, 3, 2, 5, 4, 7, 6]"
  by code_simp+

lemmas neighbour_values [simp] = neighbours [simplified]

section \<open>One process\<close>

definition opened :: "(nat \<Rightarrow> ccall \<Rightarrow> resp) \<Rightarrow> bool" where
  "opened env \<longleftrightarrow> (\<forall>i f. out (env i (C_fopen f)) 0 = 1)"

fun open_env :: "int \<Rightarrow> int \<Rightarrow> nat \<Rightarrow> ccall \<Rightarrow> resp" where
  "open_env rank nprocs i (C (Fopen f)) = [1]"
| "open_env rank nprocs i c = std_env rank nprocs i c"

lemma open_world_env: "0 \<le> rank \<Longrightarrow> rank < nprocs \<Longrightarrow> world_env rank nprocs (open_env rank nprocs)"
  by (simp add: world_env_def)

lemma opened_possible: "possible opened"
  unfolding possible_def
proof (intro allI impI)
  fix rank nprocs :: int assume "0 \<le> rank" "rank < nprocs"
  then have "world_env rank nprocs (open_env rank nprocs) \<and> opened (open_env rank nprocs)"
    by (simp add: open_world_env opened_def)
  then show "\<exists>env. world_env rank nprocs env \<and> opened env" by blast
qed

lemma master_clean: "world_env 0 8 env \<Longrightarrow> opened env \<Longrightarrow> verdict 0 8 env medium_Diffusion2D = (Exit 0, [])"
  by (simp add: opened_def doubles_in_bounds mon_simps code_defs)

lemma neighbours_in_range:
  assumes "0 \<le> rank" "rank < 8"
  shows "0 \<le> up rank" "up rank < 8" "0 \<le> down rank" "down rank < 8"
    "0 \<le> left rank" "left rank < 8" "0 \<le> right rank" "right rank < 8"
proof -
  from assms have "rank \<in> {0, 1, 2, 3, 4, 5, 6, 7}" by auto
  then show "0 \<le> up rank" "up rank < 8" "0 \<le> down rank" "down rank < 8"
    "0 \<le> left rank" "left rank < 8" "0 \<le> right rank" "right rank < 8"
    by (elim insertE emptyE; simp)+
qed

lemma slave_clean:
  assumes "world_env rank 8 env" "rank \<noteq> 0"
  shows "verdict rank 8 env medium_Diffusion2D = (Exit 0, [])"
  using neighbours_in_range [OF world_env_rank [OF assms(1)]] assms
  by (simp add: doubles_in_bounds mon_simps code_defs)

definition open_procs :: "nat \<Rightarrow> prog \<Rightarrow> item list list" where
  "open_procs n p = map (\<lambda>i. items (open_env (int i) (int n)) p) [0..<n]"

lemma diffusion_items:
  assumes "world_env rank n env" "opened env" "world_env rank n (open_env rank n)"
  shows "items env medium_Diffusion2D = items (open_env rank n) medium_Diffusion2D"
    "items env (diffusion_main write_frame_1) = items (open_env rank n) (diffusion_main write_frame_1)"
  using assms by (cases "rank = 0"; simp add: opened_def doubles_items item_simps code_defs)+

section \<open>The processes together\<close>

lemma three_processes_starve:
  "starved (open_procs 3 medium_Diffusion2D)
     ((map length (open_procs 3 medium_Diffusion2D))[0 := length (open_procs 3 medium_Diffusion2D ! 0) - 1])"
  by (simp add: open_procs_def upt_rec doubles_items item_simps code_defs; code_simp)

lemma diffusion_starves: "never_finishes_under opened 3 medium_Diffusion2D"
proof (rule starved_underI [OF _ _ three_processes_starve])
  fix i env assume "i < 3" "world_env (int i) (int 3) env" "opened env"
  then show "items env medium_Diffusion2D = open_procs 3 medium_Diffusion2D ! i"
    by (simp add: open_procs_def diffusion_items(1) open_world_env)
qed (simp add: open_procs_def)

text \<open>The order in which process 0 takes the pieces of the picture.\<close>

definition frame_plan :: "(opid \<times> opid) list" where
  "frame_plan = map (\<lambda>k. ((Suc (k div 2), k mod 2), (0, k))) [0..<14]"

lemma diffusion_blocks: "can_deadlock_under opened False 8 medium_Diffusion2D"
proof (rule can_deadlock_underI [where T = "open_procs 8 medium_Diffusion2D" and plan = frame_plan])
  fix i env assume "i < 8" "world_env (int i) (int 8) env" "opened env"
  then show "items env medium_Diffusion2D = open_procs 8 medium_Diffusion2D ! i"
    by (simp add: open_procs_def diffusion_items(1) open_world_env)
next
  show "deadlock_check 200 False frame_plan (open_procs 8 medium_Diffusion2D)"
    by (simp add: open_procs_def upt_rec doubles_items item_simps code_defs; code_simp)
qed (simp add: open_procs_def)

text \<open>The matches of a run in which process 0 takes the pieces in their order.\<close>

definition first_halo_op :: "int \<Rightarrow> nat" where
  "first_halo_op rank = (if rank = 0 then 14 else 2)"

definition ordered_plan :: "(opid \<times> opid) list" where
  "ordered_plan =
     zip [(nat (2 * n + m), j). n \<leftarrow> [0, 1, 2, 3], j \<leftarrow> [0, 1], m \<leftarrow> [0, 1], 2 * n + m \<noteq> 0]
       (map (Pair 0) [0..<14]) @
     [((nat (src r), first_halo_op (src r) + 2 * t), (nat r, first_halo_op r + 2 * t + 1)).
        (t, src) \<leftarrow> [(0, up), (1, down), (2, right), (3, left)], r \<leftarrow> [0, 1, 2, 3, 4, 5, 6, 7]]"

lemma ordered_frames_pass: "no_deadlock_under opened True 8 (diffusion_main write_frame_1)"
proof (rule no_deadlock_underI [where T = "open_procs 8 (diffusion_main write_frame_1)" and fuel = 400 and plan = ordered_plan])
  fix i env assume "i < 8" "world_env (int i) (int 8) env" "opened env"
  then show "items env (diffusion_main write_frame_1) = open_procs 8 (diffusion_main write_frame_1) ! i"
    by (simp add: open_procs_def diffusion_items(2) open_world_env)
next
  show "unambiguous (open_procs 8 (diffusion_main write_frame_1))"
    by (rule named_unambiguous) (simp add: open_procs_def upt_rec doubles_items item_simps code_defs; code_simp)
next
  show "passes_check 400 True ordered_plan (open_procs 8 (diffusion_main write_frame_1))"
    by (simp add: open_procs_def upt_rec doubles_items item_simps code_defs; code_simp)
qed (simp add: open_procs_def)

lemma diffusion_clean: "list_all (\<lambda>rank. runs_under opened rank 8 medium_Diffusion2D (Exit 0, [])) [0, 1, 2, 3, 4, 5, 6, 7]"
  using master_clean slave_clean by (simp add: runs_under_def)

text \<open>
  C14. Run by the eight processes it is written for, no process of \<open>medium-Diffusion2D.c\<close> makes
  an error if the file can be opened; but as all send before they receive, it deadlocks with a
  library that does not buffer. The cause that its header names, a send of process 0, is not
  that of its test: with three processes, process 0 waits for 14 messages of which at most
  seven are sent, and the code never finishes. With \<open>write_frame_1\<close> in place of
  \<open>write_frame_2\<close> a library that buffers cannot deadlock.
\<close>

theorem diffusion_deadlocks:
  "possible opened \<and>
   list_all (\<lambda>rank. runs_under opened rank 8 medium_Diffusion2D (Exit 0, [])) [0, 1, 2, 3, 4, 5, 6, 7] \<and>
   can_deadlock_under opened False 8 medium_Diffusion2D \<and>
   never_finishes_under opened 3 medium_Diffusion2D \<and>
   no_deadlock_under opened True 8 (diffusion_main write_frame_1)"
  by (intro conjI opened_possible diffusion_clean diffusion_blocks diffusion_starves ordered_frames_pass)

abbreviation "ranks \<equiv> [0, 1, 2, 3, 4, 5, 6, 7 :: int]"

section \<open>The values\<close>

text \<open>
  A process holds a field of values; which cells a part of \<open>exchange_ghost_cells()\<close> sends
  and where it puts those it receives. As both messages of a pair of neighbours have tag 0,
  a receive is matched by the order in which they are sent.
\<close>

type_synonym 'v field = "int \<times> int \<Rightarrow> 'v"

record halo =
  h_dst :: "int \<Rightarrow> int"
  h_src :: "int \<Rightarrow> int"
  h_from :: "(int \<times> int) list"
  h_into :: "(int \<times> int) list"

definition halos :: "halo list" where
  "halos =
    [\<lparr>h_dst = down, h_src = up, h_from = [(1, 1), (2, 1)], h_into = [(1, nyl + 1), (2, nyl + 1)]\<rparr>,
     \<lparr>h_dst = up, h_src = down, h_from = [(1, nyl), (2, nyl)], h_into = [(1, 0), (2, 0)]\<rparr>,
     \<lparr>h_dst = left, h_src = right, h_from = [(1, 1), (1, 2)], h_into = [(nxl + 1, 1), (nxl + 1, 2)]\<rparr>,
     \<lparr>h_dst = right, h_src = left, h_from = [(nxl, 1), (nxl, 2)], h_into = [(0, 1), (0, 2)]\<rparr>]"

text \<open>One part for all processes, all parts, and \<open>update()\<close> with its expression \<open>f\<close>.\<close>

definition transfer :: "halo \<Rightarrow> (int \<Rightarrow> 'v field) \<Rightarrow> int \<Rightarrow> 'v field" where
  "transfer h U rank = (\<lambda>c. case map_of (zip (h_into h) (h_from h)) c of
     None \<Rightarrow> U rank c | Some c' \<Rightarrow> U (h_src h rank) c')"

definition exchanged :: "(int \<Rightarrow> 'v field) \<Rightarrow> int \<Rightarrow> 'v field" where
  "exchanged U = fold transfer halos U"

definition updated :: "('v \<Rightarrow> 'v \<Rightarrow> 'v \<Rightarrow> 'v \<Rightarrow> 'v \<Rightarrow> 'v) \<Rightarrow> 'v field \<Rightarrow> 'v field" where
  "updated f u = (\<lambda>(i, j).
     if 1 \<le> i \<and> i \<le> nxl \<and> 1 \<le> j \<and> j \<le> nyl
     then f (u (i, j)) (u (i + 1, j)) (u (i - 1, j)) (u (i, j + 1)) (u (i, j - 1)) else u (i, j))"

definition processes_step ::
  "('v \<Rightarrow> 'v \<Rightarrow> 'v \<Rightarrow> 'v \<Rightarrow> 'v \<Rightarrow> 'v) \<Rightarrow> (int \<Rightarrow> 'v field) \<Rightarrow> int \<Rightarrow> 'v field" where
  "processes_step f U rank = updated f (exchanged U rank)"

text \<open>The specification: one step of the torus of 4 x 8 points.\<close>

definition torus_step :: "('v \<Rightarrow> 'v \<Rightarrow> 'v \<Rightarrow> 'v \<Rightarrow> 'v \<Rightarrow> 'v) \<Rightarrow> 'v field \<Rightarrow> 'v field" where
  "torus_step f g = (\<lambda>(x, y). f (g (x, y)) (g ((x + 1) mod 4, y)) (g ((x - 1) mod 4, y))
     (g (x, (y + 1) mod 8)) (g (x, (y - 1) mod 8)))"

text \<open>The point of the torus that a cell of a process stands for, as in \<open>initdata()\<close>.\<close>

definition point :: "int \<Rightarrow> int \<times> int \<Rightarrow> int \<times> int" where
  "point rank = (\<lambda>(i, j). (nxl * xcoord rank + i - 1, nyl * ycoord rank + j - 1))"

abbreviation "own_cells \<equiv> [(1, 1), (1, 2), (2, 1), (2, 2) :: int \<times> int]"

definition represents :: "(int \<Rightarrow> 'v field) \<Rightarrow> 'v field \<Rightarrow> bool" where
  "represents U g \<longleftrightarrow> list_all (\<lambda>r. list_all (\<lambda>c. U r c = g (point r c)) own_cells) ranks"

text \<open>Each process starts with its own cells and anything in the ghost cells.\<close>

definition distributed :: "(int \<Rightarrow> 'v field) \<Rightarrow> 'v field \<Rightarrow> int \<Rightarrow> 'v field" where
  "distributed junk g rank = (\<lambda>(i, j).
     if 1 \<le> i \<and> i \<le> nxl \<and> 1 \<le> j \<and> j \<le> nyl then g (point rank (i, j)) else junk rank (i, j))"

lemma coordinates:
  "map xcoord ranks = [0, 1, 0, 1, 0, 1, 0, 1]" "map ycoord ranks = [0, 0, 1, 1, 2, 2, 3, 3]"
  by code_simp+

lemmas coordinate_values [simp] = coordinates [simplified]

lemma distributed_represents: "represents (distributed junk g) g"
  by (simp add: represents_def distributed_def)

lemma exchanged_cells:
  assumes "represents U g" and "r \<in> set ranks"
  shows "list_all (\<lambda>c. exchanged U r c = g (case point r c of (x, y) \<Rightarrow> (x mod 4, y mod 8)))
    [(1, 1), (1, 2), (2, 1), (2, 2), (0, 1), (0, 2), (3, 1), (3, 2), (1, 0), (2, 0), (1, 3), (2, 3)]"
  using assms
  by (elim set_ConsD [THEN disjE]; simp add: represents_def exchanged_def halos_def transfer_def point_def)

lemma step_cells:
  assumes "represents U g" and "r \<in> set ranks"
  shows "list_all (\<lambda>c. processes_step f U r c = torus_step f g (point r c)) own_cells"
  using assms(2) exchanged_cells [OF assms]
  by (elim set_ConsD [THEN disjE]; simp add: processes_step_def updated_def torus_step_def point_def)

lemma step_represents: "represents U g \<Longrightarrow> represents (processes_step f U) (torus_step f g)"
  unfolding represents_def [of "processes_step f U"] list_all_iff
  using step_cells [unfolded list_all_iff] by blast

lemma steps_represent: "represents U g \<Longrightarrow> represents ((processes_step f ^^ n) U) ((torus_step f ^^ n) g)"
  by (induction n) (simp_all add: step_represents)

text \<open>
  C12. \<open>medium-Diffusion2D.c\<close> computes the diffusion on the whole torus: however many time
  steps are made, and whatever the floating-point expression of \<open>update()\<close> is, the cells of
  the eight processes hold what the same steps yield on a grid of 4 x 8 points without
  processes, though each process sees its own block and the ghost cells it receives.
\<close>

theorem diffusion_refines_torus:
  "represents ((processes_step f ^^ n) (distributed junk g)) ((torus_step f ^^ n) g)"
  by (rule steps_represent [OF distributed_represents])

section \<open>Messages and the picture\<close>

text \<open>
  Every message sent in a part of the exchange is received in the same part: between two
  processes, the parts in which one sends are those in which the other receives.
\<close>

definition parts_between :: "(halo \<Rightarrow> int) \<Rightarrow> int \<Rightarrow> nat list" where
  "parts_between peer other = map fst (filter (\<lambda>(t, h). peer h = other) (enumerate 0 halos))"

text \<open>The point-to-point calls of a run: to whom it sends, and from whom it receives.\<close>

fun peer :: "ccall \<Rightarrow> (bool \<times> int) list" where
  "peer (P2p (Send m b n d dst t c)) = [(True, dst)]"
| "peer (P2p (Recv b n d (Rank src) t c)) = [(False, src)]"
| "peer c = []"

definition peers :: "int \<Rightarrow> (bool \<times> int) list" where
  "peers rank = concat (map (\<lambda>(c, r). peer c) (fst (run (open_env rank 8) medium_Diffusion2D 0)))"

text \<open>
  \<open>frame_offset\<close> is the position \<open>fseek\<close> goes to for a message; \<open>frame_text\<close> is the text
  written first, as the pieces with their source and row and their length.
\<close>

definition linelen :: int where
  "linelen = nprocsx * nxl * 8 + 1"

definition frame_offset :: "int \<Rightarrow> int \<Rightarrow> int" where
  "frame_offset source tag =
     (let procx = source smod nprocsx; procy = source sdiv nprocsx; row = procy * nyl + tag
      in row * linelen + procx * nxl * 8)"

definition frame_text :: "((int \<times> int) option \<times> int) list" where
  "frame_text = concat (map (\<lambda>n. concat (map (\<lambda>j.
     map (\<lambda>m. (Some (n * nprocsx + m, j - 1), nxl * 8)) (upto_lt 0 nprocsx) @ [(None, 1)]) (upto_lt 1 (nyl + 1)))) (upto_lt 0 nprocsy))"

fun positions :: "int \<Rightarrow> ('a option \<times> int) list \<Rightarrow> ('a \<times> int) list" where
  "positions p [] = []"
| "positions p ((None, l) # xs) = positions (p + l) xs"
| "positions p ((Some a, l) # xs) = (a, p) # positions (p + l) xs"


lemma parts_match:
  "list_all (\<lambda>s. list_all (\<lambda>r. parts_between (\<lambda>h. h_dst h s) r = parts_between (\<lambda>h. h_src h r) s) ranks) ranks"
  by code_simp

lemma peers_halos:
  "list_all (\<lambda>r. peers r = (if r = 0 then [] else [(True, 0), (True, 0)]) @
     concat (map (\<lambda>h. [(True, h_dst h r), (False, h_src h r)]) halos)) ranks"
  by code_simp

lemma frame_places:
  "list_all (\<lambda>((source, tag), p). frame_offset source tag = p) (positions 0 frame_text)"
  "length (filter (\<lambda>((source, tag), p). source \<noteq> 0) (positions 0 frame_text)) = nat (nyl * (nprocsx * nprocsy - 1))"
  by code_simp+

text \<open>
  C13. In \<open>medium-Diffusion2D.c\<close> run by eight processes, each process sends and receives in
  the four parts of the exchange what the model of the values says, after two messages to
  process 0 from every other; the parts in which a process sends to another are those in
  which that one receives from it. Process 0 receives as many messages as the picture has
  pieces of other processes, and \<open>fseek\<close> leads from the source and the tag of a message to the
  blanks that were written for it.
\<close>

theorem diffusion_messages:
  "list_all (\<lambda>r. peers r = (if r = 0 then [] else [(True, 0), (True, 0)]) @
     concat (map (\<lambda>h. [(True, h_dst h r), (False, h_src h r)]) halos)) ranks \<and>
   list_all (\<lambda>s. list_all (\<lambda>r. parts_between (\<lambda>h. h_dst h s) r = parts_between (\<lambda>h. h_src h r) s) ranks) ranks \<and>
   list_all (\<lambda>((source, tag), p). frame_offset source tag = p) (positions 0 frame_text) \<and>
   length (filter (\<lambda>((source, tag), p). source \<noteq> 0) (positions 0 frame_text)) = nat (nyl * (nprocsx * nprocsy - 1))"
  by (intro conjI peers_halos parts_match frame_places)

end
