(* ===== verification/Mismatch.thy ===== *)
theory Mismatch
  imports Polling Codes_P2P
begin

text \<open>
  src/codes/medium-p2p-mismatch.c: process 0 sends 16 messages to process 1 in each of 512
  rounds, in all modes, by transient and by persistent requests, and both complete them in
  eight ways. Whether a process makes an error depends on what MPI answers in three of them,
  so that the claim assumes that MPI reports requests that are active; it is proved by
  triples over the monitor of \<open>Local\<close>, with an abstract state for each of the 16 requests.
\<close>

section \<open>The program\<close>

abbreviation (input) num_send_types :: int where "num_send_types \<equiv> 8"
abbreviation (input) num_persistent_send_types :: int where "num_persistent_send_types \<equiv> 4"
abbreviation (input) num_bsend_types :: int where "num_bsend_types \<equiv> 2"

abbreviation (input) "aReq \<equiv> Ref ''aReq''"
abbreviation (input) "mbuf \<equiv> Ref ''buf''"

text \<open>The two sends of a type, by requests of their own or by persistent ones.\<close>

definition isend_pair :: "smode \<Rightarrow> int \<Rightarrow> stmt list" where
  "isend_pair mode t =
    [call (P2p (Isend mode (mbuf (t * 2 * buf_size)) buf_size MPI_INT 1 (t * 2) W (aReq (t * 2)))),
     call (P2p (Isend mode (mbuf ((t * 2 + 1) * buf_size)) buf_size MPI_INT 1 (t * 2 + 1) W (aReq (t * 2 + 1))))]"

definition send_init_pair :: "smode \<Rightarrow> int \<Rightarrow> stmt list" where
  "send_init_pair mode t =
    [call (P2p (Send_init mode (mbuf (t * 2 * buf_size)) buf_size MPI_INT 1 (t * 2) W (aReq (t * 2)))),
     call (P2p (Send_init mode (mbuf ((t * 2 + 1) * buf_size)) buf_size MPI_INT 1 (t * 2 + 1) W (aReq (t * 2 + 1))))]"

definition send_inits :: "stmt list" where
  "send_inits = send_init_pair Standard 4 @ send_init_pair Buffered 5 @ send_init_pair Ready 6 @ send_init_pair Synchronous 7"

text \<open>The loops \<open>for (j = 0; j < 16; j += 2)\<close> of process 1.\<close>

definition irecv_pairs :: stmt where
  "irecv_pairs = for_c (map ((*) 2) (upto_lt 0 num_send_types)) (\<lambda>j.
    [call (MPI_Irecv (mbuf (j * buf_size)) buf_size MPI_INT (Rank 0) (Tag j) W (aReq j)),
     call (MPI_Irecv (mbuf ((j + 1) * buf_size)) (buf_size * 4) MPI_BYTE (Rank 0) (Tag (j + 1)) W (aReq (j + 1)))])"

definition recv_init_pairs :: stmt where
  "recv_init_pairs = for_c (map ((*) 2) (upto_lt 0 num_send_types)) (\<lambda>j.
    [call (MPI_Recv_init (mbuf (j * buf_size)) buf_size MPI_INT (Rank 0) (Tag j) W (aReq j)),
     call (MPI_Recv_init (mbuf ((j + 1) * buf_size)) (buf_size * 4) MPI_BYTE (Rank 0) (Tag (j + 1)) W (aReq (j + 1)))])"

text \<open>
  \<open>poll_count\<close> is \<open>while (!outcount) MPI_Testsome(...)\<close>, \<open>until_total\<close> the loop around
  it or around \<open>MPI_Waitsome\<close>. \<open>complete_all\<close> is the switch with its eight cases.
\<close>

definition poll_count :: "nat \<Rightarrow> ccall \<Rightarrow> (int \<Rightarrow> prog) \<Rightarrow> prog" where
  "poll_count fuel c k = while_c fuel (\<lambda>outcount. outcount = (0::int)) (\<lambda>_ k'. Call c (\<lambda>r. k' (out r 0))) 0 k"

definition until_total :: "nat \<Rightarrow> ((int \<Rightarrow> prog) \<Rightarrow> prog) \<Rightarrow> stmt" where
  "until_total fuel some_done k =
     while_c fuel (\<lambda>total. total < num_send_types * 2)
       (\<lambda>total k'. some_done (\<lambda>outcount. k' (total + outcount))) 0 (\<lambda>_. k)"

definition complete_all :: "nat \<Rightarrow> int \<Rightarrow> stmt list" where
  "complete_all fuel how =
    (let n = num_send_types * 2 in
     if how = 0 then [for_c (upto_lt 0 n) (\<lambda>j. [call (MPI_Wait (aReq j))])]
     else if how = 1 then [call (MPI_Waitall n (aReq 0))]
     else if how = 2 then [for_c (upto_lt 0 n) (\<lambda>j. [call (MPI_Waitany n (aReq 0))])]
     else if how = 3 then [until_total fuel (\<lambda>k. Call (MPI_Waitsome n (aReq 0)) (\<lambda>r. k (out r 0)))]
     else if how = 4 then [for_c (upto_lt 0 n) (\<lambda>j. [poll fuel (MPI_Test (aReq j))])]
     else if how = 5 then [poll fuel (MPI_Testall n (aReq 0))]
     else if how = 6 then [for_c (upto_lt 0 n) (\<lambda>j. [poll fuel (MPI_Testany n (aReq 0))])]
     else if how = 7 then [until_total fuel (poll_count fuel (MPI_Testsome n (aReq 0)))]
     else [assert_c False])"

text \<open>One round, for the loop variables \<open>m\<close>, \<open>l\<close> and \<open>k\<close>.\<close>

definition prepare_buffers :: "int \<Rightarrow> stmt" where
  "prepare_buffers rank =
    if_else (rank = 0)
     [for_c (upto_lt 0 num_send_types) (\<lambda>j. [for_c (upto_lt 0 buf_size) (\<lambda>i.
       [call (C_store (mbuf (2 * j * buf_size + i)) i),
        call (C_store (mbuf ((2 * j + 1) * buf_size + i)) (buf_size - 1 - i))])])]
     [if_c (rank = 1) [call (C_memset (mbuf 0) 0 (4 * buf_size * 2 * num_send_types))]]"

definition send_posts :: "int \<Rightarrow> stmt list" where
  "send_posts k =
    (let send_t_number = num_send_types - num_persistent_send_types in
     isend_pair Standard 0 @ isend_pair Buffered 1 @ [call (MPI_Barrier W)] @
     isend_pair Ready 2 @ isend_pair Synchronous 3 @
     [assert_c (4 = send_t_number),
      if_else (k smod 2 \<noteq> 0)
       [call (MPI_Startall (num_persistent_send_types * 2) (aReq (2 * send_t_number)))]
       [for_c (upto_lt 0 (num_persistent_send_types * 2)) (\<lambda>j. [call (MPI_Start (aReq (2 * send_t_number + j)))])]])"

definition send_round :: "nat \<Rightarrow> int \<Rightarrow> stmt list" where
  "send_round fuel k = send_posts k @ complete_all fuel (k sdiv 2)"

definition receive_posts :: "int \<Rightarrow> int \<Rightarrow> stmt list" where
  "receive_posts m l =
    [if_else (m = 0) [irecv_pairs]
     [if_else (l smod 2 \<noteq> 0)
       [call (MPI_Startall (num_send_types * 2) (aReq 0))]
       [for_c (upto_lt 0 (num_send_types * 2)) (\<lambda>j. [call (MPI_Start (aReq j))])]],
     call (MPI_Barrier W)]"

definition receive_round :: "nat \<Rightarrow> int \<Rightarrow> int \<Rightarrow> stmt list" where
  "receive_round fuel m l = receive_posts m l @ complete_all fuel (l sdiv 2)"

definition mismatch_round :: "nat \<Rightarrow> int \<Rightarrow> int \<Rightarrow> int \<Rightarrow> int \<Rightarrow> stmt list" where
  "mismatch_round fuel rank m l k =
    [prepare_buffers rank,
     call (MPI_Barrier W),
     if_else (rank = 0) (send_round fuel k)
      [if_else (rank = 1) (receive_round fuel m l) [call (MPI_Barrier W)]]]"

text \<open>
  \<open>overhead\<close> is \<open>MPI_BSEND_OVERHEAD\<close>; the response of \<open>MPI_Buffer_detach\<close> is \<open>at_size\<close>.
\<close>

definition bbuf_elements :: "nat \<Rightarrow> int" where
  "bbuf_elements overhead = (buf_size + int overhead) * 2 * num_bsend_types"

definition mismatch_objects :: "nat \<Rightarrow> (string \<times> int) list" where
  "mismatch_objects overhead =
     [(''bbuf'', bbuf_elements overhead), (''buf'', buf_size * 2 * num_send_types),
      (''i'', 1), (''j'', 1), (''k'', 1), (''l'', 1), (''m'', 1), (''at_size'', 1), (''send_t_number'', 1),
      (''index'', 1), (''outcount'', 1), (''total'', 1), (''flag'', 1), (''num_errors'', 1), (''error_count'', 1),
      (''indices'', 2 * num_send_types)]"

definition medium_p2p_mismatch :: "nat \<Rightarrow> nat \<Rightarrow> prog" where
  "medium_p2p_mismatch overhead fuel =
    mbi_main (mismatch_objects overhead) (\<lambda>rank nprocs.
    [if_c (nprocs < 2)
      [call (C_printf ''! This test requires at least 2 processes !''), call MPI_Finalize, return_c 0],
     call (MPI_Buffer_attach (Ref ''bbuf'' 0) (4 * bbuf_elements overhead)),
     if_c (rank = 0) send_inits,
     for_c (upto_lt 0 2) (\<lambda>m.
      [if_c (m = 1 \<and> rank = 1) [recv_init_pairs],
       for_c (upto_lt 0 16) (\<lambda>l. [for_c (upto_lt 0 16) (mismatch_round fuel rank m l)])]),
     call (MPI_Barrier W),
     if_else (rank = 0)
      [for_c (upto_lt (2 * (num_send_types - num_persistent_send_types)) (2 * num_send_types)) (\<lambda>i. [call (MPI_Request_free (aReq i))])]
      [if_c (rank = 1) [for_c (upto_lt 0 (2 * num_send_types)) (\<lambda>i. [call (MPI_Request_free (aReq i))])]],
     call_then (MPI_Buffer_detach (Ref ''bbuf'' 0) (Ref ''at_size'' 0)) (\<lambda>at_size.
      [assert_c (out at_size 0 = 4 * bbuf_elements overhead)])] @ mbi_end)"

section \<open>Truthful answers\<close>

text \<open>
  What MPI answers to calls that report requests, by the monitor's state: \<open>MPI_Waitany\<close> and
  a successful \<open>MPI_Testany\<close> name an active request, \<open>MPI_Waitsome\<close> and a successful
  \<open>MPI_Testsome\<close> list one or more, without repetitions, as long as there are any.
\<close>

definition is_active :: "lstate \<Rightarrow> ptr \<Rightarrow> bool" where
  "is_active s p \<longleftrightarrow> (case aget (rvar s) p of Some (Some h) \<Rightarrow> active (rtab s ! h) | _ \<Rightarrow> False)"

definition active_indices :: "lstate \<Rightarrow> int \<Rightarrow> ptr \<Rightarrow> int list" where
  "active_indices s n p = filter (\<lambda>i. is_active s (padd p i)) (upto_lt 0 n)"

definition names_one :: "int list \<Rightarrow> int \<Rightarrow> bool" where
  "names_one as i \<longleftrightarrow> as = [] \<or> i \<in> set as"

definition lists_some :: "int list \<Rightarrow> resp \<Rightarrow> bool" where
  "lists_some as r \<longleftrightarrow> as = [] \<or> (\<exists>is. r = int (length is) # is \<and> is \<noteq> [] \<and> distinct is \<and> set is \<subseteq> set as)"

fun truthful_call :: "lstate \<Rightarrow> ccall \<Rightarrow> resp \<Rightarrow> bool" where
  "truthful_call s (Rq (Waitany n p)) r = names_one (active_indices s n p) (out r 0)"
| "truthful_call s (Rq (Waitsome n p)) r = lists_some (active_indices s n p) r"
| "truthful_call s (Rq (Testany n p)) r = (out r 0 = 0 \<or> names_one (active_indices s n p) (out r 1))"
| "truthful_call s (Rq (Testsome n p)) r = (out r 0 = 0 \<or> lists_some (active_indices s n p) r)"
| "truthful_call s c r = True"

primrec truthful_from :: "(nat \<Rightarrow> ccall \<Rightarrow> resp) \<Rightarrow> prog \<Rightarrow> nat \<Rightarrow> lstate \<Rightarrow> bool" where
  "truthful_from env (Ret n) i s = True"
| "truthful_from env Assert_failed i s = True"
| "truthful_from env No_fuel i s = True"
| "truthful_from env Undefined i s = True"
| "truthful_from env (Call c k) i s =
     (truthful_call s c (env i c) \<and> truthful_from env (k (env i c)) (Suc i) (lstep (c, env i c) s))"

definition truthful :: "prog \<Rightarrow> (nat \<Rightarrow> ccall \<Rightarrow> resp) \<Rightarrow> bool" where
  "truthful p env \<longleftrightarrow> (\<forall>rank nprocs. world_env rank nprocs env \<longrightarrow> truthful_from env p 0 (lstart rank nprocs))"

definition returns_buffer :: "int \<Rightarrow> (nat \<Rightarrow> ccall \<Rightarrow> resp) \<Rightarrow> bool" where
  "returns_buffer n env \<longleftrightarrow> (\<forall>i p q. out (env i (MPI_Buffer_detach p q)) 0 = n)"

section \<open>Triples\<close>

text \<open>
  From a state that satisfies \<open>P\<close> a statement goes on with what comes after it, in a state
  that satisfies \<open>Q\<close>, if the answers are truthful and MPI makes progress.
\<close>

definition triple :: "nat \<Rightarrow> (lstate \<Rightarrow> bool) \<Rightarrow> stmt \<Rightarrow> (lstate \<Rightarrow> bool) \<Rightarrow> bool" where
  "triple fuel P st Q \<longleftrightarrow>
     (\<forall>env k i s. progress fuel env \<longrightarrow> P s \<longrightarrow> truthful_from env (st k) i s \<longrightarrow>
        (\<exists>i' s'. Q s' \<and> truthful_from env k i' s' \<and> verdict_from env (st k) i s = verdict_from env k i' s'))"

lemma tripleI:
  "(\<And>env k i s. progress fuel env \<Longrightarrow> P s \<Longrightarrow> truthful_from env (st k) i s \<Longrightarrow>
      \<exists>i' s'. Q s' \<and> truthful_from env k i' s' \<and> verdict_from env (st k) i s = verdict_from env k i' s') \<Longrightarrow>
   triple fuel P st Q"
  by (simp add: triple_def)

lemma tripleD:
  assumes "triple fuel P st Q" "progress fuel env" "P s" "truthful_from env (st k) i s"
  obtains i' s' where "Q s'" "truthful_from env k i' s'" "verdict_from env (st k) i s = verdict_from env k i' s'"
  using assms unfolding triple_def by blast

lemma triple_conseq:
  "triple fuel P' st Q' \<Longrightarrow> (\<And>s. P s \<Longrightarrow> P' s) \<Longrightarrow> (\<And>s. Q' s \<Longrightarrow> Q s) \<Longrightarrow> triple fuel P st Q"
  unfolding triple_def by blast

lemma triple_nil: "(\<And>s. P s \<Longrightarrow> Q s) \<Longrightarrow> triple fuel P (seq []) Q"
  unfolding triple_def by auto

lemma triple_skip [simp]: "triple fuel P (\<lambda>k. k) P"
  unfolding triple_def by auto

lemma triple_cons:
  assumes "triple fuel P st R" and "triple fuel R (seq ss) Q"
  shows "triple fuel P (seq (st # ss)) Q"
proof (rule tripleI)
  fix env k i s assume "progress fuel env" "P s" "truthful_from env (seq (st # ss) k) i s"
  with assms(1) obtain i' s' where "R s'" "truthful_from env (seq ss k) i' s'"
    "verdict_from env (st (seq ss k)) i s = verdict_from env (seq ss k) i' s'"
    by (elim tripleD [where k = "seq ss k"]) auto
  with assms(2) \<open>progress fuel env\<close> show "\<exists>i' s'. Q s' \<and> truthful_from env k i' s' \<and>
      verdict_from env (seq (st # ss) k) i s = verdict_from env k i' s'"
    by (elim tripleD [where st = "seq ss"]) auto
qed

lemma seq_append: "seq (ss @ ts) k = seq ss (seq ts k)"
  by (induction ss) auto

lemma triple_append:
  assumes "triple fuel P (seq ss) R" and "triple fuel R (seq ts) Q"
  shows "triple fuel P (seq (ss @ ts)) Q"
  using triple_cons [of fuel P "seq ss" R "[seq ts]" Q] assms
  by (simp add: triple_def seq_append)

lemma triple_single: "triple fuel P st Q \<Longrightarrow> triple fuel P (seq [st]) Q"
  unfolding triple_def by auto

lemma triple_call:
  "(\<And>s r. P s \<Longrightarrow> truthful_call s c r \<Longrightarrow> Q (lstep (c, r) s)) \<Longrightarrow> triple fuel P (call c) Q"
  unfolding triple_def call_def by fastforce

lemma triple_if_else:
  "(b \<Longrightarrow> triple fuel P (seq ss) Q) \<Longrightarrow> (\<not> b \<Longrightarrow> triple fuel P (seq ts) Q) \<Longrightarrow>
     triple fuel P (if_else b ss ts) Q"
  unfolding triple_def if_else_def by (cases b) auto

lemma triple_if:
  "(b \<Longrightarrow> triple fuel P (seq ss) Q) \<Longrightarrow> (\<And>s. \<not> b \<Longrightarrow> P s \<Longrightarrow> Q s) \<Longrightarrow> triple fuel P (if_c b ss) Q"
  unfolding triple_def if_c_def by (cases b) auto

lemma triple_assert: "b \<Longrightarrow> triple fuel P (assert_c b) P"
  unfolding triple_def assert_c_def by auto

lemma for_c_nil: "for_c [] body = seq []"
  by (simp add: for_c_def fun_eq_iff)

lemma for_c_cons: "for_c (i # is) body = seq [seq (body i), for_c is body]"
  by (simp add: for_c_def fun_eq_iff)

lemma triple_for_each:
  assumes "\<And>i. i \<in> set is \<Longrightarrow> triple fuel P (seq (body i)) P"
  shows "triple fuel P (for_c is body) P"
  using assms
proof (induction "is")
  case (Cons i "is")
  then show ?case
    unfolding for_c_cons by (intro triple_cons [where R = P] triple_nil) auto
qed (simp add: for_c_nil triple_nil)

lemma triple_for:
  assumes "\<And>j. lo \<le> j \<Longrightarrow> j < hi \<Longrightarrow> triple fuel (I j) (seq (body j)) (I (j + 1))" and "lo \<le> hi"
  shows "triple fuel (I lo) (for_c (upto_lt lo hi) body) (I hi)"
  using assms
proof (induction "nat (hi - lo)" arbitrary: lo)
  case 0
  then show ?case by (simp add: upto_lt_def for_c_def)
next
  case (Suc n)
  then have "upto_lt lo hi = lo # upto_lt (lo + 1) hi" by (simp add: upto_lt_def upto.simps [of lo])
  moreover have "triple fuel (I (lo + 1)) (for_c (upto_lt (lo + 1) hi) body) (I hi)"
    using Suc by simp
  ultimately show ?case
    using Suc.prems Suc.hyps(2)
    by (simp add: for_c_cons del: seq.simps) (rule triple_cons [where R = "I (lo + 1)"]; simp add: triple_single del: seq.simps)
qed

text \<open>The same for what hands a value to the rest, and the loops that ask for one.\<close>

definition triple_val :: "nat \<Rightarrow> (lstate \<Rightarrow> bool) \<Rightarrow> ((int \<Rightarrow> prog) \<Rightarrow> prog) \<Rightarrow> (int \<Rightarrow> lstate \<Rightarrow> bool) \<Rightarrow> bool" where
  "triple_val fuel P st Q \<longleftrightarrow>
     (\<forall>env k i s. progress fuel env \<longrightarrow> P s \<longrightarrow> truthful_from env (st k) i s \<longrightarrow>
        (\<exists>i' s' v. Q v s' \<and> truthful_from env (k v) i' s' \<and>
           verdict_from env (st k) i s = verdict_from env (k v) i' s'))"

lemma triple_val_call:
  "(\<And>s r. P s \<Longrightarrow> truthful_call s c r \<Longrightarrow> Q (out r 0) (lstep (c, r) s)) \<Longrightarrow>
     triple_val fuel P (\<lambda>k. Call c (\<lambda>r. k (out r 0))) Q"
  unfolding triple_val_def by fastforce

lemma asked_until:
  assumes "\<exists>j<n. out (env (i + j) c) 0 \<noteq> 0" and "P s"
    and "truthful_from env (while_c n (\<lambda>v. v = 0) (\<lambda>_ k'. Call c (\<lambda>r. k' (out r 0))) 0 k) i s"
    and no: "\<And>s r. P s \<Longrightarrow> truthful_call s c r \<Longrightarrow> out r 0 = 0 \<Longrightarrow> P (lstep (c, r) s)"
    and yes: "\<And>s r. P s \<Longrightarrow> truthful_call s c r \<Longrightarrow> out r 0 \<noteq> 0 \<Longrightarrow> Q (out r 0) (lstep (c, r) s)"
  shows "\<exists>i' s' v. Q v s' \<and> truthful_from env (k v) i' s' \<and>
    verdict_from env (while_c n (\<lambda>v. v = 0) (\<lambda>_ k'. Call c (\<lambda>r. k' (out r 0))) 0 k) i s = verdict_from env (k v) i' s'"
  using assms(1-3)
proof (induction n arbitrary: i s)
  case (Suc n)
  from Suc.prems(3) have t: "truthful_call s c (env i c)" by (simp add: while_c.simps)
  show ?case
  proof (cases "out (env i c) 0 = 0")
    case True
    then have "\<exists>j<n. out (env (Suc i + j) c) 0 \<noteq> 0"
      using Suc.prems(1) by (metis add_Suc_right add_Suc_shift less_Suc_eq_0_disj add_0_right)
    from Suc.IH [OF this no [OF Suc.prems(2) t True]] Suc.prems(3) True show ?thesis
      by (simp add: while_c.simps [of "Suc n"])
  next
    case False
    have "Q (out (env i c) 0) (lstep (c, env i c) s)" using yes Suc.prems(2) t False by blast
    moreover have "while_c n (\<lambda>v. v = 0) (\<lambda>_ k'. Call c (\<lambda>r. k' (out r 0))) (out (env i c) 0) k = k (out (env i c) 0)"
      using False by (simp add: while_c.simps)
    ultimately show ?thesis
      using Suc.prems(3) by (auto simp: while_c.simps [of "Suc n"])
  qed
qed simp

lemma triple_poll_count:
  assumes "is_test c"
    and "\<And>s r. P s \<Longrightarrow> truthful_call s c r \<Longrightarrow> out r 0 = 0 \<Longrightarrow> P (lstep (c, r) s)"
    and "\<And>s r. P s \<Longrightarrow> truthful_call s c r \<Longrightarrow> out r 0 \<noteq> 0 \<Longrightarrow> Q (out r 0) (lstep (c, r) s)"
  shows "triple_val fuel P (poll_count fuel c) Q"
  unfolding triple_val_def poll_count_def
proof (intro allI impI)
  fix env k i s
  assume "progress fuel env" and P: "P s"
    and t: "truthful_from env (while_c fuel (\<lambda>outcount. outcount = 0) (\<lambda>_ k'. Call c (\<lambda>r. k' (out r 0))) 0 k) i s"
  then have "\<exists>j<fuel. out (env (i + j) c) 0 \<noteq> 0" using assms(1) by (simp add: progress_def)
  from asked_until [where P = P and Q = Q, OF this P t assms(2,3)]
  show "\<exists>i' s' v. Q v s' \<and> truthful_from env (k v) i' s' \<and>
      verdict_from env (while_c fuel (\<lambda>outcount. outcount = 0) (\<lambda>_ k'. Call c (\<lambda>r. k' (out r 0))) 0 k) i s =
      verdict_from env (k v) i' s'" .
qed

lemma triple_poll:
  assumes "is_test c"
    and "\<And>s r. P s \<Longrightarrow> truthful_call s c r \<Longrightarrow> out r 0 = 0 \<Longrightarrow> P (lstep (c, r) s)"
    and "\<And>s r. P s \<Longrightarrow> truthful_call s c r \<Longrightarrow> out r 0 \<noteq> 0 \<Longrightarrow> Q (lstep (c, r) s)"
  shows "triple fuel P (poll fuel c) Q"
proof -
  have eq: "poll fuel c k = poll_count fuel c (\<lambda>_. k)" for k
    by (simp add: poll_def poll_count_def)
  have "triple_val fuel P (poll_count fuel c) (\<lambda>_. Q)"
    using assms by (rule triple_poll_count)
  then show ?thesis
    unfolding triple_def triple_val_def eq by metis
qed

text \<open>A loop that counts requests up to 16, each iteration at least one.\<close>

lemma triple_until_total:
  assumes step: "\<And>t. 0 \<le> t \<Longrightarrow> t < 16 \<Longrightarrow> triple_val fuel (I t) some_done (\<lambda>v s. 0 < v \<and> I (t + v) s)"
    and "16 \<le> fuel" and post: "\<And>t s. 16 \<le> t \<Longrightarrow> I t s \<Longrightarrow> Q s"
  shows "triple fuel (I 0) (until_total fuel some_done) Q"
proof (rule tripleI)
  fix env k i s
  let ?loop = "\<lambda>n t. while_c n (\<lambda>total. total < num_send_types * 2)
       (\<lambda>total k'. some_done (\<lambda>outcount. k' (total + outcount))) t (\<lambda>_. k)"
  assume pr: "progress fuel env"
  have "\<exists>i' s'. Q s' \<and> truthful_from env k i' s' \<and> verdict_from env (?loop n t) i s = verdict_from env k i' s'"
    if "nat (16 - t) \<le> n" "0 \<le> t" "I t s" "truthful_from env (?loop n t) i s" for n t i s
    using that
  proof (induction n arbitrary: t i s)
    case 0
    then show ?case using post [of t s] by (auto simp: while_c.simps)
  next
    case (Suc n)
    show ?case
    proof (cases "t < 16")
      case True
      then have eq: "?loop (Suc n) t = some_done (\<lambda>outcount. ?loop n (t + outcount))"
        by (simp add: while_c.simps [of "Suc n"])
      from step [OF Suc.prems(2) True] pr Suc.prems(3,4) obtain i' s' v
        where v: "0 < v" "I (t + v) s'" "truthful_from env (?loop n (t + v)) i' s'"
          "verdict_from env (?loop (Suc n) t) i s = verdict_from env (?loop n (t + v)) i' s'"
        unfolding triple_val_def eq by blast
      have "nat (16 - (t + v)) \<le> n" "0 \<le> t + v" using Suc.prems v(1) by auto
      from Suc.IH [OF this v(2,3)] v(4) show ?thesis by simp
    next
      case False
      then show ?thesis using post [of t s] Suc.prems by (auto simp: while_c.simps [of "Suc n"])
    qed
  qed
  from this [of 0 fuel] show "I 0 s \<Longrightarrow> truthful_from env (until_total fuel some_done k) i s \<Longrightarrow>
      \<exists>i' s'. Q s' \<and> truthful_from env k i' s' \<and>
        verdict_from env (until_total fuel some_done k) i s = verdict_from env k i' s'"
    using assms(2) by (simp add: until_total_def)
qed

section \<open>The requests\<close>

text \<open>
  The state of a request variable: without a value, null, or with the request of its piece
  of \<open>buf\<close>, which is transient and active (\<open>Posted\<close>) or persistent. \<open>w\<close> tells
  receives from sends.
\<close>

datatype slot = Unset | Null | Posted | Idle | Started

definition slot_request :: "bool \<Rightarrow> int \<Rightarrow> slot \<Rightarrow> request" where
  "slot_request w i x = \<lparr>writes = w, mem = Some (''buf'', 512 * i, 512 * i + 512),
     active = (x = Posted \<or> x = Started), persistent = (x = Idle \<or> x = Started), live = True\<rparr>"

definition in_slot :: "bool \<Rightarrow> lstate \<Rightarrow> int \<Rightarrow> slot \<Rightarrow> bool" where
  "in_slot w s i x \<longleftrightarrow>
     (case x of Unset \<Rightarrow> aget (rvar s) (aReq i) = None
      | Null \<Rightarrow> aget (rvar s) (aReq i) = Some None
      | _ \<Rightarrow> (\<exists>h. aget (rvar s) (aReq i) = Some (Some h) \<and> h < length (rtab s) \<and> rtab s ! h = slot_request w i x))"

text \<open>No error so far, nothing but requests in use, and every request that lives in a slot.\<close>

definition tidy :: "int \<Rightarrow> lstate \<Rightarrow> bool" where
  "tidy nprocs s \<longleftrightarrow> errs s = [] \<and> phase s = Running \<and> np s = nprocs \<and> 2 \<le> nprocs \<and>
     aget (objs s) ''buf'' = Some 2048 \<and> aget (objs s) ''at_size'' = Some 1 \<and>
     wvar s = [] \<and> ttab s = [] \<and> cvar s = [] \<and> otab s = [] \<and> gtab s = []"

definition owned :: "(int \<Rightarrow> slot) \<Rightarrow> lstate \<Rightarrow> bool" where
  "owned f s \<longleftrightarrow> (\<forall>h<length (rtab s). (active (rtab s ! h) \<longrightarrow> live (rtab s ! h)) \<and>
     (live (rtab s ! h) \<longrightarrow> (\<exists>i. 0 \<le> i \<and> i < 16 \<and> aget (rvar s) (aReq i) = Some (Some h) \<and> f i \<noteq> Unset \<and> f i \<noteq> Null)))"

lemma ownedI:
  "(\<And>h. h < length (rtab s) \<Longrightarrow> active (rtab s ! h) \<Longrightarrow> live (rtab s ! h)) \<Longrightarrow>
   (\<And>h. h < length (rtab s) \<Longrightarrow> live (rtab s ! h) \<Longrightarrow>
      \<exists>i. 0 \<le> i \<and> i < 16 \<and> aget (rvar s) (aReq i) = Some (Some h) \<and> f i \<noteq> Unset \<and> f i \<noteq> Null) \<Longrightarrow> owned f s"
  by (simp add: owned_def)

definition slots :: "int \<Rightarrow> bool \<Rightarrow> (int \<Rightarrow> slot) \<Rightarrow> lstate \<Rightarrow> bool" where
  "slots nprocs w f s \<longleftrightarrow> tidy nprocs s \<and> owned f s \<and> (\<forall>i. 0 \<le> i \<longrightarrow> i < 16 \<longrightarrow> in_slot w s i (f i))"

lemma slots_cong:
  assumes "\<And>i. 0 \<le> i \<Longrightarrow> i < 16 \<Longrightarrow> f i = g i" and "slots nprocs w f s"
  shows "slots nprocs w g s"
  using assms unfolding slots_def owned_def by metis

abbreviation "busy x \<equiv> x = Posted \<or> x = Started"

lemma in_slot_bound:
  assumes "in_slot w s i x" "x \<noteq> Unset" "x \<noteq> Null"
  obtains h where "aget (rvar s) (aReq i) = Some (Some h)" "h < length (rtab s)" "rtab s ! h = slot_request w i x"
  using assms by (cases x) (auto simp: in_slot_def)

text \<open>Every request that lives is that of a slot, and the active ones are those of busy slots.\<close>

lemma live_request:
  assumes "slots nprocs w f s" "h < length (rtab s)" "live (rtab s ! h)"
  obtains i where "0 \<le> i" "i < 16" "aget (rvar s) (aReq i) = Some (Some h)" "rtab s ! h = slot_request w i (f i)"
    "f i \<noteq> Unset" "f i \<noteq> Null"
proof -
  from assms obtain i where i: "0 \<le> i" "i < 16" "aget (rvar s) (aReq i) = Some (Some h)" "f i \<noteq> Unset" "f i \<noteq> Null"
    unfolding slots_def owned_def by blast
  moreover from this assms(1) have "in_slot w s i (f i)" by (simp add: slots_def)
  ultimately show ?thesis using that by (cases "f i") (auto simp: in_slot_def)
qed

lemma active_mem:
  assumes "slots nprocs w f s" "q \<in> set (rtab s)" "active q"
  shows "\<exists>i. 0 \<le> i \<and> i < 16 \<and> busy (f i) \<and> mem q = Some (''buf'', 512 * i, 512 * i + 512)"
proof -
  from assms(2) obtain h where h: "h < length (rtab s)" "q = rtab s ! h" by (metis in_set_conv_nth)
  with assms have "live q" by (auto simp: slots_def owned_def)
  with live_request [OF assms(1) h(1)] h(2) obtain i
    where "0 \<le> i" "i < 16" "q = slot_request w i (f i)" by metis
  with assms(3) show ?thesis by (auto simp: slot_request_def)
qed

lemma no_conflict:
  assumes "slots nprocs w f s" and "\<And>i. 0 \<le> i \<Longrightarrow> i < 16 \<Longrightarrow> busy (f i) \<Longrightarrow> \<not> overlap (Some (''buf'', 512 * i, 512 * i + 512)) r"
  shows "\<not> conflicts s w' r"
proof -
  have "wvar s = []" using assms(1) by (simp add: slots_def tidy_def)
  with active_mem [OF assms(1)] assms(2) show ?thesis
    by (fastforce simp: conflicts_def list_ex_iff)
qed

lemma idle_no_conflict:
  assumes "slots nprocs w f s" and "\<And>i. 0 \<le> i \<Longrightarrow> i < 16 \<Longrightarrow> \<not> busy (f i)"
  shows "\<not> conflicts s w' r"
  using no_conflict [OF assms(1)] assms(2) by blast

lemma piece_no_conflict:
  assumes "slots nprocs w f s" and "\<not> busy (f j)"
  shows "\<not> conflicts s w' (Some (''buf'', 512 * j, 512 * j + 512))"
proof (rule no_conflict [OF assms(1)])
  fix i assume "busy (f i)"
  with assms(2) have "i \<noteq> j" by auto
  then show "\<not> overlap (Some (''buf'', 512 * i, 512 * i + 512)) (Some (''buf'', 512 * j, 512 * j + 512))"
    by auto
qed

section \<open>What the calls do to the slots\<close>

fun finish :: "slot \<Rightarrow> slot" where
  "finish Posted = Null"
| "finish Started = Idle"
| "finish x = x"

lemma slots_at: "slots nprocs w f s \<Longrightarrow> 0 \<le> j \<Longrightarrow> j < 16 \<Longrightarrow> in_slot w s j (f j)"
  by (simp add: slots_def)

lemma slots_new:
  assumes s: "slots nprocs w f s" and j: "0 \<le> j" "j < 16" "f j = Unset \<or> f j = Null" and x: "x = Posted \<or> x = Idle"
  shows "slots nprocs w (f(j := x)) (new_request (aReq j) (slot_request w j x) s)"
proof -
  have "aget (rvar s) (aReq j) = None \<or> aget (rvar s) (aReq j) = Some None"
    using slots_at [OF s j(1,2)] j(3) by (auto simp: in_slot_def)
  then have new: "new_request (aReq j) (slot_request w j x) s =
      s\<lparr>rvar := aput (rvar s) (aReq j) (Some (length (rtab s))), rtab := rtab s @ [slot_request w j x]\<rparr>" (is "_ = ?s")
    by (auto simp: new_request_def)
  have "in_slot w ?s i ((f(j := x)) i)" if "0 \<le> i" "i < 16" for i
    using slots_at [OF s that] x by (cases "i = j") (auto simp: in_slot_def nth_append split: slot.splits)
  moreover have "owned (f(j := x)) ?s"
    unfolding owned_def
  proof (intro allI impI)
    fix h assume h: "h < length (rtab ?s)"
    show "(active (rtab ?s ! h) \<longrightarrow> live (rtab ?s ! h)) \<and> (live (rtab ?s ! h) \<longrightarrow>
      (\<exists>i. 0 \<le> i \<and> i < 16 \<and> aget (rvar ?s) (aReq i) = Some (Some h) \<and> (f(j := x)) i \<noteq> Unset \<and> (f(j := x)) i \<noteq> Null))"
    proof (cases "h = length (rtab s)")
      case True
      then show ?thesis using j x by (auto simp: slot_request_def intro!: exI [of _ j])
    next
      case False
      then have h': "h < length (rtab s)" "rtab ?s ! h = rtab s ! h" using h by (auto simp: nth_append)
      moreover have "\<exists>i. 0 \<le> i \<and> i < 16 \<and> aget (rvar ?s) (aReq i) = Some (Some h) \<and> (f(j := x)) i \<noteq> Unset \<and> (f(j := x)) i \<noteq> Null"
        if "live (rtab s ! h)"
      proof -
        from live_request [OF s h'(1) that] obtain i where i: "0 \<le> i" "i < 16"
          "aget (rvar s) (aReq i) = Some (Some h)" "f i \<noteq> Unset" "f i \<noteq> Null" by metis
        with j(3) have "i \<noteq> j" by auto
        with i show ?thesis by (intro exI [of _ i]) auto
      qed
      ultimately show ?thesis using s by (auto simp: slots_def owned_def)
    qed
  qed
  moreover have "tidy nprocs ?s" using s by (simp add: slots_def tidy_def)
  ultimately show ?thesis unfolding new slots_def by blast
qed

text \<open>The request of a slot changes, or with \<open>Null\<close> gives it up.\<close>

lemma slots_change:
  assumes s: "slots nprocs w f s" and j: "0 \<le> j" "j < 16" and h: "aget (rvar s) (aReq j) = Some (Some h)"
    and "f j \<noteq> Unset" "f j \<noteq> Null" and x: "x = Idle \<or> x = Started"
  shows "slots nprocs w (f(j := x)) (s\<lparr>rtab := (rtab s)[h := slot_request w j x]\<rparr>)" (is "slots _ _ _ ?s")
proof -
  have hl: "h < length (rtab s)" and hr: "rtab s ! h = slot_request w j (f j)"
    using slots_at [OF s j] assms(5,6) h by (cases "f j"; auto simp: in_slot_def)+
  have other: "h' \<noteq> h" if "aget (rvar s) (aReq i) = Some (Some h')" "in_slot w s i (f i)" "i \<noteq> j" "f i \<noteq> Unset" "f i \<noteq> Null" for i h'
    using that hr by (cases "f i") (auto simp: in_slot_def slot_request_def)
  have "in_slot w ?s i ((f(j := x)) i)" if "0 \<le> i" "i < 16" for i
  proof (cases "i = j")
    case True
    then show ?thesis using x h hl by (auto simp: in_slot_def)
  next
    case False
    then show ?thesis using slots_at [OF s that] other [OF _ slots_at [OF s that]]
      by (cases "f i") (auto simp: in_slot_def)
  qed
  moreover have "owned (f(j := x)) ?s"
  proof (rule ownedI)
    fix h' assume h': "h' < length (rtab ?s)"
    show "active (rtab ?s ! h') \<Longrightarrow> live (rtab ?s ! h')"
      using h' s by (cases "h' = h") (auto simp: slots_def owned_def slot_request_def)
    assume l: "live (rtab ?s ! h')"
    show "\<exists>i. 0 \<le> i \<and> i < 16 \<and> aget (rvar ?s) (aReq i) = Some (Some h') \<and> (f(j := x)) i \<noteq> Unset \<and> (f(j := x)) i \<noteq> Null"
    proof (cases "h' = h")
      case True
      then show ?thesis using j h x by (intro exI [of _ j]) auto
    next
      case False
      with h' l have "h' < length (rtab s)" "live (rtab s ! h')" by auto
      from live_request [OF s this] obtain i where i: "0 \<le> i" "i < 16"
        "aget (rvar s) (aReq i) = Some (Some h')" "f i \<noteq> Unset" "f i \<noteq> Null" by metis
      with False h have "i \<noteq> j" by auto
      with i show ?thesis by (intro exI [of _ i]) auto
    qed
  qed
  moreover have "tidy nprocs ?s" using s by (simp add: slots_def tidy_def)
  ultimately show ?thesis unfolding slots_def by blast
qed

lemma slots_drop:
  assumes s: "slots nprocs w f s" and j: "0 \<le> j" "j < 16" and h: "aget (rvar s) (aReq j) = Some (Some h)"
    and "f j \<noteq> Unset" "f j \<noteq> Null" and q: "\<not> live q" "\<not> active q"
  shows "slots nprocs w (f(j := Null)) (s\<lparr>rtab := (rtab s)[h := q], rvar := aput (rvar s) (aReq j) None\<rparr>)"
    (is "slots _ _ _ ?s")
proof -
  have hl: "h < length (rtab s)" and hr: "rtab s ! h = slot_request w j (f j)"
    using slots_at [OF s j] assms(5,6) h by (cases "f j"; auto simp: in_slot_def)+
  have other: "h' \<noteq> h" if "aget (rvar s) (aReq i) = Some (Some h')" "in_slot w s i (f i)" "i \<noteq> j" "f i \<noteq> Unset" "f i \<noteq> Null" for i h'
    using that hr by (cases "f i") (auto simp: in_slot_def slot_request_def)
  have "in_slot w ?s i ((f(j := Null)) i)" if "0 \<le> i" "i < 16" for i
    using slots_at [OF s that] other [OF _ slots_at [OF s that]]
    by (cases "i = j"; cases "f i") (auto simp: in_slot_def)
  moreover have "owned (f(j := Null)) ?s"
  proof (rule ownedI)
    fix h' assume h': "h' < length (rtab ?s)"
    show "active (rtab ?s ! h') \<Longrightarrow> live (rtab ?s ! h')"
      using h' s q by (cases "h' = h") (auto simp: slots_def owned_def)
    assume l: "live (rtab ?s ! h')"
    with q have "h' \<noteq> h" using hl by auto
    with h' l have "h' < length (rtab s)" "live (rtab s ! h')" by auto
    from live_request [OF s this] obtain i where i: "0 \<le> i" "i < 16"
      "aget (rvar s) (aReq i) = Some (Some h')" "f i \<noteq> Unset" "f i \<noteq> Null" by metis
    with \<open>h' \<noteq> h\<close> h have "i \<noteq> j" by auto
    with i show "\<exists>i. 0 \<le> i \<and> i < 16 \<and> aget (rvar ?s) (aReq i) = Some (Some h') \<and> (f(j := Null)) i \<noteq> Unset \<and> (f(j := Null)) i \<noteq> Null"
      by (intro exI [of _ i]) auto
  qed
  moreover have "tidy nprocs ?s" using s by (simp add: slots_def tidy_def)
  ultimately show ?thesis unfolding slots_def by blast
qed

lemma slots_complete:
  assumes s: "slots nprocs w f s" and j: "0 \<le> j" "j < 16" and b: "busy (f j)"
  shows "slots nprocs w (f(j := finish (f j))) (complete (aReq j) s)"
proof -
  from b have ne: "f j \<noteq> Unset" "f j \<noteq> Null" by auto
  from in_slot_bound [OF slots_at [OF s j] ne] obtain h
    where h: "aget (rvar s) (aReq j) = Some (Some h)" "rtab s ! h = slot_request w j (f j)" by metis
  from b show ?thesis
  proof
    assume f: "f j = Posted"
    then have "complete (aReq j) s = s\<lparr>rtab := (rtab s)[h := (slot_request w j Posted)\<lparr>active := False, live := False\<rparr>],
        rvar := aput (rvar s) (aReq j) None\<rparr>"
      using h by (simp add: complete_def slot_request_def Let_def)
    then show ?thesis using slots_drop [OF s j h(1) ne] f by simp
  next
    assume f: "f j = Started"
    then have "complete (aReq j) s = s\<lparr>rtab := (rtab s)[h := slot_request w j Idle]\<rparr>"
      using h by (simp add: complete_def slot_request_def Let_def)
    then show ?thesis using slots_change [OF s j h(1) ne, of Idle] f by simp
  qed
qed

lemma slots_start:
  assumes s: "slots nprocs w f s" and j: "0 \<le> j" "j < 16" and f: "f j = Idle"
  shows "slots nprocs w (f(j := Started)) (start (aReq j) s)"
proof -
  from f have ne: "f j \<noteq> Unset" "f j \<noteq> Null" by auto
  from in_slot_bound [OF slots_at [OF s j] ne] obtain h
    where h: "aget (rvar s) (aReq j) = Some (Some h)" "rtab s ! h = slot_request w j Idle" using f by metis
  have "\<not> conflicts s w (Some (''buf'', 512 * j, 512 * j + 512))"
    using piece_no_conflict [OF s] f by simp
  then have "start (aReq j) s = s\<lparr>rtab := (rtab s)[h := slot_request w j Started]\<rparr>"
    using h by (simp add: start_def slot_request_def Let_def chk_def)
  then show ?thesis using slots_change [OF s j h(1) ne, of Started] by simp
qed

lemma slots_free:
  assumes s: "slots nprocs w f s" and j: "0 \<le> j" "j < 16" and f: "f j = Idle"
  shows "slots nprocs w (f(j := Null)) (request_free (aReq j) s)"
proof -
  from f have ne: "f j \<noteq> Unset" "f j \<noteq> Null" by auto
  from in_slot_bound [OF slots_at [OF s j] ne] obtain h
    where h: "aget (rvar s) (aReq j) = Some (Some h)" "rtab s ! h = slot_request w j Idle" using f by metis
  then have "request_free (aReq j) s = s\<lparr>rtab := (rtab s)[h := (slot_request w j Idle)\<lparr>live := False\<rparr>], rvar := aput (rvar s) (aReq j) None\<rparr>"
    by (simp add: request_free_def slot_request_def)
  then show ?thesis using slots_drop [OF s j h(1) ne] by (simp add: slot_request_def)
qed

lemma slots_inspect:
  assumes s: "slots nprocs w f s" and j: "0 \<le> j" "j < 16" and f: "f j \<noteq> Unset"
  shows "inspect (aReq j) s = s"
  using slots_at [OF s j] f by (cases "f j") (auto simp: in_slot_def inspect_def chk_def slot_request_def)

lemma slots_active:
  assumes s: "slots nprocs w f s" and j: "0 \<le> j" "j < 16"
  shows "is_active s (aReq j) = busy (f j)"
  using slots_at [OF s j] by (cases "f j") (auto simp: in_slot_def is_active_def slot_request_def)

section \<open>Completing all requests\<close>

definition only_left :: "(int \<Rightarrow> slot) \<Rightarrow> int set \<Rightarrow> int \<Rightarrow> slot" where
  "only_left f B = (\<lambda>i. if i \<in> B then f i else finish (f i))"

text \<open>The requests of \<open>B\<close>, which are as many as \<open>n\<close>, have not been completed.\<close>

definition left_over :: "int \<Rightarrow> bool \<Rightarrow> (int \<Rightarrow> slot) \<Rightarrow> int \<Rightarrow> lstate \<Rightarrow> bool" where
  "left_over nprocs w f n s \<longleftrightarrow> (\<exists>B \<subseteq> {0..<16}. int (card B) = n \<and> slots nprocs w (only_left f B) s)"

abbreviation "all_busy f \<equiv> \<forall>i. 0 \<le> i \<longrightarrow> i < 16 \<longrightarrow> busy (f i)"

lemma mpi_running: "slots nprocs w f s \<Longrightarrow> mpi s = s"
  by (simp add: slots_def tidy_def mpi_def chk_def)

lemma fold_invariant:
  assumes "\<And>j s. lo \<le> j \<Longrightarrow> j < hi \<Longrightarrow> I j s \<Longrightarrow> I (j + 1) (g j s)" and "lo \<le> hi" and "I lo s"
  shows "I hi (fold g (upto_lt lo hi) s)"
  using assms
proof (induction "nat (hi - lo)" arbitrary: lo s)
  case 0
  then show ?case by (simp add: upto_lt_def)
next
  case (Suc n)
  then have "upto_lt lo hi = lo # upto_lt (lo + 1) hi" by (simp add: upto_lt_def upto.simps [of lo])
  with Suc show ?case by simp
qed

lemma finish_idle: "busy x \<Longrightarrow> \<not> busy (finish x) \<and> finish x \<noteq> Unset"
  by (cases x) auto

lemma only_left_set:
  assumes "all_busy f" and "B \<subseteq> {0..<16}" and s: "slots nprocs w (only_left f B) s"
  shows "set (active_indices s 16 (aReq 0)) = B"
proof -
  have "is_active s (aReq i) \<longleftrightarrow> i \<in> B" if "0 \<le> i" "i < 16" for i
    using slots_active [OF s that] assms(1) that finish_idle [of "f i"] by (auto simp: only_left_def)
  with assms(2) show ?thesis by (auto simp: active_indices_def)
qed

lemma only_left_inspect:
  assumes "all_busy f" and s: "slots nprocs w (only_left f B) s"
  shows "for_each 16 inspect (aReq 0) s = s"
proof -
  have "inspect (aReq j) s = s" if "0 \<le> j" "j < 16" for j
    using assms(1) that finish_idle [of "f j"] by (intro slots_inspect [OF s]) (auto simp: only_left_def)
  then show ?thesis unfolding for_each_def padd.simps by (intro fold_idle) (auto simp: set_upto_lt)
qed

lemma only_left_complete:
  assumes "all_busy f" and "j \<in> B" and "B \<subseteq> {0..<16}" and s: "slots nprocs w (only_left f B) s"
  shows "slots nprocs w (only_left f (B - {j})) (complete (aReq j) s)"
proof -
  have "0 \<le> j" "j < 16" using assms(2,3) by auto
  moreover from this have "busy (only_left f B j)" using assms(1,2) by (simp add: only_left_def)
  moreover have "(only_left f B)(j := finish (only_left f B j)) = only_left f (B - {j})"
    using assms(2) by (auto simp: only_left_def)
  ultimately show ?thesis using slots_complete [OF s] by metis
qed

lemma only_left_listed:
  assumes "all_busy f" and "distinct is" and "set is \<subseteq> B" and "B \<subseteq> {0..<16}" and "slots nprocs w (only_left f B) s"
  shows "slots nprocs w (only_left f (B - set is)) (complete_listed is (aReq 0) s)"
  using assms(2-5)
proof (induction "is" arbitrary: B s)
  case (Cons i "is")
  from Cons.prems have "slots nprocs w (only_left f (B - {i})) (complete (aReq i) s)"
    by (intro only_left_complete [OF assms(1)]) auto
  from Cons.IH [OF _ _ _ this] Cons.prems show ?case
    by (auto simp: complete_listed_def Diff_insert2 [symmetric])
qed (simp add: complete_listed_def)

text \<open>A list of active requests, and one that is named.\<close>

lemma left_over_listed:
  assumes "all_busy f" and s: "left_over nprocs w f n s" and "0 < n"
    and r: "lists_some (active_indices s 16 (aReq 0)) r"
  shows "0 < out r 0 \<and> left_over nprocs w f (n - out r 0)
    (complete_listed [i \<leftarrow> take (nat (out r 0)) (tl r). 0 \<le> i \<and> i < 16] (aReq 0) (for_each 16 inspect (aReq 0) s))"
proof -
  from s obtain B where B: "B \<subseteq> {0..<16}" "int (card B) = n" "slots nprocs w (only_left f B) s"
    by (auto simp: left_over_def)
  have as: "set (active_indices s 16 (aReq 0)) = B" by (rule only_left_set [OF assms(1) B(1,3)])
  with B(2) assms(3) have "active_indices s 16 (aReq 0) \<noteq> []" by auto
  with r as obtain "is" where "is": "r = int (length is) # is" "is \<noteq> []" "distinct is" "set is \<subseteq> B"
    by (auto simp: lists_some_def)
  from "is"(4) B(1) have "[i \<leftarrow> is. 0 \<le> i \<and> i < 16] = is" by (auto simp: filter_id_conv)
  moreover have "card (B - set is) = card B - length is"
    using "is"(3,4) B(1) by (simp add: card_Diff_subset distinct_card)
  moreover have "length is \<le> card B"
    using "is"(3,4) B(1) by (metis card_mono distinct_card finite_subset finite_atLeastLessThan_int)
  moreover have "slots nprocs w (only_left f (B - set is)) (complete_listed is (aReq 0) s)"
    by (rule only_left_listed [OF assms(1) "is"(3,4) B(1,3)])
  ultimately show ?thesis
    using "is"(1,2) B(1,2) only_left_inspect [OF assms(1) B(3)]
    by (auto simp: left_over_def intro!: exI [of _ "B - set is"])
qed

lemma left_over_named:
  assumes "all_busy f" and s: "left_over nprocs w f n s" and "0 < n"
    and i: "names_one (active_indices s 16 (aReq 0)) i"
  shows "0 \<le> i \<and> i < 16 \<and> left_over nprocs w f (n - 1) (complete_listed [i] (aReq 0) (for_each 16 inspect (aReq 0) s))"
proof -
  from s obtain B where B: "B \<subseteq> {0..<16}" "int (card B) = n" "slots nprocs w (only_left f B) s"
    by (auto simp: left_over_def)
  have "set (active_indices s 16 (aReq 0)) = B" by (rule only_left_set [OF assms(1) B(1,3)])
  with B(2) assms(3) i have "i \<in> B" by (auto simp: names_one_def)
  moreover from this B have "slots nprocs w (only_left f (B - {i})) (complete (aReq i) s)"
    by (intro only_left_complete [OF assms(1)])
  moreover from B(1) have "finite B" by (rule finite_subset) simp
  with \<open>i \<in> B\<close> B(2) have "int (card (B - {i})) = n - 1"
    by (metis card_Suc_Diff1 of_nat_Suc add_diff_cancel_left')
  ultimately show ?thesis
    using B(1) only_left_inspect [OF assms(1) B(3)]
    by (auto simp: left_over_def complete_listed_def intro!: exI [of _ "B - {i}"])
qed

lemma left_over_start: "slots nprocs w f s \<Longrightarrow> left_over nprocs w f 16 s"
  unfolding left_over_def
  by (rule exI [of _ "{0..<16}"]) (auto elim: slots_cong [rotated] simp: only_left_def)

lemma left_over_end:
  assumes "left_over nprocs w f n s" and "n \<le> 0"
  shows "slots nprocs w (\<lambda>i. finish (f i)) s"
proof -
  from assms obtain B where B: "B \<subseteq> {0..<16}" "card B = 0" "slots nprocs w (only_left f B) s"
    by (auto simp: left_over_def)
  from B(1) have "finite B" by (rule finite_subset) simp
  with B(2,3) show ?thesis by (simp add: only_left_def)
qed

lemma left_over_inspect:
  assumes "all_busy f" and "left_over nprocs w f n s"
  shows "for_each 16 inspect (aReq 0) s = s"
  using assms(2) only_left_inspect [OF assms(1)] by (auto simp: left_over_def)

text \<open>Those below \<open>j\<close> have been completed.\<close>

abbreviation "done_to f j \<equiv> \<lambda>i. if i < j then finish (f i) else f i"

lemma done_to_complete:
  assumes "all_busy f" and "0 \<le> j" "j < 16" and "slots nprocs w (done_to f j) s"
  shows "slots nprocs w (done_to f (j + 1)) (complete (aReq j) s)"
proof (rule slots_cong)
  show "slots nprocs w ((done_to f j)(j := finish (done_to f j j))) (complete (aReq j) s)"
    using assms by (intro slots_complete) auto
qed auto

lemma done_to_end: "slots nprocs w (done_to f 16) s \<Longrightarrow> slots nprocs w (\<lambda>i. finish (f i)) s"
  by (elim slots_cong [rotated]) auto

lemma done_to_start: "slots nprocs w f s \<Longrightarrow> slots nprocs w (done_to f 0) s"
  by (elim slots_cong [rotated]) auto

lemma done_to_inspect:
  assumes "all_busy f" and "0 \<le> j" "j < 16" and "slots nprocs w (done_to f j') s"
  shows "inspect (aReq j) s = s"
  using assms finish_idle [of "f j"] by (intro slots_inspect [OF assms(4)]) auto

lemma complete_each:
  assumes "all_busy f" and "slots nprocs w f s"
  shows "slots nprocs w (\<lambda>i. finish (f i)) (for_each 16 complete (aReq 0) s)"
proof -
  have "slots nprocs w (done_to f 16) (fold (\<lambda>i. complete (aReq i)) (upto_lt 0 16) s)"
    by (rule fold_invariant [where I = "\<lambda>j. slots nprocs w (done_to f j)"])
      (erule (2) done_to_complete [OF assms(1)], simp, rule done_to_start [OF assms(2)])
  then show ?thesis unfolding for_each_def padd.simps by (simp add: done_to_end)
qed

lemma triple_complete_all:
  assumes busy: "all_busy f" and fuel: "16 \<le> fuel" and how: "how \<in> {0, 1, 2, 3, 4, 5, 6, 7}"
  shows "triple fuel (slots nprocs w f) (seq (complete_all fuel how)) (slots nprocs w (\<lambda>i. finish (f i)))"
proof -
  let ?P = "slots nprocs w f" and ?Q = "slots nprocs w (\<lambda>i. finish (f i))"
  let ?J = "\<lambda>j. slots nprocs w (done_to f j)" and ?L = "\<lambda>n. left_over nprocs w f n"
  note mpi = mpi_running
  have mpi_left: "mpi s = s" if "?L n s" for n s
    using that mpi by (auto simp: left_over_def)
  have wait: "triple fuel (?J j) (seq [call (MPI_Wait (aReq j))]) (?J (j + 1))" if "0 \<le> j" "j < 16" for j
    using done_to_complete [OF busy that] by (intro triple_single triple_call) (simp add: mpi)
  have test: "triple fuel (?J j) (seq [poll fuel (MPI_Test (aReq j))]) (?J (j + 1))" if "0 \<le> j" "j < 16" for j
    using done_to_complete [OF busy that] done_to_inspect [OF busy that]
    by (intro triple_single triple_poll) (simp_all add: mpi)
  have waitany: "triple fuel (?L (16 - j)) (seq [call (MPI_Waitany 16 (aReq 0))]) (?L (16 - (j + 1)))" if "0 \<le> j" "j < 16" for j
  proof (intro triple_single triple_call)
    fix s r assume s: "?L (16 - j) s" and "truthful_call s (MPI_Waitany 16 (aReq 0)) r"
    with left_over_named [OF busy s, of "out r 0"] that show "?L (16 - (j + 1)) (lstep (MPI_Waitany 16 (aReq 0), r) s)"
      unfolding diff_diff_eq [symmetric] by (simp add: mpi_left [OF s])
  qed
  have testany: "triple fuel (?L (16 - j)) (seq [poll fuel (MPI_Testany 16 (aReq 0))]) (?L (16 - (j + 1)))" if "0 \<le> j" "j < 16" for j
  proof (intro triple_single triple_poll)
    fix s r assume s: "?L (16 - j) s" and t: "truthful_call s (MPI_Testany 16 (aReq 0)) r"
    show "?L (16 - j) (lstep (MPI_Testany 16 (aReq 0), r) s)" if "out r 0 = 0"
      using that s by (simp add: mpi_left [OF s] left_over_inspect [OF busy s] complete_listed_def)
    show "?L (16 - (j + 1)) (lstep (MPI_Testany 16 (aReq 0), r) s)" if "out r 0 \<noteq> 0"
      using that left_over_named [OF busy s, of "out r 1"] t \<open>j < 16\<close>
      unfolding diff_diff_eq [symmetric] by (simp add: mpi_left [OF s])
  qed simp
  have waitsome: "triple_val fuel (?L (16 - t)) (\<lambda>k. Call (MPI_Waitsome 16 (aReq 0)) (\<lambda>r. k (out r 0)))
      (\<lambda>v s. 0 < v \<and> ?L (16 - (t + v)) s)" if "t < 16" for t
  proof (intro triple_val_call)
    fix s r assume s: "?L (16 - t) s" and "truthful_call s (MPI_Waitsome 16 (aReq 0)) r"
    with left_over_listed [OF busy s, of r] that
    show "0 < out r 0 \<and> ?L (16 - (t + out r 0)) (lstep (MPI_Waitsome 16 (aReq 0), r) s)"
      unfolding diff_diff_eq [symmetric] by (simp add: mpi_left [OF s])
  qed
  have testsome: "triple_val fuel (?L (16 - t)) (poll_count fuel (MPI_Testsome 16 (aReq 0)))
      (\<lambda>v s. 0 < v \<and> ?L (16 - (t + v)) s)" if "t < 16" for t
  proof (rule triple_poll_count)
    fix s r assume s: "?L (16 - t) s" and r: "truthful_call s (MPI_Testsome 16 (aReq 0)) r"
    show "?L (16 - t) (lstep (MPI_Testsome 16 (aReq 0), r) s)" if "out r 0 = 0"
      using that s by (simp add: mpi_left [OF s] left_over_inspect [OF busy s] complete_listed_def)
    show "0 < out r 0 \<and> ?L (16 - (t + out r 0)) (lstep (MPI_Testsome 16 (aReq 0), r) s)" if "out r 0 \<noteq> 0"
      using that left_over_listed [OF busy s, of r] r \<open>t < 16\<close>
      unfolding diff_diff_eq [symmetric] by (simp add: mpi_left [OF s])
  qed simp
  have counted: "triple fuel ?P (until_total fuel some_done) ?Q"
    if "\<And>t. t < 16 \<Longrightarrow> triple_val fuel (?L (16 - t)) some_done (\<lambda>v s. 0 < v \<and> ?L (16 - (t + v)) s)" for some_done
    by (rule triple_conseq [OF triple_until_total [where I = "\<lambda>t. ?L (16 - t)", OF that fuel]])
      (auto intro: left_over_start left_over_end)
  have each: "triple fuel ?P (for_c (upto_lt 0 16) body) ?Q"
    if "\<And>j. 0 \<le> j \<Longrightarrow> j < 16 \<Longrightarrow> triple fuel (?J j) (seq (body j)) (?J (j + 1))" for body
    by (rule triple_conseq [OF triple_for [where I = ?J, OF that]]) (auto intro: done_to_start done_to_end)
  have named: "triple fuel ?P (for_c (upto_lt 0 16) body) ?Q"
    if "\<And>j. 0 \<le> j \<Longrightarrow> j < 16 \<Longrightarrow> triple fuel (?L (16 - j)) (seq (body j)) (?L (16 - (j + 1)))" for body
    by (rule triple_conseq [OF triple_for [where I = "\<lambda>j. ?L (16 - j)", OF that]])
      (auto intro: left_over_start left_over_end)
  have waitall: "triple fuel ?P (call (MPI_Waitall 16 (aReq 0))) ?Q"
    using complete_each [OF busy] by (intro triple_call) (simp add: mpi)
  have testall: "triple fuel ?P (poll fuel (MPI_Testall 16 (aReq 0))) ?Q"
  proof (rule triple_poll)
    fix s r assume s: "?P s"
    show "?P (lstep (MPI_Testall 16 (aReq 0), r) s)" if "out r 0 = 0"
      using that s only_left_inspect [OF busy, of nprocs w UNIV s] by (simp add: mpi [OF s] only_left_def)
    show "?Q (lstep (MPI_Testall 16 (aReq 0), r) s)" if "out r 0 \<noteq> 0"
      using that complete_each [OF busy s] by (simp add: mpi [OF s])
  qed simp
  from how show ?thesis
    unfolding complete_all_def Let_def
    using triple_single [OF each [OF wait]] triple_single [OF waitall] triple_single [OF named [OF waitany]]
      triple_single [OF counted [OF waitsome]] triple_single [OF each [OF test]] triple_single [OF testall]
      triple_single [OF named [OF testany]] triple_single [OF counted [OF testsome]]
    by (elim insertE emptyE) (simp_all del: seq.simps)
qed

section \<open>Posting and starting\<close>

text \<open>A send or a receive of the piece \<open>j\<close> of the buffer makes its request.\<close>

lemma piece_requests:
  assumes s: "slots nprocs w f s" and j: "0 \<le> j" "j < 16" and "f j = Unset \<or> f j = Null"
  shows "w = False \<Longrightarrow> slots nprocs w (f(j := Posted)) (lstep (P2p (Isend mode (mbuf (j * 128)) 128 MPI_INT 1 j W (aReq j)), r) s)"
    and "w = False \<Longrightarrow> slots nprocs w (f(j := Idle)) (lstep (P2p (Send_init mode (mbuf (j * 128)) 128 MPI_INT 1 j W (aReq j)), r) s)"
    and "w \<Longrightarrow> n * b = 512 \<Longrightarrow> type_size s True d = Some b \<Longrightarrow> 0 \<le> n \<Longrightarrow>
      slots nprocs w (f(j := Posted)) (lstep (MPI_Irecv (mbuf (j * 128)) n d (Rank 0) (Tag j) W (aReq j), r) s)"
    and "w \<Longrightarrow> n * b = 512 \<Longrightarrow> type_size s True d = Some b \<Longrightarrow> 0 \<le> n \<Longrightarrow>
      slots nprocs w (f(j := Idle)) (lstep (MPI_Recv_init (mbuf (j * 128)) n d (Rank 0) (Tag j) W (aReq j), r) s)"
proof -
  have *: "mpi s = s" "0 < np s" "1 < np s" "aget (objs s) ''buf'' = Some 2048"
    using s mpi_running [OF s] by (auto simp: slots_def tidy_def)
  have "\<not> conflicts s w' (Some (''buf'', 512 * j, 512 * j + 512))" for w'
    using piece_no_conflict [OF s, of j] assms(4) by auto
  then have free: "\<not> conflicts s w' (Some (''buf'', 4 * (j * 128), 4 * (j * 128) + 512))" for w'
    by (simp add: mult.commute mult.left_commute)
  have bounds: "0 \<le> 4 * (j * 128)" "4 * (j * 128) + 512 \<le> 8192" using j by simp_all
  note new = slots_new [OF s j assms(4)]
  show "w = False \<Longrightarrow> slots nprocs w (f(j := Posted)) (lstep (P2p (Isend mode (mbuf (j * 128)) 128 MPI_INT 1 j W (aReq j)), r) s)"
    using new [of Posted, unfolded slot_request_def] j * free bounds
    by (simp add: send_args_def use_buf_def bytes_of_def dest_ok_def chk_ok access_some)
  show "w = False \<Longrightarrow> slots nprocs w (f(j := Idle)) (lstep (P2p (Send_init mode (mbuf (j * 128)) 128 MPI_INT 1 j W (aReq j)), r) s)"
    using new [of Idle, unfolded slot_request_def] j * bounds
    by (simp add: send_args_def bytes_of_def dest_ok_def chk_ok)
  show "slots nprocs w (f(j := Posted)) (lstep (MPI_Irecv (mbuf (j * 128)) n d (Rank 0) (Tag j) W (aReq j), r) s)"
    if "w" "n * b = 512" "type_size s True d = Some b" "0 \<le> n"
    using new [of Posted, unfolded slot_request_def] j * free bounds that
    by (simp add: recv_args_def use_buf_def bytes_of_def dest_ok_def chk_ok access_some)
  show "slots nprocs w (f(j := Idle)) (lstep (MPI_Recv_init (mbuf (j * 128)) n d (Rank 0) (Tag j) W (aReq j), r) s)"
    if "w" "n * b = 512" "type_size s True d = Some b" "0 \<le> n"
    using new [of Idle, unfolded slot_request_def] j * bounds that
    by (simp add: recv_args_def bytes_of_def dest_ok_def chk_ok)
qed

definition fresh :: "slot \<Rightarrow> bool" where
  "fresh x \<longleftrightarrow> x = Unset \<or> x = Null"

lemma triple_isend_pair:
  assumes "0 \<le> t" "t < 8" "fresh (f (t * 2))" "fresh (f (t * 2 + 1))"
  shows "triple fuel (slots nprocs False f) (seq (isend_pair mode t)) (slots nprocs False (f(t * 2 := Posted, t * 2 + 1 := Posted)))"
  using assms unfolding isend_pair_def fresh_def
  by (intro triple_cons [where R = "slots nprocs False (f(t * 2 := Posted))"] triple_single triple_call piece_requests(1)) auto

lemma triple_send_init_pair:
  assumes "0 \<le> t" "t < 8" "fresh (f (t * 2))" "fresh (f (t * 2 + 1))"
  shows "triple fuel (slots nprocs False f) (seq (send_init_pair mode t)) (slots nprocs False (f(t * 2 := Idle, t * 2 + 1 := Idle)))"
  using assms unfolding send_init_pair_def fresh_def
  by (intro triple_cons [where R = "slots nprocs False (f(t * 2 := Idle))"] triple_single triple_call piece_requests(2)) auto

text \<open>The slots from \<open>lo\<close> up to \<open>j\<close> have become \<open>x\<close>.\<close>

abbreviation "filled f lo j x \<equiv> \<lambda>i. if lo \<le> i \<and> i < j then x else f i"

lemma filled_next: "(0::int) \<le> j \<Longrightarrow> lo \<le> j \<Longrightarrow> (filled f lo j x)(j := x) = filled f lo (j + 1) x"
  by auto

lemma for_evens:
  "for_c (map ((*) 2) (upto_lt 0 8)) body = for_c (upto_lt 0 8) (\<lambda>t. body (2 * t))"
  by (simp add: for_c_def comp_def)

lemma triple_irecv_pairs:
  assumes "\<And>i. 0 \<le> i \<Longrightarrow> i < 16 \<Longrightarrow> fresh (f i)"
  shows "triple fuel (slots nprocs True f) irecv_pairs (slots nprocs True (\<lambda>_. Posted))"
    and "triple fuel (slots nprocs True f) recv_init_pairs (slots nprocs True (\<lambda>_. Idle))"
proof -
  let ?I = "\<lambda>x t. slots nprocs True (filled f 0 (2 * t) x)"
  have step: "(filled f 0 (2 * t) x)(2 * t := x, 2 * t + 1 := x) = filled f 0 (2 * (t + 1)) x" if "0 \<le> t" for t x
    using that by auto
  have steps: "triple fuel (?I x 0) (for_c (upto_lt 0 8) body) (?I x 8)"
    if "\<And>t. 0 \<le> t \<Longrightarrow> t < 8 \<Longrightarrow> triple fuel (?I x t) (seq (body t))
      (slots nprocs True ((filled f 0 (2 * t) x)(2 * t := x, 2 * t + 1 := x)))" for x body
    using that by (intro triple_for) (simp_all add: step)
  have first: "?I x 0 = slots nprocs True f" for x
    by (rule ext, rule iffI; erule slots_cong [rotated]; simp)
  have last: "?I x 8 = slots nprocs True (\<lambda>_. x)" for x
    by (rule ext, rule iffI; erule slots_cong [rotated]; simp)
  have loop: "triple fuel (slots nprocs True f) (for_c (upto_lt 0 8) body) (slots nprocs True (\<lambda>_. x))"
    if "\<And>t. 0 \<le> t \<Longrightarrow> t < 8 \<Longrightarrow> triple fuel (?I x t) (seq (body t))
      (slots nprocs True ((filled f 0 (2 * t) x)(2 * t := x, 2 * t + 1 := x)))" for x body
    using steps [OF that] unfolding first last .
  show "triple fuel (slots nprocs True f) irecv_pairs (slots nprocs True (\<lambda>_. Posted))"
    unfolding irecv_pairs_def for_evens
  proof (rule loop)
    fix t :: int assume "0 \<le> t" "t < 8"
    then show "triple fuel (?I Posted t) (seq
      [call (MPI_Irecv (mbuf (2 * t * 128)) 128 MPI_INT (Rank 0) (Tag (2 * t)) W (aReq (2 * t))),
       call (MPI_Irecv (mbuf ((2 * t + 1) * 128)) (128 * 4) MPI_BYTE (Rank 0) (Tag (2 * t + 1)) W (aReq (2 * t + 1)))])
      (slots nprocs True ((filled f 0 (2 * t) Posted)(2 * t := Posted, 2 * t + 1 := Posted)))"
      using assms unfolding fresh_def
      by (intro triple_cons [where R = "slots nprocs True ((filled f 0 (2 * t) Posted)(2 * t := Posted))"]
          triple_single triple_call piece_requests(3)) auto
  qed
  show "triple fuel (slots nprocs True f) recv_init_pairs (slots nprocs True (\<lambda>_. Idle))"
    unfolding recv_init_pairs_def for_evens
  proof (rule loop)
    fix t :: int assume "0 \<le> t" "t < 8"
    then show "triple fuel (?I Idle t) (seq
      [call (MPI_Recv_init (mbuf (2 * t * 128)) 128 MPI_INT (Rank 0) (Tag (2 * t)) W (aReq (2 * t))),
       call (MPI_Recv_init (mbuf ((2 * t + 1) * 128)) (128 * 4) MPI_BYTE (Rank 0) (Tag (2 * t + 1)) W (aReq (2 * t + 1)))])
      (slots nprocs True ((filled f 0 (2 * t) Idle)(2 * t := Idle, 2 * t + 1 := Idle)))"
      using assms unfolding fresh_def
      by (intro triple_cons [where R = "slots nprocs True ((filled f 0 (2 * t) Idle)(2 * t := Idle))"]
          triple_single triple_call piece_requests(4)) auto
  qed
qed

lemma triple_starts:
  assumes idle: "\<And>i. a \<le> i \<Longrightarrow> i < a + n \<Longrightarrow> f i = Idle" and a: "0 \<le> a" "a + n \<le> 16" "0 \<le> n"
  shows "triple fuel (slots nprocs w f) (call (MPI_Startall n (aReq a))) (slots nprocs w (filled f a (a + n) Started))"
    and "triple fuel (slots nprocs w f) (for_c (upto_lt 0 n) (\<lambda>j. [call (MPI_Start (aReq (a + j)))]))
      (slots nprocs w (filled f a (a + n) Started))"
proof -
  let ?I = "\<lambda>j. slots nprocs w (filled f a (a + j) Started)"
  have none: "filled f a (a + 0) Started = f" by (auto simp: fun_eq_iff)
  have one: "?I (j + 1) (start (aReq (a + j)) s)" if "0 \<le> j" "j < n" "?I j s" for j s
  proof -
    have "(filled f a (a + j) Started)(a + j := Started) = filled f a (a + (j + 1)) Started" using that(1) by auto
    moreover have "slots nprocs w ((filled f a (a + j) Started)(a + j := Started)) (start (aReq (a + j)) s)"
      using that idle a by (intro slots_start) auto
    ultimately show ?thesis by metis
  qed
  show "triple fuel (slots nprocs w f) (call (MPI_Startall n (aReq a))) (?I n)"
  proof (rule triple_call)
    fix s r assume s: "slots nprocs w f s"
    then have "?I n (fold (\<lambda>j. start (aReq (a + j))) (upto_lt 0 n) s)"
      using a by (intro fold_invariant [where I = ?I]) (simp_all only: one none)
    then show "?I n (lstep (MPI_Startall n (aReq a), r) s)"
      by (simp add: mpi_running [OF s] for_each_def)
  qed
  have "triple fuel (?I 0) (for_c (upto_lt 0 n) (\<lambda>j. [call (MPI_Start (aReq (a + j)))])) (?I n)"
  proof (rule triple_for [where I = ?I])
    fix j :: int assume "0 \<le> j" "j < n"
    then show "triple fuel (?I j) (seq [call (MPI_Start (aReq (a + j)))]) (?I (j + 1))"
      using one by (intro triple_single triple_call) (simp only: lstep.simps chk_req.simps mpi_running)
  qed (rule a)
  then show "triple fuel (slots nprocs w f) (for_c (upto_lt 0 n) (\<lambda>j. [call (MPI_Start (aReq (a + j)))])) (?I n)"
    unfolding none .
qed

section \<open>Rounds\<close>

lemma triple_barrier: "triple fuel (slots nprocs w f) (call (MPI_Barrier W)) (slots nprocs w f)"
  by (intro triple_call) (simp add: mpi_running chk_ok)

lemma triple_exists:
  "(\<And>x. P x \<Longrightarrow> triple fuel (R x) st Q) \<Longrightarrow> triple fuel (\<lambda>s. \<exists>x. P x \<and> R x s) st Q"
  unfolding triple_def by blast

text \<open>What holds of the slots of process 0, and of those of process 1, between two rounds.\<close>

definition sender_slots :: "(int \<Rightarrow> slot) \<Rightarrow> bool" where
  "sender_slots f \<longleftrightarrow> (\<forall>i. 0 \<le> i \<and> i < 8 \<longrightarrow> fresh (f i)) \<and> (\<forall>i. 8 \<le> i \<and> i < 16 \<longrightarrow> f i = Idle)"

definition receiver_slots :: "int \<Rightarrow> (int \<Rightarrow> slot) \<Rightarrow> bool" where
  "receiver_slots m f \<longleftrightarrow> (\<forall>i. 0 \<le> i \<and> i < 16 \<longrightarrow> (if m = 0 then fresh (f i) else f i = Idle))"

definition between :: "int \<Rightarrow> bool \<Rightarrow> ((int \<Rightarrow> slot) \<Rightarrow> bool) \<Rightarrow> lstate \<Rightarrow> bool" where
  "between nprocs w F s \<longleftrightarrow> (\<exists>f. F f \<and> slots nprocs w f s)"

lemma triple_between:
  "(\<And>f. F f \<Longrightarrow> triple fuel (slots nprocs w f) st Q) \<Longrightarrow> triple fuel (between nprocs w F) st Q"
  unfolding between_def by (rule triple_exists)

lemma slots_idle_store:
  assumes s: "slots nprocs w f s" and "\<And>i. 0 \<le> i \<Longrightarrow> i < 16 \<Longrightarrow> \<not> busy (f i)"
    and "0 \<le> k" "4 * k + n \<le> 8192" "n \<noteq> 0"
  shows "access True (mbuf k) n s = s"
proof -
  have "aget (objs s) ''buf'' = Some 2048" using s by (simp add: slots_def tidy_def)
  with idle_no_conflict [OF s assms(2)] assms(3-5) show ?thesis
    by (simp add: access_some chk_ok)
qed

lemma triple_prepare:
  assumes "\<And>i. 0 \<le> i \<Longrightarrow> i < 16 \<Longrightarrow> \<not> busy (f i)"
  shows "triple fuel (slots nprocs w f) (prepare_buffers rank) (slots nprocs w f)"
proof -
  let ?P = "slots nprocs w f"
  have "triple fuel ?P (call (C_store (mbuf k) v)) ?P" if "0 \<le> k" "k < 2048" for k v
    using that slots_idle_store [OF _ assms] by (intro triple_call) simp
  then have "triple fuel ?P (seq [call (C_store (mbuf (2 * j * 128 + i)) i),
        call (C_store (mbuf ((2 * j + 1) * 128 + i)) (128 - 1 - i))]) ?P"
    if "0 \<le> i" "i < 128" "0 \<le> j" "j < 8" for i j
    using that by (intro triple_cons [where R = ?P] triple_single) auto
  moreover have "triple fuel ?P (call (C_memset (mbuf 0) 0 (4 * 128 * 2 * 8))) ?P"
    using slots_idle_store [OF _ assms] by (intro triple_call) simp
  ultimately show ?thesis
    unfolding prepare_buffers_def
    by (intro triple_if_else triple_if triple_single triple_for_each) auto
qed

lemma halves:
  assumes "0 \<le> k" "k < (16 :: int)"
  shows "k sdiv 2 \<in> {0, 1, 2, 3, 4, 5, 6, 7}"
proof -
  have "list_all (\<lambda>k. k sdiv 2 \<in> {0, 1, 2, 3, 4, 5, 6, 7 :: int}) (upto_lt 0 16)" by code_simp
  with assms show ?thesis by (simp only: list_all_iff set_upto_lt atLeastLessThan_iff)
qed

lemma triple_send_round:
  assumes "16 \<le> fuel" "0 \<le> k" "k < 16"
  shows "triple fuel (between nprocs False sender_slots) (seq (send_round fuel k)) (between nprocs False sender_slots)"
proof (rule triple_between)
  fix f assume f: "sender_slots f"
  let ?S = "slots nprocs False"
  let ?f1 = "f(0 * 2 := Posted, 0 * 2 + 1 := Posted)"
  let ?f2 = "?f1(1 * 2 := Posted, 1 * 2 + 1 := Posted)"
  let ?f3 = "?f2(2 * 2 := Posted, 2 * 2 + 1 := Posted)"
  let ?f4 = "?f3(3 * 2 := Posted, 3 * 2 + 1 := Posted)"
  let ?g = "filled ?f4 8 16 Started"
  have sends: "triple fuel (?S f) (seq (isend_pair Standard 0)) (?S ?f1)"
    "triple fuel (?S ?f1) (seq (isend_pair Buffered 1)) (?S ?f2)"
    "triple fuel (?S ?f2) (seq (isend_pair Ready 2)) (?S ?f3)"
    "triple fuel (?S ?f3) (seq (isend_pair Synchronous 3)) (?S ?f4)"
    by (rule triple_isend_pair; use f in \<open>simp add: sender_slots_def\<close>)+
  have starts: "triple fuel (?S ?f4) (if_else (k smod 2 \<noteq> 0) [call (MPI_Startall (4 * 2) (aReq (2 * (8 - 4))))]
      [for_c (upto_lt 0 (4 * 2)) (\<lambda>j. [call (MPI_Start (aReq (2 * (8 - 4) + j)))])]) (?S ?g)"
    using triple_starts [of 8 8 ?f4 fuel nprocs False] f
    by (intro triple_if_else triple_single) (simp_all add: sender_slots_def)
  have completes: "triple fuel (?S ?g) (seq (complete_all fuel (k sdiv 2))) (?S (\<lambda>i. finish (?g i)))"
  proof (rule triple_complete_all)
    show "all_busy ?g" by auto
    show "k sdiv 2 \<in> {0, 1, 2, 3, 4, 5, 6, 7}" using assms(2,3) by (rule halves)
  qed (rule assms)
  have "triple fuel (?S ?f4) (assert_c (4 = (8 :: int) - 4)) (?S ?f4)"
    by (rule triple_assert) simp
  then have "triple fuel (?S f) (seq (send_round fuel k)) (?S (\<lambda>i. finish (?g i)))"
    unfolding send_round_def send_posts_def Let_def
    by (rule triple_append [OF triple_append [OF sends(1) triple_append [OF sends(2) triple_append [OF triple_single [OF triple_barrier]
      triple_append [OF sends(3) triple_append [OF sends(4)
      triple_cons [OF _ triple_single [OF starts]]]]]]] completes])
  moreover have "sender_slots (\<lambda>i. finish (?g i))"
    by (auto simp: sender_slots_def fresh_def)
  ultimately show "triple fuel (?S f) (seq (send_round fuel k)) (between nprocs False sender_slots)"
    unfolding between_def by (blast intro: triple_conseq)
qed

lemma triple_receive_round:
  assumes "16 \<le> fuel" "0 \<le> l" "l < 16"
  shows "triple fuel (between nprocs True (receiver_slots m)) (seq (receive_round fuel m l)) (between nprocs True (receiver_slots m))"
proof (rule triple_between)
  fix f assume f: "receiver_slots m f"
  let ?S = "slots nprocs True" and ?g = "\<lambda>i :: int. if m = 0 then Posted else Started"
  have "triple fuel (?S f) (if_else (m = 0) [irecv_pairs]
     [if_else (l smod 2 \<noteq> 0) [call (MPI_Startall (8 * 2) (aReq 0))]
       [for_c (upto_lt 0 (8 * 2)) (\<lambda>j. [call (MPI_Start (aReq j))])]]) (?S ?g)"
  proof (rule triple_if_else)
    assume "m = 0"
    with f show "triple fuel (?S f) (seq [irecv_pairs]) (?S ?g)"
      using triple_irecv_pairs(1) [of f fuel nprocs] by (intro triple_single) (simp add: receiver_slots_def)
  next
    assume m: "m \<noteq> 0"
    with f have idle: "\<And>i. 0 \<le> i \<Longrightarrow> i < 0 + 16 \<Longrightarrow> f i = Idle" by (simp add: receiver_slots_def)
    have "?S (filled f 0 (0 + 16) Started) s \<Longrightarrow> ?S ?g s" for s
      using m by (elim slots_cong [rotated]) auto
    with triple_starts [of 0 16 f fuel nprocs True, OF idle]
    show "triple fuel (?S f) (seq [if_else (l smod 2 \<noteq> 0) [call (MPI_Startall (8 * 2) (aReq 0))]
       [for_c (upto_lt 0 (8 * 2)) (\<lambda>j. [call (MPI_Start (aReq j))])]]) (?S ?g)"
      by (intro triple_single triple_if_else) (auto elim: triple_conseq)
  qed
  moreover have "triple fuel (?S ?g) (seq (complete_all fuel (l sdiv 2))) (?S (\<lambda>i. finish (?g i)))"
    using assms halves [OF assms(2,3)] by (intro triple_complete_all) auto
  ultimately have "triple fuel (?S f) (seq (receive_round fuel m l)) (?S (\<lambda>i. finish (?g i)))"
    unfolding receive_round_def receive_posts_def
    by (blast intro: triple_append triple_cons triple_single triple_barrier)
  moreover have "receiver_slots m (\<lambda>i. finish (?g i))"
    by (auto simp: receiver_slots_def fresh_def)
  ultimately show "triple fuel (?S f) (seq (receive_round fuel m l)) (between nprocs True (receiver_slots m))"
    unfolding between_def by (blast intro: triple_conseq)
qed

text \<open>Whatever process it is, a round keeps its slots; the others have none.\<close>

definition other_slots :: "(int \<Rightarrow> slot) \<Rightarrow> bool" where
  "other_slots f \<longleftrightarrow> f = (\<lambda>_. Unset)"

definition between_rounds :: "int \<Rightarrow> int \<Rightarrow> int \<Rightarrow> lstate \<Rightarrow> bool" where
  "between_rounds nprocs rank m =
     (if rank = 0 then between nprocs False sender_slots
      else if rank = 1 then between nprocs True (receiver_slots m) else between nprocs True other_slots)"

lemma not_busy:
  assumes "sender_slots f \<or> receiver_slots m f \<or> other_slots f" and i: "0 \<le> i" "i < 16"
  shows "\<not> busy (f i)"
proof -
  have "fresh (f i) \<or> f i = Idle"
    using assms(1)
  proof (elim disjE)
    assume "sender_slots f"
    with i show ?thesis by (cases "i < 8") (simp_all add: sender_slots_def)
  next
    assume "receiver_slots m f"
    with i show ?thesis by (auto simp: receiver_slots_def split: if_splits)
  next
    assume "other_slots f"
    then show ?thesis by (simp add: other_slots_def fresh_def)
  qed
  then show ?thesis by (auto simp: fresh_def)
qed

lemma triple_keep:
  "(\<And>f. F f \<Longrightarrow> triple fuel (slots nprocs w f) st (slots nprocs w f)) \<Longrightarrow>
     triple fuel (between nprocs w F) st (between nprocs w F)"
  unfolding between_def by (rule triple_exists) (blast intro: triple_conseq)

lemma triple_between_barrier:
  "triple fuel (between_rounds nprocs rank m) (call (MPI_Barrier W)) (between_rounds nprocs rank m)"
  unfolding between_rounds_def by (auto intro!: triple_keep triple_barrier)

lemma triple_round:
  assumes "16 \<le> fuel" "0 \<le> l" "l < 16" "0 \<le> k" "k < 16"
  shows "triple fuel (between_rounds nprocs rank m) (seq (mismatch_round fuel rank m l k)) (between_rounds nprocs rank m)"
proof -
  have prepare: "triple fuel (between_rounds nprocs rank m) (prepare_buffers rank) (between_rounds nprocs rank m)"
    unfolding between_rounds_def by (auto intro!: triple_keep triple_prepare dest: not_busy [rotated 1, of _ _ m])
  show ?thesis
    unfolding mismatch_round_def
  proof (intro triple_cons [OF prepare] triple_cons [OF triple_between_barrier]
      triple_single triple_if_else)
    assume "rank = 0"
    then show "triple fuel (between_rounds nprocs rank m) (seq (send_round fuel k)) (between_rounds nprocs rank m)"
      using triple_send_round [OF assms(1,4,5)] by (simp add: between_rounds_def)
  next
    assume "rank \<noteq> 0" "rank = 1"
    then show "triple fuel (between_rounds nprocs rank m) (seq (receive_round fuel m l)) (between_rounds nprocs rank m)"
      using triple_receive_round [OF assms(1-3)] by (simp add: between_rounds_def)
  qed (auto intro: triple_nil triple_between_barrier)
qed

lemma triple_rounds:
  assumes "16 \<le> fuel"
  shows "triple fuel (between_rounds nprocs rank m)
    (for_c (upto_lt 0 16) (\<lambda>l. [for_c (upto_lt 0 16) (mismatch_round fuel rank m l)])) (between_rounds nprocs rank m)"
  using assms by (intro triple_for_each triple_single triple_round) auto

section \<open>The whole run\<close>

lemma triple_recv_init:
  "triple fuel (between_rounds nprocs rank 0) (if_c (m = 1 \<and> rank = 1) [recv_init_pairs])
     (between_rounds nprocs rank (if m = 1 then 1 else 0))"
proof (rule triple_if)
  assume "m = 1 \<and> rank = 1"
  moreover have "triple fuel (between nprocs True (receiver_slots 0)) recv_init_pairs (between nprocs True (receiver_slots 1))"
  proof (rule triple_between)
    fix f assume "receiver_slots 0 f"
    then have "triple fuel (slots nprocs True f) recv_init_pairs (slots nprocs True (\<lambda>_. Idle))"
      by (intro triple_irecv_pairs(2)) (simp add: receiver_slots_def)
    then show "triple fuel (slots nprocs True f) recv_init_pairs (between nprocs True (receiver_slots 1))"
      by (rule triple_conseq) (auto simp: between_def receiver_slots_def)
  qed
  ultimately show "triple fuel (between_rounds nprocs rank 0) (seq [recv_init_pairs])
      (between_rounds nprocs rank (if m = 1 then 1 else 0))"
    by (intro triple_single) (simp add: between_rounds_def)
qed (auto simp: between_rounds_def split: if_splits)

lemma triple_both:
  assumes "16 \<le> fuel"
  shows "triple fuel (between_rounds nprocs rank 0)
    (for_c (upto_lt 0 2) (\<lambda>m. [if_c (m = 1 \<and> rank = 1) [recv_init_pairs],
       for_c (upto_lt 0 16) (\<lambda>l. [for_c (upto_lt 0 16) (mismatch_round fuel rank m l)])]))
    (between_rounds nprocs rank 1)"
proof -
  let ?I = "\<lambda>m :: int. between_rounds nprocs rank (if m = 2 then 1 else 0)"
  have "triple fuel (?I 0) (for_c (upto_lt 0 2) (\<lambda>m. [if_c (m = 1 \<and> rank = 1) [recv_init_pairs],
       for_c (upto_lt 0 16) (\<lambda>l. [for_c (upto_lt 0 16) (mismatch_round fuel rank m l)])])) (?I 2)"
  proof (rule triple_for [where I = ?I])
    fix m :: int assume "0 \<le> m" "m < 2"
    then have m: "m = 0 \<or> m = 1" by auto
    then have "?I (m + 1) = between_rounds nprocs rank m" "?I m = between_rounds nprocs rank 0"
      "(if m = 1 then 1 else 0) = m" by auto
    then show "triple fuel (?I m) (seq [if_c (m = 1 \<and> rank = 1) [recv_init_pairs],
       for_c (upto_lt 0 16) (\<lambda>l. [for_c (upto_lt 0 16) (mismatch_round fuel rank m l)])]) (?I (m + 1))"
      using triple_recv_init [of fuel nprocs rank m] triple_rounds [OF assms, of nprocs rank m]
      by (simp only: triple_cons [OF _ triple_single])
  qed simp
  then show ?thesis by simp
qed

lemma triple_frees:
  assumes "0 \<le> lo" "lo \<le> 16" and idle: "\<And>i. lo \<le> i \<Longrightarrow> i < 16 \<Longrightarrow> f i = Idle"
  shows "triple fuel (slots nprocs w f) (for_c (upto_lt lo 16) (\<lambda>i. [call (MPI_Request_free (aReq i))]))
    (slots nprocs w (filled f lo 16 Null))"
proof -
  let ?I = "\<lambda>j. slots nprocs w (filled f lo j Null)"
  have none: "filled f lo lo Null = f" by (auto simp: fun_eq_iff)
  have "triple fuel (?I lo) (for_c (upto_lt lo 16) (\<lambda>i. [call (MPI_Request_free (aReq i))])) (?I 16)"
  proof (rule triple_for [where I = ?I])
    fix j assume j: "lo \<le> j" "j < 16"
    show "triple fuel (?I j) (seq [call (MPI_Request_free (aReq j))]) (?I (j + 1))"
    proof (intro triple_single triple_call)
      fix s r assume s: "?I j s"
      have "(filled f lo j Null)(j := Null) = filled f lo (j + 1) Null" using j by auto
      moreover have "slots nprocs w ((filled f lo j Null)(j := Null)) (request_free (aReq j) s)"
        using j idle assms(1) by (intro slots_free [OF s]) auto
      ultimately show "?I (j + 1) (lstep (MPI_Request_free (aReq j), r) s)"
        by (simp only: lstep.simps chk_req.simps mpi_running [OF s])
    qed
  qed (rule assms)
  then show ?thesis unfolding none .
qed

definition all_free :: "int \<Rightarrow> lstate \<Rightarrow> bool" where
  "all_free nprocs s \<longleftrightarrow> (\<exists>w f. (\<forall>i. 0 \<le> i \<and> i < 16 \<longrightarrow> fresh (f i)) \<and> slots nprocs w f s)"

lemma all_freeI: "slots nprocs w f s \<Longrightarrow> (\<And>i. 0 \<le> i \<Longrightarrow> i < 16 \<Longrightarrow> fresh (f i)) \<Longrightarrow> all_free nprocs s"
  by (auto simp: all_free_def)

lemma triple_free_requests:
  "triple fuel (between_rounds nprocs rank 1)
    (if_else (rank = 0)
      [for_c (upto_lt (2 * (8 - 4)) (2 * 8)) (\<lambda>i. [call (MPI_Request_free (aReq i))])]
      [if_c (rank = 1) [for_c (upto_lt 0 (2 * 8)) (\<lambda>i. [call (MPI_Request_free (aReq i))])]]) (all_free nprocs)"
proof (intro triple_if_else triple_single triple_if)
  have "triple fuel (between nprocs False sender_slots) (for_c (upto_lt 8 16) (\<lambda>i. [call (MPI_Request_free (aReq i))])) (all_free nprocs)"
  proof (rule triple_between)
    fix f assume f: "sender_slots f"
    then have "triple fuel (slots nprocs False f) (for_c (upto_lt 8 16) (\<lambda>i. [call (MPI_Request_free (aReq i))]))
        (slots nprocs False (filled f 8 16 Null))"
      by (intro triple_frees) (auto simp: sender_slots_def)
    then show "triple fuel (slots nprocs False f) (for_c (upto_lt 8 16) (\<lambda>i. [call (MPI_Request_free (aReq i))])) (all_free nprocs)"
      using f by (elim triple_conseq) (auto intro!: all_freeI simp: sender_slots_def fresh_def)
  qed
  then show "rank = 0 \<Longrightarrow> triple fuel (between_rounds nprocs rank 1)
      (for_c (upto_lt (2 * (8 - 4)) (2 * 8)) (\<lambda>i. [call (MPI_Request_free (aReq i))])) (all_free nprocs)"
    by (simp add: between_rounds_def)
  have "triple fuel (between nprocs True (receiver_slots 1)) (for_c (upto_lt 0 16) (\<lambda>i. [call (MPI_Request_free (aReq i))])) (all_free nprocs)"
  proof (rule triple_between)
    fix f assume "receiver_slots 1 f"
    then have "triple fuel (slots nprocs True f) (for_c (upto_lt 0 16) (\<lambda>i. [call (MPI_Request_free (aReq i))]))
        (slots nprocs True (filled f 0 16 Null))"
      by (intro triple_frees) (auto simp: receiver_slots_def)
    then show "triple fuel (slots nprocs True f) (for_c (upto_lt 0 16) (\<lambda>i. [call (MPI_Request_free (aReq i))])) (all_free nprocs)"
      by (elim triple_conseq) (auto intro!: all_freeI simp: fresh_def)
  qed
  then show "rank = 1 \<Longrightarrow> triple fuel (between_rounds nprocs rank 1)
      (for_c (upto_lt 0 (2 * 8)) (\<lambda>i. [call (MPI_Request_free (aReq i))])) (all_free nprocs)"
    by (simp add: between_rounds_def)
  show "all_free nprocs s" if "rank \<noteq> 0" "rank \<noteq> 1" "between_rounds nprocs rank 1 s" for s
    using that by (auto simp: between_rounds_def between_def other_slots_def all_free_def fresh_def)
qed

lemma triple_send_inits:
  "triple fuel (slots nprocs (rank \<noteq> 0) (\<lambda>_. Unset))
    (if_c (rank = 0) send_inits)
    (between_rounds nprocs rank 0)"
proof (rule triple_if)
  assume rank: "rank = 0"
  let ?S = "slots nprocs False" and ?f = "\<lambda>_ :: int. Unset"
  let ?f1 = "?f(4 * 2 := Idle, 4 * 2 + 1 := Idle)"
  let ?f2 = "?f1(5 * 2 := Idle, 5 * 2 + 1 := Idle)"
  let ?f3 = "?f2(6 * 2 := Idle, 6 * 2 + 1 := Idle)"
  let ?f4 = "?f3(7 * 2 := Idle, 7 * 2 + 1 := Idle)"
  have inits: "triple fuel (?S ?f) (seq (send_init_pair Standard 4)) (?S ?f1)"
    "triple fuel (?S ?f1) (seq (send_init_pair Buffered 5)) (?S ?f2)"
    "triple fuel (?S ?f2) (seq (send_init_pair Ready 6)) (?S ?f3)"
    "triple fuel (?S ?f3) (seq (send_init_pair Synchronous 7)) (?S ?f4)"
    by (rule triple_send_init_pair; simp add: fresh_def)+
  have "sender_slots ?f4" by (auto simp: sender_slots_def fresh_def)
  then have "?S ?f4 s \<Longrightarrow> between_rounds nprocs rank 0 s" for s
    using rank by (auto simp: between_rounds_def between_def)
  moreover have "triple fuel (?S ?f) (seq send_inits) (?S ?f4)"
    unfolding send_inits_def by (rule triple_append [OF inits(1) triple_append [OF inits(2) triple_append [OF inits(3,4)]]])
  ultimately show "triple fuel (slots nprocs (rank \<noteq> 0) (\<lambda>_. Unset)) (seq send_inits) (between_rounds nprocs rank 0)"
    using rank by (auto elim: triple_conseq)
qed (auto simp: between_rounds_def between_def other_slots_def receiver_slots_def fresh_def)

lemma triple_main:
  assumes "16 \<le> fuel"
  shows "triple fuel (slots nprocs (rank \<noteq> 0) (\<lambda>_. Unset))
    (seq [call (MPI_Buffer_attach (Ref ''bbuf'' 0) (4 * bbuf_elements overhead)),
     if_c (rank = 0) send_inits,
     for_c (upto_lt 0 2) (\<lambda>m. [if_c (m = 1 \<and> rank = 1) [recv_init_pairs],
       for_c (upto_lt 0 16) (\<lambda>l. [for_c (upto_lt 0 16) (mismatch_round fuel rank m l)])]),
     call (MPI_Barrier W),
     if_else (rank = 0)
      [for_c (upto_lt (2 * (8 - 4)) (2 * 8)) (\<lambda>i. [call (MPI_Request_free (aReq i))])]
      [if_c (rank = 1) [for_c (upto_lt 0 (2 * 8)) (\<lambda>i. [call (MPI_Request_free (aReq i))])]]])
    (all_free nprocs)"
proof -
  have attach: "triple fuel (slots nprocs w f) (call (MPI_Buffer_attach (Ref ''bbuf'' 0) (4 * bbuf_elements overhead))) (slots nprocs w f)" for w f
    by (intro triple_call) (simp add: mpi_running chk_ok bbuf_elements_def)
  show ?thesis
    by (rule triple_cons [OF attach triple_cons [OF triple_send_inits triple_cons [OF triple_both [OF assms]
      triple_cons [OF triple_between_barrier triple_single [OF triple_free_requests]]]]])
qed

text \<open>After the declarations and the first calls, and from \<open>MPI_Buffer_detach\<close> on.\<close>

lemma mismatch_start:
  assumes "world_env rank nprocs env" and "2 \<le> nprocs"
  obtains i s where "slots nprocs w (\<lambda>_. Unset) s"
    and "\<And>body. verdict_from env (mbi_main (mismatch_objects overhead) body) 0 (lstart rank nprocs) =
      verdict_from env (seq (body rank nprocs) (Ret 0)) i s"
    and "\<And>body. truthful_from env (mbi_main (mismatch_objects overhead) body) 0 (lstart rank nprocs) =
      truthful_from env (seq (body rank nprocs) (Ret 0)) i s"
proof
  let ?s = "(lstart rank nprocs)\<lparr>phase := Running, objs := [(''nprocs'', 1), (''rank'', 1), (''processor_name'', 1024), (''namelen'', 1)] @
     mismatch_objects overhead\<rparr>"
  show "slots nprocs w (\<lambda>_. Unset) ?s"
    using assms(2) by (simp add: slots_def tidy_def owned_def in_slot_def lstart_def mismatch_objects_def)
  show "verdict_from env (mbi_main (mismatch_objects overhead) body) 0 (lstart rank nprocs) =
      verdict_from env (seq (body rank nprocs) (Ret 0)) 25 ?s" for body
    using assms by (simp add: mbi_main_def decls_def call_def mismatch_objects_def check_simps eval_nat_numeral)
  show "truthful_from env (mbi_main (mismatch_objects overhead) body) 0 (lstart rank nprocs) =
      truthful_from env (seq (body rank nprocs) (Ret 0)) 25 ?s" for body
    using assms by (simp add: mbi_main_def decls_def call_def mismatch_objects_def check_simps eval_nat_numeral)
qed

lemma mismatch_end:
  assumes s: "all_free nprocs s" and "returns_buffer (4 * bbuf_elements overhead) env"
  shows "verdict_from env (seq ([call_then (MPI_Buffer_detach (Ref ''bbuf'' 0) (Ref ''at_size'' 0)) (\<lambda>at_size.
      [assert_c (out at_size 0 = 4 * bbuf_elements overhead)])] @ mbi_end) (Ret 0)) i s = (Exit 0, [])"
proof -
  from s obtain w f where f: "\<And>i. 0 \<le> i \<Longrightarrow> i < 16 \<Longrightarrow> fresh (f i)" and s: "slots nprocs w f s"
    by (auto simp: all_free_def)
  have dead: "\<not> live q \<and> \<not> active q" if "q \<in> set (rtab s)" for q
  proof -
    from that obtain h where h: "h < length (rtab s)" "q = rtab s ! h" by (metis in_set_conv_nth)
    then have "\<not> live q" using live_request [OF s, of h] f by (metis fresh_def)
    with h s show ?thesis by (auto simp: slots_def owned_def)
  qed
  have "\<not> busy (f i)" if "0 \<le> i" "i < 16" for i
    using f [OF that] by (auto simp: fresh_def)
  then have "\<not> conflicts s True r" for r by (rule idle_no_conflict [OF s])
  moreover have "\<not> list_ex (\<lambda>q. active q \<and> live q) (rtab s)" "\<not> list_ex (\<lambda>q. persistent q \<and> live q \<and> \<not> active q) (rtab s)"
    using dead by (auto simp: list_ex_iff)
  ultimately show ?thesis
    using s assms(2) by (simp add: slots_def tidy_def returns_buffer_def call_then_def call_def assert_c_def mbi_end_def
      access_some chk_ok mpi_def)
qed

lemma mismatch_clean:
  assumes env: "world_env rank nprocs env" "2 \<le> nprocs" "16 \<le> fuel" "progress fuel env"
    "returns_buffer (4 * bbuf_elements overhead) env" and t: "truthful (medium_p2p_mismatch overhead fuel) env"
  shows "verdict rank nprocs env (medium_p2p_mismatch overhead fuel) = (Exit 0, [])"
proof -
  note [simp del] = seq.simps
  let ?tail = "seq ([call_then (MPI_Buffer_detach (Ref ''bbuf'' 0) (Ref ''at_size'' 0)) (\<lambda>at_size.
      [assert_c (out at_size 0 = 4 * bbuf_elements overhead)])] @ mbi_end) (Ret 0)"
  obtain i s where s: "slots nprocs (rank \<noteq> 0) (\<lambda>_. Unset) s"
    and v: "\<And>body. verdict_from env (mbi_main (mismatch_objects overhead) body) 0 (lstart rank nprocs) =
      verdict_from env (seq (body rank nprocs) (Ret 0)) i s"
    and tr: "\<And>body. truthful_from env (mbi_main (mismatch_objects overhead) body) 0 (lstart rank nprocs) =
      truthful_from env (seq (body rank nprocs) (Ret 0)) i s"
    using mismatch_start [OF env(1,2)] by metis
  have skip: "seq ([if_c (nprocs < 2) x, a, b, c, d, e, g] @ ss) k = seq [a, b, c, d, e] (seq ([g] @ ss) k)" for x a b c d e g ss k
    using env(2) by (simp add: if_c_def seq.simps)
  from t env(1) have "truthful_from env (medium_p2p_mismatch overhead fuel) 0 (lstart rank nprocs)"
    by (simp add: truthful_def)
  then show ?thesis
    unfolding verdict_eq medium_p2p_mismatch_def tr v skip
    by (rule tripleD [OF triple_main [OF env(3)] env(4) s]) (simp only: mismatch_end [OF _ env(5)])
qed

section \<open>Such answers exist\<close>

fun returning_env :: "int \<Rightarrow> int \<Rightarrow> int \<Rightarrow> nat \<Rightarrow> ccall \<Rightarrow> resp" where
  "returning_env b rank nprocs i (Sys (Buffer_detach p q)) = [b]"
| "returning_env b rank nprocs i c = yes_env rank nprocs i c"

definition answers_well :: "int \<Rightarrow> int \<Rightarrow> int \<Rightarrow> (nat \<Rightarrow> ccall \<Rightarrow> resp) \<Rightarrow> bool" where
  "answers_well b rank nprocs env \<longleftrightarrow> world_env rank nprocs env \<and> returns_buffer b env \<and>
     (\<forall>i c. is_test c \<longrightarrow> out (env i c) 0 \<noteq> 0)"

lemma returning_well: "0 \<le> rank \<Longrightarrow> rank < nprocs \<Longrightarrow> answers_well b rank nprocs (returning_env b rank nprocs)"
  unfolding answers_well_def
proof (intro conjI allI impI)
  fix i c assume "is_test c"
  then show "out (returning_env b rank nprocs i c) 0 \<noteq> 0"
    by (cases c rule: is_test.cases) auto
qed (simp_all add: world_env_def returns_buffer_def)

text \<open>An answer to one call that fits, and its place among the others.\<close>

lemma truthful_answer:
  assumes "0 \<le> rank" "rank < nprocs"
  obtains r where "truthful_call s c r"
    "\<And>env. answers_well b rank nprocs env \<Longrightarrow> answers_well b rank nprocs (env(i := (env i)(c := r)))"
proof -
  define as where "as = (case c of Rq (Waitany n p) \<Rightarrow> active_indices s n p | Rq (Waitsome n p) \<Rightarrow> active_indices s n p
    | Rq (Testany n p) \<Rightarrow> active_indices s n p | Rq (Testsome n p) \<Rightarrow> active_indices s n p | _ \<Rightarrow> [])"
  define r where "r = (case c of Rq (Waitany n p) \<Rightarrow> [hd as] | Rq (Waitsome n p) \<Rightarrow> [1, hd as]
    | Rq (Testany n p) \<Rightarrow> [1, hd as] | Rq (Testsome n p) \<Rightarrow> [1, hd as] | _ \<Rightarrow> returning_env b rank nprocs i c)"
  have "as = [] \<or> hd as \<in> set as" by (cases as) auto
  then have "truthful_call s c r"
    by (cases c rule: is_test.cases; cases "(s, c, r)" rule: truthful_call.cases)
      (auto simp: r_def as_def names_one_def lists_some_def intro!: exI [of _ "[_]"])
  moreover have "answers_well b rank nprocs (env(i := (env i)(c := r)))" if "answers_well b rank nprocs env" for env
    using that returning_well [OF assms, of b] unfolding answers_well_def world_env_def returns_buffer_def
    by (auto simp: r_def split: ccall.splits req_call.splits)
  ultimately show ?thesis by (rule that)
qed

lemma truthful_cong:
  "(\<And>j. i \<le> j \<Longrightarrow> env j = env' j) \<Longrightarrow> truthful_from env p i s = truthful_from env' p i s"
proof (induction p arbitrary: i s)
  case (Call c k)
  have "env i = env' i" using Call.prems by simp
  moreover have "truthful_from env (k r) (Suc i) s = truthful_from env' (k r) (Suc i) s" for r s
    by (rule Call.IH [OF rangeI]) (simp add: Call.prems)
  ultimately show ?case by simp
qed simp_all

lemma truthful_exists:
  assumes "0 \<le> rank" "rank < nprocs"
  shows "\<exists>env. answers_well b rank nprocs env \<and> truthful_from env p i s"
proof (induction p arbitrary: i s)
  case (Call c k)
  obtain r where r: "truthful_call s c r"
    "\<And>env. answers_well b rank nprocs env \<Longrightarrow> answers_well b rank nprocs (env(i := (env i)(c := r)))"
    using truthful_answer [OF assms] by metis
  obtain env where env: "answers_well b rank nprocs env" "truthful_from env (k r) (Suc i) (lstep (c, r) s)"
    using Call.IH [OF rangeI] by blast
  let ?env = "env(i := (env i)(c := r))"
  have "truthful_from ?env (k r) (Suc i) (lstep (c, r) s)"
    using env(2) by (subst truthful_cong [where env' = env]) auto
  then have "truthful_from ?env (Call c k) i s" using r(1) by simp
  with r(2) [OF env(1)] show ?case by blast
qed (use returning_well [OF assms] in auto)

definition mismatch_answers :: "nat \<Rightarrow> nat \<Rightarrow> (nat \<Rightarrow> ccall \<Rightarrow> resp) \<Rightarrow> bool" where
  "mismatch_answers overhead fuel env \<longleftrightarrow> progress fuel env \<and> returns_buffer (4 * bbuf_elements overhead) env \<and>
     truthful (medium_p2p_mismatch overhead fuel) env"

lemma world_env_unique:
  "world_env rank nprocs env \<Longrightarrow> world_env rank' nprocs' env \<Longrightarrow> rank' = rank \<and> nprocs' = nprocs"
  using world_env_calls [of rank nprocs env 0 NULL] world_env_calls [of rank' nprocs' env 0 NULL] by simp

lemma mismatch_possible: "0 < fuel \<Longrightarrow> possible (mismatch_answers overhead fuel)"
  unfolding possible_def
proof (intro allI impI)
  fix rank nprocs :: int assume fuel: "0 < fuel" and r: "0 \<le> rank" "rank < nprocs"
  obtain env where env: "answers_well (4 * bbuf_elements overhead) rank nprocs env"
    and t: "truthful_from env (medium_p2p_mismatch overhead fuel) 0 (lstart rank nprocs)"
    using truthful_exists [OF r] by blast
  from env have w: "world_env rank nprocs env" by (simp add: answers_well_def)
  have "progress fuel env" using env fuel unfolding progress_def answers_well_def by (intro allI impI exI [of _ 0]) auto
  moreover have "truthful (medium_p2p_mismatch overhead fuel) env"
    unfolding truthful_def using world_env_unique [OF w] t by blast
  ultimately show "\<exists>env. world_env rank nprocs env \<and> mismatch_answers overhead fuel env"
    using env unfolding mismatch_answers_def answers_well_def by blast
qed

lemma mismatch_clean_under: "16 \<le> fuel \<Longrightarrow> clean_under (mismatch_answers overhead fuel) 2 (medium_p2p_mismatch overhead fuel)"
  by (rule clean_underI) (auto simp: mismatch_answers_def intro: mismatch_clean)

section \<open>The messages\<close>

text \<open>
  The calls of a part of the program, the messages they name by tag, count and type, and the
  calls before and after the first barrier.
\<close>

definition part_calls :: "stmt list \<Rightarrow> ccall list" where
  "part_calls ss = map fst (fst (run (yes_env 0 2) (seq ss (Ret 0)) 0))"

fun message :: "ccall \<Rightarrow> (int \<times> int \<times> dtype) list" where
  "message (P2p (Isend mode b n d dst t c p)) = [(t, n, d)]"
| "message (P2p (Send_init mode b n d dst t c p)) = [(t, n, d)]"
| "message (P2p (Irecv b n d src (Tag t) c p)) = [(t, n, d)]"
| "message (P2p (Recv_init b n d src (Tag t) c p)) = [(t, n, d)]"
| "message c = []"

fun is_buffered :: "ccall \<Rightarrow> bool" where
  "is_buffered (P2p (Isend Buffered b n d dst t c p)) = True"
| "is_buffered (P2p (Send_init Buffered b n d dst t c p)) = True"
| "is_buffered c = False"

text \<open>Calls that may start a send in ready mode, and calls that start a receive.\<close>

fun starts_ready :: "ccall \<Rightarrow> bool" where
  "starts_ready (P2p (Isend Ready b n d dst t c p)) = True"
| "starts_ready (Rq (Start p)) = True"
| "starts_ready (Rq (Startall n p)) = True"
| "starts_ready c = False"

fun starts_receive :: "ccall \<Rightarrow> bool" where
  "starts_receive (P2p (Irecv b n d src t c p)) = True"
| "starts_receive (Rq (Start p)) = True"
| "starts_receive (Rq (Startall n p)) = True"
| "starts_receive c = False"

definition sent_messages :: "int \<Rightarrow> (int \<times> int \<times> dtype) list" where
  "sent_messages k = concat (map message (part_calls (send_posts k) @ part_calls send_inits))"

definition received_messages :: "int \<Rightarrow> (int \<times> int \<times> dtype) list" where
  "received_messages m = concat (map message (part_calls [if m = 0 then irecv_pairs else recv_init_pairs]))"

definition misfit :: "int \<times> int \<times> dtype \<Rightarrow> int \<times> int \<times> dtype \<Rightarrow> bool" where
  "misfit a b \<longleftrightarrow> (case a of (t, n, d) \<Rightarrow> case b of (t', n', d') \<Rightarrow>
     t = t' \<and> bytes_of (lstart 0 2) n d = 512 \<and> bytes_of (lstart 1 2) n' d' = 512 \<and> (d = d') = (t mod 2 = 0))"

lemma messages_misfit:
  "list_all (\<lambda>k. list_all (\<lambda>m. list_all2 misfit (sent_messages k) (received_messages m)) [0, 1]) (upto_lt 0 16)"
  by code_simp

lemma buffered_fit:
  "list_all (\<lambda>k. length (filter is_buffered (part_calls (send_posts k) @ part_calls send_inits)) = 4) (upto_lt 0 16)"
  by code_simp

lemma ready_after_receives:
  "list_all (\<lambda>k. list_all (\<lambda>c. \<not> starts_ready c) (takeWhile (\<lambda>c. c \<noteq> MPI_Barrier W) (part_calls (send_posts k)))) (upto_lt 0 16)"
  "list_all (\<lambda>m. list_all (\<lambda>l. list_all (\<lambda>c. \<not> starts_receive c)
     (dropWhile (\<lambda>c. c \<noteq> MPI_Barrier W) (part_calls (receive_posts m l)))) (upto_lt 0 16)) [0, 1]"
  by code_simp+

text \<open>
  C15. With truthful answers and progress, no process of \<open>medium-p2p-mismatch.c\<close> makes an error
  in its 512 rounds, in whatever way it completes its requests: no buffer is touched while
  in use, no request is started twice, lost or leaked. In each round, process 1 expects every
  message with its tag and its 512 bytes, but those with odd tags as bytes instead of
  integers: the mismatch of the title. Sends in ready mode are started after the barrier that
  process 1 enters when its receives are started, and the attached buffer has room for the
  messages of a round that are sent in buffered mode.
\<close>

theorem p2p_mismatch_rounds:
  "possible (mismatch_answers overhead (fuel + 16)) \<and>
   clean_under (mismatch_answers overhead (fuel + 16)) 2 (medium_p2p_mismatch overhead (fuel + 16)) \<and>
   list_all (\<lambda>k. list_all (\<lambda>m. list_all2 misfit (sent_messages k) (received_messages m)) [0, 1]) (upto_lt 0 16) \<and>
   list_all (\<lambda>k. list_all (\<lambda>c. \<not> starts_ready c) (takeWhile (\<lambda>c. c \<noteq> MPI_Barrier W) (part_calls (send_posts k)))) (upto_lt 0 16) \<and>
   list_all (\<lambda>m. list_all (\<lambda>l. list_all (\<lambda>c. \<not> starts_receive c)
     (dropWhile (\<lambda>c. c \<noteq> MPI_Barrier W) (part_calls (receive_posts m l)))) (upto_lt 0 16)) [0, 1] \<and>
   list_all (\<lambda>k. int (length (filter is_buffered (part_calls (send_posts k) @ part_calls send_inits))) *
     (512 + int overhead) \<le> 4 * bbuf_elements overhead) (upto_lt 0 16)"
proof (intro conjI messages_misfit ready_after_receives)
  show "possible (mismatch_answers overhead (fuel + 16))" by (rule mismatch_possible) simp
  show "clean_under (mismatch_answers overhead (fuel + 16)) 2 (medium_p2p_mismatch overhead (fuel + 16))"
    by (rule mismatch_clean_under) simp
  show "list_all (\<lambda>k. int (length (filter is_buffered (part_calls (send_posts k) @ part_calls send_inits))) *
     (512 + int overhead) \<le> 4 * bbuf_elements overhead) (upto_lt 0 16)"
    using buffered_fit unfolding list_all_iff by (simp add: bbuf_elements_def)
qed

end
