(* ===== verification/Windows.thy ===== *)
theory Windows
  imports Codes_Coll Codes_Aside Polling
begin

text \<open>
  Races on windows. The accesses of a process to window memory, its own and that of others,
  are read off its run; the barriers of \<open>MPI_COMM_WORLD\<close> divide the run into phases. Accesses
  of two processes in different phases are ordered; two in the same phase that overlap, one
  of which writes, are a race: what the label \<open>GlobalConcurrency\<close> of README.md is about.
\<close>

section \<open>Accesses to windows\<close>

record waccess =
  a_phase :: nat
  a_target :: int
  a_lo :: int
  a_hi :: int
  a_writes :: bool

text \<open>
  The phase, and the memory of the window the process has created (the object, its first byte
  and the byte after the last) with its displacement unit. The codes have one window each.
\<close>

record wstate =
  w_me :: int
  w_phase :: nat
  w_mem :: "(string \<times> int \<times> int) option"
  w_unit :: int

fun basic_bytes :: "dtype \<Rightarrow> int" where
  "basic_bytes MPI_INT = 4"
| "basic_bytes MPI_DOUBLE = 8"
| "basic_bytes MPI_FLOAT = 4"
| "basic_bytes MPI_BYTE = 1"
| "basic_bytes d = 0"

definition own_access :: "wstate \<Rightarrow> bool \<Rightarrow> ptr \<Rightarrow> int \<Rightarrow> waccess list" where
  "own_access t w p n =
     (case (p, w_mem t) of
        (Ref x i, Some (y, lo, hi)) \<Rightarrow>
          if x = y \<and> 4 * i < hi \<and> lo < 4 * i + n
          then [\<lparr>a_phase = w_phase t, a_target = w_me t, a_lo = 4 * i - lo, a_hi = 4 * i + n - lo, a_writes = w\<rparr>]
          else []
      | _ \<Rightarrow> [])"

definition target_access :: "wstate \<Rightarrow> bool \<Rightarrow> int \<Rightarrow> int \<Rightarrow> int \<Rightarrow> dtype \<Rightarrow> waccess" where
  "target_access t w tgt disp n d =
     \<lparr>a_phase = w_phase t, a_target = tgt, a_lo = disp * w_unit t, a_hi = disp * w_unit t + n * basic_bytes d,
      a_writes = w\<rparr>"

text \<open>Of the other calls, none of the codes looked at passes window memory to one.\<close>

fun window_accesses :: "wstate \<Rightarrow> ccall \<Rightarrow> waccess list" where
  "window_accesses t (C (Load p)) = own_access t False p 4"
| "window_accesses t (C (Store p v)) = own_access t True p 4"
| "window_accesses t (C (Memset p v n)) = own_access t True p n"
| "window_accesses t (Rma (Put b n d tgt disp n' d' p)) =
     target_access t True tgt disp n' d' # own_access t False b (n * basic_bytes d)"
| "window_accesses t (Rma (Get b n d tgt disp n' d' p)) =
     target_access t False tgt disp n' d' # own_access t True b (n * basic_bytes d)"
| "window_accesses t (Rma (Accumulate b n d tgt disp n' d' f p)) =
     target_access t True tgt disp n' d' # own_access t False b (n * basic_bytes d)"
| "window_accesses t c = []"

fun window_step :: "ccall \<Rightarrow> wstate \<Rightarrow> wstate" where
  "window_step (Coll (Barrier c)) t =
     (if c = MPI_COMM_WORLD then t\<lparr>w_phase := Suc (w_phase t)\<rparr> else t)"
| "window_step (Rma (Win_create (Ref x i) n u c p)) t = t\<lparr>w_mem := Some (x, 4 * i, 4 * i + n), w_unit := u\<rparr>"
| "window_step (Rma (Win_free p)) t = t\<lparr>w_mem := None\<rparr>"
| "window_step c t = t"

fun accesses_from :: "wstate \<Rightarrow> (ccall \<times> resp) list \<Rightarrow> waccess list" where
  "accesses_from t [] = []"
| "accesses_from t ((c, r) # es) = window_accesses t c @ accesses_from (window_step c t) es"

definition wstart :: "int \<Rightarrow> wstate" where
  "wstart rank = \<lparr>w_me = rank, w_phase = 0, w_mem = None, w_unit = 1\<rparr>"

definition accesses :: "int \<Rightarrow> (nat \<Rightarrow> ccall \<Rightarrow> resp) \<Rightarrow> prog \<Rightarrow> waccess list" where
  "accesses rank env p = accesses_from (wstart rank) (fst (run env p 0))"

text \<open>The same, call by call.\<close>

primrec accesses_along :: "(nat \<Rightarrow> ccall \<Rightarrow> resp) \<Rightarrow> prog \<Rightarrow> nat \<Rightarrow> wstate \<Rightarrow> waccess list" where
  "accesses_along env (Ret n) i t = []"
| "accesses_along env Assert_failed i t = []"
| "accesses_along env No_fuel i t = []"
| "accesses_along env Undefined i t = []"
| "accesses_along env (Call c k) i t =
     window_accesses t c @ accesses_along env (k (env i c)) (Suc i) (window_step c t)"

lemma accesses_along_run: "accesses_along env p i t = accesses_from t (fst (run env p i))"
proof (induction p arbitrary: i t)
  case (Call c k)
  show ?case by (simp add: Call [OF rangeI] Let_def split_def)
qed simp_all

lemma accesses_eq: "accesses rank env p = accesses_along env p 0 (wstart rank)"
  by (simp add: accesses_def accesses_along_run)

lemmas access_simps = Let_def accesses_eq wstart_def own_access_def target_access_def

section \<open>Races\<close>

definition conflicting :: "waccess \<Rightarrow> waccess \<Rightarrow> bool" where
  "conflicting a b \<longleftrightarrow> a_phase a = a_phase b \<and> a_target a = a_target b \<and>
     a_lo a < a_hi b \<and> a_lo b < a_hi a \<and> (a_writes a \<or> a_writes b)"

text \<open>
  Run by \<open>k\<close> processes or more, no two of them race, if the answers satisfy \<open>Q\<close>; and the
  processes \<open>i\<close> and \<open>j\<close> race.
\<close>

definition race_free_under :: "((nat \<Rightarrow> ccall \<Rightarrow> resp) \<Rightarrow> bool) \<Rightarrow> int \<Rightarrow> prog \<Rightarrow> bool" where
  "race_free_under Q k p \<longleftrightarrow>
     (\<forall>nprocs i j env env'. k \<le> nprocs \<longrightarrow> i \<noteq> j \<longrightarrow> world_env i nprocs env \<longrightarrow> world_env j nprocs env' \<longrightarrow>
        Q env \<longrightarrow> Q env' \<longrightarrow> (\<forall>a\<in>set (accesses i env p). \<forall>b\<in>set (accesses j env' p). \<not> conflicting a b))"

definition races :: "int \<Rightarrow> int \<Rightarrow> int \<Rightarrow> prog \<Rightarrow> bool" where
  "races i j k p \<longleftrightarrow>
     (\<forall>nprocs env env'. k \<le> nprocs \<longrightarrow> world_env i nprocs env \<longrightarrow> world_env j nprocs env' \<longrightarrow>
        (\<exists>a\<in>set (accesses i env p). \<exists>b\<in>set (accesses j env' p). conflicting a b))"

lemma PSCW_races: "races 0 2 3 rma_PSCW_error_remote_WW"
  unfolding races_def by (simp add: access_simps conflicting_def code_defs)

lemma rma_lock_accesses:
  assumes "world_env rank nprocs env" "2 \<le> nprocs"
  shows "\<forall>a\<in>set (accesses rank env no_error_rma_lock). \<not> a_writes a"
  using assms by (simp add: access_simps code_defs)

lemma rma_lock_race_free: "race_free_under (\<lambda>env. True) 2 no_error_rma_lock"
  unfolding race_free_under_def conflicting_def using rma_lock_accesses by blast

lemma rma_lock2_accesses:
  assumes "world_env rank nprocs env" "2 \<le> nprocs"
  shows "\<forall>a\<in>set (accesses rank env no_error_rma_lock2). a_target a = (rank + 1) smod nprocs"
  using assms by (simp add: access_simps code_defs)

lemma next_inject:
  assumes "0 \<le> i" "i < n" "0 \<le> j" "j < n" "(i + 1) smod n = (j + 1) smod (n :: int)"
  shows "i = j"
proof -
  have "(i + 1) smod n = (if i + 1 = n then 0 else i + 1)" "(j + 1) smod n = (if j + 1 = n then 0 else j + 1)"
    using assms(1-4) by (auto simp: smod_int_alt_def)
  with assms show ?thesis by (auto split: if_splits)
qed

lemma rma_lock2_race_free: "race_free_under (\<lambda>env. True) 2 no_error_rma_lock2"
  unfolding race_free_under_def conflicting_def
  using rma_lock2_accesses next_inject world_env_rank by metis

section \<open>medium-lockopts.c\<close>

definition allocated :: "(nat \<Rightarrow> ccall \<Rightarrow> resp) \<Rightarrow> bool" where
  "allocated env \<longleftrightarrow> (\<forall>i p n. out (env i (C_malloc p n)) 0 = 1 \<and> out (env i (MPI_Alloc_mem n p)) 0 = 1)"

fun memory_env :: "int \<Rightarrow> int \<Rightarrow> nat \<Rightarrow> ccall \<Rightarrow> resp" where
  "memory_env rank nprocs i (C (Malloc p n)) = [1]"
| "memory_env rank nprocs i (Rma (Alloc_mem n p)) = [1]"
| "memory_env rank nprocs i c = std_env rank nprocs i c"

text \<open>Loops whose number of calls depends on the responses.\<close>

lemma verdict_from_any_loop:
  assumes "\<And>i n k. i \<in> set is \<Longrightarrow> (\<And>n. verdict_from env k n s = v) \<Longrightarrow> verdict_from env (seq (body i) k) n s = v"
    and "\<And>n. verdict_from env k n s = v"
  shows "verdict_from env (for_c is body k) n s = v"
  unfolding for_c_def using assms by (induction "is" arbitrary: n) simp_all

lemma accesses_along_any_loop:
  assumes "\<And>i n k. i \<in> set is \<Longrightarrow> (\<And>n. list_all P (accesses_along env k n t)) \<Longrightarrow>
      list_all P (accesses_along env (seq (body i) k) n t)"
    and "\<And>n. list_all P (accesses_along env k n t)"
  shows "list_all P (accesses_along env (for_c is body k) n t)"
  unfolding for_c_def using assms by (induction "is" arbitrary: n) simp_all

definition lockopts_window :: "int \<Rightarrow> bool \<Rightarrow> window" where
  "lockopts_window nprocs b = \<lparr>win_bytes = 160 * nprocs, win_unit = 4, locked = (if b then [0] else []),
     fenced = False, started_for = [], posted = False, rma_pending = []\<rparr>"

lemma lockopts_verify_verdict:
  assumes "aget (objs s) ''rmabuf'' = Some memsize" "10 \<le> memsize" "rtab s = []" "phase s = Running" "0 < np s"
    and "wvar s = [(Ref ''win'' 0, Some (lockopts_window nprocs False))]"
    and "\<And>n. verdict_from env k n s = v"
  shows "verdict_from env (seq (lockopts_verify e memsize) k) n s = v"
proof -
  define s' where "s' = s\<lparr>wvar := [(Ref ''win'' 0, Some (lockopts_window nprocs True))]\<rparr>"
  have s: "s\<lparr>wvar := [(Ref ''win'' 0, Some (lockopts_window nprocs False))]\<rparr> = s"
    using assms(6) by (cases s) simp
  have k: "verdict_from env k n (s\<lparr>wvar := [(Ref ''win'' 0, Some (lockopts_window nprocs False))]\<rparr>) = v" for n
    by (simp only: s assms(7))
  have own: "access w (Ref ''rmabuf'' i) 4 s' = s'" if "0 \<le> i" "i < memsize" for i w
    using that assms by (simp_all add: s'_def check_simps lockopts_window_def)
  have unlock: "verdict_from env (call (MPI_Win_unlock 0 (Ref ''win'' 0)) k) n s' = v" for n
    using assms(1-6) k by (simp add: s'_def call_def check_simps lockopts_window_def)
  have "verdict_from env (for_c (upto_lt 0 10) b1 (for_c (upto_lt 10 memsize) b2
      (call (MPI_Win_unlock 0 (Ref ''win'' 0)) k))) n s' = v"
    if "b1 = (\<lambda>i. [call_then (C_load (Ref ''rmabuf'' i)) (\<lambda>v.
        [if_c (out v 0 \<noteq> e i) [call (C_load (Ref ''rmabuf'' i)), call (C_printf ''expected rmabuf[%d] = %d but saw %d'')],
         call (C_store (Ref ''rmabuf'' i) (- i))])])"
    and "b2 = (\<lambda>i. [call_then (C_load (Ref ''rmabuf'' i)) (\<lambda>v.
        [if_c (out v 0 \<noteq> - i)
          [call (C_load (Ref ''rmabuf'' i)), call (C_printf ''expected rmabuf[%d] = %d but saw %d''),
           call (C_store (Ref ''rmabuf'' i) (- i))]])])" for b1 b2 n
    unfolding that
    by (intro verdict_from_any_loop unlock)
      (use assms(2) in \<open>simp_all add: call_then_def if_c_def call_def own\<close>)
  then show ?thesis
    using assms(4-6) by (simp add: lockopts_verify_def call_def check_simps s'_def lockopts_window_def)
qed

text \<open>Process 0 accesses its window between an odd barrier and the next.\<close>

lemma lockopts_verify_accesses:
  assumes "even (w_phase t)" "w_me t = 0" "w_mem t = Some (''rmabuf'', 0, 4 * memsize)" "10 \<le> memsize"
    and "\<And>n. list_all (\<lambda>a. odd (a_phase a)) (accesses_along env k n (t\<lparr>w_phase := Suc (w_phase t)\<rparr>))"
  shows "list_all (\<lambda>a. odd (a_phase a)) (accesses_along env (seq (lockopts_verify e memsize) k) n t)"
  unfolding lockopts_verify_def Let_def
  using assms
  by (simp add: call_def, intro accesses_along_any_loop;
    simp add: call_then_def if_c_def call_def own_access_def)

lemma lockopts_fill:
  assumes "aget (objs s) ''rmabuf'' = Some m" "aget (objs s) ''srcbuf'' = Some m" "rtab s = []" "wvar s = []"
    and "\<And>n. verdict_from env k n s = v"
  shows "verdict_from env (for_c (upto_lt 0 m)
    (\<lambda>i. [call (C_store (Ref ''rmabuf'' i) (- i)), call (C_store (Ref ''srcbuf'' i) i)]) k) n s = v"
  by (intro verdict_from_any_loop assms(5)) (use assms(1-4) in \<open>simp_all add: call_def check_simps\<close>)

lemma lockopts_master:
  "world_env 0 nprocs env \<Longrightarrow> allocated env \<Longrightarrow> 2 \<le> nprocs \<Longrightarrow> verdict 0 nprocs env medium_lockopts = (Exit 0, [])"
  by (simp add: medium_lockopts_def allocated_def check_simps decls_def call_def if_c_def call_then_def,
    rule lockopts_fill; (simp add: check_simps lockopts_part_def if_else_def)?;
    (rule lockopts_verify_verdict [where nprocs = nprocs]; simp add: lockopts_window_def call_def check_simps)+)

lemma lockopts_others:
  "world_env rank nprocs env \<Longrightarrow> rank = 1 \<or> 1 < rank \<Longrightarrow> allocated env \<Longrightarrow> 2 \<le> nprocs \<Longrightarrow>
     verdict rank nprocs env medium_lockopts = (Exit 0, [])"
  by (erule disjE; simp add: medium_lockopts_def allocated_def check_simps decls_def call_def if_c_def call_then_def;
    rule lockopts_fill; (simp add: check_simps)?;
    simp add: check_simps lockopts_part_def if_else_def call_def call_then_def if_c_def)

lemma lockopts_clean: "clean_under allocated 2 medium_lockopts"
proof (rule clean_underI)
  fix rank nprocs env
  assume env: "world_env rank nprocs env" "allocated env" "2 \<le> nprocs"
  show "verdict rank nprocs env medium_lockopts = (Exit 0, [])"
    using env lockopts_master lockopts_others world_env_rank(1) [OF env(1)]
    by (cases "rank = 0"; cases "rank = 1") simp_all
qed

lemma lockopts_fill_accesses:
  "w_mem t = None \<Longrightarrow> (\<And>n. list_all P (accesses_along env k n t)) \<Longrightarrow>
    list_all P (accesses_along env (for_c (upto_lt 0 m)
      (\<lambda>i. [call (C_store (Ref ''rmabuf'' i) (- i)), call (C_store (Ref ''srcbuf'' i) i)]) k) n t)"
  by (intro accesses_along_any_loop) (simp_all add: call_def own_access_def)

lemma lockopts_accesses_master:
  "world_env 0 nprocs env \<Longrightarrow> allocated env \<Longrightarrow> 2 \<le> nprocs \<Longrightarrow>
     list_all (\<lambda>a. odd (a_phase a)) (accesses 0 env medium_lockopts)"
  by (simp add: medium_lockopts_def allocated_def access_simps decls_def call_def if_c_def call_then_def,
    rule lockopts_fill_accesses; (simp add: Let_def lockopts_part_def if_else_def)?;
    (rule lockopts_verify_accesses; simp add: call_def)+)

lemma lockopts_accesses_others:
  "world_env rank nprocs env \<Longrightarrow> rank \<noteq> 0 \<Longrightarrow> allocated env \<Longrightarrow> 2 \<le> nprocs \<Longrightarrow>
     list_all (\<lambda>a. even (a_phase a) \<and> rank = 1) (accesses rank env medium_lockopts)"
  by (simp add: medium_lockopts_def allocated_def access_simps decls_def call_def if_c_def call_then_def,
    rule lockopts_fill_accesses; (simp; fail)?;
    simp add: lockopts_part_def if_else_def call_def call_then_def if_c_def access_simps)

lemma lockopts_race_free: "race_free_under allocated 2 medium_lockopts"
  unfolding race_free_under_def conflicting_def
proof (intro allI impI ballI notI)
  fix nprocs i j env env' a b
  assume n: "2 \<le> nprocs" and "i \<noteq> j" and env: "world_env i nprocs env" "world_env j nprocs env'"
    and Q: "allocated env" "allocated env'"
    and ab: "a \<in> set (accesses i env medium_lockopts)" "b \<in> set (accesses j env' medium_lockopts)"
    and c: "a_phase a = a_phase b \<and> a_target a = a_target b \<and> a_lo a < a_hi b \<and> a_lo b < a_hi a \<and>
      (a_writes a \<or> a_writes b)"
  have "if i = 0 then odd (a_phase a) else even (a_phase a) \<and> i = 1"
    using lockopts_accesses_master [of nprocs env] lockopts_accesses_others [OF env(1)] n Q ab env
    by (auto simp: list_all_iff)
  moreover have "if j = 0 then odd (a_phase b) else even (a_phase b) \<and> j = 1"
    using lockopts_accesses_master [of nprocs env'] lockopts_accesses_others [OF env(2)] n Q ab env
    by (auto simp: list_all_iff)
  ultimately show False using c \<open>i \<noteq> j\<close> by (auto split: if_splits)
qed

lemma allocated_possible: "possible allocated"
proof -
  have "world_env rank nprocs (memory_env rank nprocs)" if "0 \<le> rank" "rank < nprocs" for rank nprocs
    using that by (simp add: world_env_def)
  moreover have "allocated (memory_env rank nprocs)" for rank nprocs
    by (simp add: allocated_def)
  ultimately show ?thesis unfolding possible_def by blast
qed

section \<open>Each process on its own\<close>

lemma rma_lock_clean: "clean_from 2 no_error_rma_lock"
  by (rule clean_fromI) (simp add: next_rank mon_simps code_defs)

lemma rma_lock2_clean: "clean_from 2 no_error_rma_lock2"
  by (rule clean_fromI) (simp add: next_rank mon_simps code_defs)

lemma p2P_rma_reports0: "reports 0 2 no_error_p2P_rma [Mbi InvalidOtherArg, WindowLeak]"
  by (rule reportsI; simp add: mon_simps code_defs)

lemma p2P_rma_reports1: "reports 1 2 no_error_p2P_rma [Mbi InvalidOtherArg, WindowLeak]"
proof (rule reportsI)
  fix nprocs env
  assume "world_env 1 nprocs env" "2 \<le> nprocs"
  then show "verdict 1 nprocs env no_error_p2P_rma = (Exit 0, [Mbi InvalidOtherArg, WindowLeak])"
    by (simp add: check_simps stmt_defs no_error_p2P_rma_def, subst verdict_from_loop)
      (simp_all add: check_simps stmt_defs)
qed

lemma PSCW_clean: "clean_from 3 rma_PSCW_error_remote_WW"
  by (rule clean_from_ranks; simp add: mon_simps incl_ranks_def code_defs)

text \<open>
  C26. One-sided communication. The two codes with exclusive locks access only their
  neighbour's window, inside an epoch, touch no buffer before the operation on it is complete,
  and have no race. In \<open>rma-PSCW-error-remote-WW.c\<close> no process errs, but processes 0 and 2
  race: both put into the window of process 1. \<open>medium-lockopts.c\<close>, whose header expects an
  error, has none that is in its own text: no process errs and none race, for any number of
  processes, because process 0 touches its window between odd barriers and process 1 between
  even ones. \<open>no-error-p2P-rma.c\<close> creates a window of one byte and accesses an integer in it,
  and never frees the window.
\<close>

theorem windows_checked:
  "clean_from 2 no_error_rma_lock \<and> race_free_under (\<lambda>env. True) 2 no_error_rma_lock \<and>
   clean_from 2 no_error_rma_lock2 \<and> race_free_under (\<lambda>env. True) 2 no_error_rma_lock2 \<and>
   clean_from 3 rma_PSCW_error_remote_WW \<and> races 0 2 3 rma_PSCW_error_remote_WW \<and>
   possible allocated \<and> clean_under allocated 2 medium_lockopts \<and> race_free_under allocated 2 medium_lockopts \<and>
   reports 0 2 no_error_p2P_rma [Mbi InvalidOtherArg, WindowLeak] \<and>
   reports 1 2 no_error_p2P_rma [Mbi InvalidOtherArg, WindowLeak]"
  by (intro conjI rma_lock_clean rma_lock_race_free rma_lock2_clean rma_lock2_race_free PSCW_clean PSCW_races
      allocated_possible lockopts_clean lockopts_race_free p2P_rma_reports0 p2P_rma_reports1)

end
