(* ===== verification/Wildcards.thy ===== *)
theory Wildcards
  imports Deadlock
begin

text \<open>
  Wildcard receives that have no choice. Sequences \<open>T'\<close> that differ from \<open>T\<close> in naming the
  source or tag of some receives have the same runs, if every message that only the wildcard
  would admit is always taken by an earlier receive. Then a program with such a wildcard ends
  well if the one that names the source does, for which one completed run decides.
\<close>

section \<open>Naming the source of receives\<close>

fun same_op :: "op \<Rightarrow> op \<Rightarrow> bool" where
  "same_op (Rop src tg) (Rop src' tg') = (src \<in> {MPI_ANY_SOURCE, src'} \<and> tg \<in> {MPI_ANY_TAG, tg'})"
| "same_op x y = (x = y)"

fun same_item :: "item \<Rightarrow> item \<Rightarrow> bool" where
  "same_item (Item os ns) (Item os' ns') = (ns = ns' \<and> list_all2 same_op os os')"
| "same_item x y = (x = y)"

definition same_shape :: "item list list \<Rightarrow> item list list \<Rightarrow> bool" where
  "same_shape T T' \<longleftrightarrow> list_all2 (list_all2 same_item) T T' \<and>
     (\<forall>i\<in>set [0..<length T]. \<forall>x\<in>set (T ! i). \<forall>k\<in>set (waits x). k < length (ops T i))"

text \<open>
  A message \<open>s\<close> that the receive \<open>r\<close> never takes: earlier receives of the process admit it,
  and they need all the messages they admit.
\<close>

definition never_taken :: "item list list \<Rightarrow> opid \<Rightarrow> opid \<Rightarrow> bool" where
  "never_taken T s r \<longleftrightarrow>
     (let ls = filter (\<lambda>l. compat T s (fst r, l)) [0..<snd r];
          ss = filter (\<lambda>s'. \<exists>l\<in>set ls. compat T s' (fst r, l)) (map fst (all_ops T))
      in ls \<noteq> [] \<and> length ss \<le> length ls)"

definition naming :: "item list list \<Rightarrow> item list list \<Rightarrow> bool" where
  "naming T T' \<longleftrightarrow> same_shape T T' \<and>
     (\<forall>s\<in>set (map fst (all_ops T)). \<forall>r\<in>set (map fst (all_ops T)).
        compat T s r \<and> \<not> compat T' s r \<longrightarrow> never_taken T s r \<and>
          (\<forall>a\<in>set (map fst (all_ops T)).
             (fst a = fst s \<longrightarrow> \<not> compat T' a r) \<and> (fst a = fst r \<and> snd r < snd a \<longrightarrow> \<not> compat T' s a)))"

section \<open>The same runs\<close>

lemma same_starts: "same_item x y \<Longrightarrow> list_all2 same_op (starts x) (starts y)"
  by (cases x; cases y) simp_all

lemma same_starts_list:
  "list_all2 same_item xs ys \<Longrightarrow> list_all2 same_op (concat (map starts xs)) (concat (map starts ys))"
  by (induction rule: list_all2_induct) (simp_all add: same_starts list_all2_appendI)

lemma same_collectives: "list_all2 same_item xs ys \<Longrightarrow> filter is_collective xs = filter is_collective ys"
proof (induction rule: list_all2_induct)
  case (Cons x xs y ys)
  then show ?case by (cases x; cases y) auto
qed simp

lemma same_op_compat: "same_op x x' \<Longrightarrow> same_op y y' \<Longrightarrow> compat_ops i x' j y' \<Longrightarrow> compat_ops i x j y"
  by (cases x; cases x'; cases y; cases y') auto

text \<open>The two sequences offer the same calls and the same operations, up to the names.\<close>

lemma same_length: "same_shape T T' \<Longrightarrow> length T = length T'"
  unfolding same_shape_def by (blast dest: list_all2_lengthD)

lemma same_process: "same_shape T T' \<Longrightarrow> i < length T \<Longrightarrow> list_all2 same_item (T ! i) (T' ! i)"
  by (simp add: same_shape_def list_all2_conv_all_nth)

lemma same_calls: "same_shape T T' \<Longrightarrow> i < length T \<Longrightarrow> length (T ! i) = length (T' ! i)"
  using same_process list_all2_lengthD by blast

lemma same_ops: "same_shape T T' \<Longrightarrow> i < length T \<Longrightarrow> list_all2 same_op (ops T i) (ops T' i)"
  unfolding ops_def by (intro same_starts_list same_process)

lemma same_ops_length: "same_shape T T' \<Longrightarrow> i < length T \<Longrightarrow> length (ops T i) = length (ops T' i)"
  using same_ops list_all2_lengthD by blast

lemma same_valid: "same_shape T T' \<Longrightarrow> valid T a = valid T' a"
  using same_length [of T T'] same_ops_length [of T T' "fst a"] by (auto simp: valid_def)

lemma same_op_at: "same_shape T T' \<Longrightarrow> valid T a \<Longrightarrow> same_op (op_at T a) (op_at T' a)"
  using same_ops [of T T' "fst a"] by (simp add: valid_def op_at_def list_all2_nthD)

lemma named_compat_imp:
  "same_shape T T' \<Longrightarrow> valid T s \<Longrightarrow> valid T r \<Longrightarrow> compat T' s r \<Longrightarrow> compat T s r"
  unfolding compat_def using same_op_at same_op_compat by blast

lemma same_posted:
  assumes S: "same_shape T T'"
  shows "posted T w a = posted T' w a"
proof (cases "fst a < length T")
  case True
  have "list_all2 same_item (take n (T ! fst a)) (take n (T' ! fst a))" for n
    using same_process [OF S True] by (rule list_all2_takeI)
  from list_all2_lengthD [OF same_starts_list [OF this]] show ?thesis
    using same_length [OF S] by (simp add: posted_def)
next
  case False
  then show ?thesis using same_length [OF S] by (simp add: posted_def)
qed

lemma same_finished: "same_shape T T' \<Longrightarrow> finished T w = finished T' w"
proof -
  assume S: "same_shape T T'"
  have "map length T = map length T'"
    using same_length [OF S] same_calls [OF S] by (simp add: list_eq_iff_nth_eq)
  then show ?thesis by (simp add: finished_def)
qed

lemma total_steps_sum: "total_steps T = (\<Sum>i\<leftarrow>[0..<length T]. length (T ! i) + length (ops T i))"
proof -
  have "map length T = map (\<lambda>i. length (T ! i)) [0..<length T]" by (rule nth_equalityI) simp_all
  then show ?thesis by (simp add: total_steps_def all_ops_def length_concat o_def sum_list_addf)
qed

lemma same_total_steps:
  assumes S: "same_shape T T'"
  shows "total_steps T = total_steps T'"
proof -
  have "map (\<lambda>i. length (T ! i) + length (ops T i)) [0..<length T] =
      map (\<lambda>i. length (T' ! i) + length (ops T' i)) [0..<length T']"
    using same_calls [OF S] same_ops_length [OF S] by (simp add: same_length [OF S])
  then show ?thesis by (simp only: total_steps_sum)
qed

lemma same_op_done: "same_op x y \<Longrightarrow> op_done e w a x = op_done e w a y"
  by (cases x; cases y) auto

lemma same_entered:
  assumes S: "same_shape T T'"
  shows "all_entered T w n c = all_entered T' w n c"
proof -
  have "filter is_collective (take m (T ! j)) = filter is_collective (take m (T' ! j))" if "j < length T" for j m
    using same_collectives [OF list_all2_takeI [OF same_process [OF S that]]] .
  then show ?thesis using same_length [OF S] by (auto simp: all_entered_def Let_def)
qed

lemma same_item_done:
  assumes S: "same_shape T T'" and i: "i < length T" "n < length (T ! i)"
  shows "item_done e T w i (T ! i ! n) = item_done e T' w i (T' ! i ! n)"
proof -
  have same: "same_item (T ! i ! n) (T' ! i ! n)" using same_process [OF S i(1)] i(2) by (rule list_all2_nthD)
  have mem: "T ! i ! n \<in> set (T ! i)" using i(2) by simp
  show ?thesis
  proof (cases "T ! i ! n")
    case x: (Item os ns)
    with same obtain os' where y: "T' ! i ! n = Item os' ns" by (cases "T' ! i ! n") auto
    have "valid T (i, k)" if "k \<in> set ns" for k
      using S i(1) mem that unfolding x same_shape_def valid_def by fastforce
    then have "op_done e w (i, k) (op_at T (i, k)) = op_done e w (i, k) (op_at T' (i, k))" if "k \<in> set ns" for k
      using that by (intro same_op_done same_op_at [OF S])
    with x y show ?thesis by simp
  next
    case x: (Collective f root sync)
    with same have y: "T' ! i ! n = Collective f root sync" by (cases "T' ! i ! n") auto
    have "filter is_collective (take m (T ! i)) = filter is_collective (take m (T' ! i))" for m
      using i(1) by (intro same_collectives list_all2_takeI same_process [OF S])
    then show ?thesis unfolding x y by (simp add: same_entered [OF S])
  next
    case x: Unknown
    with same have y: "T' ! i ! n = Unknown" by (cases "T' ! i ! n") auto
    show ?thesis unfolding x y by simp
  qed
qed

lemma same_can_return: "same_shape T T' \<Longrightarrow> can_return e T w i = can_return e T' w i"
  using same_item_done [of T T' i "pos w ! i" e w] same_length [of T T'] same_calls [of T T' i]
  by (auto simp: can_return_def)

lemma fed_match: "fed T w \<Longrightarrow> (s, r) \<in> set (matched w) \<Longrightarrow> valid T s \<and> compat T s r"
  by (fastforce simp: fed_def intro: posted_valid)

lemma valid_listed: "valid T a \<Longrightarrow> a \<in> set (map fst (all_ops T))"
  by (drule all_ops_valid) (force intro: image_eqI)

lemma never_taken_no_match:
  assumes F: "fed T w" and M: "can_match T w s r"
  shows "\<not> never_taken T s r"
proof
  assume never: "never_taken T s r"
  let ?ls = "filter (\<lambda>l. compat T s (fst r, l)) [0..<snd r]"
  let ?ss = "filter (\<lambda>s'. \<exists>l\<in>set ?ls. compat T s' (fst r, l)) (map fst (all_ops T))"
  have "\<exists>s'. (s', (fst r, l)) \<in> set (matched w)" if "l \<in> set ?ls" for l
  proof -
    from that have "received w (fst r, l)" using can_matchD(7) [OF M, of l] by simp
    then show ?thesis by (blast elim: receivedE)
  qed
  then obtain f where f: "\<And>l. l \<in> set ?ls \<Longrightarrow> (f l, (fst r, l)) \<in> set (matched w)" by metis
  have inj: "inj_on f (set ?ls)"
  proof (rule inj_onI)
    fix k l assume "k \<in> set ?ls" "l \<in> set ?ls" "f k = f l"
    then have "(f k, (fst r, k)) \<in> set (matched w)" "(f k, (fst r, l)) \<in> set (matched w)"
      using f by fastforce+
    moreover have "distinct (map fst (matched w))" using F by (simp add: fed_def)
    ultimately have "(fst r, k) = (fst r, l)" by (rule eq_key_imp_eq_value [rotated])
    then show "k = l" by simp
  qed
  have sub: "f ` set ?ls \<subseteq> set ?ss"
  proof
    fix a assume "a \<in> f ` set ?ls"
    then obtain l where l: "l \<in> set ?ls" "a = f l" by blast
    with fed_match [OF F f [OF l(1)]] show "a \<in> set ?ss"
      using valid_listed [of T a] by auto
  qed
  have "card (set ?ss) \<le> length ?ss" by (rule card_length)
  also have "\<dots> \<le> length ?ls" using never by (simp add: never_taken_def Let_def)
  also have "\<dots> = card (f ` set ?ls)"
    using card_image [OF inj] distinct_card [of ?ls] by (simp del: set_filter)
  finally have eq: "f ` set ?ls = set ?ss"
    using card_seteq [OF _ sub] by blast
  obtain l where "l \<in> set ?ls"
    using never by (auto simp: never_taken_def Let_def filter_empty_conv)
  then have "s \<in> set ?ss"
    using valid_listed [OF can_matchD(1) [OF M]] by auto
  then have "sent w s" using f unfolding eq [symmetric] by (blast intro: sentI)
  then show False using can_matchD(4) [OF M] by blast
qed

lemma naming_lost:
  assumes "naming T T'" "valid T s" "valid T r" "compat T s r" "\<not> compat T' s r"
  shows "never_taken T s r"
    and "valid T a \<Longrightarrow> fst a = fst s \<Longrightarrow> \<not> compat T' a r"
    and "valid T a \<Longrightarrow> fst a = fst r \<Longrightarrow> snd r < snd a \<Longrightarrow> \<not> compat T' s a"
  using assms(1) [unfolded naming_def, THEN conjunct2, rule_format, OF valid_listed valid_listed, OF assms(2,3)]
    assms(4,5) valid_listed [of T a] by blast+

lemma naming_match:
  assumes N: "naming T T'" and F: "fed T w"
  shows "can_match T w s r = can_match T' w s r"
proof
  note shape = N [unfolded naming_def, THEN conjunct1]
  assume M: "can_match T w s r"
  note v = can_matchD(1-3) [OF M]
  have "compat T' s r" using naming_lost(1) [OF N v] never_taken_no_match [OF F M] by blast
  moreover have "compat T' (fst s, k) r \<longrightarrow> sent w (fst s, k)" if "k < snd s" for k
    using can_matchD(6) [OF M that] named_compat_imp [OF shape valid_less [OF v(1) that] v(2)] by blast
  moreover have "compat T' s (fst r, l) \<longrightarrow> received w (fst r, l)" if "l < snd r" for l
    using can_matchD(7) [OF M that] named_compat_imp [OF shape v(1) valid_less [OF v(2) that]] by blast
  ultimately show "can_match T' w s r"
    using M same_posted [OF shape] unfolding can_match_def by simp
next
  note shape = N [unfolded naming_def, THEN conjunct1]
  assume M: "can_match T' w s r"
  have v: "valid T s" "valid T r" "compat T' s r"
    using can_matchD(1-3) [OF M] same_valid [OF shape] by blast+
  have "compat T (fst s, k) r \<longrightarrow> sent w (fst s, k)" if "k < snd s" for k
    using can_matchD(6) [OF M that] naming_lost(2) [OF N valid_less [OF v(1) that] v(2), of s] v by auto
  moreover have "compat T s (fst r, l) \<longrightarrow> received w (fst r, l)" if "l < snd r" for l
    using can_matchD(7) [OF M that] naming_lost(3) [OF N v(1) valid_less [OF v(2) that], of r] v that by auto
  ultimately show "can_match T w s r"
    using M named_compat_imp [OF shape v] same_posted [OF shape] unfolding can_match_def by simp
qed

lemma naming_step:
  assumes "naming T T'" and "fed T w"
  shows "step e T w w' = step e T' w w'"
  using naming_match [OF assms] same_can_return [of T T'] assms(1)
  by (auto simp: step.simps naming_def)

lemma naming_fed: "conforming T R \<Longrightarrow> R\<^sup>*\<^sup>* (start_world T) w \<Longrightarrow> fed T w"
  unfolding conforming_iff using mpi_library.reachable_permitted fed_reachable by blast

theorem naming_ends_well:
  assumes N: "naming T T'" and E: "ends_well T'"
  shows "ends_well T"
  unfolding ends_well_def
proof (intro allI impI)
  fix R k w assume C: "conforming T R" and w: "(R ^^ k) (start_world T) w"
  note shape = N [unfolded naming_def, THEN conjunct1]
  define R' where "R' = (\<lambda>v v'. if fed T v then R v v' else step False T' v v')"
  have C': "conforming T' R'"
    unfolding conforming_def R'_def
    using C naming_step [OF N] step_eager unfolding conforming_def by (metis (full_types))
  have run: "(R' ^^ k) (start_world T) w" using w
  proof (induction k arbitrary: w)
    case (Suc k)
    then obtain v where v: "(R ^^ k) (start_world T) v" "R v w" by auto
    then have "fed T v" using naming_fed [OF C] relpowp_imp_rtranclp by fastforce
    with v have "R' v w" by (simp add: R'_def)
    with Suc.IH [OF v(1)] show ?case by auto
  qed simp
  have start: "start_world T = start_world T'"
    using same_length [OF shape] by (simp add: start_world_def map_replicate_const)
  have "fed T w" using naming_fed [OF C] relpowp_imp_rtranclp [OF w] by blast
  then show "k \<le> total_steps T \<and> ((\<exists>w'. R w w') \<or> finished T w)"
    using E [unfolded ends_well_def, rule_format, OF C', of k w] run
    by (simp add: start same_total_steps [OF shape] same_finished [OF shape] R'_def)
qed

end
