(* ===== verification/Checks_Deadlock.thy ===== *)
theory Checks_Deadlock
  imports Codes_Nonblock Codes_Aside Claims Wildcards
begin

text \<open>
  The codes of src/codes that are expected to deadlock. None of them is at fault on a single
  process unless stated; whether all, some or no libraries finish them is decided on the
  processes together.
\<close>

section \<open>No library finishes\<close>

lemma sendrecv_deadlock2_clean: "clean_from 3 p2p_sendrecv_send_recv_deadlock2"
  by (rule clean_from_ranks; simp add: mon_simps code_defs)

lemma sendrecv_deadlock2_fixed: "fixed_from 3 p2p_sendrecv_send_recv_deadlock2"
  by (rule fixed_from_ranks; simp add: item_simps code_defs)

lemma wait_deadlock_clean: "clean_from 4 p2p_any_src_wait_deadlock"
  by (rule clean_from_ranks; simp add: mon_simps code_defs)

lemma wait_deadlock_fixed: "fixed_from 4 p2p_any_src_wait_deadlock"
  by (rule fixed_from_ranks; simp add: item_simps code_defs)

lemma waitall_deadlock_clean: "clean_from 3 p2p_any_src_waitall_deadlock"
  by (rule clean_from_ranks; simp add: mon_simps code_defs)

lemma waitall_deadlock_fixed: "fixed_from 3 p2p_any_src_waitall_deadlock"
  by (rule fixed_from_ranks; simp add: item_simps code_defs)

lemma waitall_deadlock2_clean: "clean_from 2 p2p_any_src_waitall_deadlock2"
  by (rule clean_from_ranks; simp add: mon_simps code_defs)

lemma waitall_deadlock2_fixed: "fixed_from 2 p2p_any_src_waitall_deadlock2"
  by (rule fixed_from_ranks; simp add: item_simps code_defs)

lemma waitall_deadlock3_clean: "clean_from 3 p2p_any_src_waitall_deadlock3"
  by (rule clean_from_ranks; simp add: mon_simps code_defs)

lemma waitall_deadlock3_fixed: "fixed_from 3 p2p_any_src_waitall_deadlock3"
  by (rule fixed_from_ranks; simp add: item_simps code_defs)

lemma plain_waitall_deadlock_clean: "clean_from 3 p2p_waitall_deadlock"
  by (rule clean_from_ranks; simp add: mon_simps code_defs)

lemma plain_waitall_deadlock_fixed: "fixed_from 3 p2p_waitall_deadlock"
  by (rule fixed_from_ranks; simp add: item_simps code_defs)

lemma pers_deadlock_clean: "clean_from 3 p2p_pers_deadlock"
  by (rule clean_from_ranks; simp add: mon_simps code_defs)

lemma pers_deadlock_fixed: "fixed_from 3 p2p_pers_deadlock"
  by (rule fixed_from_ranks; simp add: item_simps code_defs)

lemma count_error_reports:
  "reports 0 2 p2p_send_recv_count_error []" "reports 1 2 p2p_send_recv_count_error [Mbi InvalidOtherArg]"
  by (rule reportsI; simp add: mon_simps code_defs)+

lemma count_error_fixed: "fixed_from 2 p2p_send_recv_count_error"
  by (rule fixed_from_ranks; simp add: item_simps code_defs)

text \<open>
  C27. Eight codes that no library, however much it buffers, lets finish. Seven of them make
  no error on any process: \<open>p2p-sendrecv-send-recv-deadlock2.c\<close> and
  \<open>p2p-any-src-wait-deadlock.c\<close>, whose receives wait for a tag or a message nobody sends,
  the codes in which one process waits for all its receives before it sends what the other
  waits for, with wildcard receives and without, and the one with a persistent receive of a
  message nobody sends. In \<open>p2p-any-src-waitall-deadlock.c\<close> process 0 waits for two messages,
  whichever they are, before it sends what process 2 waits for before it sends. In \<open>p2p-send-recv-count-error.c\<close> process 1 sends -1 elements; it
  never finishes because the two processes receive from and send to themselves.
\<close>

theorem certain_deadlocks:
  "clean_from 3 p2p_sendrecv_send_recv_deadlock2 \<and> never_finishes 3 p2p_sendrecv_send_recv_deadlock2 \<and>
   clean_from 4 p2p_any_src_wait_deadlock \<and> never_finishes 4 p2p_any_src_wait_deadlock \<and>
   clean_from 3 p2p_any_src_waitall_deadlock \<and> never_finishes 3 p2p_any_src_waitall_deadlock \<and>
   clean_from 2 p2p_any_src_waitall_deadlock2 \<and> never_finishes 2 p2p_any_src_waitall_deadlock2 \<and>
   clean_from 3 p2p_any_src_waitall_deadlock3 \<and> never_finishes 3 p2p_any_src_waitall_deadlock3 \<and>
   clean_from 3 p2p_waitall_deadlock \<and> never_finishes 3 p2p_waitall_deadlock \<and>
   clean_from 3 p2p_pers_deadlock \<and> never_finishes 3 p2p_pers_deadlock \<and>
   reports 0 2 p2p_send_recv_count_error [] \<and>
   reports 1 2 p2p_send_recv_count_error [Mbi InvalidOtherArg] \<and>
   never_finishes 2 p2p_send_recv_count_error"
  by (intro conjI sendrecv_deadlock2_clean wait_deadlock_clean waitall_deadlock_clean waitall_deadlock2_clean
      waitall_deadlock3_clean plain_waitall_deadlock_clean
      never_finishes_at [OF sendrecv_deadlock2_fixed] never_finishes_at [OF wait_deadlock_fixed]
      never_finishes_starved [OF waitall_deadlock_fixed, where b = "[3, 5, 1]"]
      never_finishes_at [OF waitall_deadlock2_fixed] never_finishes_at [OF waitall_deadlock3_fixed]
      never_finishes_at [OF plain_waitall_deadlock_fixed]
      pers_deadlock_clean count_error_reports never_finishes_at [OF pers_deadlock_fixed]
      never_finishes_at [OF count_error_fixed];
      simp add: proc_simps code_defs; code_simp)

lemma wait_deadlock4_fixed: "fixed_from 2 p2p_any_src_wait_deadlock4"
  by (rule fixed_from_ranks; simp add: item_simps code_defs)

lemma wait_deadlock4_reports:
  "reports 0 2 p2p_any_src_wait_deadlock4 []"
  "reports 1 2 p2p_any_src_wait_deadlock4 [Mbi LocalConcurrency, Mbi LocalConcurrency]"
  by (rule reportsI; simp add: mon_simps code_defs)+

section \<open>Some runs finish\<close>

lemma sendrecv_deadlock_clean: "clean_from 3 p2p_sendrecv_send_recv_deadlock"
  by (rule clean_from_ranks; simp add: mon_simps code_defs)

lemma sendrecv_deadlock_fixed: "fixed_from 3 p2p_sendrecv_send_recv_deadlock"
  by (rule fixed_from_ranks; simp add: item_simps code_defs)

lemma wait_deadlock3_clean: "clean_from 3 p2p_any_src_wait_deadlock3"
  by (rule clean_from_ranks; simp add: mon_simps code_defs)

lemma wait_deadlock3_fixed: "fixed_from 3 p2p_any_src_wait_deadlock3"
  by (rule fixed_from_ranks; simp add: item_simps code_defs)

lemma waitany_deadlock3_clean: "clean_from 3 p2p_any_src_waitany_deadlock3"
  by (rule clean_from_ranks; simp add: mon_simps code_defs)

lemma waitany_deadlock3_fixed: "fixed_from 3 p2p_any_src_waitany_deadlock3"
  by (rule fixed_from_ranks; simp add: item_simps code_defs)

lemma any_src_deadlock_clean: "clean_from 3 p2p_any_src_deadlock"
  by (rule clean_from_ranks; simp add: mon_simps code_defs)

lemma any_src_deadlock_fixed: "fixed_from 3 p2p_any_src_deadlock"
  by (rule fixed_from_ranks; simp add: item_simps code_defs)

lemma wait_deadlock2_clean: "clean_from 3 p2p_any_src_wait_deadlock2"
  by (rule clean_from_ranks; simp add: mon_simps code_defs)

lemma wait_deadlock2_fixed: "fixed_from 3 p2p_any_src_wait_deadlock2"
  by (rule fixed_from_ranks; simp add: item_simps code_defs)

text \<open>
  C28. Deadlocks that some runs have and others have not. What decides is, in
  \<open>p2p-sendrecv-send-recv-deadlock.c\<close>, the library: it deadlocks with one that buffers no
  message, and cannot deadlock with one that may buffer them. In the others it is the message
  that a wildcard receive takes: with one and the same library they can block and can finish.
  This holds of \<open>p2p-any-src-wait-deadlock3.c\<close> and \<open>p2p-any-src-wait-deadlock2.c\<close> with
  buffering and without, of \<open>p2p-any-src-waitany-deadlock3.c\<close> when sends are buffered, and
  of \<open>p2p-any-src-deadlock.c\<close> when they are not. None of them makes an error on any process.
\<close>

theorem wildcard_deadlocks:
  "clean_from 3 p2p_sendrecv_send_recv_deadlock \<and> can_deadlock False 3 p2p_sendrecv_send_recv_deadlock \<and>
   no_deadlock True 3 p2p_sendrecv_send_recv_deadlock \<and>
   clean_from 3 p2p_any_src_wait_deadlock3 \<and>
   can_deadlock False 3 p2p_any_src_wait_deadlock3 \<and> can_finish False 3 p2p_any_src_wait_deadlock3 \<and>
   can_deadlock True 3 p2p_any_src_wait_deadlock3 \<and> can_finish True 3 p2p_any_src_wait_deadlock3 \<and>
   clean_from 3 p2p_any_src_wait_deadlock2 \<and>
   can_deadlock False 3 p2p_any_src_wait_deadlock2 \<and> can_finish False 3 p2p_any_src_wait_deadlock2 \<and>
   can_deadlock True 3 p2p_any_src_wait_deadlock2 \<and> can_finish True 3 p2p_any_src_wait_deadlock2 \<and>
   clean_from 3 p2p_any_src_waitany_deadlock3 \<and>
   can_deadlock True 3 p2p_any_src_waitany_deadlock3 \<and> can_finish True 3 p2p_any_src_waitany_deadlock3 \<and>
   clean_from 3 p2p_any_src_deadlock \<and>
   can_deadlock False 3 p2p_any_src_deadlock \<and> can_finish False 3 p2p_any_src_deadlock"
  by (intro conjI sendrecv_deadlock_clean deadlock_at [OF sendrecv_deadlock_fixed, where plan = "[]"]
      no_deadlock_at [OF sendrecv_deadlock_fixed]
      wait_deadlock3_clean deadlock_at [OF wait_deadlock3_fixed, where plan = "[((2, 0), (0, 0))]"]
      can_finish_at [OF wait_deadlock3_fixed, where plan = "[((1, 0), (0, 0))]"]
      wait_deadlock2_clean deadlock_at [OF wait_deadlock2_fixed, where plan = "[((1, 0), (0, 0))]"]
      can_finish_at [OF wait_deadlock2_fixed, where plan = "[((2, 0), (0, 0))]"]
      waitany_deadlock3_clean deadlock_at [OF waitany_deadlock3_fixed, where plan = "[]"]
      can_finish_at [OF waitany_deadlock3_fixed, where plan = "[((1, 0), (2, 0))]"]
      any_src_deadlock_clean deadlock_at [OF any_src_deadlock_fixed, where plan = "[((2, 0), (0, 0))]"]
      can_finish_at [OF any_src_deadlock_fixed, where plan = "[((1, 0), (0, 0))]"];
      simp add: proc_simps code_defs; code_simp)

lemma DTG_clean: "clean_from 5 no_error_DTG"
  by (rule clean_from_ranks; simp add: mon_simps code_defs)

lemma DTG_fixed: "fixed_from 5 no_error_DTG"
  by (rule fixed_from_ranks; simp add: item_simps code_defs)

lemma medium_DTG_clean: "clean_from 5 medium_DTG_deadlock"
  by (rule clean_from_ranks; simp add: mon_simps code_defs)

lemma medium_DTG_fixed: "fixed_from 5 medium_DTG_deadlock"
  by (rule fixed_from_ranks; simp add: item_simps code_defs)

text \<open>
  The calls of \<open>no-error-DTG.c\<close> with a name in place of the wildcard of process 0: its only
  other message, of process 1, is always taken by the receive before.
\<close>

definition DTG_named :: "item list list" where
  "DTG_named = (let T = std_procs 5 no_error_DTG in T[0 := (T ! 0)[2 := Item [Rop (Rank 2) (Tag 0)] [2]]])"

lemma DTG_naming: "naming (std_procs 5 no_error_DTG) DTG_named"
  unfolding DTG_named_def by (simp add: proc_simps code_defs; code_simp)

lemma DTG_named_ends: "finishes_check 200 DTG_named"
  unfolding DTG_named_def by (simp add: proc_simps code_defs; code_simp)

lemma DTG_finishes: "always_finishes 5 no_error_DTG"
  using fixed_from_calls [OF DTG_fixed, of 5] naming_ends_well [OF DTG_naming ends_wellI [OF DTG_named_ends]]
  by (simp add: always_finishes_def fixed_calls_def)

text \<open>
  C29. \<open>no-error-DTG.c\<close> and \<open>medium-DTG-deadlock.c\<close> differ in one argument: the first receive
  of process 0 names process 1 in the one and no process in the other. None makes an error. The
  first finishes under every library, although its second receive is a wildcard. The second
  can deadlock when no message is buffered: if its first receive takes the message of process 2,
  processes 0, 1 and 3 wait for each other in a ring; if it takes the other, it can finish.
\<close>

theorem DTG_deadlocks:
  "clean_from 5 no_error_DTG \<and> always_finishes 5 no_error_DTG \<and>
   clean_from 5 medium_DTG_deadlock \<and> can_deadlock False 5 medium_DTG_deadlock \<and>
   can_finish False 5 medium_DTG_deadlock"
  by (intro conjI DTG_clean medium_DTG_clean DTG_finishes
      deadlock_at [OF medium_DTG_fixed, where plan = "[((4, 0), (2, 0)), ((2, 1), (0, 0))]"]
      can_finish_at [OF medium_DTG_fixed, where plan = "[((1, 0), (0, 0))]"];
      simp add: proc_simps code_defs; code_simp)

section \<open>Deadlocks with other errors\<close>

lemma pers_deadlock2_reports:
  "reports 0 2 p2p_pers_deadlock2 [UndefinedHandle]" "reports 1 2 p2p_pers_deadlock2 [UndefinedHandle]"
  "reports 2 3 p2p_pers_deadlock2 [UndefinedHandle]"
  by (rule reportsI; simp add: mon_simps code_defs)+

text \<open>
  C30. Two codes have errors besides the deadlock of their header.
  \<open>p2p-any-src-wait-deadlock4.c\<close> never finishes; and its header, which says
  \<open>datarace: never\<close>, is wrong about process 1: it sends twice from the buffer \<open>buf1\<close>
  that its pending receive may write. \<open>p2p-pers-deadlock2.c\<close> frees an active persistent
  request through a copy of its handle; processes 0 and 1 then wait for the handle that is
  left, and every other process frees a handle it never initialized.
\<close>

theorem deadlocks_with_errors:
  "never_finishes 2 p2p_any_src_wait_deadlock4 \<and>
   reports 0 2 p2p_any_src_wait_deadlock4 [] \<and>
   reports 1 2 p2p_any_src_wait_deadlock4 [Mbi LocalConcurrency, Mbi LocalConcurrency] \<and>
   reports 0 2 p2p_pers_deadlock2 [UndefinedHandle] \<and> reports 1 2 p2p_pers_deadlock2 [UndefinedHandle] \<and>
   reports 2 3 p2p_pers_deadlock2 [UndefinedHandle]"
  by (intro conjI wait_deadlock4_reports never_finishes_at [OF wait_deadlock4_fixed] pers_deadlock2_reports;
      simp add: proc_simps code_defs; code_simp)

end
