(* ===== verification/Judge.thy ===== *)
theory Judge
  imports Bench
begin

text \<open>
  What MBI.py's reader and judge guarantee: the tests read from a header are numbered, come
  back from a header written for them, and are counted once each in the statistics.
\<close>

section \<open>Reading\<close>

text \<open>The tests read so far are kept, and each new one gets the next number.\<close>

definition numbered :: "string \<Rightarrow> todo list \<Rightarrow> bool" where
  "numbered fn ts \<longleftrightarrow> map todo_id ts = [0..<length ts] \<and>
     (\<forall>t\<in>set ts. todo_filename t = fn \<and> (todo_expect t = Expect_OK \<longrightarrow> todo_detail t = OK))"

lemma numbered_nth: "numbered fn ts \<Longrightarrow> i < length ts \<Longrightarrow> todo_id (ts ! i) = i"
  unfolding numbered_def by (metis add_0 nth_map nth_upt)

lemma numbered_mem:
  "numbered fn ts \<Longrightarrow> t \<in> set ts \<Longrightarrow> todo_filename t = fn \<and> (todo_expect t = Expect_OK \<longrightarrow> todo_detail t = OK)"
  by (simp add: numbered_def)

lemma numbered_snoc:
  "numbered fn ts \<Longrightarrow> todo_id t = length ts \<Longrightarrow> todo_filename t = fn \<Longrightarrow>
   (todo_expect t = Expect_OK \<longrightarrow> todo_detail t = OK) \<Longrightarrow> numbered fn (ts @ [t])"
  by (simp add: numbered_def)

lemma read_answer_todo:
  "read_answer fn n cmd nextline = Inr t \<Longrightarrow> todo_id t = n \<and> todo_filename t = fn \<and> todo_cmd t = cmd \<and>
     (todo_expect t = Expect_OK \<longrightarrow> todo_detail t = OK)"
  by (auto simp: read_answer_def split: if_splits option.splits)

text \<open>A test that stands in the lines: its command, and the expected answer below it.\<close>

definition stands_in :: "string list \<Rightarrow> string \<Rightarrow> todo \<Rightarrow> bool" where
  "stands_in ls fn t \<longleftrightarrow> list_ex (\<lambda>(line, nextline).
     match_command line = Some (todo_cmd t) \<and> read_answer fn (todo_id t) (todo_cmd t) nextline = Inr t)
     (zip ls (tl ls))"

lemma stands_in_Cons: "stands_in ls fn t \<Longrightarrow> stands_in (l # ls) fn t"
  by (cases ls) (auto simp: stands_in_def)

lemma parse_lines_numbered:
  "parse_lines fn ls st res = Inr (st', ts) \<Longrightarrow> numbered fn res \<Longrightarrow>
     numbered fn ts \<and> (\<forall>t\<in>set ts. t \<in> set res \<or> stands_in ls fn t)"
proof (induction fn ls st res rule: parse_lines.induct)
  case (2 fn line rest st res)
  from "2.prems"(1) obtain st1 where st1: "next_state line st = Inr st1"
    by (simp split: sum.splits)
  show ?case
  proof (cases "if st1 = 1 then match_command line else None")
    case None
    with "2.prems" st1 "2.IH"(1) [OF st1 None] show ?thesis by (auto intro: stands_in_Cons)
  next
    case (Some cmd)
    with "2.prems"(1) st1 obtain nextline rest' where rest: "rest = nextline # rest'"
      by (simp split: list.splits)
    with "2.prems"(1) st1 Some obtain t where t: "read_answer fn (length res) cmd nextline = Inr t"
      by (simp split: sum.splits)
    have "match_command line = Some cmd" using Some by (simp split: if_splits)
    then have "stands_in (line # rest) fn t"
      using t read_answer_todo [OF t] by (auto simp: rest stands_in_def)
    moreover have "numbered fn (res @ [t])"
      using "2.prems"(2) read_answer_todo [OF t] by (intro numbered_snoc) simp_all
    moreover have "parse_lines fn rest' st1 (res @ [t]) = Inr (st', ts)"
      using "2.prems"(1) st1 Some rest t by simp
    moreover have "stands_in (line # rest) fn u" if "stands_in rest' fn u" for u
      unfolding rest using that by (intro stands_in_Cons)
    ultimately show ?thesis
      using "2.IH"(2) [OF st1 Some rest t] by auto
  qed
qed simp

text \<open>
  C32. Whatever \<open>parse_one_code\<close> accepts has at least one test; the tests carry the name
  of the file and are numbered from 0 in the order of the header; each is a command of the file
  with the answer expected in the line below it; and a test that expects \<open>OK\<close> has the detail
  \<open>OK\<close>.
\<close>

theorem parse_one_code_numbers_tests:
  assumes "parse_one_code fn input = Inr ts"
  shows "ts \<noteq> [] \<and> map todo_id ts = [0..<length ts] \<and>
    (\<forall>t\<in>set ts. todo_filename t = fn \<and> stands_in input fn t \<and> (todo_expect t = Expect_OK \<longrightarrow> todo_detail t = OK))"
proof -
  from assms obtain st where "parse_lines fn input 0 [] = Inr (st, ts)" and "ts \<noteq> []"
    by (auto simp: parse_one_code_def split: sum.splits prod.splits if_splits)
  with parse_lines_numbered [of fn input 0 "[]" st ts] show ?thesis
    by (simp add: numbered_def)
qed

definition example_lines :: "string list" where
  "example_lines = [''// a code'', ''BEGIN_MBI_TESTS'', ''  $ mpirun -np 2 ${EXE}'', ''  | OK'', ''  | '',
     '' $ mpirun -np 3 ${EXE}'', '' | ERROR: CallMatching'', ''END_MBI_TESTS'', '' $ not a test'']"

definition example_tests :: "todo list" where
  "example_tests =
     [\<lparr>todo_filename = ''a.c'', todo_id = 0, todo_cmd = ''mpirun -np 2 ${EXE}'',
       todo_expect = Expect_OK, todo_detail = OK\<rparr>,
      \<lparr>todo_filename = ''a.c'', todo_id = 1, todo_cmd = ''mpirun -np 3 ${EXE}'',
       todo_expect = Expect_ERROR, todo_detail = CallMatching\<rparr>]"

lemma example_parsed: "parse_one_code ''a.c'' example_lines = Inr example_tests"
  by code_simp

theorem parse_one_code_numbers_tests_witness:
  "parse_one_code ''a.c'' example_lines = Inr example_tests \<and> map todo_id example_tests = [0, 1] \<and>
   stands_in example_lines ''a.c'' (example_tests ! 1)"
  using parse_one_code_numbers_tests [OF example_parsed] example_parsed
  by (simp add: example_tests_def upt_rec)

section \<open>Writing and reading back\<close>

text \<open>
  The header block, as the generator scripts write it (CollArgGenerator.py:26-30): the command,
  the expected answer, and the lines of the message that explains it. The scripts write one
  test with one line of message per file.
\<close>

definition detail_name :: "detail \<Rightarrow> string" where
  "detail_name d = (case filter (\<lambda>(n, d'). d' = d) detail_names of (n, _) # _ \<Rightarrow> n | [] \<Rightarrow> [])"

definition answer_line :: "todo \<Rightarrow> string" where
  "answer_line t = (if todo_expect t = Expect_OK then ''  | OK''
     else ''  | ERROR: '' @ detail_name (todo_detail t))"

fun write_tests :: "(todo \<times> string list) list \<Rightarrow> string list" where
  "write_tests [] = [''END_MBI_TESTS'']"
| "write_tests ((t, ms) # ts) =
     (''  $ '' @ todo_cmd t) # answer_line t # map ((@) ''  | '') ms @ write_tests ts"

text \<open>A text that has none of the two markers.\<close>

definition no_marker :: "string \<Rightarrow> bool" where
  "no_marker s \<longleftrightarrow> \<not> occurs_in ''BEGIN_MBI_TESTS'' s \<and> \<not> occurs_in ''END_MBI_TESTS'' s"

lemma aget_detail_name: "aget detail_names (detail_name d) = Some d"
  by (cases d) (simp_all add: detail_name_def detail_names_def)

lemma match_error_detail: "match_error (''  | ERROR: '' @ detail_name d) = Some (detail_name d)"
  by (cases d) (simp_all add: match_error_def drop_bars_def detail_name_def detail_names_def)

lemma read_answer_line:
  assumes "todo_filename t = fn" "todo_id t = n" "todo_cmd t = cmd"
    and "todo_expect t = Expect_OK \<longrightarrow> todo_detail t = OK"
  shows "read_answer fn n cmd (answer_line t) = Inr t"
proof (cases "todo_expect t")
  case Expect_OK
  with assms show ?thesis
    by (cases t) (simp add: read_answer_def answer_line_def match_ok_def drop_bars_def)
next
  case Expect_ERROR
  have "\<not> match_ok (''  | ERROR: '' @ detail_name (todo_detail t))"
    by (simp add: match_ok_def drop_bars_def)
  with Expect_ERROR assms show ?thesis
    using match_error_detail [of "todo_detail t"] aget_detail_name [of "todo_detail t"]
    by (cases t) (simp add: read_answer_def answer_line_def)
qed

lemma next_state_line:
  "no_marker s \<Longrightarrow> next_state (''  $ '' @ s) st = Inr st" "no_marker s \<Longrightarrow> next_state (''  | '' @ s) st = Inr st"
  by (simp_all add: next_state_def no_marker_def)

lemma match_command_line: "match_command (''  $ '' @ cmd) = Some cmd" "match_command (''  | '' @ m) = None"
  by (simp_all add: match_command_def is_space_def)

lemma parse_lines_message:
  "list_all no_marker ms \<Longrightarrow> parse_lines fn (map ((@) ''  | '') ms @ ls) st res = parse_lines fn ls st res"
  by (induction ms) (auto simp: next_state_line [simplified] match_command_line [simplified])

lemma parse_lines_written:
  assumes "numbered fn (res @ map fst ts)"
    and "list_all (\<lambda>(t, ms). no_marker (todo_cmd t) \<and> list_all no_marker ms) ts"
  shows "parse_lines fn (write_tests ts) 1 res = Inr (2, res @ map fst ts)"
  using assms
proof (induction ts arbitrary: res rule: write_tests.induct)
  case 1
  show ?case by (simp add: next_state_def)
next
  case (2 t ms ts)
  have n: "todo_id t = length res"
    using numbered_nth [OF "2.prems"(1), of "length res"] by simp
  have t: "read_answer fn (length res) (todo_cmd t) (answer_line t) = Inr t"
    using numbered_mem [OF "2.prems"(1), of t] n by (intro read_answer_line) simp_all
  have "parse_lines fn (write_tests ((t, ms) # ts)) 1 res =
      parse_lines fn (map ((@) ''  | '') ms @ write_tests ts) 1 (res @ [t])"
    using "2.prems"(2) t next_state_line(1) [of "todo_cmd t" 1] match_command_line(1) [of "todo_cmd t"]
    by (simp add: append_assoc)
  also have "\<dots> = Inr (2, (res @ [t]) @ map fst ts)"
    using "2.IH" [of "res @ [t]"] "2.prems" by (simp add: parse_lines_message)
  finally show ?case by simp
qed

text \<open>
  C33. A header block written for a list of tests, each with any lines of message, is read back
  as that list, when the tests are numbered from 0 and no command and no message contains the
  marker of the block's beginning or end.
\<close>

theorem written_tests_are_read_back:
  assumes "ts \<noteq> []" and "map (todo_id \<circ> fst) ts = [0..<length ts]"
    and "\<forall>t\<in>fst ` set ts. todo_filename t = fn \<and> (todo_expect t = Expect_OK \<longrightarrow> todo_detail t = OK)"
    and "list_all (\<lambda>(t, ms). no_marker (todo_cmd t) \<and> list_all no_marker ms) ts"
  shows "parse_one_code fn (''BEGIN_MBI_TESTS'' # write_tests ts) = Inr (map fst ts)"
proof -
  have "numbered fn ([] @ map fst ts)" using assms(2,3) by (simp add: numbered_def)
  from parse_lines_written [OF this assms(4)]
  have "parse_lines fn (write_tests ts) 1 [] = Inr (2, map fst ts)" by simp
  moreover have "next_state ''BEGIN_MBI_TESTS'' 0 = Inr 1" "match_command ''BEGIN_MBI_TESTS'' = None"
    by (simp_all add: next_state_def match_command_def is_space_def)
  ultimately show ?thesis using assms(1) by (simp add: parse_one_code_def)
qed

theorem written_tests_are_read_back_witness:
  "parse_one_code ''a.c'' (''BEGIN_MBI_TESTS'' #
     write_tests [(example_tests ! 0, [[]]), (example_tests ! 1, [''Collective mismatch.''])]) = Inr example_tests"
  using written_tests_are_read_back [of "[(example_tests ! 0, [[]]), (example_tests ! 1, [''Collective mismatch.''])]" "''a.c''"]
  by (simp add: example_tests_def no_marker_def upt_rec)

section \<open>Judging and counting\<close>

text \<open>
  What the statistics should say. A test whose run left no elapsed time was not judged, unless
  the tool failed. Four answers of a tool say nothing about the code; any other is a report
  that there is an error or that there is none, which is true or false.
\<close>

fun lost :: "judged \<Rightarrow> bool" where
  "lost (t, elapsed, outcome) = (\<not> elapsed \<and> outcome \<noteq> T_failure)"

fun report_of :: "tool_outcome \<Rightarrow> res_category + bool" where
  "report_of T_timeout = Inl R_timeout"
| "report_of T_failure = Inl R_failure"
| "report_of T_UNIMPLEMENTED = Inl R_unimplemented"
| "report_of T_other = Inl R_other"
| "report_of T_OK = Inr False"
| "report_of (T_error m) = Inr True"

fun verdict :: "judged \<Rightarrow> res_category" where
  "verdict (t, elapsed, outcome) =
     (case report_of outcome of
        Inl c \<Rightarrow> c
      | Inr positive \<Rightarrow>
          if positive = (todo_expect t = Expect_ERROR) then (if positive then TRUE_POS else TRUE_NEG)
          else (if positive then FALSE_POS else FALSE_NEG))"

fun filed_under :: "judged \<Rightarrow> category" where
  "filed_under (t, x) = possible_details (todo_detail t)"

fun expects_error :: "judged \<Rightarrow> bool" where
  "expects_error (t, x) = (todo_expect t = Expect_ERROR)"

definition number_of :: "('a \<Rightarrow> bool) \<Rightarrow> 'a list \<Rightarrow> nat" where
  "number_of P xs = length (filter P xs)"

lemma number_of_simps [simp]:
  "number_of P [] = 0" "number_of P (x # xs) = (if P x then Suc (number_of P xs) else number_of P xs)"
  "number_of P (xs @ ys) = number_of P xs + number_of P ys"
  by (simp_all add: number_of_def)

lemma categorize_verdict:
  "categorize el o' (expectation_word (todo_expect t)) =
     (if lost (t, el, o') then Inl Invalid_test_result else Inr (verdict (t, el, o')))"
  by (cases o'; cases "todo_expect t"; simp add: categorize_def)

text \<open>The tally that the tests \<open>xs\<close> give.\<close>

definition tally_of :: "judged list \<Rightarrow> tally" where
  "tally_of xs =
     \<lparr>per_error = (\<lambda>e c. number_of (\<lambda>x. filed_under x = e \<and> verdict x = c) xs),
      total = (\<lambda>c. number_of (\<lambda>x. verdict x = c) xs),
      total_OK = number_of (\<lambda>x. \<not> expects_error x) xs,
      total_error = number_of expects_error xs,
      error_only = (\<lambda>c. number_of (\<lambda>x. expects_error x \<and> verdict x = c) xs)\<rparr>"

lemma expectation_cases: "e = Expect_OK \<longleftrightarrow> e \<noteq> Expect_ERROR"
  by (cases e) simp_all

lemma count_test_tally:
  "count_test x (tally_of xs) = (if lost x then Inl Invalid_test_result else Inr (tally_of (xs @ [x])))"
  by (cases x) (auto simp: count_test_def categorize_verdict tally_of_def Let_def fun_eq_iff expectation_cases
      simp del: lost.simps verdict.simps)

lemma count_tests_tally:
  "count_tests ys (tally_of xs) =
     (if list_ex lost ys then Inl Invalid_test_result else Inr (tally_of (xs @ ys)))"
  by (induction ys arbitrary: xs) (simp_all add: count_test_tally)

text \<open>The tests are told apart by what they are filed under and by the verdict.\<close>

lemma number_of_split:
  assumes "distinct cs" and "\<And>x. f x \<in> set cs"
  shows "sum_list (map (\<lambda>c. number_of (\<lambda>x. f x = c \<and> Q x) xs) cs) = number_of Q xs"
proof (induction xs)
  case (Cons x xs)
  have "sum_list (map (\<lambda>c. number_of (\<lambda>x. f x = c \<and> Q x) (x # xs)) cs) =
      sum_list (map (\<lambda>c. number_of (\<lambda>x. f x = c \<and> Q x) xs) cs) + sum_list (map (\<lambda>c. if f x = c \<and> Q x then 1 else 0) cs)"
    unfolding sum_list_addf [symmetric] by (rule arg_cong [where f = sum_list]) simp
  also have "sum_list (map (\<lambda>c. if f x = c \<and> Q x then 1 else 0) cs) = (if Q x then 1 else 0::nat)"
    using assms by (simp add: sum_list_distinct_conv_sum_set)
  finally show ?case using Cons.IH by simp
qed simp

definition res_categories :: "res_category list" where
  "res_categories = [R_timeout, R_failure, R_unimplemented, R_other, TRUE_NEG, FALSE_POS, FALSE_NEG, TRUE_POS]"

lemma res_categories_all: "distinct res_categories" "c \<in> set res_categories"
  by (simp add: res_categories_def) (cases c; simp add: res_categories_def)

lemma error_categories_all: "distinct error_categories" "c \<in> set error_categories"
  by (simp add: error_categories_def) (cases c; simp add: error_categories_def)

lemma table_line_sum:
  "(case table_line (tally_of xs) e of (build, fail, bad, good) \<Rightarrow> build + fail + bad + good) =
     number_of (\<lambda>x. filed_under x = e) xs"
  using number_of_split [OF res_categories_all, of verdict "\<lambda>x. filed_under x = e" xs]
  by (simp add: table_line_def tally_of_def res_categories_def Let_def conj_commute)

lemma table_total_eq:
  "table_total (tally_of xs) =
     (number_of (\<lambda>x. verdict x \<in> {R_unimplemented, R_other}) xs, number_of (\<lambda>x. verdict x \<in> {R_failure, R_timeout}) xs,
      number_of (\<lambda>x. verdict x \<in> {FALSE_POS, FALSE_NEG}) xs, number_of (\<lambda>x. verdict x \<in> {TRUE_POS, TRUE_NEG}) xs)"
proof -
  have two: "c \<noteq> d \<Longrightarrow> number_of (\<lambda>x. verdict x = c) xs + number_of (\<lambda>x. verdict x = d) xs =
      number_of (\<lambda>x. verdict x \<in> {c, d}) xs" for c d
    by (induction xs) auto
  show ?thesis
    unfolding table_total_def Let_def tally_of_def tally.simps number_of_split [OF error_categories_all] by (simp add: two)
qed

text \<open>
  C38. Counting the answers of a tool: it raises an exception exactly if some test has no
  elapsed time although the tool did not fail. Otherwise each list of the statistics has the
  tests it should have: per category of the expected error and verdict, where the verdict is
  true if the tool reports an error and one is expected or it reports none and none is, and a
  timeout, a failure, an unimplemented feature or another answer counts as itself; the totals;
  the tests that expect an error. In the table, the four numbers of a line add up to the tests
  of its category, and the last line has those of all categories.
\<close>

theorem count_tests_complete:
  "case count_tests xs empty_tally of
     Inl err \<Rightarrow> err = Invalid_test_result \<and> list_ex lost xs
   | Inr r \<Rightarrow> list_all (\<lambda>x. \<not> lost x) xs \<and>
       (\<forall>e c. per_error r e c = number_of (\<lambda>x. filed_under x = e \<and> verdict x = c) xs) \<and>
       (\<forall>c. total r c = number_of (\<lambda>x. verdict x = c) xs) \<and>
       total_OK r = number_of (\<lambda>x. \<not> expects_error x) xs \<and> total_error r = number_of expects_error xs \<and>
       (\<forall>c. error_only r c = number_of (\<lambda>x. expects_error x \<and> verdict x = c) xs) \<and>
       (\<forall>e. (case table_line r e of (build, fail, bad, good) \<Rightarrow> build + fail + bad + good) =
          number_of (\<lambda>x. filed_under x = e) xs) \<and>
       table_total r =
         (number_of (\<lambda>x. verdict x \<in> {R_unimplemented, R_other}) xs,
          number_of (\<lambda>x. verdict x \<in> {R_failure, R_timeout}) xs,
          number_of (\<lambda>x. verdict x \<in> {FALSE_POS, FALSE_NEG}) xs,
          number_of (\<lambda>x. verdict x \<in> {TRUE_POS, TRUE_NEG}) xs)"
proof -
  have "empty_tally = tally_of []" by (simp add: empty_tally_def tally_of_def)
  with count_tests_tally [of xs "[]"] table_line_sum [of xs] table_total_eq [of xs] show ?thesis
    by (auto simp: tally_of_def list_ex_iff list_all_iff)
qed

end
