(* ===== verification/Drivers.thy ===== *)
theory Drivers
  imports Bench
begin

text \<open>
  How the tools are run and how their answers are read: \<open>run_cmd\<close> of MBIutils.py and the
  \<open>parse\<close> methods of the eleven classes \<open>Tool\<close> under src/scripts/tools. The interface
  \<open>AbstractTool\<close> is a locale; what every class that implements it shares is proved there.
\<close>

section \<open>Regular expressions\<close>

text \<open>
  The expressions the drivers search for: characters, \<open>.\<close>, \<open>[0-9]\<close>, \<open>[^c]\<close> and
  \<open>.*?\<close>, where the dot is any character but a newline.
\<close>

datatype rx = Ch char | Dot | Digit | Not_ch char | Gap

abbreviation newline :: char where
  "newline \<equiv> CHR 0x0A"

fun rx_char :: "rx \<Rightarrow> char \<Rightarrow> bool" where
  "rx_char (Ch c) d = (d = c)"
| "rx_char Dot d = (d \<noteq> newline)"
| "rx_char Digit d = (d \<in> set ''0123456789'')"
| "rx_char (Not_ch c) d = (d \<noteq> c)"
| "rx_char Gap d = (d \<noteq> newline)"

text \<open>\<open>rx_match p s\<close>: a prefix of \<open>s\<close> matches; \<open>search p s\<close>: some part of it does.\<close>

fun rx_match :: "rx list \<Rightarrow> string \<Rightarrow> bool" where
  "rx_match [] s = True"
| "rx_match (Gap # ps) s =
     (rx_match ps s \<or> (case s of [] \<Rightarrow> False | c # s' \<Rightarrow> c \<noteq> newline \<and> rx_match (Gap # ps) s'))"
| "rx_match (p # ps) [] = False"
| "rx_match (p # ps) (c # s) = (rx_char p c \<and> rx_match ps s)"

fun search :: "rx list \<Rightarrow> string \<Rightarrow> bool" where
  "search p [] = rx_match p []"
| "search p (c # s) = (rx_match p (c # s) \<or> search p s)"

definition lit :: "string \<Rightarrow> rx list" where
  "lit = map Ch"

text \<open>
  A lazy group \<open>(.*?)\<close> after a literal: the shortest text before a match of one of the
  expressions that may follow it, at the first place where there is one.
\<close>

fun group_before :: "rx list list \<Rightarrow> string \<Rightarrow> string option" where
  "group_before ps [] = (if list_ex (\<lambda>p. rx_match p []) ps then Some [] else None)"
| "group_before ps (c # s) =
     (if list_ex (\<lambda>p. rx_match p (c # s)) ps then Some []
      else if c = newline then None else map_option (Cons c) (group_before ps s))"

fun search_group :: "string \<Rightarrow> rx list list \<Rightarrow> string \<Rightarrow> string option" where
  "search_group pre ps [] = (if pre = [] then group_before ps [] else None)"
| "search_group pre ps (c # s) =
     (case (if starts_with pre (c # s) then group_before ps (drop (length pre) (c # s)) else None) of
        Some g \<Rightarrow> Some g
      | None \<Rightarrow> search_group pre ps s)"

section \<open>Running a command\<close>

text \<open>
  The files of one test: the log \<open>.txt\<close>, \<open>.elapsed\<close> and \<open>.md5sum\<close> with their contents,
  whether \<open>.timeout\<close> exists, and the reports that MUST and MPI-SV leave. A reader that
  also looks under logs/ sees the first of the two files that exists.
\<close>

record result_files =
  log_file :: "string option"
  elapsed_file :: "string option"
  md5_file :: "string option"
  timeout_file :: bool
  html_file :: "string option"
  klee_info :: "string option"

text \<open>
  What happens outside: the text of the code, what the build command prints and returns, and
  what the command prints until it ends or is killed, whether it had to be, its return code
  and the time it took.
\<close>

record events =
  source_text :: string
  compil_output :: string
  compil_returncode :: int
  exec_output :: string
  out_of_time :: bool
  exec_returncode :: int
  elapsed_text :: string

text \<open>Python's \<open>str\<close> of an integer.\<close>

fun show_nat :: "nat \<Rightarrow> string" where
  "show_nat n = (if n < 10 then [] else show_nat (n div 10)) @ [char_of (48 + n mod 10)]"

declare show_nat.simps [simp del]

definition show_int :: "int \<Rightarrow> string" where
  "show_int i = (if i < 0 then ''-'' @ show_nat (nat (- i)) else show_nat (nat i))"

definition compiling_text :: "string option \<Rightarrow> string \<Rightarrow> string \<Rightarrow> string" where
  "compiling_text buildcmd binary batchinfo =
     (case buildcmd of
        None \<Rightarrow> ''No need to compile '' @ binary @ ''.c (batchinfo:'' @ batchinfo @ '')'' @ [newline, newline]
      | Some cmd \<Rightarrow> ''Compiling '' @ binary @ ''.c (batchinfo:'' @ batchinfo @ '')'' @ [newline, newline] @
          ''$ '' @ cmd @ [newline])"

definition compile_error_text :: "string \<Rightarrow> int \<Rightarrow> string" where
  "compile_error_text binary rc =
     ''Compilation of '' @ binary @ ''.c raised an error (retcode: '' @ show_int rc @ '')''"

definition status_text :: "int \<Rightarrow> string \<Rightarrow> string" where
  "status_text rc elapsed =
     (if rc < 0 then ''Command killed by signal '' @ show_int (- rc) @ '', elapsed time: '' @ elapsed @ [newline]
      else ''Command return code: '' @ show_int rc @ '', elapsed time: '' @ elapsed @ [newline])"

definition compile_fails :: "string option \<Rightarrow> events \<Rightarrow> bool" where
  "compile_fails buildcmd e \<longleftrightarrow> buildcmd \<noteq> None \<and> compil_returncode e \<noteq> 0"

text \<open>The part of \<open>run_cmd\<close> after the test of the cache; \<open>md5\<close> is hashlib's.\<close>

definition run_anew :: "(string \<Rightarrow> string) \<Rightarrow> string option \<Rightarrow> string \<Rightarrow> string \<Rightarrow> string \<Rightarrow> events \<Rightarrow>
    result_files \<Rightarrow> result_files" where
  "run_anew md5 buildcmd execcmd binary batchinfo e fs =
     (let text = compiling_text buildcmd binary batchinfo @ (if buildcmd = None then [] else compil_output e) in
      if compile_fails buildcmd e then
        fs\<lparr>elapsed_file := Some (elapsed_text e),
           log_file := Some (text @ compile_error_text binary (compil_returncode e))\<rparr>
      else
        fs\<lparr>timeout_file := timeout_file fs \<or> out_of_time e,
           elapsed_file := Some (elapsed_text e),
           log_file := Some (text @ [newline, newline] @ ''Executing the command'' @ [newline] @ '' $ '' @
             execcmd @ [newline] @ exec_output e @ status_text (exec_returncode e) (elapsed_text e)),
           md5_file := Some (md5 (source_text e))\<rparr>)"

definition run_cmd :: "(string \<Rightarrow> string) \<Rightarrow> string option \<Rightarrow> string \<Rightarrow> string \<Rightarrow> string \<Rightarrow> events \<Rightarrow>
    result_files \<Rightarrow> bool \<times> result_files" where
  "run_cmd md5 buildcmd execcmd binary batchinfo e fs =
     (case (log_file fs, elapsed_file fs, md5_file fs) of
        (Some _, Some _, Some old) \<Rightarrow>
          if md5 (source_text e) = old then (False, fs)
          else (True, run_anew md5 buildcmd execcmd binary batchinfo e (fs\<lparr>log_file := None\<rparr>))
      | _ \<Rightarrow> (True, run_anew md5 buildcmd execcmd binary batchinfo e fs))"

section \<open>Reading an answer\<close>

text \<open>A chain of \<open>if re.search(p, text): return a\<close>, and what it falls through to.\<close>

fun answer :: "(rx list \<times> string) list \<Rightarrow> string \<Rightarrow> string \<Rightarrow> string" where
  "answer [] text d = d"
| "answer ((p, a) # rules) text d = (if search p text then a else answer rules text d)"

definition with_log :: "result_files \<Rightarrow> (string \<Rightarrow> string) \<Rightarrow> string" where
  "with_log fs f = (case log_file fs of None \<Rightarrow> ''failure'' | Some output \<Rightarrow> f output)"

definition compile_rx :: "rx list" where
  "compile_rx = lit ''Compilation of '' @ [Gap] @ lit '' raised an error (retcode: ''"

definition msg_race :: "rx list \<times> string" where
  "msg_race = (lit ''MBI_MSG_RACE'', ''MBI_MSG_RACE'')"

definition not_compiled :: "rx list \<times> string" where
  "not_compiled = (compile_rx, ''UNIMPLEMENTED'')"

definition killed :: "rx list \<times> string" where
  "killed = (lit ''Command killed by signal 15, elapsed time: 300'', ''timeout'')"

text \<open>\<open>INFO: Found error '...'\<close>, with the quotes of the source.\<close>

abbreviation quote :: char where
  "quote \<equiv> CHR 0x27"

definition found_error :: "string \<Rightarrow> rx list" where
  "found_error e = lit (''INFO: Found error '' @ [quote] @ e @ [quote])"

definition aislinn_findings :: "(rx list \<times> string) list" where
  "aislinn_findings =
    [msg_race,
     (lit ''No errors found'', ''OK''),
     (found_error ''Deadlock'', ''deadlock''),
     (found_error ''Pending message'', ''Pending message''),
     (found_error ''Invalid color'', ''Invalid color''),
     (found_error ''Invalid communicator'', ''Invalid communicator''),
     (found_error ''Invalid count'', ''Invalid count''),
     (found_error ''Invalid datatype'', ''Invalid datatype''),
     (found_error ''Invalid group'', ''Invalid group''),
     (found_error ''Invalid operation'', ''Invalid operation''),
     (found_error ''Invalid rank'', ''Invalid rank''),
     (found_error ''Invalid request'', ''Invalid request''),
     (found_error ''Invalid tag'', ''Invalid tag''),
     (found_error ''Invalid write'', ''concurrency error''),
     (found_error ''Request is not persistent'', ''Request is not persistent''),
     (found_error ''Pending request'', ''Pending request''),
     (found_error ''Collective operation: root mismatch'', ''Collective operation: root mismatch''),
     (found_error ''Collective operation mismatch'', ''Collective operation mismatch''),
     (found_error ''Mixing blocking and nonblocking collective operation'', ''Mixing blocking and nonblocking collective operation'')]"

definition aislinn_rules :: "(rx list \<times> string) list" where
  "aislinn_rules = aislinn_findings @
    [(lit ''Unknown function call'', ''UNIMPLEMENTED''),
     (lit ''Unkown function call'', ''UNIMPLEMENTED''),
     not_compiled,
     (lit ''Traceback (most recent call last):'', ''failure'')]"

definition civl_rules :: "(rx list \<times> string) list" where
  "civl_rules =
    [not_compiled,
     (lit ''cannot be invoked without MPI_Init() being called before'', ''mpierr''),
     (lit ''DEADLOCK'', ''deadlock''),
     msg_race,
     (lit ''reaches an MPI collective routine '' @ [Gap] @ lit '' while at least one of others are collectively reaching MPI_'', ''collective mismatch''),
     (lit ''which has an inconsistent datatype specification with at least one of others'', ''datatype mismatch''),
     (lit ''of MPI routines is not consistent with the specified MPI_Datatype'', ''datatype mismatch''),
     (lit ''which has a different root with at least one of others'', ''root mismatch''),
     (lit ''has a different MPI_Op'', ''various''),
     (lit ''MPI message leak'', ''resleak''),
     (lit ''MEMORY_LEAK'', ''resleak''),
     (lit ''The standard properties hold for all executions'', ''OK''),
     (lit ''A CIVL internal error has occurred'', ''failure''),
     (lit ''kind: UNDEFINED_VALUE, certainty: MAYBE'', ''UNDEFINED_VALUE''),
     (lit ''kind: UNDEFINED_VALUE, certainty: PROVEABLE'', ''UNDEFINED_VALUE''),
     (lit ''kind: DEREFERENCE, certainty: MAYBE'', ''DEREFERENCE''),
     (lit ''kind: DEREFERENCE, certainty: PROVEABLE'', ''DEREFERENCE''),
     (lit ''kind: MPI_ERROR, certainty: MAYBE'', ''MPI_ERROR''),
     (lit ''kind: MPI_ERROR, certainty: PROVEABLE'', ''MPI_ERROR''),
     (lit ''This feature is not yet implemented'', ''UNIMPLEMENTED''),
     (lit ''doesn'' @ [Dot] @ lit ''t have a definition'', ''UNIMPLEMENTED''),
     (lit ''Undeclared identifier'', ''UNIMPLEMENTED''),
     (lit (''Error: Incompatible types for operator NEQ:'' @ [newline] @ ''struct MPI_Comm'' @ [newline] @
        ''struct MPI_Comm'' @ [newline] @ ''at''), ''failure''),
     (lit (''Exception in thread '' @ [CHR 0x22] @ ''main'' @ [CHR 0x22] @ '' java'') @ [Dot] @ lit ''lang'' @ [Dot] @ lit ''ArrayIndexOutOfBoundsException'', ''failure'')]"

text \<open>The four tests that \<open>hermes.py\<close> shares with \<open>isp.py\<close>.\<close>

definition isp_errors :: "(rx list \<times> string) list" where
  "isp_errors =
    [(lit ''Rank '' @ [Digit] @ lit '': WARNING: Waited on non-existant request in'', ''mpierr''),
     (lit ''Rank '' @ [Digit] @ lit '': Invalid rank in MPI_'' @ [Gap] @ lit '' at '', ''mpierr''),
     (lit ''Fatal error in PMPI'', ''mpierr''),
     (lit ''Fatal error in MPI'', ''mpierr'')]"

definition hermes_rules :: "(rx list \<times> string) list" where
  "hermes_rules =
     [msg_race, (lit ''Detected a DEADLOCK in interleaving'', ''deadlock'')] @ isp_errors @
     [(lit ''isp'' @ [Dot] @ lit ''exe: ServerSocket'' @ [Dot] @ lit ''cpp:220: int ServerSocket::Receive'' @ [Gap] @
         lit ('': Assertion '' @ [CHR 0x60] @ ''iter != _cli_socks'') @ [Dot] @ lit ''end'', ''failure''),
      killed]"

definition isp_rules :: "(rx list \<times> string) list" where
  "isp_rules =
     [not_compiled, (lit ''ISP detected deadlock!!!'', ''deadlock''),
      (lit ''Detected a DEADLOCK in interleaving'', ''deadlock''), msg_race,
      (lit ''resource leaks detected'', ''resleak''),
      (lit ''Attempting to use an MPI routine after finalizing MPI'', ''mpierr'')] @ isp_errors @
     [(lit ''ISP detected no deadlocks'', ''OK''), killed]"

definition simgrid_rules :: "(rx list \<times> string) list" where
  "simgrid_rules =
    [not_compiled,
     msg_race,
     (lit ''MC is currently not supported here'', ''failure''),
     (lit ''DEADLOCK DETECTED'', ''deadlock''),
     (lit ''returned MPI_ERR'', ''mpierr''),
     (lit ''Not yet implemented'', ''UNIMPLEMENTED''),
     (lit ''CRASH IN THE PROGRAM'', ''failure''),
     (lit ''Probable memory leaks in your code: SMPI detected'', ''resleak''),
     (lit ''No property violation found'', ''OK'')]"

definition smpi_rules :: "(rx list \<times> string) list" where
  "smpi_rules =
    [not_compiled,
     (lit ''MC is currently not supported here'', ''failure''),
     msg_race,
     (lit ''DEADLOCK DETECTED'', ''deadlock''),
     (lit ''returned MPI_ERR'', ''mpierr''),
     (lit ''Not yet implemented'', ''UNIMPLEMENTED''),
     (lit ''CRASH IN THE PROGRAM'', ''segfault''),
     (lit ''Probable memory leaks in your code: SMPI detected'', ''resleak''),
     (lit ''No property violation found'', ''OK''),
     (lit ''Command return code: 0,'', ''OK''),
     killed]"

definition smpivg_rules :: "(rx list \<times> string) list" where
  "smpivg_rules =
    [not_compiled,
     (lit ''ERROR SUMMARY: '' @ [Not_ch (CHR ''0'')], ''failure''),
     (lit ''MC is currently not supported here'', ''failure''),
     msg_race,
     (lit ''DEADLOCK DETECTED'', ''deadlock''),
     (lit ''returned MPI_ERR'', ''mpierr''),
     (lit ''Not yet implemented'', ''UNIMPLEMENTED''),
     (lit ''CRASH IN THE PROGRAM'', ''segfault''),
     (lit ''Probable memory leaks in your code: SMPI detected'', ''resleak''),
     (lit ''No property violation found'', ''OK''),
     (lit ''Command return code: 0,'', ''OK''),
     killed]"

definition parcoach_rules :: "(rx list \<times> string) list" where
  "parcoach_rules =
    [msg_race,
     not_compiled,
     (lit ''0 warning(s) issued'', ''OK''),
     (lit ''missing info for external function'', ''UNIMPLEMENTED'')]"

text \<open>The \<open>parse\<close> methods.\<close>

definition aislinn_parse :: "result_files \<Rightarrow> string" where
  "aislinn_parse fs = with_log fs (\<lambda>output. answer aislinn_rules output ''other'')"

definition civl_parse :: "result_files \<Rightarrow> string" where
  "civl_parse fs = with_log fs (\<lambda>output. answer civl_rules output ''other'')"

definition hermes_parse :: "result_files \<Rightarrow> string" where
  "hermes_parse fs = with_log fs (\<lambda>output. answer hermes_rules output ''other'')"

definition isp_parse :: "result_files \<Rightarrow> string" where
  "isp_parse fs = with_log fs (\<lambda>output. answer isp_rules output ''other'')"

definition simgrid_parse :: "result_files \<Rightarrow> string" where
  "simgrid_parse fs = with_log fs (\<lambda>output. answer simgrid_rules output ''other'')"

definition smpi_parse :: "result_files \<Rightarrow> string" where
  "smpi_parse fs = with_log fs (\<lambda>output. answer smpi_rules output ''other'')"

definition smpivg_parse :: "result_files \<Rightarrow> string" where
  "smpivg_parse fs = with_log fs (\<lambda>output. answer smpivg_rules output ''other'')"

definition parcoach_parse :: "result_files \<Rightarrow> string" where
  "parcoach_parse fs = with_log fs (\<lambda>output. answer parcoach_rules output ''deadlock'')"

text \<open>ITAC's answer is the name in its message; its two messages end in an optional word.\<close>

definition itac_parse :: "result_files \<Rightarrow> string" where
  "itac_parse fs = with_log fs (\<lambda>output.
     if search compile_rx output then ''UNIMPLEMENTED''
     else if search (fst msg_race) output then snd msg_race
     else
       case search_group ''ERROR: '' [lit '': fatal error'', lit '': error''] output of
         Some g \<Rightarrow> g
       | None \<Rightarrow>
           (case search_group ''WARNING: '' [lit '': fatal warning'', lit '': warning''] output of
              Some g \<Rightarrow> g
            | None \<Rightarrow> answer [(lit ''Command return code: 0,'', ''OK''), killed] output ''other''))"

definition mpisv_parse :: "result_files \<Rightarrow> string" where
  "mpisv_parse fs = with_log fs (\<lambda>output.
     case klee_info fs of
       None \<Rightarrow> ''failure''
     | Some info \<Rightarrow>
         answer [not_compiled, (lit ''failed external call'', ''UNIMPLEMENTED''),
             (lit ''found deadlock'', ''deadlock''), msg_race,
             (lit ''klee: '' @ [Gap] @ lit ('' Assertion '' @ [CHR 0x60]) @ [Gap] @
                lit '' failed'' @ [Dot], ''failure'')]
           output (answer [(lit ''No Violation detected by MPI-SV'', ''OK'')] info ''other''))"

definition must_parse :: "result_files \<Rightarrow> string" where
  "must_parse fs = with_log fs (\<lambda>output.
     case html_file fs of
       None \<Rightarrow> ''failure''
     | Some html \<Rightarrow>
         answer [(lit ''deadlock'', ''deadlock''), (lit ''not freed'', ''resleak''),
             (lit ''conflicting roots'', ''various''), (lit ''unknown datatype'', ''conflicting roots''),
             (lit ''has to be a non-negative integer'', ''conflicting roots''),
             (lit ''must use equal type signatures'', ''conflicting roots'')] html
           (answer [msg_race, not_compiled, (lit ''caught MPI error'', ''mpierr'')] output
             (answer [(lit ''Error'', ''mpierr''),
                 (lit ''MUST detected no MPI usage errors nor any suspicious behavior during this application run'', ''OK'')]
               html
               (answer [(lit ''internal ABORT - process '', ''failure'')] output
                 (if timeout_file fs then ''timeout'' else ''other'')))))"

text \<open>The dictionary \<open>tools\<close> of MBI.py.\<close>

datatype tool = Aislinn | Civl | Hermes | Isp | Itac | Mpisv | Must | Simgrid | Smpi | Smpivg | Parcoach

fun parse :: "tool \<Rightarrow> result_files \<Rightarrow> string" where
  "parse Aislinn = aislinn_parse"
| "parse Civl = civl_parse"
| "parse Hermes = hermes_parse"
| "parse Isp = isp_parse"
| "parse Itac = itac_parse"
| "parse Mpisv = mpisv_parse"
| "parse Must = must_parse"
| "parse Simgrid = simgrid_parse"
| "parse Smpi = smpi_parse"
| "parse Smpivg = smpivg_parse"
| "parse Parcoach = parcoach_parse"

text \<open>The word as \<open>categorize\<close> tells it apart.\<close>

definition outcome_of :: "string \<Rightarrow> tool_outcome" where
  "outcome_of w =
     (if w = ''timeout'' then T_timeout else if w = ''failure'' then T_failure
      else if w = ''UNIMPLEMENTED'' then T_UNIMPLEMENTED else if w = ''other'' then T_other
      else if w = ''OK'' then T_OK else T_error w)"

section \<open>Searching\<close>

lemma rx_match_lit: "rx_match (lit x @ ps) (x @ s) = rx_match ps s"
  by (induction x) (simp_all add: lit_def)

lemma rx_match_gap: "newline \<notin> set g \<Longrightarrow> rx_match ps s \<Longrightarrow> rx_match (Gap # ps) (g @ s)"
proof (induction g)
  case Nil
  then show ?case by (cases s) simp_all
qed auto

lemma search_here: "rx_match p s \<Longrightarrow> search p s"
  by (cases s) simp_all

lemma search_append: "search p t \<Longrightarrow> search p (s @ t)"
  by (induction s) simp_all

lemma compile_error_found:
  assumes "newline \<notin> set binary"
  shows "search compile_rx (text @ compile_error_text binary rc)"
proof (intro search_append search_here)
  have "rx_match (Gap # lit '' raised an error (retcode: '')
      ((binary @ ''.c'') @ '' raised an error (retcode: '' @ show_int rc @ '')'')"
    using assms rx_match_lit [of "'' raised an error (retcode: ''" "[]"]
    by (intro rx_match_gap) simp_all
  then show "rx_match compile_rx (compile_error_text binary rc)"
    using rx_match_lit [of "''Compilation of ''" "Gap # lit '' raised an error (retcode: ''"
        "(binary @ ''.c'') @ '' raised an error (retcode: '' @ show_int rc @ '')''"]
    by (simp add: compile_rx_def compile_error_text_def)
qed

lemma answer_append: "answer (rs @ rs') s d = answer rs s (answer rs' s d)"
  by (induction rs s d rule: answer.induct) simp_all

lemma answer_in: "answer rules s d \<in> insert d (snd ` set rules)"
  by (induction rules s d rule: answer.induct) auto

lemma answer_not: "w \<noteq> d \<Longrightarrow> w \<notin> snd ` set rules \<Longrightarrow> answer rules s d \<noteq> w"
  using answer_in [of rules s d] by blast

section \<open>The cache\<close>

text \<open>A log is there only with the file that says how long the tool ran.\<close>

definition coherent :: "result_files \<Rightarrow> bool" where
  "coherent fs \<longleftrightarrow> (log_file fs \<noteq> None \<longrightarrow> elapsed_file fs \<noteq> None)"

definition cached :: "(string \<Rightarrow> string) \<Rightarrow> events \<Rightarrow> result_files \<Rightarrow> bool" where
  "cached md5 e fs \<longleftrightarrow> log_file fs \<noteq> None \<and> elapsed_file fs \<noteq> None \<and> md5_file fs = Some (md5 (source_text e))"

lemma run_cmd_cached: "cached md5 e fs \<Longrightarrow> run_cmd md5 b x bin bi e fs = (False, fs)"
  by (auto simp: cached_def run_cmd_def)

lemma run_cmd_anew:
  "\<not> cached md5 e fs \<Longrightarrow> \<exists>fs0. run_cmd md5 b x bin bi e fs = (True, run_anew md5 b x bin bi e fs0) \<and>
     (fs0 = fs \<or> fs0 = fs\<lparr>log_file := None\<rparr>)"
  by (cases "log_file fs"; cases "elapsed_file fs"; cases "md5_file fs") (auto simp: cached_def run_cmd_def)

lemma run_cmd_cases:
  obtains "cached md5 e fs" "run_cmd md5 b x bin bi e fs = (False, fs)"
  | fs0 where "\<not> cached md5 e fs" "run_cmd md5 b x bin bi e fs = (True, run_anew md5 b x bin bi e fs0)"
      "fs0 = fs \<or> fs0 = fs\<lparr>log_file := None\<rparr>"
  using run_cmd_cached run_cmd_anew by metis

lemma coherent_run_anew: "coherent (run_anew md5 b x bin bi e fs)"
  by (simp add: coherent_def run_anew_def Let_def)

lemma coherent_run_cmd: "coherent fs \<Longrightarrow> coherent (snd (run_cmd md5 b x bin bi e fs))"
  by (rule run_cmd_cases [of md5 e fs b x bin bi]) (simp_all add: coherent_run_anew)

lemma run_anew_cached:
  "cached md5 e (run_anew md5 b x bin bi e fs) \<longleftrightarrow>
     \<not> compile_fails b e \<or> md5_file fs = Some (md5 (source_text e))"
  by (simp add: cached_def run_anew_def Let_def)

lemma run_anew_again:
  assumes "compile_fails b e"
  shows "run_anew md5 b x bin bi e (run_anew md5 b x bin bi e fs) = run_anew md5 b x bin bi e fs"
    and "run_anew md5 b x bin bi e ((run_anew md5 b x bin bi e fs)\<lparr>log_file := None\<rparr>) = run_anew md5 b x bin bi e fs"
  using assms by (simp_all add: run_anew_def Let_def)

lemma compile_failure_log:
  assumes "compile_fails b e" and "newline \<notin> set binary" and "\<not> cached md5 e fs"
  shows "\<exists>s. log_file (snd (run_cmd md5 b x binary bi e fs)) = Some s \<and> search compile_rx s"
proof -
  from run_cmd_anew [OF assms(3)] obtain fs0
    where "run_cmd md5 b x binary bi e fs = (True, run_anew md5 b x binary bi e fs0)" by blast
  with assms(1) compile_error_found [OF assms(2), of "[]"] show ?thesis
    by (simp add: run_anew_def Let_def search_append)
qed

lemma run_cmd_reports:
  "html_file (snd (run_cmd md5 b x binary bi e fs)) = html_file fs"
  "klee_info (snd (run_cmd md5 b x binary bi e fs)) = klee_info fs"
  by (rule run_cmd_cases [of md5 e fs b x binary bi]; auto simp: run_anew_def Let_def)+

lemma run_cmd_keeps_timeout: "timeout_file fs \<Longrightarrow> timeout_file (snd (run_cmd md5 b x binary bi e fs))"
  by (rule run_cmd_cases [of md5 e fs b x binary bi]; auto simp: run_anew_def Let_def)

section \<open>The interface\<close>

text \<open>
  What \<open>AbstractTool\<close> promises of \<open>parse\<close>: without a log, the answer is a failure. Some
  drivers look first for the message of \<open>run_cmd\<close> that the code does not compile; some never
  look whether the tool ran out of time.
\<close>

locale driver =
  fixes read :: "result_files \<Rightarrow> string"
  assumes no_log: "log_file fs = None \<Longrightarrow> read fs = ''failure''"
begin

lemma judged:
  "coherent fs \<Longrightarrow> categorize (elapsed_file fs \<noteq> None) (outcome_of (read fs)) (expectation_word x) \<noteq> Inl err"
  using no_log [of fs] by (cases x) (auto simp: coherent_def categorize_def outcome_of_def)

lemma judged_after_run:
  "coherent fs \<Longrightarrow> fs' = snd (run_cmd md5 b c bin bi e fs) \<Longrightarrow>
     categorize (elapsed_file fs' \<noteq> None) (outcome_of (read fs')) (expectation_word x) \<noteq> Inl err"
  using judged coherent_run_cmd by blast

end

locale compiling_driver = driver +
  assumes compile_first: "log_file fs = Some s \<Longrightarrow> search compile_rx s \<Longrightarrow> read fs = ''UNIMPLEMENTED''"
begin

lemma compile_failure:
  "compile_fails b e \<Longrightarrow> newline \<notin> set binary \<Longrightarrow> \<not> cached md5 e fs \<Longrightarrow>
     read (snd (run_cmd md5 b x binary bi e fs)) = ''UNIMPLEMENTED''"
  using compile_failure_log [of b e binary md5 fs x bi] compile_first by blast

end

locale blind_driver = driver +
  assumes blind: "read (fs\<lparr>timeout_file := t\<rparr>) = read fs"

text \<open>The eleven drivers.\<close>

lemmas parse_defs = with_log_def aislinn_parse_def civl_parse_def hermes_parse_def isp_parse_def
  itac_parse_def mpisv_parse_def must_parse_def simgrid_parse_def smpi_parse_def smpivg_parse_def
  parcoach_parse_def

lemmas compile_rules = not_compiled_def civl_rules_def isp_rules_def simgrid_rules_def smpi_rules_def
  smpivg_rules_def

interpretation must: driver must_parse
  by unfold_locales (simp add: parse_defs)

interpretation aislinn: blind_driver aislinn_parse
  by unfold_locales (simp_all add: parse_defs)

interpretation hermes: blind_driver hermes_parse
  by unfold_locales (simp_all add: parse_defs)

interpretation mpisv: blind_driver mpisv_parse
  by unfold_locales (simp_all add: parse_defs)

interpretation parcoach: blind_driver parcoach_parse
  by unfold_locales (simp_all add: parse_defs)

interpretation civl: blind_driver civl_parse
  by unfold_locales (simp_all add: parse_defs)

interpretation civl: compiling_driver civl_parse
  by unfold_locales (simp add: parse_defs compile_rules)

interpretation isp: blind_driver isp_parse
  by unfold_locales (simp_all add: parse_defs)

interpretation isp: compiling_driver isp_parse
  by unfold_locales (simp add: parse_defs compile_rules)

interpretation itac: blind_driver itac_parse
  by unfold_locales (simp_all add: parse_defs)

interpretation itac: compiling_driver itac_parse
  by unfold_locales (simp add: parse_defs compile_rules)

interpretation simgrid: blind_driver simgrid_parse
  by unfold_locales (simp_all add: parse_defs)

interpretation simgrid: compiling_driver simgrid_parse
  by unfold_locales (simp add: parse_defs compile_rules)

interpretation smpi: blind_driver smpi_parse
  by unfold_locales (simp_all add: parse_defs)

interpretation smpi: compiling_driver smpi_parse
  by unfold_locales (simp add: parse_defs compile_rules)

interpretation smpivg: blind_driver smpivg_parse
  by unfold_locales (simp_all add: parse_defs)

interpretation smpivg: compiling_driver smpivg_parse
  by unfold_locales (simp add: parse_defs compile_rules)

section \<open>Properties\<close>


text \<open>No file at all, and a run in which the build command fails without a word.\<close>

definition no_files :: result_files where
  "no_files = \<lparr>log_file = None, elapsed_file = None, md5_file = None, timeout_file = False,
     html_file = None, klee_info = None\<rparr>"

definition bad_build :: events where
  "bad_build = \<lparr>source_text = ''x'', compil_output = [], compil_returncode = 1, exec_output = [],
     out_of_time = False, exec_returncode = 0, elapsed_text = ''0.1''\<rparr>"


lemma hermes_not_unimplemented: "answer hermes_rules s ''other'' \<noteq> ''UNIMPLEMENTED''"
  by (rule answer_not) (simp_all add: hermes_rules_def isp_errors_def msg_race_def killed_def)

text \<open>
  C35. What each tool is said to answer when a code is run that does not compile. Six tools are
  said not to implement it, whatever the compiler printed. For PARCOACH and Aislinn, which look
  for their findings first, the same, unless the output of the compiler contains the text of
  one, which then is the answer. Hermes is judged by the texts of its analysis, for which the
  compiler's output is searched, and is never excused. For MUST and MPI-SV, which then leave no
  report of their own, the answer is a failure.
\<close>

theorem compile_failures:
  assumes "compile_fails buildcmd e" and "newline \<notin> set binary" and "\<not> cached md5 e fs"
    and "fs' = snd (run_cmd md5 buildcmd execcmd binary batchinfo e fs)"
    and "html_file fs = None" and "klee_info fs = None"
  shows "\<exists>log. log_file fs' = Some log \<and>
    list_all (\<lambda>t. parse t fs' = ''UNIMPLEMENTED'') [Civl, Isp, Itac, Simgrid, Smpi, Smpivg] \<and>
    parse Parcoach fs' = (if search (fst msg_race) log then ''MBI_MSG_RACE'' else ''UNIMPLEMENTED'') \<and>
    parse Aislinn fs' = answer aislinn_findings log ''UNIMPLEMENTED'' \<and>
    parse Hermes fs' = answer hermes_rules log ''other'' \<and> parse Hermes fs' \<noteq> ''UNIMPLEMENTED'' \<and>
    parse Must fs' = ''failure'' \<and> parse Mpisv fs' = ''failure''"
proof -
  obtain log where log: "log_file fs' = Some log" "search compile_rx log"
    using compile_failure_log [OF assms(1-3)] assms(4) by blast
  have "parse Parcoach fs' = (if search (fst msg_race) log then ''MBI_MSG_RACE'' else ''UNIMPLEMENTED'')"
    using log by (simp add: parcoach_parse_def with_log_def parcoach_rules_def msg_race_def not_compiled_def)
  moreover have "parse Aislinn fs' = answer aislinn_findings log ''UNIMPLEMENTED''"
    using log by (simp add: aislinn_parse_def with_log_def aislinn_rules_def answer_append not_compiled_def)
  moreover have "parse Hermes fs' = answer hermes_rules log ''other''"
    using log by (simp add: hermes_parse_def with_log_def)
  moreover have "parse Must fs' = ''failure''" "parse Mpisv fs' = ''failure''"
    using assms(4-6) run_cmd_reports by (auto simp: parse_defs split: option.splits)
  moreover have "list_all (\<lambda>t. parse t fs' = ''UNIMPLEMENTED'') [Civl, Isp, Itac, Simgrid, Smpi, Smpivg]"
    using assms(4) civl.compile_failure [OF assms(1-3)] isp.compile_failure [OF assms(1-3)]
      itac.compile_failure [OF assms(1-3)] simgrid.compile_failure [OF assms(1-3)]
      smpi.compile_failure [OF assms(1-3)] smpivg.compile_failure [OF assms(1-3)] by simp
  ultimately show ?thesis using log(1) hermes_not_unimplemented by auto
qed

theorem compile_failures_witness:
  "parse Smpi (snd (run_cmd id (Some ''cc'') ''smpi'' ''a'' ''1/1'' bad_build no_files)) = ''UNIMPLEMENTED''
   \<and> parse Hermes (snd (run_cmd id (Some ''cc'') ''smpi'' ''a'' ''1/1'' bad_build no_files)) \<noteq> ''UNIMPLEMENTED''"
  using compile_failures [of "Some ''cc''" bad_build "''a''" id no_files _ "''smpi''" "''1/1''"]
  by (auto simp: no_files_def bad_build_def compile_fails_def cached_def)

lemma no_timeout_answers:
  "aislinn_parse fs \<noteq> ''timeout''" "civl_parse fs \<noteq> ''timeout''" "mpisv_parse fs \<noteq> ''timeout''"
  "simgrid_parse fs \<noteq> ''timeout''" "parcoach_parse fs \<noteq> ''timeout''"
  by (simp_all add: parse_defs answer_not aislinn_rules_def aislinn_findings_def found_error_def compile_rules msg_race_def
      parcoach_rules_def split: option.splits)

lemma hermes_never_OK: "hermes_parse fs \<noteq> ''OK''"
  by (simp add: parse_defs answer_not hermes_rules_def isp_errors_def msg_race_def killed_def split: option.splits)

text \<open>
  C36. Except in the driver of MUST, the file that records a timeout does not change the
  answer, and five drivers never answer that the tool ran out of time; Hermes's never answers
  that a code is correct. A timeout once recorded stays on record in every later run.
\<close>

theorem timeouts_lost:
  "list_all (\<lambda>t. parse t (fs\<lparr>timeout_file := b\<rparr>) = parse t fs)
     [Aislinn, Civl, Hermes, Isp, Itac, Mpisv, Simgrid, Smpi, Smpivg, Parcoach] \<and>
   list_all (\<lambda>t. parse t fs \<noteq> ''timeout'') [Aislinn, Civl, Mpisv, Simgrid, Parcoach] \<and>
   parse Hermes fs \<noteq> ''OK'' \<and>
   timeout_file (snd (run_cmd md5 buildcmd execcmd binary batchinfo e (fs\<lparr>timeout_file := True\<rparr>)))"
  by (simp add: aislinn.blind civl.blind hermes.blind isp.blind itac.blind mpisv.blind simgrid.blind
      smpi.blind smpivg.blind parcoach.blind no_timeout_answers hermes_never_OK run_cmd_keeps_timeout)

lemma run_cmd_fst: "fst (run_cmd md5 b x bin bi e fs) = (\<not> cached md5 e fs)"
  by (rule run_cmd_cases [of md5 e fs b x bin bi]) simp_all

lemma cached_source: "source_text e' = source_text e \<Longrightarrow> cached md5 e' fs = cached md5 e fs"
  by (simp add: cached_def)

text \<open>After a run, when is the result in the cache?\<close>

lemma cached_after_run:
  "cached md5 e (snd (run_cmd md5 b x bin bi e fs)) =
     (cached md5 e fs \<or> \<not> compile_fails b e \<or> md5_file fs = Some (md5 (source_text e)))"
proof (rule run_cmd_cases [of md5 e fs b x bin bi])
  fix fs0
  assume "\<not> cached md5 e fs" "run_cmd md5 b x bin bi e fs = (True, run_anew md5 b x bin bi e fs0)"
    and "fs0 = fs \<or> fs0 = fs\<lparr>log_file := None\<rparr>"
  then show ?thesis by (auto simp: run_anew_cached)
qed simp

lemma run_cmd_again:
  "snd (run_cmd md5 b x bin bi e (snd (run_cmd md5 b x bin bi e fs))) = snd (run_cmd md5 b x bin bi e fs)"
proof (cases "cached md5 e (snd (run_cmd md5 b x bin bi e fs))")
  case True
  then show ?thesis by (simp add: run_cmd_cached)
next
  case False
  then have fails: "compile_fails b e" and "\<not> cached md5 e fs" by (simp_all add: cached_after_run)
  then obtain fs0 where r: "run_cmd md5 b x bin bi e fs = (True, run_anew md5 b x bin bi e fs0)"
    using run_cmd_anew by blast
  from run_cmd_anew [OF False, of b x bin bi] show ?thesis
    using run_anew_again [OF fails] unfolding r by auto
qed

text \<open>
  C37. The cache. A test is run exactly if its log, its time and its digest are not all there and
  up to date; if they are, all its files stay as they are, and otherwise the time is the new
  one. After a run, a run of the same code changes nothing, whatever would happen in it, with
  whatever commands: the test is not run. The exception is a code that does not compile and
  whose digest was not recorded before: it is compiled every time. If the same happens in it,
  its files are the same again.
\<close>

theorem cache_is_kept:
  "let ran = run_cmd md5 b x bin bi e fs;
       again = run_cmd md5 b' x' bin' bi' (e'\<lparr>source_text := source_text e\<rparr>) (snd ran) in
   fst ran = (\<not> cached md5 e fs) \<and>
   (if cached md5 e fs then snd ran = fs else elapsed_file (snd ran) = Some (elapsed_text e)) \<and>
   (if \<not> cached md5 e fs \<and> compile_fails b e \<and> md5_file fs \<noteq> Some (md5 (source_text e))
    then fst again else again = (False, snd ran)) \<and>
   snd (run_cmd md5 b x bin bi e (snd ran)) = snd ran"
proof -
  let ?ran = "run_cmd md5 b x bin bi e fs"
  have same: "cached md5 (e'\<lparr>source_text := source_text e\<rparr>) gs = cached md5 e gs" for gs
    by (rule cached_source) simp
  have "elapsed_file (snd ?ran) = Some (elapsed_text e)" if "\<not> cached md5 e fs"
    using run_cmd_anew [OF that, of b x bin bi] by (auto simp: run_anew_def Let_def)
  moreover have "snd ?ran = fs" if "cached md5 e fs"
    using that by (simp add: run_cmd_cached)
  moreover have "run_cmd md5 b' x' bin' bi' (e'\<lparr>source_text := source_text e\<rparr>) (snd ?ran) = (False, snd ?ran)"
    if "cached md5 e (snd ?ran)"
    using that by (intro run_cmd_cached) (simp add: same)
  moreover have "fst (run_cmd md5 b' x' bin' bi' (e'\<lparr>source_text := source_text e\<rparr>) (snd ?ran)) =
      (\<not> cached md5 e (snd ?ran))"
    by (simp only: run_cmd_fst same)
  ultimately show ?thesis
    unfolding Let_def run_cmd_fst run_cmd_again cached_after_run by argo
qed

end
