(* ===== verification/Spec2Isabelle.thy ===== *)
theory Spec2Isabelle
  imports Checks_P2P Checks_Nonblock Checks_Polling Checks_Coll Checks_Aside BTbroadcast Heat Diffusion Mismatch Windows Checks_Deadlock Judge Drivers
begin

text \<open>
  The MPI Bugs Initiative: its codes, what they promise, and the judge of the tools.

  The program. The repository compares tools that look for errors in MPI programs. It holds
  (1) C codes, each with a comment that says which errors it may show and what a tool should
  answer: the hand-written codes of src/codes, and those of src/codes/MayBeRemoved that an
  earlier collection left behind; (2) src/MBI.py, which reads the tests in the header of a
  generated code (\<open>parse_one_code\<close>), runs a tool on each (\<open>run_cmd\<close> of
  src/scripts/MBIutils.py), has the driver of the tool (src/scripts/tools) read its output,
  judges the answer (\<open>categorize\<close>) and counts the answers (\<open>cmd_latex\<close>). The
  development models both, and asks of each code what its comment answers: does a process
  misuse MPI, do the processes fit together, does the program come to an end?

  How C and MPI are modelled. \<open>CMpi\<close> is the language: \<open>prog\<close> is a tree of calls, with the
  arguments of the source (\<open>ccall\<close>, one constructor per function of mpi.h or of C), and the
  statements of C between them as functions on trees (\<open>if_c\<close>, \<open>for_c\<close>, \<open>while_c\<close>, ...).
  Objects are arrays of elements of four bytes, a pointer is an object and an index. What a
  call gives back is answered by \<open>env\<close>; \<open>run env p 0\<close> is the sequence of calls with
  their answers. MPI is not part of the repository and is therefore a parameter twice. For one
  process it is \<open>env\<close>, of which only \<open>world_env\<close> is assumed: \<open>MPI_Comm_rank\<close> and
  \<open>MPI_Comm_size\<close> tell the truth. For the processes together it is a relation \<open>R\<close> on the
  states of a run, of which \<open>conforming T R\<close> is assumed: what the library does is permitted
  by the MPI standard, and it does something whenever the standard obliges it to. The two
  bounds are the relations \<open>step True\<close> (standard sends may be buffered) and \<open>step False\<close>
  (they need not); both are conforming, so the assumption can hold.

  The theories.

  Prelude: collections of rules, association lists, the integers of C (\<open>sdiv\<close>, \<open>smod\<close>).

  CMpi: calls, programs, runs. Bench: what MBI.py knows of outcomes, \<open>parse_one_code\<close>,
  \<open>categorize\<close>, \<open>count_test\<close>; a Python exception is \<open>Inl\<close> of a value naming it.

  Codes_P2P, Codes_Nonblock, Codes_Coll (src/codes), Codes_Aside (src/codes/MayBeRemoved): one
  definition per file, named as the file, for its \<open>main\<close>. Codes with one process number or
  budget as an argument say so before their definition.

  Local: what a single process must keep to, as a monitor over its run (\<open>lstate\<close>, one
  function per group of calls): parameters, resources, the life cycle of requests, datatypes,
  communicators, groups, operators and windows, bounds of buffers, and accesses to the buffer
  of a pending operation. \<open>verdict\<close> is how a process ends and the errors on the way, with
  the labels of README.md. \<open>clean_from k p\<close>: with \<open>k\<close> processes or more none makes an
  error; \<open>reports\<close>, \<open>blames\<close>: a process makes these errors, or this one.

  World, Progress, Deadlock: the processes together. \<open>items\<close> reads the communication calls
  off a run, \<open>step\<close> is an inductive relation on what has been matched and how far each
  process is. Progress shows that when each receive has one possible send (\<open>unambiguous\<close>)
  the steps of a run never disable each other, and that every run is finite
  (\<open>total_steps\<close>); one computed run then decides for all libraries. Its locales are
  \<open>monotone_steps\<close>, whose lemmas say that steps that cannot disable each other cannot run
  into different ends, interpreted by the steps of unambiguous processes, and
  \<open>mpi_library\<close>, the two laws of a library, interpreted by both bounds. Deadlock has
  \<open>always_finishes\<close>, \<open>never_finishes\<close>, \<open>can_deadlock\<close>, \<open>can_finish\<close> and
  \<open>no_deadlock\<close> and the checks that decide them, and a theorem on processes that wait for more
  messages than the others send before they wait in turn (\<open>starved\<close>). Wildcards: sequences
  that name the source of a wildcard receive have the same runs when the messages that only
  the wildcard would admit are always taken before.

  Matching: the collectives of the processes side by side: same call, root, operator and
  amounts. Windows: accesses to window memory, and races between processes that no barrier
  separates. Polling: loops around \<open>MPI_Test\<close>, and claims under a hypothesis on the answers.

  Claims, Checks_P2P, Checks_Nonblock, Checks_Polling, Checks_Coll, Checks_Aside,
  Checks_Deadlock, Windows: what is shown of the codes. Where a comment expects a correct
  code, that every process is free of errors for all numbers of processes the code allows, and
  that it ends under every library for the numbers named; where it expects a deadlock, that no
  library finishes, or that the code can deadlock and can finish; where it expects an error, the
  error. Where the comment is wrong, the theorem states what the code does.

  BTbroadcast (medium-BTbroadcast.c): the loops over the bits of a rank compute the binomial
  tree. Heat (medium-heat.c): the distribution of the grid, the exchange of borders on the
  periodic grid with its tags and neighbours, the messages of the loop, gathering.
  Diffusion (medium-Diffusion2D.c): calls and values; the processes refine the whole torus.
  Mismatch (medium-p2p-mismatch.c): 512 rounds with eight ways of completing 16 requests, by
  triples over the monitor and an abstract state of each request that every round restores.

  Judge: reading tests, reading back what the generators' templates write, and the statistics
  against what they should say (\<open>verdict\<close>, \<open>filed_under\<close>). Drivers: \<open>run_cmd\<close> with its cache, the eleven
  \<open>parse\<close> methods, and the locales \<open>driver\<close>, \<open>compiling_driver\<close> and \<open>blind_driver\<close>
  for what the judge needs of a driver, interpreted by the drivers.

  What MPI says of Cartesian communicators (\<open>cart_rank\<close>, \<open>cart_coords\<close>, \<open>cart_shift\<close>) is
  written out in Heat, as the standard has it.

  Bounds and budgets. A computed run has 200 steps, 400 in Diffusion, more than any of the
  processes makes, and the checks fail if a run is cut off. A loop that asks MPI until it says
  yes has a budget as an argument of its code; the claims hold for every budget within which
  MPI says yes (\<open>progress fuel\<close>). The numbers of processes are those for which a claim
  says it; claims on the errors of a process are for all. Integers are unbounded: what the
  codes compute with ranks and counts stays far below 2^31, and where it might not, in the
  shifts of medium-BTbroadcast.c, an expression that C does not define has no value.

  Hypotheses on what is not in the repository: \<open>world_env\<close> and \<open>conforming\<close> as above;
  \<open>progress\<close> (of so many tests in a row one says yes), \<open>valid_index\<close> (\<open>MPI_Waitany\<close> names
  one of its requests), \<open>opened\<close> and \<open>allocated\<close> (a file is opened, memory is returned),
  \<open>in_group\<close> and \<open>members\<close> (who gets a communicator), \<open>mismatch_answers\<close> (MPI reports
  requests that are active, and returns the buffer that was attached). Each is shown to be possible where a
  claim uses it. The search of Python's \<open>re\<close> is defined for the expressions the drivers use.

  Not modelled. The floating-point values of medium-heat.c and its output: numerics, not
  communication; in medium-Diffusion2D.c they are a parameter. Whether the processes of
  medium-p2p-mismatch.c finish together: only the messages of a round are compared. Of the
  generators under src/scripts, Python templates that print further codes, only the block with
  the tests. The features and labels in the comments of the codes, which no program reads. The
  elapsed times, of which a file is assumed to hold a number. The commands of MBI.py that start containers and
  write html and tex, building, installing and starting the tools: text and process control.
  src/tools: vendored tools, the objects of the comparison and not part of it.
\<close>

end
